(* ===== verification/Errors.thy ===== *)
theory Errors
  imports Prelude
begin

text \<open>
  Go error values. A sentinel (\<^verbatim>\<open>var ErrX = errors.New(...)\<close>) has an identity; a plain error has
  only its text; \<^verbatim>\<open>fmt.Errorf("p: %w", err)\<close> wraps a cause; \<^verbatim>\<open>fmt.Errorf("%w: %v", ErrX, err)\<close> wraps a
  sentinel and quotes the cause's text. The text matters: the worker's error classification and
  several HTTP handlers decide by it.
\<close>

datatype sentinel =
    ErrNoRows
  | ErrInvalidLocalPart
  | ErrAddressExists
  | ErrInvalidDomain
  | ErrDomainExists
  | ErrDomainNotFound
  | ErrQuotaExceeded
  | ErrAccountSuspended
  | ErrUserNotFound
  | ErrUserExists
  | ErrInvalidCredentials
  | ErrInvalidEmail
  | ErrPasswordTooWeak
  | ErrInvalidToken
  | ErrMessageNotFound
  | ErrMailboxNotFound
  | ErrDraftNotFound
  | ErrIdentityNotFound
  | ErrIdempotencyMismatch
  | ErrIdempotencyInProgress
  | ErrUnauthorizedResource
  | MailErrAccountSuspended
  | ErrAccountNotActive
  | ErrMailboxNotReady
  | ErrInvalidRecipient
  | ErrMissingRecipient
  | ErrMissingSubject
  | ErrMessageRejected
  | MailErrQuotaExceeded
  | ErrAttachmentTooLarge
  | ErrRateLimitExceeded
  | ErrStalwartUnavailable
  | ErrJMAPTimeout
  | ErrDeliveryFailed
  | ErrDeliveryAmbiguous
  | ErrDuplicateSend
  | ErrInvalidHash
  | ErrIncompatibleVersion
  | ErrDomainNotAvailable
  | ErrAddressNotAvailable

fun sentinel_text :: "sentinel \<Rightarrow> string" where
  "sentinel_text ErrNoRows = ''no rows in result set''"
| "sentinel_text ErrInvalidLocalPart = ''invalid local part''"
| "sentinel_text ErrAddressExists = ''address already exists''"
| "sentinel_text ErrInvalidDomain = ''invalid domain name''"
| "sentinel_text ErrDomainExists = ''domain already exists''"
| "sentinel_text ErrDomainNotFound = ''domain not found''"
| "sentinel_text ErrQuotaExceeded = ''quota exceeded for current plan''"
| "sentinel_text ErrAccountSuspended = ''account is suspended''"
| "sentinel_text ErrUserNotFound = ''user not found''"
| "sentinel_text ErrUserExists = ''user with this email already exists''"
| "sentinel_text ErrInvalidCredentials = ''invalid email or password''"
| "sentinel_text ErrInvalidEmail = ''invalid email address''"
| "sentinel_text ErrPasswordTooWeak = ''password must be at least 8 characters long''"
| "sentinel_text ErrInvalidToken = ''invalid or expired token''"
| "sentinel_text ErrMessageNotFound = ''message not found''"
| "sentinel_text ErrMailboxNotFound = ''mailbox not found''"
| "sentinel_text ErrDraftNotFound = ''draft not found''"
| "sentinel_text ErrIdentityNotFound = ''no sending identity found''"
| "sentinel_text ErrIdempotencyMismatch = ''idempotency mismatch''"
| "sentinel_text ErrIdempotencyInProgress = ''idempotency in progress''"
| "sentinel_text ErrUnauthorizedResource = ''unauthorized resource access''"
| "sentinel_text MailErrAccountSuspended = ''account is suspended''"
| "sentinel_text ErrAccountNotActive = ''account is not active''"
| "sentinel_text ErrMailboxNotReady = ''mailbox is not ready''"
| "sentinel_text ErrInvalidRecipient = ''invalid recipient''"
| "sentinel_text ErrMissingRecipient = ''at least one recipient is required''"
| "sentinel_text ErrMissingSubject = ''subject is required''"
| "sentinel_text ErrMessageRejected = ''message was rejected''"
| "sentinel_text MailErrQuotaExceeded = ''quota exceeded''"
| "sentinel_text ErrAttachmentTooLarge = ''attachment too large''"
| "sentinel_text ErrRateLimitExceeded = ''rate limit exceeded''"
| "sentinel_text ErrStalwartUnavailable = ''mail service unavailable''"
| "sentinel_text ErrJMAPTimeout = ''mail service timeout''"
| "sentinel_text ErrDeliveryFailed = ''message delivery failed''"
| "sentinel_text ErrDeliveryAmbiguous =
     ''delivery status unknown '' @ [CHR 0xE2, CHR 0x80, CHR 0x94] @ '' message may have been sent''"
| "sentinel_text ErrDuplicateSend = ''duplicate send request''"
| "sentinel_text ErrInvalidHash = ''the encoded hash is not in the correct format''"
| "sentinel_text ErrIncompatibleVersion = ''incompatible version of argon2''"
| "sentinel_text ErrDomainNotAvailable = ''domain not available for registration''"
| "sentinel_text ErrAddressNotAvailable = ''address not available''"

datatype goerr =
    Sentinel sentinel
  | Plain string
  | Wrapped string goerr
  | Tagged sentinel string

fun err_text :: "goerr \<Rightarrow> string" where
  "err_text (Sentinel s) = sentinel_text s"
| "err_text (Plain t) = t"
| "err_text (Wrapped p e) = p @ '': '' @ err_text e"
| "err_text (Tagged s t) = sentinel_text s @ '': '' @ t"

text \<open>\<^verbatim>\<open>errors.Is\<close>: the sentinel is the error itself or somewhere in its chain.\<close>

fun err_is :: "goerr \<Rightarrow> sentinel \<Rightarrow> bool" where
  "err_is (Sentinel s) t = (s = t)"
| "err_is (Plain x) t = False"
| "err_is (Wrapped p e) t = err_is e t"
| "err_is (Tagged s x) t = (s = t)"

text \<open>The text of a PostgreSQL error, as the driver renders it and the repositories compare it.\<close>

definition pg_error :: "string \<Rightarrow> string \<Rightarrow> goerr" where
  "pg_error msg code = Plain (''ERROR: '' @ msg @ '' (SQLSTATE '' @ code @ '')'')"

definition unique_violation :: "string \<Rightarrow> goerr" where
  "unique_violation index =
     pg_error (''duplicate key value violates unique constraint \"'' @ index @ ''\"'') ''23505''"

definition raise_exception :: "string \<Rightarrow> goerr" where
  "raise_exception msg = pg_error msg ''P0001''"

definition foreign_key_violation :: "string \<Rightarrow> string \<Rightarrow> goerr" where
  "foreign_key_violation tab con = pg_error (''insert or update on table \"'' @ tab @
     ''\" violates foreign key constraint \"'' @ con @ ''\"'') ''23503''"

text \<open>The classification of mail errors (\<^verbatim>\<open>internal/mail/errors.go\<close>).\<close>

definition is_not_found :: "goerr \<Rightarrow> bool" where
  "is_not_found e =
     (err_is e ErrMessageNotFound \<or> err_is e ErrMailboxNotFound \<or>
      err_is e ErrDraftNotFound \<or> err_is e ErrIdentityNotFound)"

definition is_auth_error :: "goerr \<Rightarrow> bool" where
  "is_auth_error e =
     (err_is e ErrUnauthorizedResource \<or> err_is e MailErrAccountSuspended \<or>
      err_is e ErrAccountNotActive \<or> err_is e ErrMailboxNotReady)"

definition is_validation_error :: "goerr \<Rightarrow> bool" where
  "is_validation_error e =
     (err_is e ErrInvalidRecipient \<or> err_is e ErrMissingRecipient \<or>
      err_is e ErrMissingSubject \<or> err_is e ErrMessageRejected)"

definition is_stalwart_error :: "goerr option \<Rightarrow> bool" where
  "is_stalwart_error err =
     (case err of None \<Rightarrow> False
      | Some e \<Rightarrow>
          err_is e ErrStalwartUnavailable \<or> err_is e ErrJMAPTimeout \<or>
          str_contains (err_text e) ''JMAP'' \<or> str_contains (err_text e) ''stalwart'')"

lemma err_is_Wrapped_text: "str_contains (err_text e) t \<Longrightarrow> str_contains (err_text (Wrapped p e)) t"
  by (simp add: str_contains_right)

end
