(* ===== verification/Json.thy ===== *)
theory Json
  imports Errors "HOL-Library.List_Lexorder" "HOL-Library.Char_ord"
begin

text \<open>
  JSON values: what a \<^verbatim>\<open>map[string]any\<close> holds, what a JSONB column stores, and what \<^verbatim>\<open>encoding/json\<close> decodes
  a reply into. Numbers are integers (the program reads and writes no others). A decoder takes the value
  of a field, \<open>None\<close> where it is absent, and follows \<^verbatim>\<open>json.Unmarshal\<close>: an absent or null field is the
  zero value, a field of another type is an error, an unknown field is ignored; the last of several
  fields with one name counts. Field names match exactly (Go also accepts other capitalisations). The
  text of a decoding error is abbreviated.
\<close>

datatype json =
  JNull | JBool bool | JNum int | JStr string | JArr "json list" | JObj "(string \<times> json) list"

definition obj_get :: "string \<Rightarrow> (string \<times> json) list \<Rightarrow> json option" where
  "obj_get k fs = map_of (rev fs) k"

text \<open>The dynamic type tests \<^verbatim>\<open>v.(map[string]any)\<close>, \<^verbatim>\<open>v.([]any)\<close> and \<^verbatim>\<open>v.(string)\<close>.\<close>

fun as_obj :: "json \<Rightarrow> (string \<times> json) list option" where
  "as_obj (JObj fs) = Some fs" | "as_obj j = None"

fun as_arr :: "json \<Rightarrow> json list option" where
  "as_arr (JArr xs) = Some xs" | "as_arr j = None"

fun as_str :: "json \<Rightarrow> string option" where
  "as_str (JStr s) = Some s" | "as_str j = None"

definition field_str :: "string \<Rightarrow> (string \<times> json) list \<Rightarrow> string option" where
  "field_str k fs = (case obj_get k fs of None \<Rightarrow> None | Some v \<Rightarrow> as_str v)"

definition field_arr :: "string \<Rightarrow> (string \<times> json) list \<Rightarrow> json list option" where
  "field_arr k fs = (case obj_get k fs of None \<Rightarrow> None | Some v \<Rightarrow> as_arr v)"

definition field_obj :: "string \<Rightarrow> (string \<times> json) list \<Rightarrow> (string \<times> json) list option" where
  "field_obj k fs = (case obj_get k fs of None \<Rightarrow> None | Some v \<Rightarrow> as_obj v)"


section \<open>Decoding\<close>

definition bind_sum :: "goerr + 'a \<Rightarrow> ('a \<Rightarrow> goerr + 'b) \<Rightarrow> goerr + 'b" where
  "bind_sum r f = (case r of Inl e \<Rightarrow> Inl e | Inr a \<Rightarrow> f a)"

fun map_sum_list :: "('a \<Rightarrow> goerr + 'b) \<Rightarrow> 'a list \<Rightarrow> goerr + 'b list" where
  "map_sum_list f [] = Inr []"
| "map_sum_list f (x # xs) = bind_sum (f x) (\<lambda>y. bind_sum (map_sum_list f xs) (\<lambda>ys. Inr (y # ys)))"

definition unmarshal_error :: goerr where
  "unmarshal_error = Plain ''json: cannot unmarshal''"

fun dec_str :: "json option \<Rightarrow> goerr + string" where
  "dec_str None = Inr ''''"
| "dec_str (Some JNull) = Inr ''''"
| "dec_str (Some (JStr s)) = Inr s"
| "dec_str (Some j) = Inl unmarshal_error"

fun dec_int :: "json option \<Rightarrow> goerr + int" where
  "dec_int None = Inr 0"
| "dec_int (Some JNull) = Inr 0"
| "dec_int (Some (JNum n)) = Inr n"
| "dec_int (Some j) = Inl unmarshal_error"

fun dec_bool :: "json option \<Rightarrow> goerr + bool" where
  "dec_bool None = Inr False"
| "dec_bool (Some JNull) = Inr False"
| "dec_bool (Some (JBool b)) = Inr b"
| "dec_bool (Some j) = Inl unmarshal_error"

fun dec_list :: "(json option \<Rightarrow> goerr + 'a) \<Rightarrow> json option \<Rightarrow> goerr + 'a list" where
  "dec_list f None = Inr []"
| "dec_list f (Some JNull) = Inr []"
| "dec_list f (Some (JArr xs)) = map_sum_list (\<lambda>x. f (Some x)) xs"
| "dec_list f (Some j) = Inl unmarshal_error"

text \<open>A Go map; its entries in the order an iteration visits them.\<close>

fun dec_map :: "(json option \<Rightarrow> goerr + 'a) \<Rightarrow> json option \<Rightarrow> goerr + (string \<times> 'a) list" where
  "dec_map f None = Inr []"
| "dec_map f (Some JNull) = Inr []"
| "dec_map f (Some (JObj fs)) =
     map_sum_list (\<lambda>k. bind_sum (f (obj_get k fs)) (\<lambda>v. Inr (k, v))) (remdups (map fst fs))"
| "dec_map f (Some j) = Inl unmarshal_error"

text \<open>A pointer.\<close>

fun dec_ptr :: "(json option \<Rightarrow> goerr + 'a) \<Rightarrow> json option \<Rightarrow> goerr + 'a option" where
  "dec_ptr f None = Inr None"
| "dec_ptr f (Some JNull) = Inr None"
| "dec_ptr f (Some j) = (case f (Some j) of Inl e \<Rightarrow> Inl e | Inr a \<Rightarrow> Inr (Some a))"

text \<open>A struct: the decoder of its fields is given their values.\<close>

fun dec_struct :: "((string \<Rightarrow> json option) \<Rightarrow> goerr + 'a) \<Rightarrow> json option \<Rightarrow> goerr + 'a" where
  "dec_struct f None = f (\<lambda>_. None)"
| "dec_struct f (Some JNull) = f (\<lambda>_. None)"
| "dec_struct f (Some (JObj fs)) = f (\<lambda>k. obj_get k fs)"
| "dec_struct f (Some j) = Inl unmarshal_error"

fun dec_any :: "json option \<Rightarrow> goerr + json" where
  "dec_any None = Inr JNull"
| "dec_any (Some j) = Inr j"

lemma bind_sum_simps [simp]: "bind_sum (Inl e) f = Inl e" "bind_sum (Inr a) f = f a"
  by (simp_all add: bind_sum_def)


section \<open>Printing\<close>

fun digits_aux :: "nat \<Rightarrow> string \<Rightarrow> string" where
  "digits_aux n acc = (let acc = char_of (48 + n mod 10) # acc in if n < 10 then acc else digits_aux (n div 10) acc)"

definition nat_text :: "nat \<Rightarrow> string" where
  "nat_text n = digits_aux n []"

definition int_text :: "int \<Rightarrow> string" where
  "int_text i = (if i < 0 then ''-'' @ nat_text (nat (- i)) else nat_text (nat i))"

text \<open>\<^verbatim>\<open>%v\<close> of a decoded number, a float64: from one million on in scientific notation.\<close>

definition float_text :: "int \<Rightarrow> string" where
  "float_text i =
     (let ds = nat_text (nat \<bar>i\<bar>); sign = (if i < 0 then ''-'' else '''') in
      if length ds \<le> 6 then sign @ ds
      else
        let frac = rev (dropWhile (\<lambda>c. c = CHR ''0'') (rev (tl ds)));
            e = nat_text (length ds - 1) in
        sign @ [hd ds] @ (if frac = [] then [] else ''.'' @ frac) @ ''e+'' @ (if length e < 2 then ''0'' @ e else e))"

fun sep_by :: "string \<Rightarrow> string list \<Rightarrow> string" where
  "sep_by s [] = ''''"
| "sep_by s [x] = x"
| "sep_by s (x # y # zs) = x @ s @ sep_by s (y # zs)"

text \<open>\<^verbatim>\<open>fmt\<close>'s \<^verbatim>\<open>%v\<close> of a decoded JSON value; maps print with their keys sorted.\<close>

fun go_print :: "json \<Rightarrow> string" where
  "go_print JNull = ''<nil>''"
| "go_print (JBool b) = (if b then ''true'' else ''false'')"
| "go_print (JNum n) = float_text n"
| "go_print (JStr s) = s"
| "go_print (JArr xs) = ''['' @ sep_by '' '' (map go_print xs) @ '']''"
| "go_print (JObj fs) = ''map['' @ sep_by '' ''
     (map (\<lambda>(k, t). k @ '':'' @ t) (sort_key fst (map (\<lambda>(k, v). (k, go_print v)) fs))) @ '']''"

text \<open>The text of a JSON string literal between its quotes: \<open>None\<close> where it is not valid JSON.\<close>

fun hex_digit :: "char \<Rightarrow> bool" where
  "hex_digit c = (let n = of_char c :: nat in (48 \<le> n \<and> n \<le> 57) \<or> (65 \<le> n \<and> n \<le> 70) \<or> (97 \<le> n \<and> n \<le> 102))"

fun json_literal :: "string \<Rightarrow> bool" where
  "json_literal [] = True"
| "json_literal (c # cs) =
     (if c = CHR 0x5C then
        (case cs of
           [] \<Rightarrow> False
         | e # r \<Rightarrow>
             if e \<in> {CHR 0x22, CHR 0x5C, CHR ''/'', CHR ''b'', CHR ''f'', CHR ''n'', CHR ''r'', CHR ''t''} then json_literal r
             else if e = CHR ''u'' then 4 \<le> length r \<and> list_all hex_digit (take 4 r) \<and> take 4 r \<noteq> ''0000'' \<and> json_literal (drop 4 r)
             else False)
      else c \<noteq> CHR 0x22 \<and> 32 \<le> (of_char c :: nat) \<and> json_literal cs)"

end
