(* ===== verification/Schema.thy ===== *)
theory Schema
  imports Json
begin

text \<open>
  The relational state of the program: one record per table of \<^verbatim>\<open>migrations/\<close>, with the columns the
  Go code reads or writes, and the record of all tables. A status column with a CHECK constraint is
  a datatype with the constraint's values; \<open>\<dots>_text\<close> gives the stored text where the code
  compares it. A nullable column is an option. A \<^verbatim>\<open>gen_random_uuid()\<close> default takes the next unused
  number: generated keys never collide.
\<close>

section \<open>Users, accounts and plans\<close>

datatype user_status = UserPending | UserActive | UserSuspended | UserDisabled

record user =
  u_id :: uuid
  u_email :: string
  u_hash :: string
  u_status :: user_status
  u_role :: string

record preference =
  pr_user :: uuid
  pr_completed :: bool
  pr_completed_at :: "time option"

datatype account_status = AccActive | AccSuspended | AccDisabled | AccPending

record account =
  pa_id :: uuid
  pa_status :: account_status

record plan =
  pl_id :: uuid
  pl_code :: string
  pl_max_domains :: int
  pl_max_mailboxes :: int
  pl_max_addresses :: int
  pl_max_storage :: int

datatype sub_status = SubTrialing | SubActive | SubPastDue | SubCanceled | SubExpired | SubPaused

record subscription =
  sb_id :: uuid
  sb_account :: uuid
  sb_plan :: uuid
  sb_status :: sub_status
  sb_created :: time

datatype event_status = EvPending | EvProcessed | EvFailed

record billing_event =
  be_provider :: string
  be_event_id :: string
  be_type :: string
  be_hash :: string
  be_status :: event_status
  be_processed_at :: "time option"

record ticket =
  tk_ticket :: string
  tk_user :: uuid
  tk_expires :: time


section \<open>Domains, addresses and mailboxes\<close>

datatype domain_status = DomPending | DomVerifying | DomActive | DomSuspended | DomDisabled
datatype verification = VerPending | VerVerifying | VerVerified | VerFailed
datatype ownership = Platform | UserOwned

record domain =
  d_id :: uuid
  d_user :: "uuid option"
  d_account :: "uuid option"
  d_name :: string
  d_stalwart :: "string option"
  d_status :: domain_status
  d_verification :: verification
  d_token :: "string option"
  d_ownership :: ownership
  d_registration :: bool

datatype addr_status = Available | Reserved | Claimed | Blocked

fun addr_status_text :: "addr_status \<Rightarrow> string" where
  "addr_status_text Available = ''AVAILABLE''"
| "addr_status_text Reserved = ''RESERVED''"
| "addr_status_text Claimed = ''CLAIMED''"
| "addr_status_text Blocked = ''BLOCKED''"

record address =
  a_id :: uuid
  a_domain :: uuid
  a_local :: string
  a_status :: addr_status
  a_reserved_by :: "uuid option"
  a_reserved_at :: "time option"
  a_reserved_until :: "time option"
  a_claimed_by :: "uuid option"
  a_claimed_at :: "time option"

record blocked_address =
  bl_domain :: uuid
  bl_local :: string
  bl_reason :: string

datatype mailbox_status =
  MbPending | MbProvisioning | MbSyncing | MbActive | MbInactive | MbDisabled | MbFailed

fun mailbox_status_text :: "mailbox_status \<Rightarrow> string" where
  "mailbox_status_text MbPending = ''pending''"
| "mailbox_status_text MbProvisioning = ''provisioning''"
| "mailbox_status_text MbSyncing = ''syncing''"
| "mailbox_status_text MbActive = ''active''"
| "mailbox_status_text MbInactive = ''inactive''"
| "mailbox_status_text MbDisabled = ''disabled''"
| "mailbox_status_text MbFailed = ''failed''"

record mailbox =
  m_id :: uuid
  m_address :: uuid
  m_stalwart :: "string option"
  m_status :: mailbox_status
  m_jmap_state :: "string option"
  m_checkpoint :: "string option"
  m_synced_at :: "time option"

record mapping =
  mp_mailbox :: uuid
  mp_role :: string
  mp_stalwart :: string

record sync_state =
  ss_mailbox :: uuid
  ss_state :: "string option"
  ss_status :: string
  ss_synced_at :: "time option"
  ss_error :: "string option"


section \<open>Provisioning jobs\<close>

datatype job_type =
    DomainCreate | DomainDelete | AccountCreate | AccountDisable | AccountEnable | AccountDelete
  | DomainVerify | DomainActivate | DomainSuspend | DomainDisable
  | AccountQuotaSync | AccountSuspend | AccountReactivate | AccountPlanSync

datatype job_status =
  JPending | JProcessing | JUnknown | JReconciling | JRepairing | JSucceeded | JFailed | JRetryWait

record job =
  j_id :: uuid
  j_type :: job_type
  j_resource :: uuid
  j_status :: job_status
  j_attempts :: int
  j_next :: time
  j_error :: "string option"
  j_claimed :: "time option"
  j_heartbeat :: "time option"
  j_checkpoint :: "time option"
  j_worker :: "string option"
  j_created :: time
  j_updated :: time


section \<open>Mail\<close>

record outbox_event =
  ob_id :: uuid
  ob_user :: "uuid option"
  ob_type :: string
  ob_payload :: json
  ob_status :: string
  ob_created :: time
  ob_published :: "time option"
  ob_error :: "string option"

record recon_log =
  rl_id :: uuid
  rl_user :: uuid
  rl_key :: string
  rl_type :: string
  rl_payload :: json
  rl_status :: string
  rl_response :: "json option"
  rl_updated :: time

record send_key =
  sk_user :: uuid
  sk_key :: string
  sk_hash :: string
  sk_status :: string
  sk_code :: "int option"
  sk_body :: "json option"
  sk_expires :: time

datatype delivery_status =
    DsSubmitted | DsQueued | DsSending | DsDelivered | DsFailed | DsBounced | DsTemporary | DsUnknown

record delivery =
  dv_message :: string
  dv_submission :: string
  dv_user :: uuid
  dv_mailbox :: uuid
  dv_recipient :: string
  dv_subject :: string
  dv_status :: delivery_status
  dv_error :: "string option"
  dv_error_type :: "string option"
  dv_reply :: "string option"
  dv_permanent :: bool
  dv_updated :: time
  dv_delivered_at :: "time option"
  dv_failed_at :: "time option"
  dv_retries :: nat
  dv_next_retry :: "time option"
  dv_bounced :: bool
  dv_bounced_at :: "time option"
  dv_bounce_email :: "string option"

record thread =
  th_id :: uuid
  th_account :: uuid
  th_subject :: string
  th_participants :: json
  th_count :: nat
  th_unread :: nat
  th_snippet :: "string option"
  th_last :: time

record message =
  ms_id :: uuid
  ms_account :: uuid
  ms_thread :: uuid
  ms_stalwart :: string
  ms_message_id :: "string option"
  ms_in_reply_to :: "string option"
  ms_references :: "string list"
  ms_subject :: "string option"
  ms_sender :: json
  ms_recipients :: json
  ms_received :: "time option"
  ms_sent :: "time option"
  ms_created :: time

record message_mailbox =
  mm_message :: uuid
  mm_stalwart :: string
  mm_unread :: bool
  mm_draft :: bool
  mm_trashed :: bool
  mm_sent :: bool
  mm_keywords :: "string list"

record sync_checkpoint =
  sc_account :: uuid
  sc_position :: "string option"
  sc_status :: string

record reaction =
  re_id :: uuid
  re_message :: string
  re_user :: string
  re_emoji :: string
  re_created :: time


section \<open>The database\<close>

record db =
  users :: "user list"
  preferences :: "preference list"
  accounts :: "account list"
  user_accounts :: "(uuid \<times> uuid) list"
  plans :: "plan list"
  subscriptions :: "subscription list"
  billing_events :: "billing_event list"
  tickets :: "ticket list"
  domains :: "domain list"
  addresses :: "address list"
  blocked :: "blocked_address list"
  mailboxes :: "mailbox list"
  mappings :: "mapping list"
  sync_states :: "sync_state list"
  jobs :: "job list"
  outbox :: "outbox_event list"
  recon_logs :: "recon_log list"
  send_keys :: "send_key list"
  deliveries :: "delivery list"
  threads :: "thread list"
  messages :: "message list"
  message_mailboxes :: "message_mailbox list"
  reactions :: "reaction list"
  checkpoints :: "sync_checkpoint list"
  next_id :: uuid

text \<open>The free plan every new user gets is inserted by migration 006; generated keys start above it.\<close>

definition initial_plans :: "plan list" where
  "initial_plans =
     [\<lparr>pl_id = 1, pl_code = ''FREE'', pl_max_domains = 1, pl_max_mailboxes = 5,
       pl_max_addresses = 10, pl_max_storage = 1073741824\<rparr>,
      \<lparr>pl_id = 2, pl_code = ''STARTER'', pl_max_domains = 10, pl_max_mailboxes = 25,
       pl_max_addresses = 50, pl_max_storage = 5368709120\<rparr>,
      \<lparr>pl_id = 3, pl_code = ''PRO'', pl_max_domains = 50, pl_max_mailboxes = 250,
       pl_max_addresses = 500, pl_max_storage = 53687091200\<rparr>]"

definition platform_domain :: domain where
  "platform_domain = \<lparr>d_id = 4, d_user = None, d_account = None, d_name = ''norestmail.com'',
     d_stalwart = None, d_status = DomActive, d_verification = VerVerified, d_token = None,
     d_ownership = Platform, d_registration = True\<rparr>"

text \<open>The database the migrations leave behind.\<close>

definition migrated_db :: db where
  "migrated_db = \<lparr>users = [], preferences = [], accounts = [], user_accounts = [],
     plans = initial_plans, subscriptions = [], billing_events = [], tickets = [],
     domains = [platform_domain], addresses = [], blocked = [], mailboxes = [], mappings = [],
     sync_states = [], jobs = [], outbox = [], recon_logs = [], send_keys = [], deliveries = [],
     threads = [], messages = [], message_mailboxes = [], reactions = [], checkpoints = [], next_id = 5\<rparr>"

end
