(* ===== verification/World.thy ===== *)
theory World
  imports Schema
begin

text \<open>
  What a Go function of the program acts on: the clock, the database, and the state of the services
  it calls (Stalwart, DNS), which is the type parameter \<open>'s\<close>. The environment decides what happens
  at each database round trip: time passes, and the call may fail before it has an effect
  (\<open>Lost\<close>) or after it (\<open>Ack_lost\<close>: the server executed the statement and the reply was lost).
  An exhausted script means no further failures. Every theorem about an arbitrary world therefore
  covers every placement of such failures.

  A Go function with an error result is an action: it returns an error or a value, with the new
  world. \<open>seq\<close> is \<^verbatim>\<open>if err != nil { return err }\<close>, \<open>attempt\<close> keeps the error as a value. The same
  combinators build a remote service from its parts: a \<open>service\<close> acts on the state \<open>'s\<close> alone, an \<open>act\<close> on
  the whole world.
\<close>

datatype fault = Lost string | Ack_lost string

record 's world =
  clock :: time
  tx_time :: "time option"
  faults :: "(nat \<times> fault option) list"
  db :: db
  remote :: 's

type_synonym ('s, 'a) service = "'s \<Rightarrow> (goerr + 'a) \<times> 's"
type_synonym ('s, 'a) act = "('s world, 'a) service"
type_synonym 'a query = "time \<Rightarrow> db \<Rightarrow> (goerr + 'a) \<times> db"

section \<open>Sequencing\<close>

definition ret :: "'a \<Rightarrow> ('s, 'a) service" where
  "ret a = (\<lambda>w. (Inr a, w))"

definition fail :: "goerr \<Rightarrow> ('s, 'a) service" where
  "fail e = (\<lambda>w. (Inl e, w))"

definition seq :: "('s, 'a) service \<Rightarrow> ('a \<Rightarrow> ('s, 'b) service) \<Rightarrow> ('s, 'b) service" where
  "seq m k = (\<lambda>w. case m w of (Inl e, w') \<Rightarrow> (Inl e, w') | (Inr a, w') \<Rightarrow> k a w')"

definition attempt :: "('s, 'a) service \<Rightarrow> ('s, goerr + 'a) service" where
  "attempt m = (\<lambda>w. case m w of (r, w') \<Rightarrow> (Inr r, w'))"

definition map_err :: "(goerr \<Rightarrow> goerr) \<Rightarrow> ('s, 'a) service \<Rightarrow> ('s, 'a) service" where
  "map_err f m = (\<lambda>w. case m w of (Inl e, w') \<Rightarrow> (Inl (f e), w') | (Inr a, w') \<Rightarrow> (Inr a, w'))"

definition wrap_err :: "string \<Rightarrow> ('s, 'a) service \<Rightarrow> ('s, 'a) service" where
  "wrap_err p = map_err (Wrapped p)"

definition lift :: "goerr + 'a \<Rightarrow> ('s, 'a) service" where
  "lift r = (\<lambda>w. (r, w))"

definition time_now :: "('s, time) act" where
  "time_now = (\<lambda>w. (Inr (clock w), w))"

text \<open>\<^verbatim>\<open>fmt.Errorf("%w: %v", sentinel, err)\<close>, and a call whose error is ignored.\<close>

definition tag_err :: "sentinel \<Rightarrow> ('s, 'a) service \<Rightarrow> ('s, 'a) service" where
  "tag_err s = map_err (\<lambda>e. Tagged s (err_text e))"

definition ignore :: "('s, 'a) service \<Rightarrow> ('s, unit) service" where
  "ignore m = seq (attempt m) (\<lambda>_. ret ())"

text \<open>\<^verbatim>\<open>for ... range xs\<close> with an early return on error.\<close>

fun for_each :: "('a \<Rightarrow> ('s, unit) service) \<Rightarrow> 'a list \<Rightarrow> ('s, unit) service" where
  "for_each f [] = ret ()"
| "for_each f (x # xs) = seq (f x) (\<lambda>_. for_each f xs)"


section \<open>Statements, transactions and remote calls\<close>

definition sql_now :: "'s world \<Rightarrow> time" where
  "sql_now w = (case tx_time w of None \<Rightarrow> clock w | Some t \<Rightarrow> t)"

definition run_query :: "'a query \<Rightarrow> ('s, 'a) act" where
  "run_query q = (\<lambda>w. case q (sql_now w) (db w) of (r, d) \<Rightarrow> (r, w\<lparr>db := d\<rparr>))"

text \<open>One round trip: take the next entry of the script, let its time pass, then run or fail.\<close>

definition round_trip :: "('s, 'a) act \<Rightarrow> ('s, 'a) act" where
  "round_trip m = (\<lambda>w. case faults w of
       [] \<Rightarrow> m w
     | (dt, f) # fs \<Rightarrow>
         (let w1 = w\<lparr>clock := clock w + int dt, faults := fs\<rparr> in
          case f of
            None \<Rightarrow> m w1
          | Some (Lost t) \<Rightarrow> (Inl (Plain t), w1)
          | Some (Ack_lost t) \<Rightarrow> (Inl (Plain t), snd (m w1))))"

definition stmt :: "'a query \<Rightarrow> ('s, 'a) act" where
  "stmt q = round_trip (run_query q)"

text \<open>
  \<^verbatim>\<open>tx := pool.Begin(); defer tx.Rollback()\<close>: the body ends in \<open>Commit\<close> where the code calls
  \<^verbatim>\<open>tx.Commit\<close>, in \<open>Abandon\<close> where it returns without an error and without committing. NOW() is the
  time the transaction began. An error, a lost commit or an abandoned body leaves the tables as
  they were at the start; the clock and the remote services are not rolled back.
\<close>

datatype 'a tx = Commit 'a | Abandon 'a

definition begin_tx :: "('s, unit) act" where
  "begin_tx = round_trip (ret ())"

definition commit_tx :: "db \<Rightarrow> 'a \<Rightarrow> ('s, 'a) act" where
  "commit_tx d0 a = (\<lambda>w. case faults w of
       [] \<Rightarrow> (Inr a, w)
     | (dt, f) # fs \<Rightarrow>
         (let w1 = w\<lparr>clock := clock w + int dt, faults := fs\<rparr> in
          case f of
            None \<Rightarrow> (Inr a, w1)
          | Some (Lost t) \<Rightarrow> (Inl (Plain t), w1\<lparr>db := d0\<rparr>)
          | Some (Ack_lost t) \<Rightarrow> (Inl (Plain t), w1)))"

definition transaction :: "('s, 'a tx) act \<Rightarrow> ('s, 'a) act" where
  "transaction body = (\<lambda>w0. case begin_tx w0 of
       (Inl e, w1) \<Rightarrow> (Inl e, w1)
     | (Inr _, w1) \<Rightarrow>
         (case body (w1\<lparr>tx_time := Some (clock w1)\<rparr>) of
            (Inl e, w2) \<Rightarrow> (Inl e, w2\<lparr>db := db w1, tx_time := None\<rparr>)
          | (Inr (Abandon a), w2) \<Rightarrow> (Inr a, w2\<lparr>db := db w1, tx_time := None\<rparr>)
          | (Inr (Commit a), w2) \<Rightarrow> commit_tx (db w1) a (w2\<lparr>tx_time := None\<rparr>)))"

definition remote_call :: "('s, 'a) service \<Rightarrow> ('s, 'a) act" where
  "remote_call f = (\<lambda>w. case f (remote w) of (r, s) \<Rightarrow> (r, w\<lparr>remote := s\<rparr>))"


section \<open>Evaluation when nothing fails\<close>

definition quiet :: "'s world \<Rightarrow> bool" where
  "quiet w \<longleftrightarrow> faults w = [] \<and> tx_time w = None"

lemma round_trip_quiet [simp]: "faults w = [] \<Longrightarrow> round_trip m w = m w"
  by (simp add: round_trip_def)

lemma stmt_quiet [simp]: "faults w = [] \<Longrightarrow> stmt q w = run_query q w"
  by (simp add: stmt_def)

lemma run_query_faults [simp]: "faults (snd (run_query q w)) = faults w"
  by (simp add: run_query_def split: prod.splits)

lemma seq_ret [simp]: "seq (ret a) k = k a"
  by (simp add: seq_def ret_def)

lemma seq_fail [simp]: "seq (fail e) k = fail e"
  by (simp add: seq_def fail_def)

lemma seq_assoc: "seq (seq m k) l = seq m (\<lambda>a. seq (k a) l)"
  by (rule ext) (simp add: seq_def split: prod.splits sum.splits)

lemma ret_apply [simp]: "ret a w = (Inr a, w)"
  by (simp add: ret_def)

lemma fail_apply [simp]: "fail e w = (Inl e, w)"
  by (simp add: fail_def)

lemma lift_apply [simp]: "lift r w = (r, w)"
  by (simp add: lift_def)

lemma time_now_apply [simp]: "time_now w = (Inr (clock w), w)"
  by (simp add: time_now_def)

lemma seq_Inl [simp]: "m w = (Inl e, w') \<Longrightarrow> seq m k w = (Inl e, w')"
  by (simp add: seq_def)

lemma seq_Inr [simp]: "m w = (Inr a, w') \<Longrightarrow> seq m k w = k a w'"
  by (simp add: seq_def)

lemma seq_InrE:
  assumes "seq m k w = (Inr b, w')"
  obtains a w1 where "m w = (Inr a, w1)" and "k a w1 = (Inr b, w')"
  using assms by (auto simp: seq_def split: prod.splits sum.splits)

lemma snd_seq_ret [simp]: "snd (seq m (\<lambda>a. ret (f a)) w) = snd (m w)"
  by (simp add: seq_def split: prod.splits sum.splits)

lemma attempt_apply: "attempt m w = (Inr (fst (m w)), snd (m w))"
  by (simp add: attempt_def split: prod.splits)

lemma map_err_apply:
  "map_err f m w = (case fst (m w) of Inl e \<Rightarrow> Inl (f e) | Inr a \<Rightarrow> Inr a, snd (m w))"
  by (simp add: map_err_def split: prod.splits sum.splits)

lemma wrap_err_Inr [simp]: "wrap_err p m w = (Inr a, w') \<longleftrightarrow> m w = (Inr a, w')"
  by (auto simp: wrap_err_def map_err_def split: prod.splits sum.splits)

lemma ignore_apply [simp]: "ignore m w = (Inr (), snd (m w))"
  by (simp add: ignore_def seq_def attempt_apply)

lemma tag_err_Inr [simp]: "tag_err s m w = (Inr a, w') \<longleftrightarrow> m w = (Inr a, w')"
  by (auto simp: tag_err_def map_err_def split: prod.splits sum.splits)

lemma transaction_quiet:
  assumes "faults w = []"
  shows "transaction body w =
    (case body (w\<lparr>tx_time := Some (clock w)\<rparr>) of
       (Inl e, w2) \<Rightarrow> (Inl e, w2\<lparr>db := db w, tx_time := None\<rparr>)
     | (Inr (Abandon a), w2) \<Rightarrow> (Inr a, w2\<lparr>db := db w, tx_time := None\<rparr>)
     | (Inr (Commit a), w2) \<Rightarrow> commit_tx (db w) a (w2\<lparr>tx_time := None\<rparr>))"
  using assms by (simp add: transaction_def begin_tx_def)

lemma commit_tx_quiet [simp]: "faults w = [] \<Longrightarrow> commit_tx d0 a w = (Inr a, w)"
  by (simp add: commit_tx_def)

lemmas act_simps =
  seq_def run_query_def sql_now_def attempt_apply map_err_apply wrap_err_def
  transaction_quiet remote_call_def


section \<open>Preservation of a database predicate\<close>

text \<open>
  \<open>preserves I m\<close>: the action keeps \<open>I\<close> of the tables, whatever the environment does. A statement
  preserves \<open>I\<close> when its query does, a transaction when its body does; no rule mentions faults.
\<close>

definition query_preserves :: "(db \<Rightarrow> bool) \<Rightarrow> 'a query \<Rightarrow> bool" where
  "query_preserves I q \<longleftrightarrow> (\<forall>t d. I d \<longrightarrow> I (snd (q t d)))"

definition preserves :: "(db \<Rightarrow> bool) \<Rightarrow> ('s, 'a) act \<Rightarrow> bool" where
  "preserves I m \<longleftrightarrow> (\<forall>w. I (db w) \<longrightarrow> I (db (snd (m w))))"

lemma preservesD: "preserves I m \<Longrightarrow> I (db w) \<Longrightarrow> I (db (snd (m w)))"
  by (simp add: preserves_def)

lemma preserves_ret [pres_intro]: "preserves I (ret a)"
  by (simp add: preserves_def)

lemma preserves_fail [pres_intro]: "preserves I (fail e)"
  by (simp add: preserves_def)

lemma preserves_lift [pres_intro]: "preserves I (lift r)"
  by (simp add: preserves_def)

lemma preserves_time_now [pres_intro]: "preserves I time_now"
  by (simp add: preserves_def)

lemma preserves_seq [pres_intro]:
  assumes "preserves I m" and "\<And>a. preserves I (k a)"
  shows "preserves I (seq m k)"
  using assms by (fastforce simp: preserves_def seq_def split: prod.splits sum.splits)

lemma preserves_attempt [pres_intro]: "preserves I m \<Longrightarrow> preserves I (attempt m)"
  by (simp add: preserves_def attempt_apply)

lemma preserves_map_err [pres_intro]: "preserves I m \<Longrightarrow> preserves I (map_err f m)"
  by (simp add: preserves_def map_err_apply)

lemma preserves_wrap_err [pres_intro]: "preserves I m \<Longrightarrow> preserves I (wrap_err p m)"
  by (simp add: wrap_err_def preserves_map_err)

lemma preserves_tag_err [pres_intro]: "preserves I m \<Longrightarrow> preserves I (tag_err s m)"
  by (simp add: tag_err_def preserves_map_err)

lemma preserves_ignore [pres_intro]: "preserves I m \<Longrightarrow> preserves I (ignore m)"
  by (simp add: preserves_def)

lemma preserves_remote [pres_intro]: "preserves I (remote_call f)"
  by (simp add: preserves_def remote_call_def split: prod.splits)

lemma preserves_run_query: "query_preserves I q \<Longrightarrow> preserves I (run_query q)"
  by (simp add: preserves_def query_preserves_def run_query_def split: prod.splits)
    (metis snd_conv)

lemma preserves_round_trip: "preserves I m \<Longrightarrow> preserves I (round_trip m)"
  by (simp add: preserves_def round_trip_def Let_def
      split: list.splits option.splits fault.splits prod.splits)

lemma preserves_stmt [pres_intro]: "query_preserves I q \<Longrightarrow> preserves I (stmt q)"
  by (simp add: stmt_def preserves_round_trip preserves_run_query)

lemma preserves_if [pres_intro]:
  "(b \<Longrightarrow> preserves I m) \<Longrightarrow> (\<not> b \<Longrightarrow> preserves I n) \<Longrightarrow> preserves I (if b then m else n)"
  by simp

lemma preserves_option [pres_intro]:
  "(x = None \<Longrightarrow> preserves I m) \<Longrightarrow> (\<And>a. x = Some a \<Longrightarrow> preserves I (n a)) \<Longrightarrow>
   preserves I (case x of None \<Rightarrow> m | Some a \<Rightarrow> n a)"
  by (cases x) simp_all

lemma preserves_sum [pres_intro]:
  "(\<And>e. x = Inl e \<Longrightarrow> preserves I (m e)) \<Longrightarrow> (\<And>a. x = Inr a \<Longrightarrow> preserves I (n a)) \<Longrightarrow>
   preserves I (case x of Inl e \<Rightarrow> m e | Inr a \<Rightarrow> n a)"
  by (cases x) simp_all

lemma preserves_Let [pres_intro]: "preserves I (f x) \<Longrightarrow> preserves I (Let x f)"
  by simp

lemma preserves_prod [pres_intro]:
  "(\<And>a b. p = (a, b) \<Longrightarrow> preserves I (f a b)) \<Longrightarrow> preserves I (case p of (a, b) \<Rightarrow> f a b)"
  by (cases p) simp

lemma preserves_for_each [pres_intro]:
  "(\<And>x. preserves I (f x)) \<Longrightarrow> preserves I (for_each f xs)"
  by (induction xs) (auto intro: preserves_ret preserves_seq)

lemma preserves_commit: "I d0 \<Longrightarrow> I (db w) \<Longrightarrow> I (db (snd (commit_tx d0 a w)))"
  by (simp add: commit_tx_def Let_def split: list.splits option.splits fault.splits prod.splits)

lemma preserves_begin [pres_intro]: "preserves I begin_tx"
  by (simp add: begin_tx_def preserves_round_trip preserves_ret)

lemma preserves_transaction [pres_intro]:
  assumes "preserves I body"
  shows "preserves I (transaction body)"
  unfolding preserves_def
proof (intro allI impI)
  fix w0 :: "'a world"
  assume I: "I (db w0)"
  obtain r1 w1 where b: "begin_tx w0 = (r1, w1)" by force
  with I preservesD [OF preserves_begin, of I w0] have I1: "I (db w1)" by simp
  obtain r2 w2 where c: "body (w1\<lparr>tx_time := Some (clock w1)\<rparr>) = (r2, w2)" by force
  with I1 preservesD [OF assms, of "w1\<lparr>tx_time := Some (clock w1)\<rparr>"] have I2: "I (db w2)" by simp
  show "I (db (snd (transaction body w0)))"
    using b c I1 I2
    by (auto simp: transaction_def intro: preserves_commit split: sum.splits tx.splits)
qed

lemma query_preservesI: "(\<And>t d. I d \<Longrightarrow> I (snd (q t d))) \<Longrightarrow> query_preserves I q"
  by (simp add: query_preserves_def)

text \<open>A statement that reports success ran its query on the database it was given.\<close>

lemma stmt_InrD:
  assumes "stmt q w = (Inr r, w')"
  shows "\<exists>t. q t (db w) = (Inr r, db w')"
proof (cases "faults w")
  case Nil
  with assms show ?thesis by (auto simp: run_query_def split: prod.splits)
next
  case (Cons e fs)
  obtain dt f where e: "e = (dt, f)" by force
  show ?thesis
  proof (cases f)
    case None
    with assms Cons e show ?thesis
      by (auto simp: stmt_def round_trip_def run_query_def Let_def split: prod.splits)
  next
    case (Some g)
    with assms Cons e show ?thesis
      by (auto simp: stmt_def round_trip_def Let_def split: fault.splits)
  qed
qed

lemma stmt_InrE:
  assumes "stmt q w = (Inr r, w')"
  obtains t where "q t (db w) = (Inr r, db w')"
  using stmt_InrD [OF assms] by blast

text \<open>Whatever it reports, a statement leaves the database as it was or as its query left it.\<close>

lemma stmt_db: "db (snd (stmt q w)) = db w \<or> (\<exists>t. db (snd (stmt q w)) = snd (q t (db w)))"
proof -
  have "db (snd (run_query q v)) = snd (q (sql_now v) (db v))" for v :: "'a world"
    by (simp add: run_query_def split: prod.splits)
  then show ?thesis
    by (auto simp: stmt_def round_trip_def Let_def split: list.splits option.splits fault.splits)
qed

lemma clock_run_query [simp]: "clock (snd (run_query q w)) = clock w"
  by (simp add: run_query_def split: prod.splits)

lemma remote_run_query [simp]: "remote (snd (run_query q w)) = remote w"
  by (simp add: run_query_def split: prod.splits)

lemma remote_stmt [simp]: "remote (snd (stmt q w)) = remote w"
  by (simp add: stmt_def round_trip_def Let_def split: list.splits option.splits fault.splits prod.splits)

lemma clock_stmt_mono: "clock w \<le> clock (snd (stmt q w))"
  by (simp add: stmt_def round_trip_def Let_def split: list.splits option.splits fault.splits prod.splits)

text \<open>A transaction whose body always fails is rolled back.\<close>

lemma begin_tx_db [simp]: "db (snd (begin_tx w)) = db w"
  by (simp add: begin_tx_def round_trip_def Let_def split: list.splits option.splits fault.splits prod.splits)

lemma transaction_fails:
  assumes "\<And>w1. db w1 = db w \<Longrightarrow> \<exists>e. fst (body w1) = Inl e"
  shows "db (snd (transaction body w)) = db w \<and> (\<exists>e. fst (transaction body w) = Inl e)"
proof -
  obtain r1 w1 where b: "begin_tx w = (r1, w1)" by force
  then have d: "db w1 = db w" using begin_tx_db [of w] by simp
  obtain r2 w2 where c: "body (w1\<lparr>tx_time := Some (clock w1)\<rparr>) = (r2, w2)" by force
  with assms [of "w1\<lparr>tx_time := Some (clock w1)\<rparr>"] d obtain e where "r2 = Inl e" by auto
  with b c d show ?thesis by (simp add: transaction_def split: sum.splits)
qed

lemma stmt_fails:
  fixes w :: "'s world"
  assumes "\<And>t. \<exists>e. fst (q t (db w)) = Inl e"
  shows "\<exists>e. fst (stmt q w) = Inl e"
proof -
  have "\<exists>e. fst (run_query q v) = Inl e" if "db v = db w" for v :: "'s world"
    using assms [of "sql_now v"] that by (auto simp: run_query_def split: prod.splits)
  note r = this
  show ?thesis
    by (auto simp: stmt_def round_trip_def Let_def intro!: r split: list.splits option.splits fault.splits)
qed

lemma seq_fails: "\<exists>e. fst (m w) = Inl e \<Longrightarrow> \<exists>e. fst (seq m k w) = Inl e"
  by (auto simp: seq_def split: prod.splits sum.splits)

section \<open>Transactions retried at commit\<close>

text \<open>
  \<open>transaction_phase\<close> also tells whether the error came from the commit. The repositories retry such
  an error up to three times when the driver says it is safe (\<open>safe\<close>, the driver's
  \<^verbatim>\<open>pgconn.SafeToRetry\<close>), sleeping 100, 200 and 300 ms.
\<close>

definition transaction_phase :: "('s, 'a tx) act \<Rightarrow> 's world \<Rightarrow> ((goerr \<times> bool) + 'a) \<times> 's world" where
  "transaction_phase body = (\<lambda>w0. case begin_tx w0 of
       (Inl e, w1) \<Rightarrow> (Inl (e, False), w1)
     | (Inr _, w1) \<Rightarrow>
         (case body (w1\<lparr>tx_time := Some (clock w1)\<rparr>) of
            (Inl e, w2) \<Rightarrow> (Inl (e, False), w2\<lparr>db := db w1, tx_time := None\<rparr>)
          | (Inr (Abandon a), w2) \<Rightarrow> (Inr a, w2\<lparr>db := db w1, tx_time := None\<rparr>)
          | (Inr (Commit a), w2) \<Rightarrow>
              (case commit_tx (db w1) a (w2\<lparr>tx_time := None\<rparr>) of
                 (Inl e, w3) \<Rightarrow> (Inl (e, True), w3)
               | (Inr b, w3) \<Rightarrow> (Inr b, w3))))"

lemma transaction_phase_snd: "snd (transaction_phase body w) = snd (transaction body w)"
  by (simp add: transaction_phase_def transaction_def split: prod.splits sum.splits tx.splits)

lemma transaction_phase_fst:
  "fst (transaction body w) =
     (case fst (transaction_phase body w) of Inl (e, c) \<Rightarrow> Inl e | Inr a \<Rightarrow> Inr a)"
  by (simp add: transaction_phase_def transaction_def split: prod.splits sum.splits tx.splits)

function retry_tx :: "(goerr \<Rightarrow> bool) \<Rightarrow> ('s, 'a tx) act \<Rightarrow> nat \<Rightarrow> ('s, 'a) act" where
  "retry_tx safe body tries w =
     (case transaction_phase body w of
        (Inr a, w') \<Rightarrow> (Inr a, w')
      | (Inl (e, at_commit), w') \<Rightarrow>
          if at_commit \<and> safe e \<and> tries < 3
          then retry_tx safe body (tries + 1)
                 (w'\<lparr>clock := clock w' + int (tries + 1) * 100000000\<rparr>)
          else (Inl e, w'))"
  by pat_completeness auto
termination
  by (relation "measure (\<lambda>(safe, body, tries, w). 3 - tries)") auto

declare retry_tx.simps [simp del]

lemma preserves_retry_tx [pres_intro]:
  assumes "preserves I body"
  shows "preserves I (retry_tx safe body tries)"
proof -
  have tx: "I (db w) \<Longrightarrow> I (db (snd (transaction_phase body w)))" for w
    unfolding transaction_phase_snd using preserves_transaction [OF assms] by (simp add: preserves_def)
  have "I (db w) \<Longrightarrow> I (db (snd (retry_tx safe body tries w)))" for w
  proof (induction "3 - tries" arbitrary: tries w rule: less_induct)
    case less
    obtain r w' where p: "transaction_phase body w = (r, w')" by force
    have I': "I (db w')" using tx [OF less.prems] p by simp
    show ?case
    proof (cases r)
      case (Inr a)
      with p I' show ?thesis by (subst retry_tx.simps) simp
    next
      case (Inl ec)
      obtain e c where ec: "ec = (e, c)" by force
      show ?thesis
      proof (cases "c \<and> safe e \<and> tries < 3")
        case True
        then have "3 - Suc tries < 3 - tries" by linarith
        note less.hyps [OF this, of "w'\<lparr>clock := clock w' + int (tries + 1) * 100000000\<rparr>"]
        with p Inl ec I' True show ?thesis by (subst retry_tx.simps) simp
      next
        case False
        with p Inl ec I' show ?thesis by (subst retry_tx.simps) auto
      qed
    qed
  qed
  then show ?thesis by (simp add: preserves_def)
qed

text \<open>Without failures there is one attempt.\<close>

lemma retry_tx_no_commit_error:
  assumes "\<And>e w'. transaction_phase body w \<noteq> (Inl (e, True), w')"
  shows "retry_tx safe body tries w = transaction body w"
proof -
  obtain r w' where p: "transaction_phase body w = (r, w')" by force
  then have s: "snd (transaction body w) = w'" using transaction_phase_snd [of body w] by simp
  have f: "fst (transaction body w) = (case r of Inl (e, c) \<Rightarrow> Inl e | Inr a \<Rightarrow> Inr a)"
    using transaction_phase_fst [of body w] p by simp
  show ?thesis
  proof (cases r)
    case (Inr a)
    with p s f show ?thesis by (subst retry_tx.simps) (cases "transaction body w", simp)
  next
    case (Inl ec)
    obtain e c where ec: "ec = (e, c)" by force
    have "\<not> c"
    proof
      assume c
      with p Inl ec have "transaction_phase body w = (Inl (e, True), w')" by simp
      with assms show False by blast
    qed
    with p s f Inl ec show ?thesis by (subst retry_tx.simps) (cases "transaction body w", simp)
  qed
qed

lemma retry_tx_quiet:
  assumes "faults w = []" and "\<And>w1. faults w1 = [] \<Longrightarrow> faults (snd (body w1)) = []"
  shows "retry_tx safe body tries w = transaction body w"
proof (rule retry_tx_no_commit_error)
  fix e w'
  have "faults (snd (body (w\<lparr>tx_time := Some (clock w)\<rparr>))) = []"
    using assms by simp
  with assms(1) show "transaction_phase body w \<noteq> (Inl (e, True), w')"
    by (auto simp: transaction_phase_def begin_tx_def split: prod.splits sum.splits tx.splits)
qed

section \<open>What success tells\<close>

text \<open>
  A transaction that reports success ran its body on the database it found; the database afterwards
  is the body's when the body committed, and the one before otherwise.
\<close>

lemma commit_tx_Inr: "commit_tx d0 a w = (Inr b, w') \<Longrightarrow> b = a \<and> db w' = db w"
  by (auto simp: commit_tx_def Let_def split: list.splits option.splits fault.splits prod.splits)

lemma transaction_InrE:
  assumes "transaction body w = (Inr a, w')"
  obtains (commit) v v' where "db v = db w" "body v = (Inr (Commit a), v')" "db w' = db v'"
  | (abandon) v v' where "db v = db w" "body v = (Inr (Abandon a), v')" "db w' = db w"
proof -
  obtain r w1 where b: "begin_tx w = (r, w1)" by force
  then have d: "db w1 = db w" using begin_tx_db [of w] by simp
  let ?v = "w1\<lparr>tx_time := Some (clock w1)\<rparr>"
  obtain s w2 where c: "body ?v = (s, w2)" by force
  show thesis
  proof (cases s)
    case (Inl e)
    with b c assms show ?thesis by (auto simp: transaction_def split: sum.splits)
  next
    case (Inr x)
    show ?thesis
    proof (cases x)
      case (Commit a')
      with b c Inr assms have "commit_tx (db w1) a' (w2\<lparr>tx_time := None\<rparr>) = (Inr a, w')"
        by (auto simp: transaction_def split: sum.splits)
      then have "a = a'" "db w' = db w2" by (auto dest: commit_tx_Inr)
      with commit [of ?v w2] c d Inr Commit show ?thesis by simp
    next
      case (Abandon a')
      with b c Inr assms have "a = a'" "db w' = db w"
        using d by (auto simp: transaction_def split: sum.splits)
      with abandon [of ?v w2] c d Inr Abandon show ?thesis by simp
    qed
  qed
qed

lemma transaction_committedE:
  assumes "transaction body w = (Inr a, w')" and "\<And>v v' b. body v \<noteq> (Inr (Abandon b), v')"
  obtains v v' where "db v = db w" "body v = (Inr (Commit a), v')" "db w' = db v'"
  using assms(1)
proof (cases rule: transaction_InrE)
  case (commit v v')
  then show ?thesis by (rule that)
next
  case (abandon v v')
  with assms(2) show ?thesis by blast
qed

text \<open>
  A retried transaction that succeeds ran its last attempt on a database with the property \<open>P\<close>, if
  \<open>P\<close> holds at the start and after every attempt whose commit failed.
\<close>

lemma retry_tx_InrE:
  assumes "retry_tx safe body tries w = (Inr a, w')" and "P (db w)"
    and "\<And>v e v'. P (db v) \<Longrightarrow> transaction_phase body v = (Inl (e, True), v') \<Longrightarrow> P (db v')"
  obtains v where "P (db v)" and "transaction body v = (Inr a, w')"
  using assms(1,2)
proof (induction "3 - tries" arbitrary: tries w thesis rule: less_induct)
  case less
  obtain r u where p: "transaction_phase body w = (r, u)" by force
  show ?case
  proof (cases r)
    case (Inr b)
    with p less.prems(2) have "b = a" "u = w'" by (subst (asm) retry_tx.simps, simp)+
    with p Inr have "transaction body w = (Inr a, w')"
      using transaction_phase_fst [of body w] transaction_phase_snd [of body w]
      by (cases "transaction body w") simp
    with less.prems show ?thesis by blast
  next
    case (Inl ec)
    obtain e c where ec: "ec = (e, c)" by force
    show ?thesis
    proof (cases "c \<and> safe e \<and> tries < 3")
      case True
      let ?u = "u\<lparr>clock := clock u + int (tries + 1) * 100000000\<rparr>"
      from p Inl ec True less.prems(2) have "retry_tx safe body (Suc tries) ?u = (Inr a, w')"
        by (subst (asm) retry_tx.simps) simp
      moreover have "P (db ?u)" using assms(3) [OF less.prems(3)] p Inl ec True by simp
      moreover have "3 - Suc tries < 3 - tries" using True by linarith
      ultimately show ?thesis using less.hyps less.prems(1) by blast
    next
      case False
      with p Inl ec less.prems(2) show ?thesis by (subst (asm) retry_tx.simps) auto
    qed
  qed
qed

text \<open>An attempt whose commit failed left the database as it was, or as its body left it.\<close>

lemma commit_error_db:
  assumes "transaction_phase body v = (Inl (e, True), v')"
  shows "db v' = db v \<or> (\<exists>u a u'. db u = db v \<and> body u = (Inr (Commit a), u') \<and> db v' = db u')"
proof -
  obtain r w1 where b: "begin_tx v = (r, w1)" by force
  then have d: "db w1 = db v" using begin_tx_db [of v] by simp
  let ?v = "w1\<lparr>tx_time := Some (clock w1)\<rparr>"
  obtain s w2 where c: "body ?v = (s, w2)" by force
  from assms b c obtain a where a: "s = Inr (Commit a)"
    by (auto simp: transaction_phase_def split: sum.splits tx.splits prod.splits)
  with assms b c have "commit_tx (db w1) a (w2\<lparr>tx_time := None\<rparr>) = (Inl e, v')"
    by (auto simp: transaction_phase_def split: sum.splits tx.splits prod.splits)
  then have "db v' = db w1 \<or> db v' = db w2"
    by (auto simp: commit_tx_def Let_def split: list.splits option.splits fault.splits prod.splits)
  with a c d show ?thesis by (metis world.select_convs(4) world.surjective world.update_convs(2))
qed

section \<open>Transactions whose begin and commit errors are wrapped\<close>

text \<open>The wording of a commit error may depend on what is committed.\<close>

definition named_transaction ::
  "(goerr \<Rightarrow> goerr) \<Rightarrow> ('a \<Rightarrow> goerr \<Rightarrow> goerr) \<Rightarrow> ('s, 'a tx) act \<Rightarrow> ('s, 'a) act" where
  "named_transaction begin_error commit_error body = (\<lambda>w0. case begin_tx w0 of
       (Inl e, w1) \<Rightarrow> (Inl (begin_error e), w1)
     | (Inr _, w1) \<Rightarrow>
         (case body (w1\<lparr>tx_time := Some (clock w1)\<rparr>) of
            (Inl e, w2) \<Rightarrow> (Inl e, w2\<lparr>db := db w1, tx_time := None\<rparr>)
          | (Inr (Abandon a), w2) \<Rightarrow> (Inr a, w2\<lparr>db := db w1, tx_time := None\<rparr>)
          | (Inr (Commit a), w2) \<Rightarrow> map_err (commit_error a) (commit_tx (db w1) a) (w2\<lparr>tx_time := None\<rparr>)))"

lemma named_transaction_snd: "snd (named_transaction f g body w) = snd (transaction body w)"
  by (simp add: named_transaction_def transaction_def map_err_apply split: prod.splits sum.splits tx.splits)

lemma named_transaction_Inr:
  "named_transaction f g body w = (Inr a, w') \<longleftrightarrow> transaction body w = (Inr a, w')"
  by (auto simp: named_transaction_def transaction_def map_err_def split: prod.splits sum.splits tx.splits)

lemma preserves_named_transaction [pres_intro]:
  "preserves I body \<Longrightarrow> preserves I (named_transaction f g body)"
  using preserves_transaction [of I body] by (simp add: preserves_def named_transaction_snd)

lemma named_transaction_quiet:
  assumes "faults w = []"
  shows "named_transaction f g body w =
    (case body (w\<lparr>tx_time := Some (clock w)\<rparr>) of
       (Inl e, w2) \<Rightarrow> (Inl e, w2\<lparr>db := db w, tx_time := None\<rparr>)
     | (Inr (Abandon a), w2) \<Rightarrow> (Inr a, w2\<lparr>db := db w, tx_time := None\<rparr>)
     | (Inr (Commit a), w2) \<Rightarrow> map_err (g a) (commit_tx (db w) a) (w2\<lparr>tx_time := None\<rparr>))"
  using assms by (simp add: named_transaction_def begin_tx_def)

end
