(* ===== verification/Tables.thy ===== *)
theory Tables
  imports World
begin

text \<open>
  Rows addressed by a key. \<open>lookup_by\<close> is \<^verbatim>\<open>SELECT ... WHERE key = k\<close>, \<open>set_by\<close> is
  \<^verbatim>\<open>UPDATE ... WHERE key = k\<close>. The locale \<open>keyed_table\<close> is the interface between a repository and the
  table it writes: how a table is read from and put back into the database. Its lemmas are proved
  once and used for every table through the interpretations below.
\<close>

definition lookup_by :: "('r \<Rightarrow> 'k) \<Rightarrow> 'k \<Rightarrow> 'r list \<Rightarrow> 'r option" where
  "lookup_by key k rows = find (\<lambda>r. key r = k) rows"

definition set_by :: "('r \<Rightarrow> 'k) \<Rightarrow> 'k \<Rightarrow> ('r \<Rightarrow> 'r) \<Rightarrow> 'r list \<Rightarrow> 'r list" where
  "set_by key k f rows = update_where (\<lambda>r. key r = k) f rows"

definition matches :: "('r \<Rightarrow> 'k) \<Rightarrow> 'k \<Rightarrow> 'r list \<Rightarrow> nat" where
  "matches key k rows = count_where (\<lambda>r. key r = k) rows"

lemma lookup_by_simps [simp]:
  "lookup_by key k [] = None"
  "lookup_by key k (r # rs) = (if key r = k then Some r else lookup_by key k rs)"
  by (simp_all add: lookup_by_def)

lemma lookup_by_Some: "lookup_by key k rows = Some r \<Longrightarrow> r \<in> set rows \<and> key r = k"
  by (auto simp: lookup_by_def dest: find_Some_set)

lemma lookup_by_None: "lookup_by key k rows = None \<longleftrightarrow> (\<forall>r \<in> set rows. key r \<noteq> k)"
  by (simp add: lookup_by_def find_None_iff_all)

lemma lookup_by_unique: "unique_on key rows \<Longrightarrow> r \<in> set rows \<Longrightarrow> lookup_by key (key r) rows = Some r"
  by (simp add: lookup_by_def find_unique)

lemma lookup_by_snoc:
  "lookup_by key k (rows @ [r]) =
     (case lookup_by key k rows of None \<Rightarrow> if key r = k then Some r else None | Some s \<Rightarrow> Some s)"
  by (simp add: lookup_by_def find_append split: option.splits)

lemma set_set_by [table_simps]:
  "set (set_by key k f rows) = (\<lambda>r. if key r = k then f r else r) ` set rows"
  by (simp add: set_by_def set_update_where)

lemma set_by_simps [simp]:
  "set_by key k f [] = []"
  "set_by key k f (r # rs) = (if key r = k then f r else r) # set_by key k f rs"
  by (simp_all add: set_by_def)

lemma matches_simps [simp]:
  "matches key k [] = 0"
  "matches key k (r # rs) = (if key r = k then Suc (matches key k rs) else matches key k rs)"
  by (simp_all add: matches_def)

lemma matches_0_iff: "matches key k rows = 0 \<longleftrightarrow> lookup_by key k rows = None"
  by (simp add: matches_def count_where_0_iff lookup_by_None)

lemma set_by_mem: "r \<in> set rows \<Longrightarrow> (if key r = k then f r else r) \<in> set (set_by key k f rows)"
  by (simp add: set_set_by image_iff) blast

lemma set_by_mem_same: "r \<in> set rows \<Longrightarrow> key r = k \<Longrightarrow> f r \<in> set (set_by key k f rows)"
  using set_by_mem [of r rows key k f] by simp

lemma map_set_by: "(\<And>r. key' (f r) = key' r) \<Longrightarrow> map key' (set_by key k f rows) = map key' rows"
  by (simp add: set_by_def map_update_where)

lemma unique_on_set_by:
  "(\<And>r. key' (f r) = key' r) \<Longrightarrow> unique_on key' (set_by key k f rows) = unique_on key' rows"
  by (simp add: unique_on_def map_set_by)

lemma set_by_all:
  assumes "\<forall>r \<in> set rows. Q r" and "\<And>r. Q r \<Longrightarrow> key r = k \<Longrightarrow> Q (f r)"
  shows "\<forall>r \<in> set (set_by key k f rows). Q r"
  using assms by (auto simp: set_set_by)

lemma set_by_missing: "lookup_by key k rows = None \<Longrightarrow> set_by key k f rows = rows"
  by (simp add: set_by_def update_where_none lookup_by_None)

lemma set_by_set_by:
  "(\<And>r. key (f r) = key r) \<Longrightarrow> set_by key k g (set_by key k f rows) = set_by key k (g \<circ> f) rows"
  by (induction rows) auto

lemma set_by_eq_id: "(\<And>r. r \<in> set rows \<Longrightarrow> key r = k \<Longrightarrow> f r = r) \<Longrightarrow> set_by key k f rows = rows"
  by (induction rows) auto

locale keyed_table =
  fixes rows :: "'d \<Rightarrow> 'r list"
    and put :: "('r list \<Rightarrow> 'r list) \<Rightarrow> 'd \<Rightarrow> 'd"
    and key :: "'r \<Rightarrow> 'k"
  assumes rows_put: "rows (put f d) = f (rows d)"
begin

lemma lookup_set_same:
  assumes "\<And>r. key (f r) = key r"
  shows "lookup_by key k (rows (put (set_by key k f) d)) = map_option f (lookup_by key k (rows d))"
proof -
  have "lookup_by key k (set_by key k f rs) = map_option f (lookup_by key k rs)" for rs
    using assms by (induction rs) auto
  then show ?thesis by (simp add: rows_put)
qed

lemma lookup_set_other:
  assumes "\<And>r. key (f r) = key r" and "i \<noteq> k"
  shows "lookup_by key i (rows (put (set_by key k f) d)) = lookup_by key i (rows d)"
proof -
  have "lookup_by key i (set_by key k f rs) = lookup_by key i rs" for rs
    using assms by (induction rs) auto
  then show ?thesis by (simp add: rows_put)
qed

lemma unique_set:
  "(\<And>r. key (f r) = key r) \<Longrightarrow> unique_on key (rows (put (set_by key k f) d)) = unique_on key (rows d)"
  by (simp add: rows_put unique_on_set_by)

lemma lookup_insert_new:
  "lookup_by key (key r) (rows d) = None \<Longrightarrow>
   lookup_by key (key r) (rows (put (\<lambda>rs. rs @ [r]) d)) = Some r"
  by (simp add: rows_put lookup_by_snoc)

lemma lookup_insert_other:
  "i \<noteq> key r \<Longrightarrow> lookup_by key i (rows (put (\<lambda>rs. rs @ [r]) d)) = lookup_by key i (rows d)"
  by (simp add: rows_put lookup_by_snoc split: option.splits)

lemma unique_insert:
  "unique_on key (rows d) \<Longrightarrow> lookup_by key (key r) (rows d) = None \<Longrightarrow>
   unique_on key (rows (put (\<lambda>rs. rs @ [r]) d))"
  by (simp add: rows_put unique_on_snoc lookup_by_None)

end

interpretation job_table: keyed_table jobs jobs_update j_id
  by unfold_locales simp

interpretation domain_table: keyed_table domains domains_update d_id
  by unfold_locales simp

interpretation address_table: keyed_table addresses addresses_update a_id
  by unfold_locales simp

interpretation mailbox_table: keyed_table mailboxes mailboxes_update m_id
  by unfold_locales simp

interpretation account_table: keyed_table accounts accounts_update pa_id
  by unfold_locales simp

interpretation sync_table: keyed_table sync_states sync_states_update ss_mailbox
  by unfold_locales simp

end
