(* ===== verification/Jobs.thy ===== *)
theory Jobs
  imports Tables
begin

text \<open>
  The provisioning job queue: \<^verbatim>\<open>internal/provisioning/repository.go\<close>, one query per repository method.
  A job is claimed by a single UPDATE whose inner SELECT takes the eligible row with the least
  \<^verbatim>\<open>next_attempt_at\<close> and skips rows another transaction has locked (\<open>locked\<close>). Ties are broken by the
  scan order.
\<close>

section \<open>Operations\<close>

definition claimable_status :: "job_status \<Rightarrow> bool" where
  "claimable_status s = (s \<in> {JPending, JRetryWait, JUnknown})"

definition eligible :: "time \<Rightarrow> uuid list \<Rightarrow> job \<Rightarrow> bool" where
  "eligible t locked j = (claimable_status (j_status j) \<and> j_next j \<le> t \<and> j_id j \<notin> set locked)"

definition candidates :: "time \<Rightarrow> uuid list \<Rightarrow> job list \<Rightarrow> job list" where
  "candidates t locked js = sort_key j_next (filter (eligible t locked) js)"

definition claimed_by :: "string \<Rightarrow> time \<Rightarrow> job \<Rightarrow> job" where
  "claimed_by worker t j =
     j\<lparr>j_status := JProcessing, j_worker := Some worker, j_claimed := Some t,
       j_heartbeat := Some t, j_attempts := j_attempts j + 1, j_updated := t\<rparr>"

definition claim_query :: "string \<Rightarrow> uuid list \<Rightarrow> job option query" where
  "claim_query worker locked = (\<lambda>t d.
     case first_row (candidates t locked (jobs d)) of
       None \<Rightarrow> (Inr None, d)
     | Some j \<Rightarrow> (Inr (Some (claimed_by worker t j)),
                  d\<lparr>jobs := set_by j_id (j_id j) (claimed_by worker t) (jobs d)\<rparr>))"

definition claim_job :: "string \<Rightarrow> uuid list \<Rightarrow> ('s, job option) act" where
  "claim_job worker locked = wrap_err ''claiming job'' (stmt (claim_query worker locked))"

text \<open>Every update by id: a query that rewrites the row with that id, if it is there.\<close>

definition update_job :: "uuid \<Rightarrow> (time \<Rightarrow> job \<Rightarrow> job) \<Rightarrow> unit query" where
  "update_job i f = (\<lambda>t d. (Inr (), d\<lparr>jobs := set_by j_id i (f t) (jobs d)\<rparr>))"

definition released :: "job \<Rightarrow> job" where
  "released j = j\<lparr>j_worker := None, j_claimed := None, j_heartbeat := None\<rparr>"

definition beat :: "time \<Rightarrow> job \<Rightarrow> job" where
  "beat t j = (if j_status j = JProcessing then j\<lparr>j_heartbeat := Some t, j_updated := t\<rparr> else j)"

definition update_heartbeat :: "uuid \<Rightarrow> ('s, unit) act" where
  "update_heartbeat i = stmt (update_job i beat)"

definition stuck :: "time \<Rightarrow> job \<Rightarrow> bool" where
  "stuck cutoff j =
     (j_status j = JProcessing \<and> (case j_heartbeat j of None \<Rightarrow> False | Some h \<Rightarrow> h < cutoff))"

definition reclaimed :: "time \<Rightarrow> job \<Rightarrow> job" where
  "reclaimed t j = (released j)\<lparr>j_status := JRetryWait, j_updated := t\<rparr>"

definition recover_query :: "time \<Rightarrow> nat query" where
  "recover_query cutoff = (\<lambda>t d.
     (Inr (count_where (stuck cutoff) (jobs d)),
      d\<lparr>jobs := update_where (stuck cutoff) (reclaimed t) (jobs d)\<rparr>))"

definition recover_stuck_jobs :: "time \<Rightarrow> ('s, nat) act" where
  "recover_stuck_jobs lease =
     seq time_now (\<lambda>now. wrap_err ''recovering stuck jobs'' (stmt (recover_query (now - lease))))"

definition succeeded :: "time \<Rightarrow> job \<Rightarrow> job" where
  "succeeded t j = (released j)\<lparr>j_status := JSucceeded, j_updated := t\<rparr>"

definition mark_succeeded :: "uuid \<Rightarrow> ('s, unit) act" where
  "mark_succeeded i = stmt (update_job i succeeded)"

definition rescheduled :: "job_status \<Rightarrow> time \<Rightarrow> string \<Rightarrow> time \<Rightarrow> job \<Rightarrow> job" where
  "rescheduled st nxt msg t j =
     (released j)\<lparr>j_status := st, j_next := nxt, j_error := Some msg, j_updated := t\<rparr>"

definition mark_retry_wait :: "uuid \<Rightarrow> time \<Rightarrow> string \<Rightarrow> ('s, unit) act" where
  "mark_retry_wait i nxt msg = stmt (update_job i (rescheduled JRetryWait nxt msg))"

text \<open>
  \<^verbatim>\<open>time.Duration(1<<attempts) * time.Minute\<close>, both the shift and the product at 64 bits. A negative
  shift count panics in Go; \<open>attempts\<close> is at least 1 here.
\<close>

definition retry_delay :: "int \<Rightarrow> time" where
  "retry_delay attempts = wrap64 (wrap64 (2 ^ nat attempts) * minute)"

definition select_attempts :: "uuid \<Rightarrow> int query" where
  "select_attempts i = (\<lambda>t d.
     (case lookup_by j_id i (jobs d) of
        None \<Rightarrow> Inl (Sentinel ErrNoRows) | Some j \<Rightarrow> Inr (j_attempts j), d))"

definition failed :: "int \<Rightarrow> string \<Rightarrow> time \<Rightarrow> job \<Rightarrow> job" where
  "failed n msg t j =
     (released j)\<lparr>j_status := JFailed, j_attempts := n, j_error := Some msg, j_updated := t\<rparr>"

definition retried :: "int \<Rightarrow> time \<Rightarrow> string \<Rightarrow> time \<Rightarrow> job \<Rightarrow> job" where
  "retried n nxt msg t j = (rescheduled JRetryWait nxt msg t j)\<lparr>j_attempts := n\<rparr>"

definition mark_failed_or_retry :: "uuid \<Rightarrow> int \<Rightarrow> string \<Rightarrow> ('s, unit) act" where
  "mark_failed_or_retry i limit msg =
     seq (stmt (select_attempts i)) (\<lambda>n.
       let n = n + 1 in
       if n \<ge> limit then stmt (update_job i (failed n msg))
       else seq time_now (\<lambda>now. stmt (update_job i (retried n (now + retry_delay n) msg))))"

definition get_job :: "uuid \<Rightarrow> ('s, job) act" where
  "get_job i = wrap_err ''getting job by id'' (stmt (\<lambda>t d.
     (case lookup_by j_id i (jobs d) of None \<Rightarrow> Inl (Sentinel ErrNoRows) | Some j \<Rightarrow> Inr j, d)))"

definition mark_unknown :: "uuid \<Rightarrow> string \<Rightarrow> ('s, unit) act" where
  "mark_unknown i msg = seq time_now (\<lambda>now.
     stmt (update_job i (rescheduled JUnknown (now + 5 * minute) msg)))"

definition reconciling :: "time \<Rightarrow> job \<Rightarrow> job" where
  "reconciling t j = (released j)\<lparr>j_status := JReconciling, j_updated := t\<rparr>"

definition mark_reconciling :: "uuid \<Rightarrow> ('s, unit) act" where
  "mark_reconciling i = stmt (update_job i reconciling)"

definition mark_repairing :: "uuid \<Rightarrow> string \<Rightarrow> ('s, unit) act" where
  "mark_repairing i msg = seq time_now (\<lambda>now.
     stmt (update_job i (rescheduled JRepairing (now + 10 * minute) msg)))"

definition checkpointed :: "time \<Rightarrow> job \<Rightarrow> job" where
  "checkpointed t j = (if j_status j = JProcessing then j\<lparr>j_checkpoint := Some t, j_updated := t\<rparr> else j)"

definition update_checkpoint :: "uuid \<Rightarrow> ('s, unit) act" where
  "update_checkpoint i = stmt (update_job i checkpointed)"

text \<open>
  \<^verbatim>\<open>GetBacklogStats\<close>: one group per status that occurs, with its count and its oldest creation time,
  scanned in order. The result is (pending, processing, retry, failed, oldest pending).
\<close>

type_synonym backlog = "nat \<times> nat \<times> nat \<times> nat \<times> time option"

definition status_groups :: "job list \<Rightarrow> (job_status \<times> nat \<times> time) list" where
  "status_groups js =
     map (\<lambda>s. let g = filter (\<lambda>j. j_status j = s) js
              in (s, length g, foldr min (map j_created g) (j_created (hd g))))
         (remdups (map j_status js))"

fun scan_group :: "job_status \<times> nat \<times> time \<Rightarrow> backlog \<Rightarrow> backlog" where
  "scan_group (JPending, n, oldest) (p, c, r, f, old) =
     (n, c, r, f, case old of None \<Rightarrow> Some oldest
                  | Some o' \<Rightarrow> if oldest < o' then Some oldest else Some o')"
| "scan_group (JProcessing, n, oldest) (p, c, r, f, old) = (p, n, r, f, old)"
| "scan_group (JRetryWait, n, oldest) (p, c, r, f, old) = (p, c, n, f, old)"
| "scan_group (JFailed, n, oldest) (p, c, r, f, old) = (p, c, r, n, old)"
| "scan_group (_, n, oldest) b = b"

definition backlog_of :: "job list \<Rightarrow> backlog" where
  "backlog_of js = fold scan_group (status_groups js) (0, 0, 0, 0, None)"

definition get_backlog_stats :: "('s, backlog) act" where
  "get_backlog_stats = stmt (\<lambda>t d. (Inr (backlog_of (jobs d)), d))"

text \<open>\<^verbatim>\<open>INSERT INTO provisioning_jobs (type, resource_id, status) VALUES (..., 'PENDING')\<close>.\<close>

definition new_job :: "uuid \<Rightarrow> job_type \<Rightarrow> uuid \<Rightarrow> time \<Rightarrow> job" where
  "new_job i ty res t = \<lparr>j_id = i, j_type = ty, j_resource = res, j_status = JPending,
     j_attempts = 0, j_next = t, j_error = None, j_claimed = None, j_heartbeat = None,
     j_checkpoint = None, j_worker = None, j_created = t, j_updated = t\<rparr>"

definition insert_job :: "job_type \<Rightarrow> uuid \<Rightarrow> unit query" where
  "insert_job ty res = (\<lambda>t d.
     (Inr (), d\<lparr>jobs := jobs d @ [new_job (next_id d) ty res t], next_id := next_id d + 1\<rparr>))"

text \<open>The number of jobs a worker is processing (\<^verbatim>\<open>countProcessingJobs\<close>).\<close>

definition count_processing :: "string \<Rightarrow> ('s, nat) act" where
  "count_processing worker = stmt (\<lambda>t d.
     (Inr (count_where (\<lambda>j. j_status j = JProcessing \<and> j_worker j = Some worker) (jobs d)), d))"

lemmas job_updates =
  claimed_by_def released_def beat_def reclaimed_def succeeded_def rescheduled_def failed_def
  retried_def reconciling_def checkpointed_def

lemma job_updates_id [simp]:
  "j_id (claimed_by w t j) = j_id j" "j_id (released j) = j_id j" "j_id (beat t j) = j_id j"
  "j_id (reclaimed t j) = j_id j" "j_id (succeeded t j) = j_id j"
  "j_id (rescheduled st n m t j) = j_id j" "j_id (failed a m t j) = j_id j"
  "j_id (retried a n m t j) = j_id j" "j_id (reconciling t j) = j_id j"
  "j_id (checkpointed t j) = j_id j"
  by (simp_all add: job_updates)


section \<open>Well-formed queues\<close>

definition job_ok :: "job \<Rightarrow> bool" where
  "job_ok j \<longleftrightarrow> 0 \<le> j_attempts j \<and>
     (j_status j = JProcessing \<longrightarrow>
        j_worker j \<noteq> None \<and> j_claimed j \<noteq> None \<and> j_heartbeat j \<noteq> None \<and> 1 \<le> j_attempts j)"

definition queue_ok :: "db \<Rightarrow> bool" where
  "queue_ok d \<longleftrightarrow> unique_on j_id (jobs d) \<and>
     (\<forall>j \<in> set (jobs d). job_ok j \<and> j_id j < next_id d)"

lemma queue_okD:
  "queue_ok d \<Longrightarrow> unique_on j_id (jobs d)"
  "queue_ok d \<Longrightarrow> j \<in> set (jobs d) \<Longrightarrow> job_ok j"
  "queue_ok d \<Longrightarrow> j \<in> set (jobs d) \<Longrightarrow> j_id j < next_id d"
  by (auto simp: queue_ok_def)

lemma queue_ok_set_by:
  assumes "queue_ok d" and "\<And>j. j_id (f j) = j_id j"
    and "\<And>j. j \<in> set (jobs d) \<Longrightarrow> j_id j = i \<Longrightarrow> job_ok j \<Longrightarrow> job_ok (f j)"
  shows "queue_ok (d\<lparr>jobs := set_by j_id i f (jobs d)\<rparr>)"
  using assms by (auto simp: queue_ok_def unique_on_set_by set_set_by)

lemma update_job_queue_ok:
  assumes "\<And>t j. j_id (f t j) = j_id j" and "\<And>t j. job_ok j \<Longrightarrow> job_ok (f t j)"
  shows "query_preserves queue_ok (update_job i f)"
  using assms by (auto simp: query_preserves_def update_job_def intro!: queue_ok_set_by)

lemma job_ok_updates [simp]:
  "job_ok j \<Longrightarrow> job_ok (claimed_by w t j)" "job_ok j \<Longrightarrow> job_ok (beat t j)"
  "job_ok j \<Longrightarrow> job_ok (reclaimed t j)" "job_ok j \<Longrightarrow> job_ok (succeeded t j)"
  "job_ok j \<Longrightarrow> st \<noteq> JProcessing \<Longrightarrow> job_ok (rescheduled st n m t j)"
  "job_ok j \<Longrightarrow> 0 \<le> a \<Longrightarrow> job_ok (failed a m t j)"
  "job_ok j \<Longrightarrow> 0 \<le> a \<Longrightarrow> job_ok (retried a n m t j)"
  "job_ok j \<Longrightarrow> job_ok (reconciling t j)" "job_ok j \<Longrightarrow> job_ok (checkpointed t j)"
  "job_ok (new_job i ty r t)"
  by (auto simp: job_ok_def job_updates new_job_def)

lemma claim_query_queue_ok [pres_intro]: "query_preserves queue_ok (claim_query w locked)"
  by (auto simp: query_preserves_def claim_query_def intro!: queue_ok_set_by split: option.splits)

lemma recover_query_queue_ok [pres_intro]: "query_preserves queue_ok (recover_query c)"
  by (auto simp: query_preserves_def recover_query_def queue_ok_def unique_on_update_where
      set_update_where)

lemma insert_job_queue_ok [pres_intro]: "query_preserves queue_ok (insert_job ty r)"
  by (fastforce simp: query_preserves_def insert_job_def queue_ok_def unique_on_snoc new_job_def
      job_ok_def)

lemma select_attempts_preserves [pres_intro]: "query_preserves I (select_attempts i)"
  by (simp add: query_preserves_def select_attempts_def)

end
