(* ===== verification/Scenario.thy ===== *)
theory Scenario
  imports World
begin

text \<open>
  A small concrete world, used by the witnesses that apply a property to a run of the code: a migrated
  database with one user (10) who has an active account (11) on the free plan, at a time when no call
  fails.
\<close>

definition demo_db :: db where
  "demo_db = migrated_db\<lparr>
     users := [\<lparr>u_id = 10, u_email = ''ann@norestmail.com'', u_hash = ''hash'', u_status = UserPending,
                u_role = ''user''\<rparr>],
     accounts := [\<lparr>pa_id = 11, pa_status = AccActive\<rparr>],
     user_accounts := [(10, 11)],
     subscriptions := [\<lparr>sb_id = 12, sb_account = 11, sb_plan = 1, sb_status = SubActive, sb_created = 0\<rparr>],
     next_id := 20\<rparr>"

definition world_of :: "db \<Rightarrow> unit world" where
  "world_of d = \<lparr>clock = 1000000000000, tx_time = None, faults = [], db = d, remote = ()\<rparr>"

text \<open>The same with a remote state, here the answers the mail server will give.\<close>

definition world_with :: "db \<Rightarrow> 's \<Rightarrow> 's world" where
  "world_with d s = \<lparr>clock = 1000000000000, tx_time = None, faults = [], db = d, remote = s\<rparr>"

abbreviation demo_world :: "unit world" where
  "demo_world \<equiv> world_of demo_db"

definition succeeds :: "(goerr + 'a) \<times> 'w \<Rightarrow> bool" where
  "succeeds r = (case fst r of Inl e \<Rightarrow> False | Inr a \<Rightarrow> True)"

lemma succeedsE:
  assumes "succeeds (m w)"
  obtains a w' where "m w = (Inr a, w')"
  using assms by (cases "m w"; cases "fst (m w)") (auto simp: succeeds_def)

end
