(* ===== verification/Product.thy ===== *)
theory Product
  imports Jobs Scenario
begin

text \<open>
  Product accounts, plans and quotas: \<^verbatim>\<open>internal/product/repository.go\<close>, \<^verbatim>\<open>internal/policy/service.go\<close> and
  \<^verbatim>\<open>internal/billing/service.go\<close>. A \<^verbatim>\<open>QueryRow\<close> takes the first row of its result; the order of an
  unordered result is the scan order.
\<close>

section \<open>The product repository\<close>

definition select_account_by_user :: "uuid \<Rightarrow> account option query" where
  "select_account_by_user u = (\<lambda>t d.
     (Inr (first_row [pa. (v, a) \<leftarrow> user_accounts d, v = u, pa \<leftarrow> accounts d, pa_id pa = a]), d))"

definition get_account_by_user :: "uuid \<Rightarrow> ('s, account option) act" where
  "get_account_by_user u = stmt (select_account_by_user u)"

definition subscription_rows :: "sub_status list \<Rightarrow> uuid \<Rightarrow> db \<Rightarrow> (subscription \<times> plan) list" where
  "subscription_rows sts acc d =
     sort_key (\<lambda>(s, p). - sb_created s)
       [(s, p). s \<leftarrow> subscriptions d, sb_account s = acc, sb_status s \<in> set sts,
                p \<leftarrow> plans d, pl_id p = sb_plan s]"

definition select_subscription :: "uuid \<Rightarrow> (subscription \<times> plan) query" where
  "select_subscription acc = (\<lambda>t d.
     (case first_row (subscription_rows [SubTrialing, SubActive, SubPastDue] acc d) of
        None \<Rightarrow> Inl (Sentinel ErrNoRows) | Some sp \<Rightarrow> Inr sp, d))"

definition get_subscription :: "uuid \<Rightarrow> ('s, subscription \<times> plan) act" where
  "get_subscription acc = stmt (select_subscription acc)"

definition set_account_status :: "uuid \<Rightarrow> account_status \<Rightarrow> nat query" where
  "set_account_status acc st = (\<lambda>t d.
     (Inr (matches pa_id acc (accounts d)),
      d\<lparr>accounts := set_by pa_id acc (pa_status_update (\<lambda>_. st)) (accounts d)\<rparr>))"

definition status_job :: "account_status \<Rightarrow> job_type option" where
  "status_job st =
     (if st = AccSuspended then Some AccountSuspend
      else if st = AccActive then Some AccountReactivate else None)"

definition update_account_status :: "uuid \<Rightarrow> account_status \<Rightarrow> ('s, unit) act" where
  "update_account_status acc st = transaction (
     seq (stmt (set_account_status acc st)) (\<lambda>n.
     if n = 0 then fail (Sentinel ErrNoRows)
     else case status_job st of
         None \<Rightarrow> ret (Commit ())
       | Some ty \<Rightarrow> seq (stmt (insert_job ty acc)) (\<lambda>_. ret (Commit ()))))"


section \<open>Entitlements\<close>

record entitlement =
  en_plan :: plan
  en_account :: account
  en_domains :: int
  en_mailboxes :: int
  en_addresses :: int

definition account_domains :: "uuid \<Rightarrow> db \<Rightarrow> domain list" where
  "account_domains acc d = filter (\<lambda>x. d_account x = Some acc) (domains d)"

definition count_domains :: "uuid \<Rightarrow> db \<Rightarrow> nat" where
  "count_domains acc d = count_where (\<lambda>x. d_status x \<noteq> DomDisabled) (account_domains acc d)"

definition count_addresses :: "uuid \<Rightarrow> db \<Rightarrow> nat" where
  "count_addresses acc d =
     length [a. a \<leftarrow> addresses d, x \<leftarrow> domains d, a_domain a = d_id x, d_account x = Some acc,
                addr_status_text (a_status a) \<noteq> ''inactive'']"

definition count_mailboxes :: "uuid \<Rightarrow> db \<Rightarrow> nat" where
  "count_mailboxes acc d =
     length [m. m \<leftarrow> mailboxes d, a \<leftarrow> addresses d, m_address m = a_id a, x \<leftarrow> domains d,
                a_domain a = d_id x, d_account x = Some acc, m_status m \<noteq> MbInactive]"

definition select_usage :: "uuid \<Rightarrow> (int \<times> int \<times> int) query" where
  "select_usage acc = (\<lambda>t d.
     (Inr (int (count_domains acc d), int (count_mailboxes acc d), int (count_addresses acc d)), d))"

definition get_entitlement :: "uuid \<Rightarrow> ('s, entitlement) act" where
  "get_entitlement u =
     seq (get_account_by_user u) (\<lambda>x.
     case x of None \<Rightarrow> fail (Plain ''no product account found'')
     | Some acc \<Rightarrow>
         seq (get_subscription (pa_id acc)) (\<lambda>(s, p).
         seq (stmt (select_usage (pa_id acc))) (\<lambda>(nd, nm, na).
         ret \<lparr>en_plan = p, en_account = acc, en_domains = nd, en_mailboxes = nm, en_addresses = na\<rparr>)))"

definition suspend_account :: "uuid \<Rightarrow> ('s, unit) act" where
  "suspend_account acc = update_account_status acc AccSuspended"

definition reactivate_account :: "uuid \<Rightarrow> ('s, unit) act" where
  "reactivate_account acc = update_account_status acc AccActive"

definition can_create_domain :: "uuid \<Rightarrow> ('s, account) act" where
  "can_create_domain u = seq (get_entitlement u) (\<lambda>e.
     if pa_status (en_account e) = AccSuspended then fail (Sentinel ErrAccountSuspended)
     else if en_domains e \<ge> pl_max_domains (en_plan e) then fail (Sentinel ErrQuotaExceeded)
     else ret (en_account e))"

definition can_create_mailbox :: "uuid \<Rightarrow> ('s, unit) act" where
  "can_create_mailbox u = seq (get_entitlement u) (\<lambda>e.
     if pa_status (en_account e) = AccSuspended then fail (Sentinel ErrAccountSuspended)
     else if en_mailboxes e \<ge> pl_max_mailboxes (en_plan e) then fail (Sentinel ErrQuotaExceeded)
     else ret ())"

definition can_create_address :: "uuid \<Rightarrow> ('s, unit) act" where
  "can_create_address u = seq (get_entitlement u) (\<lambda>e.
     if pa_status (en_account e) = AccSuspended then fail (Sentinel ErrAccountSuspended)
     else if en_addresses e \<ge> pl_max_addresses (en_plan e) then fail (Sentinel ErrQuotaExceeded)
     else ret ())"


section \<open>Billing webhooks\<close>

definition event_is :: "string \<Rightarrow> string \<Rightarrow> billing_event \<Rightarrow> bool" where
  "event_is prov ev e = (be_provider e = prov \<and> be_event_id e = ev)"

text \<open>\<^verbatim>\<open>INSERT ... ON CONFLICT DO NOTHING RETURNING status\<close>: no row comes back on a conflict.\<close>

definition insert_event :: "string \<Rightarrow> string \<Rightarrow> string \<Rightarrow> string \<Rightarrow> string query" where
  "insert_event prov ev ty hash = (\<lambda>t d.
     if \<exists>e \<in> set (billing_events d). event_is prov ev e then (Inl (Sentinel ErrNoRows), d)
     else (Inr ''PENDING'', d\<lparr>billing_events := billing_events d @
       [\<lparr>be_provider = prov, be_event_id = ev, be_type = ty, be_hash = hash,
         be_status = EvPending, be_processed_at = None\<rparr>]\<rparr>))"

fun event_status_text :: "event_status \<Rightarrow> string" where
  "event_status_text EvPending = ''PENDING''"
| "event_status_text EvProcessed = ''PROCESSED''"
| "event_status_text EvFailed = ''FAILED''"

definition select_event_status :: "string \<Rightarrow> string \<Rightarrow> string query" where
  "select_event_status prov ev = (\<lambda>t d.
     (case find (event_is prov ev) (billing_events d) of
        None \<Rightarrow> Inl (Sentinel ErrNoRows) | Some e \<Rightarrow> Inr (event_status_text (be_status e)), d))"

definition select_plan :: "string \<Rightarrow> uuid query" where
  "select_plan code = (\<lambda>t d.
     (case lookup_by pl_code code (plans d) of
        None \<Rightarrow> Inl (Sentinel ErrNoRows) | Some p \<Rightarrow> Inr (pl_id p), d))"

definition move_subscription :: "uuid \<Rightarrow> uuid \<Rightarrow> unit query" where
  "move_subscription pl acc = (\<lambda>t d.
     (Inr (), d\<lparr>subscriptions := update_where
        (\<lambda>s. sb_account s = acc \<and> sb_status s \<in> {SubActive, SubTrialing})
        (sb_plan_update (\<lambda>_. pl)) (subscriptions d)\<rparr>))"

definition mark_event_processed :: "string \<Rightarrow> string \<Rightarrow> unit query" where
  "mark_event_processed prov ev = (\<lambda>t d.
     (Inr (), d\<lparr>billing_events := update_where (event_is prov ev)
        (\<lambda>e. e\<lparr>be_status := EvProcessed, be_processed_at := Some t\<rparr>) (billing_events d)\<rparr>))"

definition handle_webhook ::
  "string \<Rightarrow> string \<Rightarrow> string \<Rightarrow> string \<Rightarrow> uuid \<Rightarrow> string \<Rightarrow> ('s, bool) act" where
  "handle_webhook prov ev ty hash acc code = transaction (
     seq (stmt (insert_event prov ev ty hash)) (\<lambda>st.
     seq (if st = '''' then stmt (select_event_status prov ev) else ret st) (\<lambda>st.
     if st = ''PROCESSED'' then ret (Abandon False)
     else
       seq (if code \<noteq> '''' then
              seq (attempt (stmt (select_plan code))) (\<lambda>r.
              case r of Inl _ \<Rightarrow> ret ()
              | Inr pl \<Rightarrow>
                  seq (stmt (move_subscription pl acc)) (\<lambda>_.
                  stmt (insert_job AccountQuotaSync acc)))
            else ret ()) (\<lambda>_.
       seq (stmt (mark_event_processed prov ev)) (\<lambda>_. ret (Commit True))))))"


section \<open>Properties\<close>

lemma select_preserves [pres_intro]:
  "query_preserves I (select_account_by_user u)" "query_preserves I (select_subscription acc)"
  "query_preserves I (select_usage acc)" "query_preserves I (select_plan code)"
  "query_preserves I (select_event_status prov ev)"
  by (simp_all add: query_preserves_def select_account_by_user_def select_subscription_def
      select_usage_def select_plan_def select_event_status_def)

lemma get_entitlement_preserves [pres_intro]: "preserves I (get_entitlement u)"
  unfolding get_entitlement_def get_account_by_user_def get_subscription_def
  by (intro pres_intro)

lemma entitlement_checks_preserve [pres_intro]:
  "preserves I (can_create_domain u)" "preserves I (can_create_mailbox u)"
  "preserves I (can_create_address u)"
  unfolding can_create_domain_def can_create_mailbox_def can_create_address_def
  by (intro pres_intro)+

text \<open>Read-only actions leave the database exactly as it was.\<close>

lemma read_only: "(\<And>I. preserves I m) \<Longrightarrow> db (snd (m w)) = db w"
  by (rule preservesD [of "\<lambda>d. d = db w"]) simp_all

lemma get_entitlement_sound:
  assumes "get_entitlement u w = (Inr e, w')"
  shows "db w' = db w"
    and "en_account e \<in> set (accounts (db w))"
    and "(u, pa_id (en_account e)) \<in> set (user_accounts (db w))"
    and "en_domains e = int (count_domains (pa_id (en_account e)) (db w))"
    and "en_mailboxes e = int (count_mailboxes (pa_id (en_account e)) (db w))"
    and "en_addresses e = int (count_addresses (pa_id (en_account e)) (db w))"
    and "\<exists>s \<in> set (subscriptions (db w)). sb_account s = pa_id (en_account e) \<and>
           sb_plan s = pl_id (en_plan e) \<and> sb_status s \<in> {SubTrialing, SubActive, SubPastDue}"
proof -
  from assms obtain acc w1 s p w2 nd nm na where
    1: "stmt (select_account_by_user u) w = (Inr (Some acc), w1)" and
    2: "stmt (select_subscription (pa_id acc)) w1 = (Inr (s, p), w2)" and
    3: "stmt (select_usage (pa_id acc)) w2 = (Inr (nd, nm, na), w')" and
    e: "e = \<lparr>en_plan = p, en_account = acc, en_domains = nd, en_mailboxes = nm, en_addresses = na\<rparr>"
    unfolding get_entitlement_def get_account_by_user_def get_subscription_def
    by (auto elim!: seq_InrE split: option.splits)
  obtain t1 where t1: "select_account_by_user u t1 (db w) = (Inr (Some acc), db w1)"
    using 1 by (rule stmt_InrE)
  obtain t2 where t2: "select_subscription (pa_id acc) t2 (db w1) = (Inr (s, p), db w2)"
    using 2 by (rule stmt_InrE)
  obtain t3 where t3: "select_usage (pa_id acc) t3 (db w2) = (Inr (nd, nm, na), db w')"
    using 3 by (rule stmt_InrE)
  have d1: "db w1 = db w" and acc: "acc \<in> set (accounts (db w))" "(u, pa_id acc) \<in> set (user_accounts (db w))"
    using t1 by (auto simp: select_account_by_user_def dest!: first_row_Some)
  have d2: "db w2 = db w1"
    and s: "s \<in> set (subscriptions (db w1))" "sb_account s = pa_id acc" "sb_plan s = pl_id p"
      "sb_status s \<in> {SubTrialing, SubActive, SubPastDue}"
    using t2 by (auto simp: select_subscription_def subscription_rows_def
        split: option.splits dest!: first_row_Some)
  have d3: "db w' = db w2" and "nd = int (count_domains (pa_id acc) (db w2))"
    "nm = int (count_mailboxes (pa_id acc) (db w2))" "na = int (count_addresses (pa_id acc) (db w2))"
    using t3 by (auto simp: select_usage_def)
  with e d1 d2 acc s show "db w' = db w"
    and "en_account e \<in> set (accounts (db w))"
    and "(u, pa_id (en_account e)) \<in> set (user_accounts (db w))"
    and "en_domains e = int (count_domains (pa_id (en_account e)) (db w))"
    and "en_mailboxes e = int (count_mailboxes (pa_id (en_account e)) (db w))"
    and "en_addresses e = int (count_addresses (pa_id (en_account e)) (db w))"
    and "\<exists>s \<in> set (subscriptions (db w)). sb_account s = pa_id (en_account e) \<and>
           sb_plan s = pl_id (en_plan e) \<and> sb_status s \<in> {SubTrialing, SubActive, SubPastDue}"
    by auto
qed

lemma can_create_domain_sound:
  assumes "can_create_domain u w = (Inr acc, w')"
  obtains e where "get_entitlement u w = (Inr e, w')" and "acc = en_account e"
    and "pa_status acc \<noteq> AccSuspended" and "en_domains e < pl_max_domains (en_plan e)"
  using assms unfolding can_create_domain_def by (auto elim!: seq_InrE split: if_splits)

text \<open>
  C16. A billing event is applied at most once: when an event with the same provider and id is already
  recorded, handling the webhook again changes nothing in the database, whatever calls fail, and does
  not report success. (It reports the driver's ``no rows'' error: the INSERT with ON CONFLICT DO
  NOTHING returns no row, so the branch that looks up the recorded status is never reached.)
\<close>

theorem webhook_applied_once:
  assumes "\<exists>e \<in> set (billing_events (db w)). event_is prov ev e"
  shows "db (snd (handle_webhook prov ev ty hash acc code w)) = db w
    \<and> (\<exists>e. fst (handle_webhook prov ev ty hash acc code w) = Inl e)"
  unfolding handle_webhook_def
  by (rule transaction_fails, rule seq_fails, rule stmt_fails)
    (use assms in \<open>simp add: insert_event_def\<close>)

text \<open>The first delivery: the subscription moves to the plan, a quota job is queued, the event is recorded.\<close>

definition moved_to_plan :: "uuid \<Rightarrow> uuid \<Rightarrow> subscription \<Rightarrow> subscription" where
  "moved_to_plan pl acc s =
     (if sb_account s = acc \<and> sb_status s \<in> {SubActive, SubTrialing} then s\<lparr>sb_plan := pl\<rparr> else s)"

text \<open>
  The first delivery of an event with a plan code, when no call fails, reports success and
  records the event as processed. If the plan code is known it moves exactly the account's active and
  trialing subscriptions to that plan and queues one pending quota-sync job for the account; if it is
  unknown the subscriptions and the queue stay as they are (and the event still counts as processed).
\<close>

theorem webhook_first_delivery:
  assumes "quiet w" and "\<not> (\<exists>e \<in> set (billing_events (db w)). event_is prov ev e)" and "code \<noteq> ''''"
  shows "case handle_webhook prov ev ty hash acc code w of (r, w') \<Rightarrow>
    r = Inr True \<and>
    (\<exists>e \<in> set (billing_events (db w')). event_is prov ev e \<and> be_status e = EvProcessed) \<and>
    (case lookup_by pl_code code (plans (db w)) of
       None \<Rightarrow> subscriptions (db w') = subscriptions (db w) \<and> jobs (db w') = jobs (db w)
     | Some p \<Rightarrow>
         subscriptions (db w') = map (moved_to_plan (pl_id p) acc) (subscriptions (db w)) \<and>
         jobs (db w') = jobs (db w) @ [new_job (next_id (db w)) AccountQuotaSync acc (clock w)])"
proof -
  have f: "faults w = []" "tx_time w = None" using assms(1) by (simp_all add: quiet_def)
  have new: "\<forall>e \<in> set (billing_events (db w)). be_provider e = prov \<longrightarrow> be_event_id e \<noteq> ev"
    using assms(2) by (auto simp: event_is_def)
  have upd: "update_where (\<lambda>s. sb_account s = acc \<and> (sb_status s = SubActive \<or> sb_status s = SubTrialing))
      (sb_plan_update (\<lambda>_. pl)) ss = map (moved_to_plan pl acc) ss" for pl ss
    by (induction ss) (auto simp: moved_to_plan_def)
  have rec: "\<exists>e \<in> set (update_where (event_is prov ev)
        (\<lambda>e. e\<lparr>be_status := EvProcessed, be_processed_at := Some t\<rparr>) (es @ [e0])).
      event_is prov ev e \<and> be_status e = EvProcessed"
    if "event_is prov ev e0" for es e0 t
    using that by (auto simp: set_update_where event_is_def)
  show ?thesis
    using f assms(3) rec
    by (simp add: handle_webhook_def act_simps new insert_event_def select_plan_def move_subscription_def
        insert_job_def mark_event_processed_def upd event_is_def split: option.splits)
qed

definition billed_db :: db where
  "billed_db = demo_db\<lparr>billing_events := [\<lparr>be_provider = ''mock'', be_event_id = ''ev1'', be_type = ''upgrade'',
     be_hash = ''h'', be_status = EvProcessed, be_processed_at = Some 3\<rparr>]\<rparr>"

theorem webhook_applied_once_witness:
  "db (snd (handle_webhook ''mock'' ''ev1'' ''upgrade'' ''h'' 11 ''PRO'' (world_of billed_db))) = billed_db"
proof -
  have "\<exists>e \<in> set (billing_events (db (world_of billed_db))). event_is ''mock'' ''ev1'' e"
    by (simp add: billed_db_def world_of_def event_is_def)
  from webhook_applied_once [OF this, where ty = "''upgrade''" and hash = "''h''" and acc = 11 and code = "''PRO''"]
  show ?thesis
    by (simp add: world_of_def)
qed

theorem webhook_first_delivery_witness:
  "subscriptions (db (snd (handle_webhook ''mock'' ''ev2'' ''upgrade'' ''h'' 11 ''PRO'' (world_of billed_db)))) =
     map (moved_to_plan 3 11) (subscriptions billed_db)"
proof -
  have "\<not> (\<exists>e \<in> set (billing_events (db (world_of billed_db))). event_is ''mock'' ''ev2'' e)"
    "quiet (world_of billed_db)"
    by (simp_all add: billed_db_def world_of_def event_is_def quiet_def)
  moreover have "lookup_by pl_code ''PRO'' (plans (db (world_of billed_db))) =
      Some \<lparr>pl_id = 3, pl_code = ''PRO'', pl_max_domains = 50, pl_max_mailboxes = 250,
        pl_max_addresses = 500, pl_max_storage = 53687091200\<rparr>"
    by (simp add: billed_db_def world_of_def demo_db_def migrated_db_def initial_plans_def)
  ultimately show ?thesis
    using webhook_first_delivery [where w = "world_of billed_db" and prov = "''mock''" and ev = "''ev2''"
        and code = "''PRO''" and ty = "''upgrade''" and hash = "''h''" and acc = 11]
    by (auto simp: world_of_def split: prod.splits)
qed

end
