(* ===== verification/Encoding.thy ===== *)
theory Encoding
  imports Prelude
begin

text \<open>
  \<^verbatim>\<open>base64.RawURLEncoding\<close> of the Go library, which turns the random bytes of verification tokens,
  websocket tickets and mailbox passwords into text. A byte is a number below 256; three bytes are
  four six-bit digits, and one or two left-over bytes are two or three digits, without padding.
  \<open>base64_decode\<close> is the inverse, so that two encodings are equal only for equal bytes.
\<close>

fun sextets :: "nat list \<Rightarrow> nat list" where
  "sextets [] = []"
| "sextets [a] = [a div 4, (a mod 4) * 16]"
| "sextets [a, b] = [a div 4, (a mod 4) * 16 + b div 16, (b mod 16) * 4]"
| "sextets (a # b # c # r) =
     a div 4 # ((a mod 4) * 16 + b div 16) # ((b mod 16) * 4 + c div 64) # c mod 64 # sextets r"

definition base64_char :: "nat \<Rightarrow> char" where
  "base64_char n =
     (if n < 26 then char_of (65 + n)
      else if n < 52 then char_of (97 + (n - 26))
      else if n < 62 then char_of (48 + (n - 52))
      else if n = 62 then CHR ''-'' else CHR ''_'')"

definition base64_encode :: "nat list \<Rightarrow> string" where
  "base64_encode bytes = map base64_char (sextets bytes)"

definition base64_digit :: "char \<Rightarrow> nat" where
  "base64_digit c =
     (let n = of_char c :: nat in
      if 65 \<le> n \<and> n < 91 then n - 65
      else if 97 \<le> n \<and> n < 123 then n - 97 + 26
      else if 48 \<le> n \<and> n < 58 then n - 48 + 52
      else if c = CHR ''-'' then 62 else 63)"

fun from_sextets :: "nat list \<Rightarrow> nat list" where
  "from_sextets (p # q # r # s # t) =
     (p * 4 + q div 16) # ((q mod 16) * 16 + r div 4) # ((r mod 4) * 64 + s) # from_sextets t"
| "from_sextets [p, q, r] = [p * 4 + q div 16, (q mod 16) * 16 + r div 4]"
| "from_sextets [p, q] = [p * 4 + q div 16]"
| "from_sextets _ = []"

definition base64_decode :: "string \<Rightarrow> nat list" where
  "base64_decode s = from_sextets (map base64_digit s)"

lemma base64_digit_char: "n < 64 \<Longrightarrow> base64_digit (base64_char n) = n"
proof -
  assume n: "n < 64"
  consider "n < 26" | "26 \<le> n" "n < 52" | "52 \<le> n" "n < 62" | "n = 62" | "n = 63"
    using n by linarith
  then show ?thesis
  proof cases
    case 1
    then have "(of_char (char_of (65 + n)) :: nat) = 65 + n" by (simp add: of_char_of)
    with 1 show ?thesis by (simp add: base64_char_def base64_digit_def Let_def)
  next
    case 2
    then have "(of_char (char_of (97 + (n - 26))) :: nat) = 97 + (n - 26)" by (simp add: of_char_of)
    with 2 show ?thesis by (simp add: base64_char_def base64_digit_def Let_def)
  next
    case 3
    then have "(of_char (char_of (48 + (n - 52))) :: nat) = 48 + (n - 52)" by (simp add: of_char_of)
    with 3 show ?thesis by (auto simp: base64_char_def base64_digit_def Let_def)
  qed (simp_all add: base64_char_def base64_digit_def)
qed

lemma sextets_less: "\<forall>b \<in> set bytes. b < 256 \<Longrightarrow> \<forall>s \<in> set (sextets bytes). s < 64"
proof (induction bytes rule: sextets.induct)
  case (4 a b c r)
  have "a div 4 < 64" "b div 16 < 16" "c div 64 < 4" using "4.prems" by auto
  moreover have "a mod 4 < 4" "b mod 16 < 16" by simp_all
  ultimately show ?case using 4 by auto
next
  case (2 a)
  then have "a div 4 < 64" by auto
  moreover have "a mod 4 < 4" by simp
  ultimately show ?case by auto
next
  case (3 a b)
  then have "a div 4 < 64" "b div 16 < 16" by auto
  moreover have "a mod 4 < 4" "b mod 16 < 16" by simp_all
  ultimately show ?case by auto
qed simp

lemma digits_div:
  assumes "(y :: nat) < k"
  shows "(x * k + y) div k = x" and "(x * k + y) mod k = y"
  using assms by simp_all

lemma div_lt_256: "b < 256 \<Longrightarrow> b div 16 < (16 :: nat)" "c < 256 \<Longrightarrow> c div 64 < (4 :: nat)"
  by auto

lemma from_sextets_sextets: "\<forall>b \<in> set bytes. b < 256 \<Longrightarrow> from_sextets (sextets bytes) = bytes"
proof (induction bytes rule: sextets.induct)
  case (4 a b c r)
  then have lt: "b div 16 < 16" "c div 64 < 4" and r: "from_sextets (sextets r) = r" by auto
  show ?case
    by (simp only: sextets.simps from_sextets.simps digits_div [OF lt(1)] digits_div [OF lt(2)]
        div_mult_mod_eq r)
next
  case (3 a b)
  then have lt: "b div 16 < 16" by auto
  have z: "(b mod 16) * 4 div 4 = b mod 16" by simp
  show ?case
    by (simp only: sextets.simps from_sextets.simps digits_div [OF lt] div_mult_mod_eq z)
next
  case (2 a)
  have z: "(a mod 4) * 16 div 16 = a mod 4" by simp
  show ?case by (simp only: sextets.simps from_sextets.simps div_mult_mod_eq z)
qed simp

lemma base64_roundtrip: "\<forall>b \<in> set bytes. b < 256 \<Longrightarrow> base64_decode (base64_encode bytes) = bytes"
proof -
  assume b: "\<forall>b \<in> set bytes. b < 256"
  have "map base64_digit (map base64_char (sextets bytes)) = sextets bytes"
    using sextets_less [OF b] by (simp add: map_idI base64_digit_char)
  with from_sextets_sextets [OF b] show ?thesis
    by (simp add: base64_decode_def base64_encode_def)
qed

lemma length_sextets: "length (sextets bytes) = (4 * length bytes + 2) div 3"
  by (induction bytes rule: sextets.induct) simp_all

lemma length_base64: "length (base64_encode bytes) = (4 * length bytes + 2) div 3"
  by (simp add: base64_encode_def length_sextets)

lemma base64_inj:
  assumes "\<forall>b \<in> set x. b < 256" and "\<forall>b \<in> set y. b < 256" and "base64_encode x = base64_encode y"
  shows "x = y"
proof -
  have "x = base64_decode (base64_encode x)" by (rule base64_roundtrip [OF assms(1), symmetric])
  also have "\<dots> = base64_decode (base64_encode y)" by (simp only: assms(3))
  also have "\<dots> = y" by (rule base64_roundtrip [OF assms(2)])
  finally show ?thesis .
qed

end
