(* ===== verification/Http.thy ===== *)
theory Http
  imports World
begin

text \<open>
  What a handler writes: a JSON error, the error of a service, a JSON value or a status alone
  (\<^verbatim>\<open>internal/response\<close>), or the text of \<^verbatim>\<open>http.Error\<close>. A handler is given what the router and the middleware put in the request: the authenticated user of
  the context, the parsed identifiers of the URL (\<open>None\<close> where \<^verbatim>\<open>uuid.Parse\<close> fails) and the decoded
  body (\<open>None\<close> where decoding fails). A handler does not fail: it answers.
\<close>

datatype 'a response = ErrorJson int string | ErrorText int string | ErrorService int string string | Json int 'a | NoBody int

fun status_of :: "'a response \<Rightarrow> int" where
  "status_of (ErrorJson c t) = c"
| "status_of (ErrorText c t) = c"
| "status_of (ErrorService c s t) = c"
| "status_of (Json c x) = c"
| "status_of (NoBody c) = c"

text \<open>Run an action and answer from its result.\<close>

definition answer :: "('s, 'a) act \<Rightarrow> (goerr \<Rightarrow> 'b response) \<Rightarrow> ('a \<Rightarrow> 'b response) \<Rightarrow> ('s, 'b response) act" where
  "answer m on_err on_ok =
     seq (attempt m) (\<lambda>r. ret (case r of Inl e \<Rightarrow> on_err e | Inr a \<Rightarrow> on_ok a))"

lemma answer_apply:
  "answer m on_err on_ok w =
     (Inr (case fst (m w) of Inl e \<Rightarrow> on_err e | Inr a \<Rightarrow> on_ok a), snd (m w))"
  by (simp add: answer_def seq_def attempt_apply)

lemma preserves_answer [pres_intro]: "preserves I m \<Longrightarrow> preserves I (answer m f g)"
  by (simp add: preserves_def answer_apply)

end
