(* ===== verification/Domains.thy ===== *)
theory Domains
  imports Product Encoding Http Scenario
begin

text \<open>
  User and platform domains: \<^verbatim>\<open>internal/domains\<close>. The random bytes of a verification token and the
  driver's \<^verbatim>\<open>SafeToRetry\<close> are arguments. The \<^verbatim>\<open>Domain\<close> structure is the table row; its temporary field
  \<^verbatim>\<open>VerificationToken\<close>, which only \<open>start_verification\<close> sets, is the second component of a result.
\<close>

section \<open>Names\<close>

definition contains_any :: "string \<Rightarrow> string \<Rightarrow> bool" where
  "contains_any s chars = (\<exists>c \<in> set s. c \<in> set chars)"

definition blanks :: string where
  "blanks = [CHR '' '', CHR 0x09, CHR 0x0A, CHR 0x0D]"

definition normalize_domain_name :: "string \<Rightarrow> goerr + string" where
  "normalize_domain_name name =
     (let name = trim_space name; name = to_lower name in
      if name = '''' then Inl (Sentinel ErrInvalidDomain)
      else
        let name = (if has_suffix name ''.'' then take (length name - 1) name else name) in
        if contains_any name blanks then Inl (Sentinel ErrInvalidDomain) else Inr name)"


section \<open>Repository\<close>

definition user_domain :: "uuid \<Rightarrow> uuid \<Rightarrow> uuid \<Rightarrow> string \<Rightarrow> domain" where
  "user_domain i u acc name = \<lparr>d_id = i, d_user = Some u, d_account = Some acc, d_name = name,
     d_stalwart = None, d_status = DomPending, d_verification = VerPending, d_token = None,
     d_ownership = UserOwned, d_registration = False\<rparr>"

definition admin_domain :: "uuid \<Rightarrow> string \<Rightarrow> ownership \<Rightarrow> bool \<Rightarrow> domain" where
  "admin_domain i name own reg = \<lparr>d_id = i, d_user = None, d_account = None, d_name = name,
     d_stalwart = None, d_status = DomActive, d_verification = VerVerified, d_token = None,
     d_ownership = own, d_registration = reg\<rparr>"

definition insert_domain :: "(uuid \<Rightarrow> domain) \<Rightarrow> domain query" where
  "insert_domain row = (\<lambda>t d.
     let r = row (next_id d) in
     if \<exists>x \<in> set (domains d). d_name x = d_name r
     then (Inl (unique_violation ''idx_domains_name_unique''), d)
     else (Inr r, d\<lparr>domains := domains d @ [r], next_id := next_id d + 1\<rparr>))"

definition insert_error :: "goerr \<Rightarrow> goerr" where
  "insert_error e =
     (if err_is e ErrNoRows \<or>
         err_text e = ''ERROR: duplicate key value violates unique constraint \"idx_domains_name_unique\" (SQLSTATE 23505)''
      then Sentinel ErrDomainExists else e)"

definition create_domain_body :: "uuid \<Rightarrow> uuid \<Rightarrow> string \<Rightarrow> ('s, domain tx) act" where
  "create_domain_body u acc name =
     seq (map_err insert_error (stmt (insert_domain (\<lambda>i. user_domain i u acc name)))) (\<lambda>d.
     seq (stmt (insert_job DomainCreate (d_id d))) (\<lambda>_.
     ret (Commit d)))"

definition create_domain_tx :: "(goerr \<Rightarrow> bool) \<Rightarrow> uuid \<Rightarrow> uuid \<Rightarrow> string \<Rightarrow> ('s, domain) act" where
  "create_domain_tx safe u acc name = retry_tx safe (create_domain_body u acc name) 0"

definition list_by_user :: "uuid \<Rightarrow> ('s, domain list) act" where
  "list_by_user u = stmt (\<lambda>t d. (Inr (filter (\<lambda>x. d_user x = Some u) (domains d)), d))"

definition no_rows_to :: "goerr \<Rightarrow> goerr \<Rightarrow> goerr" where
  "no_rows_to e' e = (if err_is e ErrNoRows then e' else e)"

definition select_domain :: "(domain \<Rightarrow> bool) \<Rightarrow> domain query" where
  "select_domain P = (\<lambda>t d.
     (case find P (domains d) of None \<Rightarrow> Inl (Sentinel ErrNoRows) | Some x \<Rightarrow> Inr x, d))"

definition get_by_id_and_user :: "uuid \<Rightarrow> uuid \<Rightarrow> ('s, domain) act" where
  "get_by_id_and_user i u = map_err (no_rows_to (Sentinel ErrDomainNotFound))
     (stmt (select_domain (\<lambda>x. d_id x = i \<and> d_user x = Some u)))"

definition get_by_id :: "uuid \<Rightarrow> ('s, domain) act" where
  "get_by_id i = map_err (no_rows_to (Sentinel ErrDomainNotFound))
     (stmt (select_domain (\<lambda>x. d_id x = i)))"

definition get_by_name :: "string \<Rightarrow> ('s, domain) act" where
  "get_by_name name = map_err (no_rows_to (Sentinel ErrDomainNotFound))
     (stmt (select_domain (\<lambda>x. to_lower (d_name x) = to_lower name)))"

text \<open>
  Deleting a domain cascades along the foreign keys of the schema: its addresses and blocked
  addresses, their mailboxes, and what belongs to a mailbox.
\<close>

definition domain_addresses :: "db \<Rightarrow> (domain \<Rightarrow> bool) \<Rightarrow> uuid list" where
  "domain_addresses d P =
     map a_id (filter (\<lambda>a. \<exists>x \<in> set (domains d). P x \<and> a_domain a = d_id x) (addresses d))"

definition address_mailboxes :: "db \<Rightarrow> uuid list \<Rightarrow> uuid list" where
  "address_mailboxes d as = map m_id (filter (\<lambda>m. m_address m \<in> set as) (mailboxes d))"

definition delete_domains :: "(domain \<Rightarrow> bool) \<Rightarrow> nat query" where
  "delete_domains P = (\<lambda>t d.
     let as = domain_addresses d P;
         ms = address_mailboxes d as;
         gs = map ms_id (filter (\<lambda>g. ms_account g \<in> set ms) (messages d))
     in (Inr (count_where P (domains d)),
         d\<lparr>domains := delete_where P (domains d),
           addresses := delete_where (\<lambda>a. a_id a \<in> set as) (addresses d),
           blocked := delete_where (\<lambda>b. \<exists>x \<in> set (domains d). P x \<and> bl_domain b = d_id x) (blocked d),
           mailboxes := delete_where (\<lambda>m. m_id m \<in> set ms) (mailboxes d),
           mappings := delete_where (\<lambda>p. mp_mailbox p \<in> set ms) (mappings d),
           sync_states := delete_where (\<lambda>s. ss_mailbox s \<in> set ms) (sync_states d),
           checkpoints := delete_where (\<lambda>c. sc_account c \<in> set ms) (checkpoints d),
           deliveries := delete_where (\<lambda>v. dv_mailbox v \<in> set ms) (deliveries d),
           threads := delete_where (\<lambda>h. th_account h \<in> set ms) (threads d),
           messages := delete_where (\<lambda>g. ms_account g \<in> set ms) (messages d),
           message_mailboxes := delete_where (\<lambda>l. mm_message l \<in> set gs) (message_mailboxes d)\<rparr>))"

definition delete_by_id_and_user :: "uuid \<Rightarrow> uuid \<Rightarrow> ('s, unit) act" where
  "delete_by_id_and_user i u = transaction (
     seq (stmt (delete_domains (\<lambda>x. d_id x = i \<and> d_user x = Some u))) (\<lambda>n.
     if n = 0 then fail (Sentinel ErrDomainNotFound)
     else seq (stmt (insert_job DomainDelete i)) (\<lambda>_. ret (Commit ()))))"

text \<open>\<^verbatim>\<open>UPDATE domains SET ... WHERE id = $1\<close>, with the number of rows, and the check on that number.\<close>

definition update_domain :: "uuid \<Rightarrow> (domain \<Rightarrow> domain) \<Rightarrow> nat query" where
  "update_domain i f = (\<lambda>t d.
     (Inr (matches d_id i (domains d)), d\<lparr>domains := set_by d_id i f (domains d)\<rparr>))"

definition update_existing :: "uuid \<Rightarrow> (domain \<Rightarrow> domain) \<Rightarrow> ('s, unit) act" where
  "update_existing i f = seq (stmt (update_domain i f)) (\<lambda>n.
     if n = 0 then fail (Sentinel ErrDomainNotFound) else ret ())"

definition set_verification_token :: "uuid \<Rightarrow> string \<Rightarrow> ('s, unit) act" where
  "set_verification_token i token =
     update_existing i (\<lambda>x. x\<lparr>d_token := Some token, d_verification := VerVerifying\<rparr>)"

definition update_verification_status :: "uuid \<Rightarrow> verification \<Rightarrow> ('s, unit) act" where
  "update_verification_status i v = update_existing i (\<lambda>x. x\<lparr>d_verification := v\<rparr>)"

definition update_domain_status :: "uuid \<Rightarrow> domain_status \<Rightarrow> bool \<Rightarrow> ('s, unit) act" where
  "update_domain_status i st reg =
     update_existing i (\<lambda>x. x\<lparr>d_status := st, d_registration := reg\<rparr>)"

definition create_verification_job :: "uuid \<Rightarrow> ('s, unit) act" where
  "create_verification_job i = stmt (insert_job DomainVerify i)"

definition create_domain_create_job :: "uuid \<Rightarrow> ('s, unit) act" where
  "create_domain_create_job i = stmt (insert_job DomainCreate i)"

definition list_platform_domains :: "('s, domain list) act" where
  "list_platform_domains = stmt (\<lambda>t d.
     (Inr (filter (\<lambda>x. d_ownership x = Platform \<and> d_status x = DomActive \<and> d_registration x) (domains d)), d))"

definition create_platform_domain_tx :: "string \<Rightarrow> ownership \<Rightarrow> bool \<Rightarrow> ('s, domain) act" where
  "create_platform_domain_tx name own reg = transaction (
     seq (stmt (insert_domain (\<lambda>i. admin_domain i name own reg))) (\<lambda>d.
     seq (stmt (insert_job DomainCreate (d_id d))) (\<lambda>_.
     ret (Commit d))))"

section \<open>Service\<close>

definition create_domain :: "(goerr \<Rightarrow> bool) \<Rightarrow> nat list \<Rightarrow> uuid \<Rightarrow> string \<Rightarrow> ('s, domain) act" where
  "create_domain safe rnd u name =
     seq (lift (normalize_domain_name name)) (\<lambda>normalized.
     seq (can_create_domain u) (\<lambda>acc.
     seq (create_domain_tx safe u (pa_id acc) normalized) (\<lambda>d.
     seq (set_verification_token (d_id d) (base64_encode rnd)) (\<lambda>_.
     ret d))))"

definition activate_domain_for_stalwart :: "uuid \<Rightarrow> ('s, unit) act" where
  "activate_domain_for_stalwart i =
     seq (update_domain_status i DomActive True) (\<lambda>_. create_domain_create_job i)"

fun parse_ownership :: "string \<Rightarrow> ownership option" where
  "parse_ownership s =
     (if s = ''PLATFORM'' then Some Platform else if s = ''USER'' then Some UserOwned else None)"

definition create_platform_domain :: "string \<Rightarrow> string \<Rightarrow> bool \<Rightarrow> ('s, domain) act" where
  "create_platform_domain name own reg =
     seq (lift (normalize_domain_name name)) (\<lambda>normalized.
     case parse_ownership own of
       None \<Rightarrow> fail (Plain ''invalid ownership type'')
     | Some o' \<Rightarrow> create_platform_domain_tx normalized o' reg)"

definition get_domain_for_address_check :: "uuid \<Rightarrow> ('s, domain) act" where
  "get_domain_for_address_check i = seq (get_by_id i) (\<lambda>x.
     if d_status x \<noteq> DomActive then fail (Plain ''domain is not active'')
     else if \<not> d_registration x then fail (Plain ''domain registration is not enabled'')
     else ret x)"

definition start_verification :: "nat list \<Rightarrow> uuid \<Rightarrow> uuid \<Rightarrow> ('s, domain \<times> string option) act" where
  "start_verification rnd i u =
     seq (get_by_id_and_user i u) (\<lambda>x.
     if d_verification x = VerVerified then ret (x, None)
     else
       let token = base64_encode rnd in
       seq (set_verification_token (d_id x) token) (\<lambda>_.
       seq (create_verification_job (d_id x)) (\<lambda>_.
       seq (update_verification_status (d_id x) VerVerifying) (\<lambda>_.
       ret (x\<lparr>d_verification := VerVerifying\<rparr>, Some token)))))"


section \<open>DNS checks\<close>

text \<open>The resolver is a service outside the program.\<close>

record 's resolver =
  lookup_txt :: "string \<Rightarrow> ('s, string list) service"
  lookup_mx :: "string \<Rightarrow> ('s, string list) service"

definition txt_prefix :: string where
  "txt_prefix = ''norest-verification=''"

definition txt_matches :: "string \<Rightarrow> string \<Rightarrow> bool" where
  "txt_matches token txt = (has_prefix txt txt_prefix \<and> drop (length txt_prefix) txt = token)"

definition verify_txt_record :: "'s resolver \<Rightarrow> string \<Rightarrow> string \<Rightarrow> ('s, bool) act" where
  "verify_txt_record r name token =
     seq (wrap_err ''DNS TXT lookup failed'' (remote_call (lookup_txt r (''_norest-verification.'' @ name))))
       (\<lambda>txts. ret (list_ex (txt_matches token) txts))"

definition verify_mx_records :: "'s resolver \<Rightarrow> string \<Rightarrow> ('s, bool \<times> string list) act" where
  "verify_mx_records r name =
     seq (wrap_err ''DNS MX lookup failed'' (remote_call (lookup_mx r name)))
       (\<lambda>hosts. ret (if hosts = [] then (False, []) else (True, hosts)))"

record dns_result =
  txt_verified :: bool
  mx_verified :: bool
  mx_records :: "string list"
  dns_checked_at :: time
  dns_error :: string

text \<open>The result comes with the error of the TXT check; an MX failure is only recorded.\<close>

definition perform_full_verification ::
  "'s resolver \<Rightarrow> string \<Rightarrow> string \<Rightarrow> ('s, dns_result \<times> goerr option) act" where
  "perform_full_verification r name token =
     seq time_now (\<lambda>now.
     let res = \<lparr>txt_verified = False, mx_verified = False, mx_records = [], dns_checked_at = now,
                dns_error = ''''\<rparr> in
     seq (attempt (verify_txt_record r name token)) (\<lambda>x.
     case x of
       Inl e \<Rightarrow> ret (res\<lparr>dns_error := err_text e\<rparr>, Some e)
     | Inr ok \<Rightarrow>
         let res = res\<lparr>txt_verified := ok\<rparr> in
         seq (attempt (verify_mx_records r name)) (\<lambda>y.
         case y of
           Inl e \<Rightarrow> ret (res\<lparr>dns_error := ''TXT verified but MX check failed: '' @ err_text e,
                             mx_verified := False\<rparr>, None)
         | Inr (mx, hosts) \<Rightarrow> ret (res\<lparr>mx_verified := mx, mx_records := hosts\<rparr>, None))))"


section \<open>Handlers\<close>

datatype availability =
    Unavailable string
  | AvailableDomain domain

definition check_domain_by_name_handler :: "string \<Rightarrow> ('s, availability response) act" where
  "check_domain_by_name_handler name =
     (if name = '''' then ret (ErrorJson 400 ''domain name is required'')
      else answer (get_by_name name)
        (\<lambda>e. ErrorJson 404 ''domain not found'')
        (\<lambda>x. if d_status x \<noteq> DomActive then Json 200 (Unavailable ''domain is not active'')
             else if \<not> d_registration x
             then Json 200 (Unavailable ''registration is not enabled for this domain'')
             else Json 200 (AvailableDomain x)))"

text \<open>\<^verbatim>\<open>err == ErrX\<close> compares identities: only the sentinel itself, not an error that wraps it.\<close>

definition create_error :: "goerr \<Rightarrow> 'a response" where
  "create_error e =
     (if e = Sentinel ErrInvalidDomain then ErrorJson 400 (err_text e)
      else if e = Sentinel ErrDomainExists then ErrorJson 409 (err_text e)
      else ErrorJson 500 (err_text e))"

record create_request =
  rq_name :: string
  rq_ownership :: string
  rq_registration :: bool

definition create_handler ::
  "(goerr \<Rightarrow> bool) \<Rightarrow> nat list \<Rightarrow> uuid option \<Rightarrow> bool \<Rightarrow> create_request option \<Rightarrow> ('s, domain response) act" where
  "create_handler safe rnd user is_admin body =
     (case user of None \<Rightarrow> ret (ErrorJson 401 ''unauthorized'')
      | Some u \<Rightarrow>
        (case body of None \<Rightarrow> ret (ErrorJson 400 ''invalid request body'')
         | Some rq \<Rightarrow>
             if rq_ownership rq = ''PLATFORM'' then
               if \<not> is_admin then ret (ErrorJson 403 ''admin access required for platform domains'')
               else answer (create_platform_domain (rq_name rq) (rq_ownership rq) (rq_registration rq))
                      create_error (Json 201)
             else answer (create_domain safe rnd u (rq_name rq)) create_error (Json 201)))"

definition with_ids :: "uuid option \<Rightarrow> uuid option \<Rightarrow> (uuid \<Rightarrow> uuid \<Rightarrow> ('s, 'a response) act) \<Rightarrow> ('s, 'a response) act" where
  "with_ids user domain_id k =
     (case user of None \<Rightarrow> ret (ErrorJson 401 ''unauthorized'')
      | Some u \<Rightarrow>
        (case domain_id of None \<Rightarrow> ret (ErrorJson 400 ''invalid domain id'')
         | Some i \<Rightarrow> k u i))"

definition lookup_error :: "goerr \<Rightarrow> 'a response" where
  "lookup_error e =
     (if e = Sentinel ErrDomainNotFound then ErrorJson 404 ''domain not found''
      else ErrorJson 500 ''internal server error'')"

definition get_handler :: "uuid option \<Rightarrow> uuid option \<Rightarrow> ('s, domain response) act" where
  "get_handler user domain_id =
     with_ids user domain_id (\<lambda>u i. answer (get_by_id_and_user i u) lookup_error (Json 200))"

definition delete_handler :: "uuid option \<Rightarrow> uuid option \<Rightarrow> ('s, unit response) act" where
  "delete_handler user domain_id =
     with_ids user domain_id (\<lambda>u i. answer (delete_by_id_and_user i u) lookup_error (\<lambda>_. NoBody 204))"

definition list_handler :: "uuid option \<Rightarrow> ('s, domain list response) act" where
  "list_handler user =
     (case user of None \<Rightarrow> ret (ErrorJson 401 ''unauthorized'')
      | Some u \<Rightarrow> answer (list_by_user u) (\<lambda>e. ErrorJson 500 ''internal server error'') (Json 200))"

definition start_verification_handler ::
  "nat list \<Rightarrow> uuid option \<Rightarrow> uuid option \<Rightarrow> ('s, (domain \<times> string option) response) act" where
  "start_verification_handler rnd user domain_id =
     with_ids user domain_id (\<lambda>u i.
       answer (start_verification rnd i u) (\<lambda>e. ErrorJson 500 (err_text e)) (Json 200))"

definition next_action :: "verification \<Rightarrow> bool \<Rightarrow> string" where
  "next_action v verified =
     (case v of VerPending \<Rightarrow> ''start_verification''
      | VerVerifying \<Rightarrow> if verified then ''wait_for_activation'' else ''wait_for_dns_propagation''
      | VerVerified \<Rightarrow> ''register_address''
      | VerFailed \<Rightarrow> ''retry_verification'')"

record verification_view =
  vv_id :: uuid
  vv_name :: string
  vv_status :: verification
  vv_record_name :: string
  vv_record_value :: string
  vv_expected_mx :: "string list"
  vv_txt_verified :: bool
  vv_mx_verified :: bool
  vv_mx_records :: "string list"
  vv_message :: string
  vv_next_action :: string

definition expected_mx :: "string list" where
  "expected_mx = [''mx1.norestmail.com'', ''mx2.norestmail.com'']"

definition verification_view_of ::
  "domain \<Rightarrow> string \<Rightarrow> string \<Rightarrow> bool \<Rightarrow> bool \<Rightarrow> string list \<Rightarrow> verification_view" where
  "verification_view_of x val msg txt mx hosts =
     \<lparr>vv_id = d_id x, vv_name = d_name x, vv_status = d_verification x,
      vv_record_name = ''_norest-verification.'' @ d_name x, vv_record_value = val,
      vv_expected_mx = expected_mx, vv_txt_verified = txt, vv_mx_verified = mx, vv_mx_records = hosts,
      vv_message = msg, vv_next_action = next_action (d_verification x) txt\<rparr>"

text \<open>
  The part of \<^verbatim>\<open>GetVerification\<close> after the domain is found; \<open>plain\<close> is its \<^verbatim>\<open>VerificationToken\<close> field.
  The handler gets the domain from the repository, which always clears that field.
\<close>

definition describe_verification ::
  "'s resolver \<Rightarrow> domain \<Rightarrow> string option \<Rightarrow> ('s, verification_view) act" where
  "describe_verification r x plain =
     (let val = ''norest-verification=TOKEN_FROM_START_VERIFICATION'';
          msg = ''If you lost your verification token, restart verification to get a new one'' in
      case plain of
        None \<Rightarrow> ret (verification_view_of x val msg False False [])
      | Some tok \<Rightarrow>
          if tok = '''' then ret (verification_view_of x val msg False False [])
          else
            let val = ''norest-verification='' @ tok; msg = ''Configure this TXT record in your DNS'' in
            (case d_token x of
               None \<Rightarrow> ret (verification_view_of x val msg False False [])
             | Some h \<Rightarrow>
                 seq (perform_full_verification r (d_name x) h) (\<lambda>(res, e).
                 let msg = (if txt_verified res then ''TXT record verified! MX records also checked.'' else msg) in
                 ret (verification_view_of x val msg (txt_verified res) (mx_verified res) (mx_records res)))))"

definition get_verification_handler ::
  "'s resolver \<Rightarrow> uuid option \<Rightarrow> uuid option \<Rightarrow> ('s, verification_view response) act" where
  "get_verification_handler r user domain_id =
     with_ids user domain_id (\<lambda>u i.
       answer (seq (get_by_id_and_user i u) (\<lambda>x. describe_verification r x None))
         (\<lambda>e. ErrorJson 404 ''domain not found'') (Json 200))"


section \<open>Normal form of a domain name\<close>

lemma has_suffix_dot: "has_suffix s [c] \<longleftrightarrow> s \<noteq> [] \<and> last s = c"
proof -
  have "take 1 (rev s) = [c] \<longleftrightarrow> s \<noteq> [] \<and> last s = c"
    by (cases s rule: rev_cases) simp_all
  then show ?thesis by (simp add: has_suffix_def has_prefix_def)
qed

lemma trim_space_ends:
  assumes "trim_space s \<noteq> ''''"
  shows "\<not> is_space (hd (trim_space s))" and "\<not> is_space (last (trim_space s))"
proof -
  let ?u = "trim_left s"
  have l: "trim_left (rev ?u) \<noteq> []" using assms by (simp add: trim_space_def)
  then obtain c t where ct: "trim_left (rev ?u) = c # t" by (cases "trim_left (rev ?u)") auto
  have "\<not> is_space c" by (rule trim_left_hd [OF ct])
  with ct show "\<not> is_space (last (trim_space s))" by (simp add: trim_space_def)
  show "\<not> is_space (hd (trim_space s))"
  proof (cases "trim_space s")
    case Nil
    with assms show ?thesis by simp
  next
    case (Cons d v)
    have "trim_left (trim_space s) = trim_space (trim_space s)"
      using trim_space_idem [of s] trim_left_length [of "trim_space s"]
        trim_left_length [of "rev (trim_left (trim_space s))"] trim_left_suffix [of "trim_space s"]
      by (metis append_eq_append_conv append_self_conv2 append_Nil length_rev le_antisym trim_space_def)
    also have "\<dots> = d # v" by (rule trans [OF trim_space_idem Cons])
    finally have "trim_left (trim_space s) = d # v" .
    with Cons show ?thesis using trim_left_hd [of "trim_space s" d v] by simp
  qed
qed

lemma trim_space_id:
  assumes "s \<noteq> ''''" and "\<not> is_space (hd s)" and "\<not> is_space (last s)"
  shows "trim_space s = s"
proof -
  have "trim_left s = s" using assms by (cases s) (simp_all add: trim_left_def)
  moreover have "trim_left (rev s) = rev s"
    using assms by (cases s rule: rev_cases) (simp_all add: trim_left_def)
  ultimately show ?thesis by (simp add: trim_space_def)
qed

lemma lower_char_dot [simp]: "lower_char c = CHR ''.'' \<longleftrightarrow> c = CHR ''.''"
proof
  assume "lower_char c = CHR ''.''"
  then have "(of_char (lower_char c) :: nat) = 46" by simp
  then have "(of_char c :: nat) = 46" by (simp add: of_char_lower split: if_splits)
  then have "(of_char c :: nat) = of_char (CHR ''.'')" by simp
  then show "c = CHR ''.''" by (simp only: of_char_eq_iff)
qed (simp add: lower_char_def)

lemma to_lower_dot: "to_lower s = ''.'' \<longleftrightarrow> s = ''.''"
  by (cases s; cases "tl s") auto

lemma to_lower_take: "to_lower (take n s) = take n (to_lower s)"
  by (simp add: to_lower_def take_map)

text \<open>
  C34. A domain name is normalised or refused as invalid. A normal form is lower case and has no blank;
  it is empty exactly for the name \<open>.\<close>, which is accepted; the normal form ignores the case of the
  name and the white space around it; and normalising a normal form that does not end in a dot or in
  white space changes nothing (one trailing dot is removed at a time).
\<close>

theorem normalize_domain_name_spec:
  "(case normalize_domain_name s of
      Inl e \<Rightarrow> e = Sentinel ErrInvalidDomain
    | Inr n \<Rightarrow> to_lower n = n \<and> \<not> contains_any n blanks \<and> (n = '''' \<longleftrightarrow> trim_space s = ''.'') \<and>
        (n \<noteq> '''' \<and> last n \<noteq> CHR ''.'' \<and> \<not> is_space (last n) \<longrightarrow> normalize_domain_name n = Inr n)) \<and>
   normalize_domain_name (to_lower s) = normalize_domain_name s \<and>
   normalize_domain_name (trim_space s) = normalize_domain_name s"
proof (intro conjI)
  show "normalize_domain_name (to_lower s) = normalize_domain_name s"
    by (simp add: normalize_domain_name_def trim_space_to_lower Let_def)
  show "normalize_domain_name (trim_space s) = normalize_domain_name s"
    by (simp add: normalize_domain_name_def)
  let ?l = "to_lower (trim_space s)"
  let ?n = "if has_suffix ?l ''.'' then take (length ?l - 1) ?l else ?l"
  show "case normalize_domain_name s of
      Inl e \<Rightarrow> e = Sentinel ErrInvalidDomain
    | Inr n \<Rightarrow> to_lower n = n \<and> \<not> contains_any n blanks \<and> (n = '''' \<longleftrightarrow> trim_space s = ''.'') \<and>
        (n \<noteq> '''' \<and> last n \<noteq> CHR ''.'' \<and> \<not> is_space (last n) \<longrightarrow> normalize_domain_name n = Inr n)"
  proof (cases "?l = '''' \<or> contains_any ?n blanks")
    case True
    then show ?thesis by (auto simp: normalize_domain_name_def Let_def)
  next
    case False
    then have t: "trim_space s \<noteq> ''''" and l: "?l \<noteq> ''''" by auto
    have n: "normalize_domain_name s = Inr ?n"
      using False by (auto simp: normalize_domain_name_def Let_def)
    have low: "to_lower ?n = ?n" by (simp add: to_lower_take)
    have empty: "?n = '''' \<longleftrightarrow> trim_space s = ''.''"
    proof
      assume "?n = ''''"
      with l have "has_suffix ?l ''.''" and "take (length ?l - 1) ?l = []"
        by (auto split: if_splits)
      with l have "has_suffix ?l ''.'' \<and> length ?l = 1" by (cases ?l) auto
      then have "?l = ''.''" by (cases ?l) (auto simp: has_suffix_dot)
      then show "trim_space s = ''.''" by (simp only: to_lower_dot)
    qed (simp add: has_suffix_dot lower_char_def)
    have idem: "normalize_domain_name ?n = Inr ?n"
      if "?n \<noteq> ''''" "last ?n \<noteq> CHR ''.''" "\<not> is_space (last ?n)"
    proof -
      have "hd ?n = hd ?l" using that(1) by (cases ?l) (auto simp: take_Cons' split: if_splits)
      also have "\<dots> = lower_char (hd (trim_space s))" using t by (cases "trim_space s") simp_all
      finally have "\<not> is_space (hd ?n)" using trim_space_ends(1) [OF t] by simp
      with that have "trim_space ?n = ?n" by (intro trim_space_id) auto
      moreover have "\<not> has_suffix ?n ''.''" using that(2) by (simp add: has_suffix_dot)
      ultimately show ?thesis using that(1) low False
        by (simp add: normalize_domain_name_def Let_def)
    qed
    show ?thesis using n low empty idem False by simp
  qed
qed

theorem normalize_domain_name_witness:
  "normalize_domain_name ''Example.COM'' = Inr ''example.com'' \<and>
   normalize_domain_name ''example.com'' = Inr ''example.com''"
proof -
  have e: "normalize_domain_name ''Example.COM'' = Inr ''example.com''" by code_simp
  have s: "\<not> is_space (CHR ''m'')" by code_simp
  from normalize_domain_name_spec [of "''Example.COM''"] e s show ?thesis by simp
qed

section \<open>Well-formed domains\<close>

text \<open>
  Domain ids and names are unique, ids come from the generator, and a user's domain that is open for
  registration has been verified.
\<close>

definition domains_ok :: "db \<Rightarrow> bool" where
  "domains_ok d \<longleftrightarrow>
     unique_on d_id (domains d) \<and> unique_on d_name (domains d) \<and>
     (\<forall>x \<in> set (domains d). d_id x < next_id d \<and>
        (d_ownership x = UserOwned \<and> d_registration x \<longrightarrow> d_verification x = VerVerified))"

lemma domains_okD:
  assumes "domains_ok d"
  shows "unique_on d_id (domains d)" and "unique_on d_name (domains d)"
    and "x \<in> set (domains d) \<Longrightarrow> d_id x < next_id d"
    and "x \<in> set (domains d) \<Longrightarrow> d_ownership x = UserOwned \<Longrightarrow> d_registration x \<Longrightarrow>
           d_verification x = VerVerified"
  using assms by (auto simp: domains_ok_def)

lemma domains_ok_migrated: "domains_ok migrated_db"
  by (simp add: domains_ok_def migrated_db_def platform_domain_def unique_on_def)

lemma domains_ok_insert:
  assumes "\<And>i. d_id (row i) = i"
    and "\<And>i. d_ownership (row i) = UserOwned \<Longrightarrow> d_registration (row i) \<Longrightarrow> d_verification (row i) = VerVerified"
  shows "query_preserves domains_ok (insert_domain row)"
proof (rule query_preservesI)
  fix t d
  assume ok: "domains_ok d"
  show "domains_ok (snd (insert_domain row t d))"
  proof (cases "\<exists>x \<in> set (domains d). d_name x = d_name (row (next_id d))")
    case True
    with ok show ?thesis by (simp add: insert_domain_def Let_def)
  next
    case False
    have "\<forall>x \<in> set (domains d). d_id x \<noteq> next_id d"
      using domains_okD(3) [OF ok] by fastforce
    with False ok assms show ?thesis
      by (auto simp: insert_domain_def Let_def domains_ok_def unique_on_snoc less_Suc_eq)
  qed
qed

lemma domains_ok_insert_job [pres_intro]: "query_preserves domains_ok (insert_job ty res)"
  by (auto simp: query_preserves_def insert_job_def domains_ok_def less_SucI)

lemma domains_ok_select [pres_intro]: "query_preserves I (select_domain P)"
  by (simp add: query_preserves_def select_domain_def)

lemma domains_ok_update:
  assumes "\<And>x. d_id (f x) = d_id x" and "\<And>x. d_name (f x) = d_name x"
    and "\<And>x. x \<in> set (domains d) \<Longrightarrow> d_id x = i \<Longrightarrow> d_ownership (f x) = UserOwned \<Longrightarrow>
           d_registration (f x) \<Longrightarrow> d_verification (f x) = VerVerified"
    and "domains_ok d"
  shows "domains_ok (d\<lparr>domains := set_by d_id i f (domains d)\<rparr>)"
  using assms by (auto simp: domains_ok_def unique_on_set_by set_set_by)

lemma domains_ok_delete [pres_intro]: "query_preserves domains_ok (delete_domains P)"
  by (simp add: query_preserves_def delete_domains_def Let_def domains_ok_def unique_on_delete_where
      set_delete_where)

text \<open>Writing a token closes verification; that is safe where the domain is not open.\<close>

definition not_open :: "uuid \<Rightarrow> db \<Rightarrow> bool" where
  "not_open i d \<longleftrightarrow> domains_ok d \<and>
     (\<forall>x \<in> set (domains d). d_id x = i \<longrightarrow> \<not> (d_ownership x = UserOwned \<and> d_registration x))"

lemma not_open_update:
  assumes "\<And>x. d_id (f x) = d_id x" and "\<And>x. d_name (f x) = d_name x"
    and "\<And>x. d_ownership (f x) = d_ownership x" and "\<And>x. d_registration (f x) = d_registration x"
  shows "query_preserves (not_open i) (update_domain i f)"
proof (rule query_preservesI)
  fix t d
  assume d: "not_open i d"
  have "domains_ok (d\<lparr>domains := set_by d_id i f (domains d)\<rparr>)"
    by (rule domains_ok_update) (use d assms in \<open>auto simp: not_open_def\<close>)
  moreover have "\<forall>x \<in> set (set_by d_id i f (domains d)). d_id x = i \<longrightarrow>
      \<not> (d_ownership x = UserOwned \<and> d_registration x)"
    by (rule set_by_all) (use d assms in \<open>auto simp: not_open_def\<close>)
  ultimately show "not_open i (snd (update_domain i f t d))"
    by (simp add: not_open_def update_domain_def)
qed

lemma not_open_insert_job: "query_preserves (not_open i) (insert_job ty res)"
  by (auto simp: query_preserves_def insert_job_def domains_ok_def not_open_def less_SucI)

lemma not_open_update_existing:
  assumes "\<And>x. d_id (f x) = d_id x" and "\<And>x. d_name (f x) = d_name x"
    and "\<And>x. d_ownership (f x) = d_ownership x" and "\<And>x. d_registration (f x) = d_registration x"
  shows "preserves (not_open i) (update_existing i f)"
  unfolding update_existing_def
  by (intro pres_intro not_open_update) (simp_all add: assms)

lemma not_open_domains_ok:
  "preserves (not_open i) m \<Longrightarrow> not_open i (db w) \<Longrightarrow> domains_ok (db (snd (m w)))"
  by (auto simp: preserves_def not_open_def)

lemma create_domain_tx_ok [pres_intro]: "preserves domains_ok (create_domain_tx safe u acc name)"
  unfolding create_domain_tx_def create_domain_body_def
  by (intro pres_intro domains_ok_insert) (simp_all add: user_domain_def)

lemma create_platform_domain_ok: "preserves domains_ok (create_platform_domain name own reg)"
  unfolding create_platform_domain_def create_platform_domain_tx_def
  by (intro pres_intro domains_ok_insert) (simp_all add: admin_domain_def)

lemma delete_by_id_and_user_ok: "preserves domains_ok (delete_by_id_and_user i u)"
  unfolding delete_by_id_and_user_def by (intro pres_intro)

section \<open>Creating a domain\<close>

lemma create_domain_body_Inr:
  assumes "create_domain_body u acc name v = (Inr r, v')"
  obtains t where "\<forall>y \<in> set (domains (db v)). d_name y \<noteq> name"
    and "r = Commit (user_domain (next_id (db v)) u acc name)"
    and "db v' = (db v)\<lparr>domains := domains (db v) @ [user_domain (next_id (db v)) u acc name],
           jobs := jobs (db v) @ [new_job (next_id (db v) + 1) DomainCreate (next_id (db v)) t],
           next_id := next_id (db v) + 2\<rparr>"
proof -
  from assms obtain x v1 where
    1: "map_err insert_error (stmt (insert_domain (\<lambda>i. user_domain i u acc name))) v = (Inr x, v1)" and
    2: "seq (stmt (insert_job DomainCreate (d_id x))) (\<lambda>_. ret (Commit x)) v1 = (Inr r, v')"
    unfolding create_domain_body_def by (rule seq_InrE)
  from 1 have "stmt (insert_domain (\<lambda>i. user_domain i u acc name)) v = (Inr x, v1)"
    by (auto simp: map_err_def split: prod.splits sum.splits)
  then obtain t1 where t1: "insert_domain (\<lambda>i. user_domain i u acc name) t1 (db v) = (Inr x, db v1)"
    by (rule stmt_InrE)
  from 2 have "stmt (insert_job DomainCreate (d_id x)) v1 = (Inr (), v')" and r: "r = Commit x"
    by (auto elim!: seq_InrE)
  then obtain t2 where "insert_job DomainCreate (d_id x) t2 (db v1) = (Inr (), db v')"
    by (auto elim: stmt_InrE)
  then have v': "db v' = (db v1)\<lparr>jobs := jobs (db v1) @ [new_job (next_id (db v1)) DomainCreate (d_id x) t2],
      next_id := next_id (db v1) + 1\<rparr>" by (simp add: insert_job_def)
  from t1 have free: "\<forall>y \<in> set (domains (db v)). d_name y \<noteq> name"
    and x: "x = user_domain (next_id (db v)) u acc name"
    and v1: "db v1 = (db v)\<lparr>domains := domains (db v) @ [user_domain (next_id (db v)) u acc name],
      next_id := next_id (db v) + 1\<rparr>"
    by (auto simp: insert_domain_def Let_def user_domain_def split: if_splits)
  show thesis
    by (rule that [OF free, of t2]) (simp_all add: r x v' v1 user_domain_def)
qed

text \<open>
  The insertion happens once: if a retried attempt finds the name taken, the call fails. So a
  successful call ran on the database it was given.
\<close>

lemma create_domain_tx_Inr:
  assumes "create_domain_tx safe u acc name w = (Inr x, w')"
  obtains t where "\<forall>y \<in> set (domains (db w)). d_name y \<noteq> name"
    and "x = user_domain (next_id (db w)) u acc name"
    and "db w' = (db w)\<lparr>domains := domains (db w) @ [x],
           jobs := jobs (db w) @ [new_job (d_id x + 1) DomainCreate (d_id x) t],
           next_id := d_id x + 2\<rparr>"
proof -
  let ?P = "\<lambda>d. d = db w \<or> (\<exists>y \<in> set (domains d). d_name y = name)"
  have step: "?P (db v')"
    if "?P (db v)" "transaction_phase (create_domain_body u acc name) v = (Inl (e, True), v')" for v e v'
    using commit_error_db [OF that(2)]
  proof
    assume "\<exists>u1 a u2. db u1 = db v \<and> create_domain_body u acc name u1 = (Inr (Commit a), u2) \<and> db v' = db u2"
    then show ?thesis
      by (elim exE conjE create_domain_body_Inr) (auto simp: user_domain_def)
  qed (use that(1) in simp)
  obtain v where v: "?P (db v)" and tx: "transaction (create_domain_body u acc name) v = (Inr x, w')"
    using retry_tx_InrE [of safe "create_domain_body u acc name" 0 w x w' ?P thesis]
      assms [unfolded create_domain_tx_def] step by metis
  from tx show thesis
  proof (cases rule: transaction_InrE)
    case (commit u1 u2)
    from commit(2) show ?thesis
    proof (rule create_domain_body_Inr)
      fix t
      assume a: "\<forall>y \<in> set (domains (db u1)). d_name y \<noteq> name"
        "Commit x = Commit (user_domain (next_id (db u1)) u acc name)"
        "db u2 = (db u1)\<lparr>domains := domains (db u1) @ [user_domain (next_id (db u1)) u acc name],
           jobs := jobs (db u1) @ [new_job (next_id (db u1) + 1) DomainCreate (next_id (db u1)) t],
           next_id := next_id (db u1) + 2\<rparr>"
      with v commit(1) have "db u1 = db w" by auto
      with a have x: "x = user_domain (next_id (db w)) u acc name"
        and free: "\<forall>y \<in> set (domains (db w)). d_name y \<noteq> name"
        and d: "db u2 = (db w)\<lparr>domains := domains (db w) @ [x],
           jobs := jobs (db w) @ [new_job (next_id (db w) + 1) DomainCreate (next_id (db w)) t],
           next_id := next_id (db w) + 2\<rparr>" by simp_all
      have "d_id x = next_id (db w)" by (simp add: x user_domain_def)
      with d commit(3) show ?thesis by (intro that [OF free x, of t]) simp
    qed
  next
    case (abandon u1 u2)
    from abandon(2) show ?thesis by (rule create_domain_body_Inr) simp
  qed
qed

lemma update_existing_Inr:
  assumes "update_existing i f w = (Inr (), w')"
  shows "db w' = (db w)\<lparr>domains := set_by d_id i f (domains (db w))\<rparr>"
proof -
  from assms obtain n where "stmt (update_domain i f) w = (Inr n, w')"
    unfolding update_existing_def by (auto elim!: seq_InrE split: if_splits)
  then show ?thesis by (auto simp: update_domain_def elim!: stmt_InrE)
qed

lemma set_by_fresh:
  "\<forall>y \<in> set ys. key y \<noteq> key x \<Longrightarrow> set_by key (key x) f (ys @ [x]) = ys @ [f x]"
  by (induction ys) auto

lemma set_by_fresh_k:
  "\<forall>y \<in> set ys. key y \<noteq> k \<Longrightarrow> key x = k \<Longrightarrow> set_by key k f (ys @ [x]) = ys @ [f x]"
  using set_by_fresh by metis



lemma create_domain_ok: "preserves domains_ok (create_domain safe rnd u name)"
  unfolding preserves_def
proof (intro allI impI)
  fix w :: "'a world"
  assume ok: "domains_ok (db w)"
  show "domains_ok (db (snd (create_domain safe rnd u name w)))"
  proof (cases "normalize_domain_name name")
    case (Inl e)
    with ok show ?thesis by (simp add: create_domain_def)
  next
    case (Inr n)
    obtain r w1 where 1: "can_create_domain u w = (r, w1)" by force
    then have d1: "db w1 = db w"
      using read_only [OF entitlement_checks_preserve(1), of u w] by simp
    show ?thesis
    proof (cases r)
      case (Inl e)
      with 1 \<open>normalize_domain_name name = Inr n\<close> d1 ok show ?thesis by (simp add: create_domain_def)
    next
      case (Inr acc)
      obtain r2 w2 where 2: "create_domain_tx safe u (pa_id acc) n w1 = (r2, w2)" by force
      have ok2: "domains_ok (db w2)"
        using preservesD [OF create_domain_tx_ok, of w1 safe u "pa_id acc" n] 2 d1 ok by simp
      show ?thesis
      proof (cases r2)
        case (Inl e)
        with 1 2 Inr \<open>normalize_domain_name name = Inr n\<close> ok2 show ?thesis by (simp add: create_domain_def)
      next
        case I2: (Inr x)
        with 2 have "create_domain_tx safe u (pa_id acc) n w1 = (Inr x, w2)" by simp
        then obtain t where t: "x = user_domain (next_id (db w1)) u (pa_id acc) n"
          "domains (db w2) = domains (db w1) @ [x]"
          by (rule create_domain_tx_Inr) simp
        have "\<forall>y \<in> set (domains (db w1)). d_id y \<noteq> d_id x"
          using domains_okD(3) [OF ok] t(1) d1 by (fastforce simp: user_domain_def)
        with t ok2 have no: "not_open (d_id x) (db w2)"
          by (auto simp: not_open_def user_domain_def)
        have "domains_ok (db (snd (set_verification_token (d_id x) (base64_encode rnd) w2)))"
          unfolding set_verification_token_def
          by (rule not_open_domains_ok [OF not_open_update_existing no]) simp_all
        with 1 2 Inr I2 \<open>normalize_domain_name name = Inr n\<close> show ?thesis
          by (simp add: create_domain_def)
      qed
    qed
  qed
qed

lemma start_verification_ok: "preserves domains_ok (start_verification rnd i u)"
  unfolding preserves_def
proof (intro allI impI)
  fix w :: "'a world"
  assume ok: "domains_ok (db w)"
  obtain r w1 where 1: "get_by_id_and_user i u w = (r, w1)" by force
  have ro: "preserves I (get_by_id_and_user i u :: ('a, domain) act)" for I
    unfolding get_by_id_and_user_def by (intro pres_intro)
  have d1: "db w1 = db w" using read_only [OF ro, of w] 1 by simp
  show "domains_ok (db (snd (start_verification rnd i u w)))"
  proof (cases r)
    case (Inl e)
    with 1 d1 ok show ?thesis by (simp add: start_verification_def)
  next
    case (Inr x)
    with 1 have "stmt (select_domain (\<lambda>x. d_id x = i \<and> d_user x = Some u)) w = (Inr x, w1)"
      by (auto simp: get_by_id_and_user_def map_err_def split: prod.splits sum.splits)
    then have x: "x \<in> set (domains (db w))"
      by (auto simp: select_domain_def elim!: stmt_InrE split: option.splits dest: find_Some_set)
    show ?thesis
    proof (cases "d_verification x = VerVerified")
      case True
      with 1 Inr d1 ok show ?thesis by (simp add: start_verification_def)
    next
      case False
      then have "not_open (d_id x) (db w1)"
        using ok x d1 domains_okD(1) [OF ok] domains_okD(4) [OF ok x]
        by (auto simp: not_open_def dest: unique_onD)
      moreover have "preserves (not_open (d_id x))
          (seq (set_verification_token (d_id x) (base64_encode rnd)) (\<lambda>_.
           seq (create_verification_job (d_id x)) (\<lambda>_.
           seq (update_verification_status (d_id x) VerVerifying) (\<lambda>_.
           ret (x\<lparr>d_verification := VerVerifying\<rparr>, Some (base64_encode rnd))))) ::
           ('a, domain \<times> string option) act)"
        unfolding set_verification_token_def create_verification_job_def update_verification_status_def
        by (intro pres_intro not_open_update_existing not_open_insert_job) simp_all
      ultimately show ?thesis
        using 1 Inr False not_open_domains_ok by (fastforce simp: start_verification_def Let_def)
    qed
  qed
qed

section \<open>Deleting a domain\<close>

text \<open>The foreign keys from addresses down to what a mailbox owns.\<close>

definition refs_ok :: "db \<Rightarrow> bool" where
  "refs_ok d \<longleftrightarrow>
     (\<forall>a \<in> set (addresses d). \<exists>x \<in> set (domains d). a_domain a = d_id x) \<and>
     (\<forall>m \<in> set (mailboxes d). \<exists>a \<in> set (addresses d). m_address m = a_id a) \<and>
     (\<forall>p \<in> set (mappings d). \<exists>m \<in> set (mailboxes d). mp_mailbox p = m_id m) \<and>
     (\<forall>s \<in> set (sync_states d). \<exists>m \<in> set (mailboxes d). ss_mailbox s = m_id m) \<and>
     (\<forall>h \<in> set (threads d). \<exists>m \<in> set (mailboxes d). th_account h = m_id m) \<and>
     (\<forall>g \<in> set (messages d). \<exists>m \<in> set (mailboxes d). ms_account g = m_id m) \<and>
     (\<forall>l \<in> set (message_mailboxes d). \<exists>g \<in> set (messages d). mm_message l = ms_id g)"

definition keys_ok :: "db \<Rightarrow> bool" where
  "keys_ok d \<longleftrightarrow> unique_on d_id (domains d) \<and> unique_on a_id (addresses d) \<and>
     unique_on m_id (mailboxes d) \<and> unique_on ms_id (messages d)"

lemma in_domain_addresses:
  "i \<in> set (domain_addresses d P) \<longleftrightarrow>
     (\<exists>a \<in> set (addresses d). a_id a = i \<and> (\<exists>x \<in> set (domains d). P x \<and> a_domain a = d_id x))"
  by (auto simp: domain_addresses_def)

lemma in_address_mailboxes:
  "i \<in> set (address_mailboxes d as) \<longleftrightarrow> (\<exists>m \<in> set (mailboxes d). m_id m = i \<and> m_address m \<in> set as)"
  by (auto simp: address_mailboxes_def)

text \<open>A row whose parent survives the cascade survives itself, and only then.\<close>

lemma child_refs:
  assumes "\<forall>c \<in> set children. \<exists>p \<in> set parents. fk c = key p"
  shows "\<forall>c \<in> set (delete_where (\<lambda>c. fk c \<in> K) children).
           \<exists>p \<in> set (delete_where (\<lambda>p. key p \<in> K) parents). fk c = key p"
  using assms by (fastforce simp: set_delete_where)

lemma deleted_parents:
  assumes "unique_on key parents" and "\<forall>c \<in> set children. \<exists>p \<in> set parents. fk c = key p"
  shows "\<forall>c \<in> set (delete_where (\<lambda>c. ck c \<in> set (map ck (filter (\<lambda>c. \<exists>p \<in> set parents. P p \<and> fk c = key p) children))) children).
           \<exists>p \<in> set (delete_where P parents). fk c = key p"
  using assms by (fastforce simp: set_delete_where)

lemma delete_domains_refs_ok: "keys_ok d \<and> refs_ok d \<Longrightarrow> refs_ok (snd (delete_domains P t d))"
proof -
  assume ok: "keys_ok d \<and> refs_ok d"
  let ?as = "domain_addresses d P"
  let ?ms = "address_mailboxes d ?as"
  let ?gs = "map ms_id (filter (\<lambda>g. ms_account g \<in> set ?ms) (messages d))"
  let ?d = "snd (delete_domains P t d)"
  have rows: "domains ?d = delete_where P (domains d)"
    "addresses ?d = delete_where (\<lambda>a. a_id a \<in> set ?as) (addresses d)"
    "mailboxes ?d = delete_where (\<lambda>m. m_id m \<in> set ?ms) (mailboxes d)"
    "mappings ?d = delete_where (\<lambda>p. mp_mailbox p \<in> set ?ms) (mappings d)"
    "sync_states ?d = delete_where (\<lambda>s. ss_mailbox s \<in> set ?ms) (sync_states d)"
    "threads ?d = delete_where (\<lambda>h. th_account h \<in> set ?ms) (threads d)"
    "messages ?d = delete_where (\<lambda>g. ms_account g \<in> set ?ms) (messages d)"
    "message_mailboxes ?d = delete_where (\<lambda>l. mm_message l \<in> set ?gs) (message_mailboxes d)"
    by (simp_all add: delete_domains_def Let_def)
  have r: "\<forall>a \<in> set (addresses d). \<exists>x \<in> set (domains d). a_domain a = d_id x"
    "\<forall>m \<in> set (mailboxes d). \<exists>a \<in> set (addresses d). m_address m = a_id a"
    "\<forall>p \<in> set (mappings d). \<exists>m \<in> set (mailboxes d). mp_mailbox p = m_id m"
    "\<forall>s \<in> set (sync_states d). \<exists>m \<in> set (mailboxes d). ss_mailbox s = m_id m"
    "\<forall>h \<in> set (threads d). \<exists>m \<in> set (mailboxes d). th_account h = m_id m"
    "\<forall>g \<in> set (messages d). \<exists>m \<in> set (mailboxes d). ms_account g = m_id m"
    "\<forall>l \<in> set (message_mailboxes d). \<exists>g \<in> set (messages d). mm_message l = ms_id g"
    using ok by (simp_all add: refs_ok_def)
  have k: "unique_on d_id (domains d)" "unique_on ms_id (messages d)" using ok by (simp_all add: keys_ok_def)
  have 1: "\<forall>a \<in> set (addresses ?d). \<exists>x \<in> set (domains ?d). a_domain a = d_id x"
    unfolding rows domain_addresses_def by (rule deleted_parents [OF k(1) r(1)])
  have "\<forall>m \<in> set (mailboxes ?d). m_address m \<notin> set ?as"
    unfolding rows by (auto simp: set_delete_where in_address_mailboxes)
  with r(2) have 2: "\<forall>m \<in> set (mailboxes ?d). \<exists>a \<in> set (addresses ?d). m_address m = a_id a"
    unfolding rows by (fastforce simp: set_delete_where)
  have "\<forall>l \<in> set (message_mailboxes ?d). mm_message l \<notin> set ?gs"
    unfolding rows by (simp only: set_delete_where) blast
  with r(7) have 3: "\<forall>l \<in> set (message_mailboxes ?d). \<exists>g \<in> set (messages ?d). mm_message l = ms_id g"
    unfolding rows by (simp only: set_delete_where) fastforce
  show ?thesis
    unfolding refs_ok_def
  proof (intro conjI 1 2 3)
  qed (unfold rows, (rule child_refs [OF r(3)] child_refs [OF r(4)] child_refs [OF r(5)] child_refs [OF r(6)])+)
qed

lemma delete_domains_rows [simp]:
  "fst (delete_domains P t d) = Inr (count_where P (domains d))"
  "domains (snd (delete_domains P t d)) = delete_where P (domains d)"
  "jobs (snd (delete_domains P t d)) = jobs d"
  "next_id (snd (delete_domains P t d)) = next_id d"
  by (simp_all add: delete_domains_def Let_def)

lemma insert_job_rows [simp]:
  "domains (snd (insert_job ty i t d)) = domains d"
  "addresses (snd (insert_job ty i t d)) = addresses d"
  "jobs (snd (insert_job ty i t d)) = jobs d @ [new_job (next_id d) ty i t]"
  "refs_ok (snd (insert_job ty i t d)) = refs_ok d"
  by (simp_all add: insert_job_def refs_ok_def)

lemma delete_domains_addresses:
  assumes "keys_ok d" and "x \<in> set (domains d)" and "d_id x = i" and "d_user x = Some u"
  shows "addresses (snd (delete_domains (\<lambda>x. d_id x = i \<and> d_user x = Some u) t d)) =
     filter (\<lambda>a. a_domain a \<noteq> i) (addresses d)"
proof -
  let ?P = "\<lambda>x. d_id x = i \<and> d_user x = Some u"
  have k: "unique_on a_id (addresses d)" using assms(1) by (simp add: keys_ok_def)
  have "a_id a \<in> set (domain_addresses d ?P) \<longleftrightarrow> a_domain a = i" if "a \<in> set (addresses d)" for a
    using assms(2-4) that unique_onD [OF k] by (fastforce simp: in_domain_addresses)
  then show ?thesis
    by (simp add: delete_domains_def Let_def delete_where_def cong: filter_cong)
qed


text \<open>A user's domain with an address, for the runs of the witnesses.\<close>

definition custom_domain :: domain where
  "custom_domain = \<lparr>d_id = 13, d_user = Some 10, d_account = Some 11, d_name = ''example.org'',
     d_stalwart = None, d_status = DomActive, d_verification = VerVerified, d_token = Some ''tok'',
     d_ownership = UserOwned, d_registration = True\<rparr>"

definition custom_address :: address where
  "custom_address = \<lparr>a_id = 14, a_domain = 13, a_local = ''ann'', a_status = Claimed,
     a_reserved_by = None, a_reserved_at = None, a_reserved_until = None, a_claimed_by = Some 10,
     a_claimed_at = Some 5\<rparr>"

definition custom_db :: db where
  "custom_db = demo_db\<lparr>domains := [platform_domain, custom_domain], addresses := [custom_address]\<rparr>"


section \<open>Who may do what\<close>

definition platform_names :: "db \<Rightarrow> string list" where
  "platform_names d = map d_name (filter (\<lambda>x. d_ownership x = Platform) (domains d))"

lemma platform_names_insert:
  assumes "\<And>i. d_ownership (row i) = UserOwned"
  shows "query_preserves (\<lambda>d. platform_names d = ns) (insert_domain row)"
  using assms by (auto simp: query_preserves_def insert_domain_def platform_names_def Let_def)

lemma platform_names_insert_job: "query_preserves (\<lambda>d. platform_names d = ns) (insert_job ty i)"
  by (simp add: query_preserves_def platform_names_def)

lemma platform_names_update:
  assumes "\<And>x. d_name (f x) = d_name x" and "\<And>x. d_ownership (f x) = d_ownership x"
  shows "query_preserves (\<lambda>d. platform_names d = ns) (update_domain i f)"
proof -
  have "map d_name (filter (\<lambda>x. d_ownership x = Platform) (set_by d_id i f xs)) =
      map d_name (filter (\<lambda>x. d_ownership x = Platform) xs)" for xs
    using assms by (induction xs) auto
  then show ?thesis by (simp add: query_preserves_def update_domain_def platform_names_def)
qed



lemma get_by_id_and_user_ro: "preserves I (get_by_id_and_user i u)"
  unfolding get_by_id_and_user_def by (intro pres_intro)

lemma get_by_id_and_user_Inr:
  assumes "get_by_id_and_user i u w = (Inr x, w')"
  shows "x \<in> set (domains (db w)) \<and> d_id x = i \<and> d_user x = Some u \<and> db w' = db w"
proof -
  from assms have "stmt (select_domain (\<lambda>x. d_id x = i \<and> d_user x = Some u)) w = (Inr x, w')"
    by (auto simp: get_by_id_and_user_def map_err_def split: prod.splits sum.splits)
  then show ?thesis
    by (auto simp: select_domain_def elim!: stmt_InrE split: option.splits dest: find_Some_set)
qed

text \<open>
  Ownership guards verification: starting the verification of a domain the user does not own, or of
  one that is verified already, changes nothing in the tables; and the call gives out a token exactly
  when it stored that token for an unverified domain of the user and queued a DOMAIN_VERIFY job.
\<close>

theorem start_verification_guarded:
  "((\<forall>x \<in> set (domains (db w)). d_id x = i \<and> d_user x = Some u \<longrightarrow> d_verification x = VerVerified) \<longrightarrow>
      db (snd (start_verification rnd i u w)) = db w) \<and>
   (\<forall>x tok w'. start_verification rnd i u w = (Inr (x, Some tok), w') \<longrightarrow>
      tok = base64_encode rnd \<and>
      (\<exists>y \<in> set (domains (db w)). d_id y = i \<and> d_user y = Some u \<and> d_verification y \<noteq> VerVerified) \<and>
      (\<forall>y \<in> set (domains (db w')). d_id y = i \<longrightarrow> d_token y = Some tok \<and> d_verification y = VerVerifying) \<and>
      (\<exists>t. jobs (db w') = jobs (db w) @ [new_job (next_id (db w)) DomainVerify i t]))"
proof (intro conjI allI impI)
  assume v: "\<forall>x \<in> set (domains (db w)). d_id x = i \<and> d_user x = Some u \<longrightarrow> d_verification x = VerVerified"
  obtain r w1 where 1: "get_by_id_and_user i u w = (r, w1)" by force
  then have d: "db w1 = db w" using read_only [OF get_by_id_and_user_ro, of i u w] by simp
  show "db (snd (start_verification rnd i u w)) = db w"
  proof (cases r)
    case (Inr x)
    with 1 v get_by_id_and_user_Inr [of i u w x w1] have "d_verification x = VerVerified" by simp
    with 1 Inr d show ?thesis by (simp add: start_verification_def)
  qed (use 1 d in \<open>simp add: start_verification_def\<close>)
next
  fix x tok w'
  assume "start_verification rnd i u w = (Inr (x, Some tok), w')"
  then obtain y w1 w2 w3 where 1: "get_by_id_and_user i u w = (Inr y, w1)"
    and n: "d_verification y \<noteq> VerVerified" and tok: "tok = base64_encode rnd"
    and 2: "set_verification_token (d_id y) (base64_encode rnd) w1 = (Inr (), w2)"
    and 3: "create_verification_job (d_id y) w2 = (Inr (), w3)"
    and 4: "update_verification_status (d_id y) VerVerifying w3 = (Inr (), w')"
    unfolding start_verification_def Let_def by (auto elim!: seq_InrE split: if_splits)
  note y = get_by_id_and_user_Inr [OF 1]
  from 3 obtain t where "insert_job DomainVerify (d_id y) t (db w2) = (Inr (), db w3)"
    unfolding create_verification_job_def by (rule stmt_InrE)
  then have d3: "db w3 = snd (insert_job DomainVerify (d_id y) t (db w2))" by simp
  note d2 = update_existing_Inr [OF 2 [unfolded set_verification_token_def]]
  note d4 = update_existing_Inr [OF 4 [unfolded update_verification_status_def]]
  show "tok = base64_encode rnd" by (rule tok)
  show "\<exists>y \<in> set (domains (db w)). d_id y = i \<and> d_user y = Some u \<and> d_verification y \<noteq> VerVerified"
    using y n by blast
  show "\<forall>y \<in> set (domains (db w')). d_id y = i \<longrightarrow> d_token y = Some tok \<and> d_verification y = VerVerifying"
    unfolding d4 d3 d2 using y by (auto simp: set_set_by tok)
  show "\<exists>t. jobs (db w') = jobs (db w) @ [new_job (next_id (db w)) DomainVerify i t]"
    unfolding d4 d3 d2 using y by auto
qed

theorem start_verification_guarded_witness:
  "db (snd (start_verification [7, 7] 13 99 (world_of custom_db))) = custom_db \<and>
   db (snd (start_verification [7, 7] 13 10 (world_of custom_db))) = custom_db"
proof -
  have "domains (db (world_of custom_db)) = [platform_domain, custom_domain]"
    "db (world_of custom_db) = custom_db"
    by (simp_all add: custom_db_def world_of_def)
  moreover have "d_id platform_domain = 4" "d_verification custom_domain = VerVerified"
    by (simp_all add: platform_domain_def custom_domain_def)
  ultimately show ?thesis
    using start_verification_guarded [of "world_of custom_db" 13 99 "[7, 7]"]
      start_verification_guarded [of "world_of custom_db" 13 10 "[7, 7]"] by simp
qed

text \<open>
  The verification page never checks the DNS: whatever the resolver would answer, the handler
  leaves the resolver's state and the tables alone and reports the TXT and MX records as not verified.
  (The repository always clears the temporary token that the check depends on.)
\<close>

theorem get_verification_never_checks:
  "case get_verification_handler r user domain_id w of (resp, w') \<Rightarrow>
     remote w' = remote w \<and> db w' = db w \<and>
     (\<forall>c v. resp = Inr (Json c v) \<longrightarrow> \<not> vv_txt_verified v \<and> \<not> vv_mx_verified v \<and>
        vv_record_value v = ''norest-verification=TOKEN_FROM_START_VERIFICATION'')"
proof (cases user; cases domain_id)
  fix u i
  assume "user = Some u" "domain_id = Some i"
  moreover obtain res w1 where 1: "get_by_id_and_user i u w = (res, w1)" by force
  moreover have "db w1 = db w" using read_only [OF get_by_id_and_user_ro, of i u w] 1 by simp
  moreover have "remote w1 = remote w"
    using arg_cong [OF 1, of "\<lambda>p. remote (snd p)"]
    by (simp add: get_by_id_and_user_def map_err_apply)
  ultimately show ?thesis
    by (cases res) (simp_all add: get_verification_handler_def with_ids_def answer_apply
        describe_verification_def verification_view_of_def)
qed (simp_all add: get_verification_handler_def with_ids_def)

definition generous_resolver :: "'s resolver" where
  "generous_resolver = \<lparr>lookup_txt = \<lambda>_ s. (Inr [''norest-verification=tok''], s),
     lookup_mx = \<lambda>_ s. (Inr expected_mx, s)\<rparr>"

theorem get_verification_never_checks_witness:
  "\<exists>c v. fst (get_verification_handler generous_resolver (Some 10) (Some 13) (world_of custom_db)) = Inr (Json c v) \<and>
     \<not> vv_txt_verified v"
proof -
  let ?g = "get_verification_handler generous_resolver (Some 10) (Some 13) (world_of custom_db)"
  have "case fst ?g of Inl e \<Rightarrow> False | Inr (Json c v) \<Rightarrow> True | Inr _ \<Rightarrow> False" by code_simp
  then obtain c v where "fst ?g = Inr (Json c v)" by (auto split: sum.splits response.splits)
  with get_verification_never_checks [where r = generous_resolver and user = "Some 10" and domain_id = "Some 13" and w = "world_of custom_db"]
  show ?thesis by (cases ?g) auto
qed
end
