(* ===== verification/Addresses.thy ===== *)
theory Addresses
  imports Domains
begin

text \<open>
  Addresses and their reservation: \<^verbatim>\<open>internal/addresses\<close> and the SQL functions of migration 011, each a
  query that runs atomically. Rows another transaction has locked are an argument of the clean-up,
  which skips them.
\<close>

section \<open>Local parts\<close>

definition local_char :: "char \<Rightarrow> bool" where
  "local_char c = (let n = of_char c :: nat in
     97 \<le> n \<and> n \<le> 122 \<or> 48 \<le> n \<and> n \<le> 57 \<or> c \<in> {CHR ''.'', CHR ''-'', CHR ''+'', CHR ''_''})"

definition normalize_local_part :: "string \<Rightarrow> goerr + string" where
  "normalize_local_part local_part =
     (let lp = trim_space local_part; lp = to_lower lp in
      if lp = '''' then Inl (Sentinel ErrInvalidLocalPart)
      else if has_prefix lp ''.'' \<or> has_suffix lp ''.'' then Inl (Sentinel ErrInvalidLocalPart)
      else if str_contains lp ''..'' then Inl (Sentinel ErrInvalidLocalPart)
      else if \<not> list_all local_char lp then Inl (Sentinel ErrInvalidLocalPart)
      else Inr lp)"


section \<open>SQL functions\<close>

definition at_address :: "uuid \<Rightarrow> string \<Rightarrow> address \<Rightarrow> bool" where
  "at_address dm lp a = (a_domain a = dm \<and> a_local a = lp)"

text \<open>\<^verbatim>\<open>reserved_until <= NOW()\<close> and \<^verbatim>\<open>reserved_until > NOW()\<close>: neither holds of NULL.\<close>

definition expired :: "time \<Rightarrow> address \<Rightarrow> bool" where
  "expired t a = (case a_reserved_until a of None \<Rightarrow> False | Some x \<Rightarrow> x \<le> t)"

definition unexpired :: "time \<Rightarrow> address \<Rightarrow> bool" where
  "unexpired t a = (case a_reserved_until a of None \<Rightarrow> False | Some x \<Rightarrow> x > t)"

definition check_address_available :: "uuid \<Rightarrow> string \<Rightarrow> bool query" where
  "check_address_available dm lp = (\<lambda>t d.
     (Inr (if \<exists>b \<in> set (blocked d). bl_domain b = dm \<and> bl_local b = lp then False
           else if \<exists>a \<in> set (addresses d). at_address dm lp a \<and> a_status a = Claimed then False
           else if \<exists>a \<in> set (addresses d). at_address dm lp a \<and> a_status a = Reserved \<and> unexpired t a
           then False else True), d))"

definition reserved_row :: "uuid \<Rightarrow> time \<Rightarrow> time \<Rightarrow> address \<Rightarrow> address" where
  "reserved_row u t until a = a\<lparr>a_status := Reserved, a_reserved_by := Some u,
     a_reserved_at := Some t, a_reserved_until := Some until\<rparr>"

definition new_address :: "uuid \<Rightarrow> uuid \<Rightarrow> string \<Rightarrow> address" where
  "new_address i dm lp = \<lparr>a_id = i, a_domain = dm, a_local = lp, a_status = Reserved,
     a_reserved_by = None, a_reserved_at = None, a_reserved_until = None, a_claimed_by = None,
     a_claimed_at = None\<rparr>"

definition reserve_address :: "uuid \<Rightarrow> string \<Rightarrow> uuid \<Rightarrow> nat \<Rightarrow> uuid query" where
  "reserve_address dm lp u hours = (\<lambda>t d.
     let until = t + int hours * hour in
     case find (at_address dm lp) (addresses d) of
       None \<Rightarrow>
         if \<forall>x \<in> set (domains d). d_id x \<noteq> dm
         then (Inl (foreign_key_violation ''addresses'' ''addresses_domain_id_fkey''), d)
         else (Inr (next_id d),
               d\<lparr>addresses := addresses d @ [reserved_row u t until (new_address (next_id d) dm lp)],
                 next_id := next_id d + 1\<rparr>)
     | Some a \<Rightarrow>
         if a_status a = Available \<or> a_status a = Reserved \<and> expired t a
         then (Inr (a_id a), d\<lparr>addresses := set_by a_id (a_id a) (reserved_row u t until) (addresses d)\<rparr>)
         else (Inl (raise_exception ''Address not available''), d))"

definition claimed_row :: "uuid \<Rightarrow> time \<Rightarrow> address \<Rightarrow> address" where
  "claimed_row u t a = a\<lparr>a_status := Claimed, a_claimed_by := Some u, a_claimed_at := Some t,
     a_reserved_by := None, a_reserved_at := None, a_reserved_until := None\<rparr>"

definition claim_address :: "uuid \<Rightarrow> uuid \<Rightarrow> bool query" where
  "claim_address i u = (\<lambda>t d.
     case lookup_by a_id i (addresses d) of
       None \<Rightarrow> (Inl (raise_exception ''Address not found''), d)
     | Some a \<Rightarrow>
         if a_status a = Claimed then (Inl (raise_exception ''Address already claimed''), d)
         else if a_status a = Blocked then (Inl (raise_exception ''Address is blocked''), d)
         else if a_status a = Reserved \<and> a_reserved_by a \<noteq> None \<and> a_reserved_by a \<noteq> Some u \<and> \<not> expired t a
         then (Inl (raise_exception ''Address reserved by another user''), d)
         else (Inr True, d\<lparr>addresses := set_by a_id i (claimed_row u t) (addresses d)\<rparr>))"

definition freed_row :: "address \<Rightarrow> address" where
  "freed_row a = a\<lparr>a_status := Available, a_reserved_by := None, a_reserved_at := None,
     a_reserved_until := None\<rparr>"

definition clean_expired_reservations :: "uuid list \<Rightarrow> nat query" where
  "clean_expired_reservations locked = (\<lambda>t d.
     let P = (\<lambda>a. a_status a = Reserved \<and> expired t a \<and> a_id a \<notin> set locked) in
     (Inr (count_where P (addresses d)), d\<lparr>addresses := update_where P freed_row (addresses d)\<rparr>))"


section \<open>Repository\<close>

definition select_address :: "(address \<Rightarrow> bool) \<Rightarrow> address query" where
  "select_address P = (\<lambda>t d.
     (case find P (addresses d) of None \<Rightarrow> Inl (Sentinel ErrNoRows) | Some a \<Rightarrow> Inr a, d))"

definition address_by_id :: "uuid \<Rightarrow> ('s, address) act" where
  "address_by_id i = map_err (no_rows_to (Plain ''address not found'')) (stmt (select_address (\<lambda>a. a_id a = i)))"

definition address_by_domain_and_local_part :: "uuid \<Rightarrow> string \<Rightarrow> ('s, address) act" where
  "address_by_domain_and_local_part dm lp = map_err (no_rows_to (Plain ''address not found''))
     (stmt (select_address (\<lambda>a. a_domain a = dm \<and> to_lower (a_local a) = to_lower lp)))"

definition insert_address :: "uuid \<Rightarrow> string \<Rightarrow> address query" where
  "insert_address dm lp = (\<lambda>t d.
     if \<exists>a \<in> set (addresses d). at_address dm lp a
     then (Inl (unique_violation ''idx_addresses_domain_local_unique''), d)
     else if \<forall>x \<in> set (domains d). d_id x \<noteq> dm
     then (Inl (foreign_key_violation ''addresses'' ''addresses_domain_id_fkey''), d)
     else let a = new_address (next_id d) dm lp in
          (Inr a, d\<lparr>addresses := addresses d @ [a], next_id := next_id d + 1\<rparr>))"

definition new_mailbox :: "uuid \<Rightarrow> uuid \<Rightarrow> mailbox" where
  "new_mailbox i a = \<lparr>m_id = i, m_address = a, m_stalwart = None, m_status = MbProvisioning,
     m_jmap_state = None, m_checkpoint = None, m_synced_at = None\<rparr>"

definition insert_mailbox :: "uuid \<Rightarrow> uuid query" where
  "insert_mailbox a = (\<lambda>t d.
     if \<forall>r \<in> set (addresses d). a_id r \<noteq> a
     then (Inl (foreign_key_violation ''mailboxes'' ''mailboxes_address_id_fkey''), d)
     else (Inr (next_id d), d\<lparr>mailboxes := mailboxes d @ [new_mailbox (next_id d) a],
                              next_id := next_id d + 1\<rparr>))"

definition address_insert_error :: "goerr \<Rightarrow> goerr" where
  "address_insert_error e =
     (if err_is e ErrNoRows \<or> str_contains (err_text e) ''idx_addresses_domain_local_unique''
      then Sentinel ErrAddressExists else e)"

definition create_address_tx :: "(goerr \<Rightarrow> bool) \<Rightarrow> uuid \<Rightarrow> string \<Rightarrow> ('s, address) act" where
  "create_address_tx safe dm lp = retry_tx safe (
     seq (map_err address_insert_error (stmt (insert_address dm lp))) (\<lambda>a.
     seq (stmt (insert_mailbox (a_id a))) (\<lambda>m.
     seq (stmt (insert_job AccountCreate m)) (\<lambda>_.
     ret (Commit a))))) 0"

text \<open>Any error of the reservation is reported as \<^verbatim>\<open>ErrAddressExists\<close>.\<close>

definition repo_reserve_address :: "uuid \<Rightarrow> string \<Rightarrow> uuid \<Rightarrow> nat \<Rightarrow> ('s, address) act" where
  "repo_reserve_address dm lp u hours =
     (let normalized = to_lower (trim_space lp) in
      seq (map_err (\<lambda>_. Sentinel ErrAddressExists) (stmt (reserve_address dm normalized u hours)))
        address_by_id)"

definition repo_claim_address :: "uuid \<Rightarrow> uuid \<Rightarrow> ('s, unit) act" where
  "repo_claim_address i u = seq (stmt (claim_address i u)) (\<lambda>_. ret ())"

definition repo_check_availability :: "uuid \<Rightarrow> string \<Rightarrow> ('s, bool) act" where
  "repo_check_availability dm lp = stmt (check_address_available dm lp)"

text \<open>
  \<^verbatim>\<open>ON CONFLICT (domain_id, lower(local_part))\<close> needs a unique index on that expression; the schema has
  one on \<^verbatim>\<open>(domain_id, local_part)\<close> only, so the server refuses the statement.
\<close>

definition block_address :: "uuid \<Rightarrow> string \<Rightarrow> string \<Rightarrow> ('s, unit) act" where
  "block_address dm lp reason = stmt (\<lambda>t d.
     (Inl (pg_error ''there is no unique or exclusion constraint matching the ON CONFLICT specification'' ''42P10''), d))"

definition unblock_address :: "uuid \<Rightarrow> string \<Rightarrow> ('s, unit) act" where
  "unblock_address dm lp =
     (let P = (\<lambda>b. bl_domain b = dm \<and> to_lower (bl_local b) = to_lower lp) in
      seq (stmt (\<lambda>t d. (Inr (count_where P (blocked d)), d\<lparr>blocked := delete_where P (blocked d)\<rparr>))) (\<lambda>n.
      if n = 0 then fail (Plain ''address not found in blocked list'') else ret ()))"

definition clean_reservations :: "uuid list \<Rightarrow> ('s, nat) act" where
  "clean_reservations locked = stmt (clean_expired_reservations locked)"

definition create_mailbox_for_address :: "uuid \<Rightarrow> ('s, unit) act" where
  "create_mailbox_for_address a = transaction (
     seq (stmt (insert_mailbox a)) (\<lambda>m.
     seq (stmt (insert_job AccountCreate m)) (\<lambda>_.
     ret (Commit ()))))"

definition list_by_domain :: "uuid \<Rightarrow> ('s, address list) act" where
  "list_by_domain dm = stmt (\<lambda>t d. (Inr (filter (\<lambda>a. a_domain a = dm) (addresses d)), d))"

section \<open>Service\<close>

text \<open>The checks that creating and reserving share: open domain, and for a user's domain its owner and verification.\<close>

definition check_domain_open :: "uuid \<Rightarrow> domain \<Rightarrow> ('s, unit) act" where
  "check_domain_open u x =
     (if d_status x \<noteq> DomActive then fail (Plain ''domain is not active'')
      else if \<not> d_registration x then fail (Plain ''domain registration is not enabled'')
      else if d_ownership x = UserOwned then
        if d_user x = None \<or> d_user x \<noteq> Some u then fail (Plain ''domain does not belong to the user'')
        else if d_verification x \<noteq> VerVerified
        then fail (Plain ''domain must be verified before registering addresses'')
        else ret ()
      else ret ())"

definition service_create_mailbox :: "uuid \<Rightarrow> uuid \<Rightarrow> ('s, address) act" where
  "service_create_mailbox i u =
     seq (can_create_mailbox u) (\<lambda>_.
     seq (create_mailbox_for_address i) (\<lambda>_.
     address_by_id i))"

definition create_address :: "uuid \<Rightarrow> uuid \<Rightarrow> string \<Rightarrow> ('s, address) act" where
  "create_address u dm lp =
     seq (get_by_id dm) (\<lambda>x.
     seq (check_domain_open u x) (\<lambda>_.
     seq (lift (normalize_local_part lp)) (\<lambda>normalized.
     seq (can_create_address u) (\<lambda>_.
     seq (can_create_mailbox u) (\<lambda>_.
     seq (repo_reserve_address dm normalized u 2) (\<lambda>a.
     service_create_mailbox (a_id a) u))))))"

definition service_reserve_address :: "uuid \<Rightarrow> uuid \<Rightarrow> string \<Rightarrow> ('s, address) act" where
  "service_reserve_address u dm lp =
     seq (get_by_id dm) (\<lambda>x.
     seq (check_domain_open u x) (\<lambda>_.
     seq (lift (normalize_local_part lp)) (\<lambda>normalized.
     seq (can_create_address u) (\<lambda>_.
     repo_reserve_address dm normalized u 2))))"

definition service_claim_address :: "uuid \<Rightarrow> uuid \<Rightarrow> ('s, unit) act" where
  "service_claim_address i u =
     seq (repo_claim_address i u) (\<lambda>_.
     seq (service_create_mailbox i u) (\<lambda>_. ret ()))"

definition check_availability :: "uuid \<Rightarrow> string \<Rightarrow> ('s, bool) act" where
  "check_availability dm lp =
     seq (get_by_id dm) (\<lambda>x.
     if d_status x \<noteq> DomActive then ret False
     else if \<not> d_registration x then ret False
     else if d_ownership x = UserOwned \<and> d_verification x \<noteq> VerVerified then ret False
     else seq (lift (normalize_local_part lp)) (\<lambda>normalized.
       repo_check_availability dm normalized))"

definition list_addresses :: "uuid \<Rightarrow> uuid \<Rightarrow> ('s, address list) act" where
  "list_addresses u dm =
     seq (get_by_id dm) (\<lambda>x.
     if d_ownership x = UserOwned \<and> (d_user x = None \<or> d_user x \<noteq> Some u)
     then fail (Plain ''domain does not belong to the user'')
     else list_by_domain dm)"

definition get_address_by_domain_and_local_part :: "uuid \<Rightarrow> string \<Rightarrow> ('s, address) act" where
  "get_address_by_domain_and_local_part dm lp =
     seq (lift (normalize_local_part lp)) (\<lambda>normalized. address_by_domain_and_local_part dm normalized)"


section \<open>Handlers\<close>

definition check_availability_handler :: "uuid option \<Rightarrow> string \<Rightarrow> ('s, bool response) act" where
  "check_availability_handler dm lp =
     (case dm of None \<Rightarrow> ret (ErrorJson 400 ''invalid domain id'')
      | Some i \<Rightarrow>
          if lp = '''' then ret (ErrorJson 400 ''local part is required'')
          else answer (check_availability i lp)
            (\<lambda>e. ErrorJson 500 ''failed to check availability'') (Json 200))"

definition address_error :: "goerr \<Rightarrow> 'a response" where
  "address_error e =
     (if e = Sentinel ErrInvalidLocalPart then ErrorJson 400 (err_text e)
      else if e = Sentinel ErrAddressExists then ErrorJson 409 (err_text e)
      else if e = Sentinel ErrDomainNotFound then ErrorJson 404 ''domain not found''
      else if err_text e = ''quota exceeded'' then ErrorJson 403 (err_text e)
      else if err_text e = ''account suspended'' then ErrorJson 403 (err_text e)
      else if err_text e = ''domain does not belong to the user'' then ErrorJson 403 (err_text e)
      else if err_text e = ''domain must be verified before registering addresses''
      then ErrorJson 403 (err_text e)
      else ErrorJson 500 ''internal server error'')"

definition with_request ::
  "uuid option \<Rightarrow> uuid option \<Rightarrow> 'b option \<Rightarrow> (uuid \<Rightarrow> uuid \<Rightarrow> 'b \<Rightarrow> ('s, 'a response) act) \<Rightarrow> ('s, 'a response) act" where
  "with_request user dm body k = with_ids user dm (\<lambda>u i.
     case body of None \<Rightarrow> ret (ErrorJson 400 ''invalid request body'') | Some b \<Rightarrow> k u i b)"

definition create_address_handler ::
  "uuid option \<Rightarrow> uuid option \<Rightarrow> string option \<Rightarrow> ('s, address response) act" where
  "create_address_handler user dm body =
     with_request user dm body (\<lambda>u i lp. answer (create_address u i lp) address_error (Json 201))"

definition reserve_address_handler ::
  "uuid option \<Rightarrow> uuid option \<Rightarrow> string option \<Rightarrow> ('s, address response) act" where
  "reserve_address_handler user dm body =
     with_request user dm body (\<lambda>u i lp. answer (service_reserve_address u i lp) address_error (Json 201))"

definition claim_error :: "goerr \<Rightarrow> 'a response" where
  "claim_error e =
     (if err_text e = ''address not found'' then ErrorJson 404 ''address not found''
      else if err_text e = ''address already claimed'' then ErrorJson 409 ''address already claimed''
      else if err_text e = ''address is blocked'' then ErrorJson 403 ''address is blocked''
      else if err_text e = ''address reserved by another user''
      then ErrorJson 403 ''address reserved by another user''
      else ErrorJson 500 ''internal server error'')"

definition claim_address_handler :: "uuid option \<Rightarrow> uuid option \<Rightarrow> ('s, string response) act" where
  "claim_address_handler user addr =
     (case user of None \<Rightarrow> ret (ErrorJson 401 ''unauthorized'')
      | Some u \<Rightarrow>
        (case addr of None \<Rightarrow> ret (ErrorJson 400 ''invalid address id'')
         | Some i \<Rightarrow> answer (service_claim_address i u) claim_error (\<lambda>_. Json 200 ''claimed'')))"

definition list_addresses_handler :: "uuid option \<Rightarrow> uuid option \<Rightarrow> ('s, address list response) act" where
  "list_addresses_handler user dm =
     with_ids user dm (\<lambda>u i. answer (list_addresses u i) lookup_error (Json 200))"

section \<open>The grammar of local parts\<close>

definition local_atom :: "string \<Rightarrow> bool" where
  "local_atom s = (s \<noteq> '''' \<and> list_all (\<lambda>c. local_char c \<and> c \<noteq> CHR ''.'') s)"

lemma split_on_nonempty [simp]: "split_on c s \<noteq> []"
  by (cases s) (auto split: list.splits)

lemma split_on_tl:
  "list_all (\<lambda>p. p \<noteq> []) (tl (split_on c s)) \<longleftrightarrow>
     \<not> str_contains s [c, c] \<and> (s \<noteq> [] \<longrightarrow> last s \<noteq> c)"
proof (induction s)
  case (Cons x xs)
  have hd: "hd (split_on c xs) = [] \<longleftrightarrow> xs = [] \<or> hd xs = c"
    by (cases xs) (auto split: list.splits)
  obtain y ys where y: "split_on c xs = y # ys" by (cases "split_on c xs") auto
  with Cons hd show ?case
    by (cases xs) (auto simp: has_prefix_def)
qed simp

lemma split_on_parts:
  "list_all (\<lambda>p. p \<noteq> []) (split_on c s) \<longleftrightarrow>
     s \<noteq> [] \<and> hd s \<noteq> c \<and> last s \<noteq> c \<and> \<not> str_contains s [c, c]"
proof -
  obtain y ys where y: "split_on c s = y # ys" by (cases "split_on c s") auto
  moreover have "y = [] \<longleftrightarrow> s = [] \<or> hd s = c"
    using y by (cases s) (auto split: list.splits if_splits)
  ultimately show ?thesis using split_on_tl [of c s] by auto
qed

lemma split_on_chars:
  "P c \<Longrightarrow> list_all (list_all (\<lambda>x. P x \<and> x \<noteq> c)) (split_on c s) \<longleftrightarrow> list_all P s"
  by (induction s) (auto split: list.splits)

lemma list_all_and: "list_all (\<lambda>x. P x \<and> Q x) xs \<longleftrightarrow> list_all P xs \<and> list_all Q xs"
  by (induction xs) auto

lemma has_prefix_dot: "has_prefix s [c] \<longleftrightarrow> s \<noteq> [] \<and> hd s = c"
  by (cases s) (auto simp: has_prefix_def)

text \<open>
  A local part is accepted exactly when, with the white space around it removed and in lower case,
  it is a sequence of one or more non-empty atoms of letters, digits and \<^verbatim>\<open>- + _\<close> separated by single
  dots; that string is then its normal form, and normalising again changes nothing. Everything else is
  refused as an invalid local part.
\<close>

theorem normalize_local_part_grammar:
  "normalize_local_part s =
     (let lp = to_lower (trim_space s) in
      if list_all local_atom (split_on (CHR ''.'') lp) then Inr lp else Inl (Sentinel ErrInvalidLocalPart)) \<and>
   (case normalize_local_part s of Inl e \<Rightarrow> True | Inr lp \<Rightarrow> normalize_local_part lp = Inr lp)"
proof
  have dot: "local_char (CHR ''.'')" by (simp add: local_char_def)
  have atoms: "list_all local_atom (split_on (CHR ''.'') lp) \<longleftrightarrow>
      lp \<noteq> [] \<and> hd lp \<noteq> CHR ''.'' \<and> last lp \<noteq> CHR ''.'' \<and> \<not> str_contains lp ''..'' \<and> list_all local_char lp"
    for lp
  proof -
    have "list_all local_atom (split_on (CHR ''.'') lp) \<longleftrightarrow>
        list_all (\<lambda>p. p \<noteq> []) (split_on (CHR ''.'') lp) \<and>
        list_all (list_all (\<lambda>x. local_char x \<and> x \<noteq> CHR ''.'')) (split_on (CHR ''.'') lp)"
      unfolding local_atom_def by (rule list_all_and)
    then show ?thesis using split_on_parts [of "CHR ''.''" lp] split_on_chars [of local_char, OF dot] by blast
  qed
  show norm: "normalize_local_part s =
     (let lp = to_lower (trim_space s) in
      if list_all local_atom (split_on (CHR ''.'') lp) then Inr lp else Inl (Sentinel ErrInvalidLocalPart))"
    for s
    unfolding normalize_local_part_def Let_def atoms has_prefix_dot has_suffix_dot by auto
  show "case normalize_local_part s of Inl e \<Rightarrow> True | Inr lp \<Rightarrow> normalize_local_part lp = Inr lp"
  proof (cases "normalize_local_part s")
    case (Inr lp)
    with norm [of s] have lp: "lp = to_lower (trim_space s)"
      and ok: "list_all local_atom (split_on (CHR ''.'') lp)" by (auto simp: Let_def split: if_splits)
    have "to_lower (trim_space lp) = lp" by (simp add: lp trim_space_to_lower)
    with Inr norm [of lp] ok show ?thesis by (simp add: Let_def)
  qed simp
qed

section \<open>Interleavings of address operations\<close>

text \<open>
  The worker's update of an address when it provisions its mailbox (\<^verbatim>\<open>processAccountCreate\<close>).
\<close>

definition provisioned_row :: "time \<Rightarrow> address \<Rightarrow> address" where
  "provisioned_row t a = a\<lparr>a_status := Claimed, a_claimed_at := Some t,
     a_claimed_by := (case a_claimed_by a of None \<Rightarrow> a_reserved_by a | Some u \<Rightarrow> Some u),
     a_reserved_by := None, a_reserved_at := None, a_reserved_until := None\<rparr>"

definition provision_address :: "uuid \<Rightarrow> unit query" where
  "provision_address m = (\<lambda>t d.
     case lookup_by m_id m (mailboxes d) of
       None \<Rightarrow> (Inr (), d)
     | Some mb \<Rightarrow> (Inr (), d\<lparr>addresses := set_by a_id (m_address mb) (provisioned_row t) (addresses d)\<rparr>))"

datatype address_call =
    AReserve uuid string uuid nat
  | AClaim uuid uuid
  | AClean "uuid list"
  | AProvision uuid
  | AInsert uuid string
  | ADelete uuid uuid

definition result_id :: "('a \<Rightarrow> uuid option) \<Rightarrow> 'a query \<Rightarrow> uuid option query" where
  "result_id f q = (\<lambda>t d. case q t d of (Inl e, d') \<Rightarrow> (Inl e, d') | (Inr a, d') \<Rightarrow> (Inr (f a), d'))"

fun address_query :: "address_call \<Rightarrow> uuid option query" where
  "address_query (AReserve dm lp u h) = result_id Some (reserve_address dm lp u h)"
| "address_query (AClaim i u) = result_id (\<lambda>_. Some i) (claim_address i u)"
| "address_query (AClean l) = result_id (\<lambda>_. None) (clean_expired_reservations l)"
| "address_query (AProvision m) = result_id (\<lambda>_. None) (provision_address m)"
| "address_query (AInsert dm lp) = result_id (\<lambda>a. Some (a_id a)) (insert_address dm lp)"
| "address_query (ADelete i u) = result_id (\<lambda>_. None) (delete_domains (\<lambda>x. d_id x = i \<and> d_user x = Some u))"

type_synonym address_event = "time \<times> address_call \<times> (goerr + uuid option)"

text \<open>The statements the server executes, in their order, at times that do not decrease.\<close>

inductive address_run :: "time \<Rightarrow> db \<Rightarrow> address_event list \<Rightarrow> db \<Rightarrow> bool" where
  nil: "address_run t d [] d"
| cons: "t \<le> t' \<Longrightarrow> address_query c t' d = (r, d1) \<Longrightarrow> address_run t' d1 es d' \<Longrightarrow>
    address_run t d ((t', c, r) # es) d'"

inductive_simps address_run_Nil [simp]: "address_run t d [] d'"
inductive_simps address_run_Cons: "address_run t d (e # es) d'"

lemma address_run_append:
  "address_run t d (xs @ ys) d' \<longleftrightarrow>
     (\<exists>d1. address_run t d xs d1 \<and> address_run (if xs = [] then t else fst (last xs)) d1 ys d')"
  by (induction xs arbitrary: t d) (force simp: address_run_Cons)+

lemma address_run_times: "address_run t d es d' \<Longrightarrow> \<forall>e \<in> set es. t \<le> fst e"
  by (induction rule: address_run.induct) auto

fun deletes_domain :: "uuid \<Rightarrow> address_call \<Rightarrow> bool" where
  "deletes_domain dm (ADelete i u) = (i = dm)"
| "deletes_domain dm _ = False"

definition addresses_ok :: "db \<Rightarrow> bool" where
  "addresses_ok d \<longleftrightarrow> unique_on a_id (addresses d) \<and>
     unique_on (\<lambda>a. (a_domain a, a_local a)) (addresses d) \<and> (\<forall>a \<in> set (addresses d). a_id a < next_id d)"

text \<open>What every statement does to the table: rewrite rows in place, append one new row, or delete rows.\<close>

definition keeps_keys :: "(address \<Rightarrow> address) \<Rightarrow> bool" where
  "keeps_keys f \<longleftrightarrow> (\<forall>a. a_id (f a) = a_id a \<and> a_domain (f a) = a_domain a \<and> a_local (f a) = a_local a)"

lemma keeps_keys_rows [simp]:
  "keeps_keys (reserved_row u t x)" "keeps_keys (claimed_row u t)" "keeps_keys freed_row"
  "keeps_keys (provisioned_row t)"
  by (simp_all add: keeps_keys_def reserved_row_def claimed_row_def freed_row_def provisioned_row_def)

lemma addresses_ok_update:
  assumes "addresses_ok d" and "keeps_keys f"
  shows "addresses_ok (d\<lparr>addresses := update_where P f (addresses d)\<rparr>)"
  using assms
  by (auto simp: addresses_ok_def keeps_keys_def unique_on_update_where set_update_where)

lemma addresses_ok_set_by:
  "addresses_ok d \<Longrightarrow> keeps_keys f \<Longrightarrow> addresses_ok (d\<lparr>addresses := set_by a_id i f (addresses d)\<rparr>)"
  by (simp add: set_by_def addresses_ok_update)

lemma addresses_ok_append:
  assumes "addresses_ok d" and "a_id a = next_id d" and "\<forall>b \<in> set (addresses d). \<not> at_address (a_domain a) (a_local a) b"
  shows "addresses_ok (d\<lparr>addresses := addresses d @ [a], next_id := next_id d + 1\<rparr>)"
proof -
  have "\<forall>b \<in> set (addresses d). a_id b \<noteq> a_id a" using assms(1,2) by (fastforce simp: addresses_ok_def)
  with assms show ?thesis
    by (auto simp: addresses_ok_def unique_on_snoc at_address_def less_Suc_eq)
qed

lemma find_at_address_None: "find (at_address dm lp) xs = None \<Longrightarrow> \<forall>b \<in> set xs. \<not> at_address dm lp b"
  by (simp add: find_None_iff_all)

lemma reserve_cases:
  assumes "reserve_address dm lp u h t d = (r, d')"
  obtains (failed) e where "r = Inl e" "d' = d"
  | (inserted) "r = Inr (next_id d)" "\<forall>b \<in> set (addresses d). \<not> at_address dm lp b"
      "\<exists>x \<in> set (domains d). d_id x = dm"
      "d' = d\<lparr>addresses := addresses d @ [reserved_row u t (t + int h * hour) (new_address (next_id d) dm lp)],
              next_id := next_id d + 1\<rparr>"
  | (taken) a where "a \<in> set (addresses d)" "at_address dm lp a" "r = Inr (a_id a)"
      "a_status a = Available \<or> a_status a = Reserved \<and> expired t a"
      "d' = d\<lparr>addresses := set_by a_id (a_id a) (reserved_row u t (t + int h * hour)) (addresses d)\<rparr>"
proof (cases "find (at_address dm lp) (addresses d)")
  case None
  with assms failed inserted find_at_address_None [OF None] show thesis
    by (auto simp: reserve_address_def Let_def split: if_splits)
next
  case (Some a)
  with assms failed taken [of a] find_Some_set [OF Some] show thesis
    by (auto simp: reserve_address_def Let_def split: if_splits)
qed

lemma claim_cases:
  assumes "claim_address i u t d = (r, d')"
  obtains (failed) e where "r = Inl e" "d' = d"
  | (claimed) a where "lookup_by a_id i (addresses d) = Some a" "r = Inr True"
      "a_status a = Available \<or> a_status a = Reserved \<and>
         (a_reserved_by a = None \<or> a_reserved_by a = Some u \<or> expired t a)"
      "d' = d\<lparr>addresses := set_by a_id i (claimed_row u t) (addresses d)\<rparr>"
proof (cases "lookup_by a_id i (addresses d)")
  case None
  with assms failed show thesis by (auto simp: claim_address_def)
next
  case (Some a)
  let ?bad = "a_status a = Claimed \<or> a_status a = Blocked \<or>
    (a_status a = Reserved \<and> a_reserved_by a \<noteq> None \<and> a_reserved_by a \<noteq> Some u \<and> \<not> expired t a)"
  show thesis
  proof (cases ?bad)
    case True
    then have "\<exists>e. claim_address i u t d = (Inl e, d)" using Some by (auto simp: claim_address_def)
    with assms failed show thesis by auto
  next
    case False
    then have "claim_address i u t d = (Inr True, d\<lparr>addresses := set_by a_id i (claimed_row u t) (addresses d)\<rparr>)"
      using Some by (simp add: claim_address_def)
    moreover have "a_status a = Available \<or> a_status a = Reserved \<and>
        (a_reserved_by a = None \<or> a_reserved_by a = Some u \<or> expired t a)"
      using False by (cases "a_status a") auto
    ultimately show thesis using claimed [OF Some] assms by simp
  qed
qed

lemma insert_cases:
  assumes "insert_address dm lp t d = (r, d')"
  obtains (failed) e where "r = Inl e" "d' = d"
  | (inserted) "r = Inr (new_address (next_id d) dm lp)" "\<forall>b \<in> set (addresses d). \<not> at_address dm lp b"
      "d' = d\<lparr>addresses := addresses d @ [new_address (next_id d) dm lp], next_id := next_id d + 1\<rparr>"
proof (cases "(\<exists>a \<in> set (addresses d). at_address dm lp a) \<or> (\<forall>x \<in> set (domains d). d_id x \<noteq> dm)")
  case True
  then have "\<exists>e. insert_address dm lp t d = (Inl e, d)" by (auto simp: insert_address_def)
  with assms failed show thesis by auto
next
  case False
  then have "insert_address dm lp t d = (Inr (new_address (next_id d) dm lp),
      d\<lparr>addresses := addresses d @ [new_address (next_id d) dm lp], next_id := next_id d + 1\<rparr>)"
    by (simp add: insert_address_def Let_def)
  with assms inserted False show thesis by simp
qed

lemma row_keys [simp]:
  "a_id (reserved_row u t x a) = a_id a" "a_domain (reserved_row u t x a) = a_domain a"
  "a_local (reserved_row u t x a) = a_local a" "a_id (new_address i dm lp) = i"
  "a_domain (new_address i dm lp) = dm" "a_local (new_address i dm lp) = lp"
  by (simp_all add: reserved_row_def new_address_def)

lemma result_id_snd: "snd (result_id f q t d) = snd (q t d)"
  by (simp add: result_id_def split: prod.splits sum.splits)

lemma address_query_ok: "addresses_ok d \<Longrightarrow> addresses_ok (snd (address_query c t d))"
proof (cases c)
  case (AReserve dm lp u h)
  assume ok: "addresses_ok d"
  obtain r d' where q: "reserve_address dm lp u h t d = (r, d')" by force
  then have "addresses_ok d'"
    by (cases rule: reserve_cases)
      (simp_all add: ok addresses_ok_set_by addresses_ok_append [OF ok, unfolded Suc_eq_plus1 [symmetric]])
  with q AReserve show ?thesis by (simp add: result_id_snd)
next
  case (AClaim i u)
  assume ok: "addresses_ok d"
  obtain r d' where q: "claim_address i u t d = (r, d')" by force
  then have "addresses_ok d'"
    by (cases rule: claim_cases) (simp_all add: ok addresses_ok_set_by)
  with q AClaim show ?thesis by (simp add: result_id_snd)
next
  case (AInsert dm lp)
  assume ok: "addresses_ok d"
  obtain r d' where q: "insert_address dm lp t d = (r, d')" by force
  then have "addresses_ok d'"
    by (cases rule: insert_cases)
      (simp_all add: ok addresses_ok_append [OF ok, unfolded Suc_eq_plus1 [symmetric]])
  with q AInsert show ?thesis by (simp add: result_id_snd)
next
  case (ADelete i u)
  assume "addresses_ok d"
  then show ?thesis
    by (simp add: ADelete result_id_snd delete_domains_def Let_def addresses_ok_def unique_on_delete_where
        set_delete_where)
qed (auto simp: result_id_snd clean_expired_reservations_def provision_address_def Let_def
    addresses_ok_update addresses_ok_set_by split: option.splits)

text \<open>\<open>row_at dm lp Q d\<close>: the address exists and its row satisfies \<open>Q\<close>.\<close>

definition row_at :: "uuid \<Rightarrow> string \<Rightarrow> (address \<Rightarrow> bool) \<Rightarrow> db \<Rightarrow> bool" where
  "row_at dm lp Q d \<longleftrightarrow> (\<exists>a \<in> set (addresses d). at_address dm lp a \<and> Q a)"

lemma row_at_update:
  assumes "row_at dm lp Q d" and "keeps_keys f"
    and "\<And>a. a \<in> set (addresses d) \<Longrightarrow> at_address dm lp a \<Longrightarrow> Q a \<Longrightarrow> P a \<Longrightarrow> Q (f a)"
  shows "row_at dm lp Q (d\<lparr>addresses := update_where P f (addresses d)\<rparr>)"
proof -
  from assms(1) obtain a where a: "a \<in> set (addresses d)" "at_address dm lp a" "Q a"
    by (auto simp: row_at_def)
  let ?b = "if P a then f a else a"
  have "?b \<in> set (update_where P f (addresses d))" using a(1) by (auto simp: set_update_where)
  moreover have "at_address dm lp ?b" using a(2) assms(2) by (simp add: at_address_def keeps_keys_def)
  moreover have "Q ?b" using a assms(3) by simp
  ultimately show ?thesis unfolding row_at_def by auto
qed

lemma row_at_set_by:
  assumes "row_at dm lp Q d" and "keeps_keys f"
    and "\<And>a. a \<in> set (addresses d) \<Longrightarrow> at_address dm lp a \<Longrightarrow> Q a \<Longrightarrow> a_id a = i \<Longrightarrow> Q (f a)"
  shows "row_at dm lp Q (d\<lparr>addresses := set_by a_id i f (addresses d)\<rparr>)"
  unfolding set_by_def by (rule row_at_update [OF assms(1,2)]) (rule assms(3))

lemma address_query_row_at:
  assumes ok: "addresses_ok d" and row: "row_at dm lp Q d" and "\<not> deletes_domain dm c"
    and busy: "\<And>a. Q a \<Longrightarrow> a_status a \<noteq> Available \<and> \<not> (a_status a = Reserved \<and> expired t a)"
    and claim: "\<And>a u. Q a \<Longrightarrow> a_status a = Reserved \<Longrightarrow> Q (claimed_row u t a)"
    and prov: "\<And>a. Q a \<Longrightarrow> Q (provisioned_row t a)"
  shows "row_at dm lp Q (snd (address_query c t d))"
proof (cases c)
  case (AReserve dm' lp' u h)
  obtain r d' where q: "reserve_address dm' lp' u h t d = (r, d')" by force
  then have "row_at dm lp Q d'"
  proof (cases rule: reserve_cases)
    case (taken a)
    have "row_at dm lp Q (d\<lparr>addresses := set_by a_id (a_id a) (reserved_row u t (t + int h * hour)) (addresses d)\<rparr>)"
    proof (rule row_at_set_by [OF row])
      fix b
      assume b: "b \<in> set (addresses d)" "Q b" "a_id b = a_id a"
      then have "b = a" using ok taken(1) by (auto simp: addresses_ok_def dest: unique_onD)
      with busy [OF b(2)] taken(4) show "Q (reserved_row u t (t + int h * hour) b)" by auto
    qed simp
    then show ?thesis by (simp add: taken(5))
  qed (use row in \<open>auto simp: row_at_def\<close>)
  with q AReserve show ?thesis by (simp add: result_id_snd)
next
  case (AClaim i u)
  obtain r d' where q: "claim_address i u t d = (r, d')" by force
  then have "row_at dm lp Q d'"
  proof (cases rule: claim_cases)
    case (claimed a)
    have "row_at dm lp Q (d\<lparr>addresses := set_by a_id i (claimed_row u t) (addresses d)\<rparr>)"
    proof (rule row_at_set_by [OF row])
      fix b
      assume b: "b \<in> set (addresses d)" "Q b" "a_id b = i"
      then have "b = a" using ok claimed(1)
        by (auto simp: addresses_ok_def dest!: lookup_by_Some dest: unique_onD)
      with busy [OF b(2)] claimed(3) claim [OF b(2)] show "Q (claimed_row u t b)" by auto
    qed simp
    then show ?thesis by (simp add: claimed(4))
  qed (use row in simp)
  with q AClaim show ?thesis by (simp add: result_id_snd)
next
  case (AInsert dm' lp')
  obtain r d' where q: "insert_address dm' lp' t d = (r, d')" by force
  then have "row_at dm lp Q d'"
    by (cases rule: insert_cases) (use row in \<open>auto simp: row_at_def\<close>)
  with q AInsert show ?thesis by (simp add: result_id_snd)
next
  case (AClean l)
  have "row_at dm lp Q (d\<lparr>addresses := update_where
      (\<lambda>a. a_status a = Reserved \<and> expired t a \<and> a_id a \<notin> set l) freed_row (addresses d)\<rparr>)"
    by (rule row_at_update [OF row]) (use busy in auto)
  with AClean show ?thesis by (simp add: result_id_snd clean_expired_reservations_def Let_def)
next
  case (AProvision m)
  have "row_at dm lp Q (d\<lparr>addresses := set_by a_id i (provisioned_row t) (addresses d)\<rparr>)" for i
    by (rule row_at_set_by [OF row]) (simp_all add: prov)
  with row AProvision show ?thesis
    by (simp add: result_id_snd provision_address_def split: option.splits)
next
  case (ADelete i u)
  let ?P = "\<lambda>x. d_id x = i \<and> d_user x = Some u"
  from row obtain a where a: "a \<in> set (addresses d)" "at_address dm lp a" "Q a" by (auto simp: row_at_def)
  have "a_id a \<notin> set (domain_addresses d ?P)"
  proof
    assume "a_id a \<in> set (domain_addresses d ?P)"
    then obtain b where "b \<in> set (addresses d)" "a_id b = a_id a" "a_domain b = i"
      by (auto simp: in_domain_addresses)
    with ok a(1) have "a_domain a = i" by (metis addresses_ok_def unique_onD)
    with a(2) ADelete assms(3) show False by (simp add: at_address_def)
  qed
  with a have "row_at dm lp Q (snd (delete_domains ?P t d))"
    by (auto simp: row_at_def delete_domains_def Let_def set_delete_where)
  with ADelete show ?thesis by (simp add: result_id_snd)
qed

lemma address_run_row_at:
  assumes "address_run t d es d'" and "addresses_ok d" and "row_at dm lp Q d"
    and "\<forall>(s, c, r) \<in> set es. \<not> deletes_domain dm c"
    and "\<And>s a. s \<in> fst ` set es \<Longrightarrow> Q a \<Longrightarrow> a_status a \<noteq> Available \<and> \<not> (a_status a = Reserved \<and> expired s a)"
    and "\<And>s a u. Q a \<Longrightarrow> a_status a = Reserved \<Longrightarrow> Q (claimed_row u s a)"
    and "\<And>s a. Q a \<Longrightarrow> Q (provisioned_row s a)"
  shows "addresses_ok d' \<and> row_at dm lp Q d'"
  using assms
proof (induction rule: address_run.induct)
  case (cons t t' c d r d1 es d')
  have "addresses_ok d1" using address_query_ok [OF cons.prems(1), of c t'] cons.hyps(2) by simp
  moreover have "row_at dm lp Q d1"
    using address_query_row_at [OF cons.prems(1,2), of c t'] cons.prems cons.hyps(2) by fastforce
  ultimately show ?case
    by (rule cons.IH) (use cons.prems in auto)
qed simp

definition secured :: "time \<Rightarrow> address \<Rightarrow> bool" where
  "secured until a \<longleftrightarrow> a_status a = Claimed \<or> (a_status a = Reserved \<and> a_reserved_until a = Some until)"

lemma reserve_secures:
  assumes "address_query (AReserve dm lp u h) t d = (Inr (Some i), d')" and "addresses_ok d"
  shows "row_at dm lp (secured (t + int h * hour)) d'"
proof -
  from assms(1) obtain r where q: "reserve_address dm lp u h t d = (r, d')" "r = Inr i"
    by (auto simp: result_id_def split: prod.splits sum.splits)
  from q(1) show ?thesis
  proof (cases rule: reserve_cases)
    case inserted
    then show ?thesis
      by (simp add: row_at_def at_address_def) (simp add: secured_def reserved_row_def)
  next
    case (taken a)
    then have "reserved_row u t (t + int h * hour) a \<in> set (addresses d')"
      by (auto simp: set_set_by)
    with taken(2) show ?thesis
      unfolding row_at_def
      by (intro bexI) (simp_all add: at_address_def secured_def reserved_row_def)
  qed (use q in simp)
qed

lemma secured_not_reserved:
  assumes "address_query (AReserve dm lp u h) t d = (Inr x, d')" and "addresses_ok d"
    and "row_at dm lp (secured until) d"
  shows "until \<le> t"
proof (rule ccontr)
  assume n: "\<not> until \<le> t"
  from assms(3) obtain b where b: "b \<in> set (addresses d)" "at_address dm lp b" "secured until b"
    by (auto simp: row_at_def)
  from assms(1) obtain r i where q: "reserve_address dm lp u h t d = (r, d')" "r = Inr i"
    by (auto simp: result_id_def split: prod.splits sum.splits)
  from q(1) show False
  proof (cases rule: reserve_cases)
    case (taken a)
    with b assms(2) have "b = a"
      by (auto simp: addresses_ok_def at_address_def dest: unique_onD)
    with taken(4) b(3) n show False by (auto simp: secured_def expired_def)
  qed (use q b in auto)
qed


text \<open>
  C38. A claim is final: once a user has claimed an address, the address stays claimed by that user
  through every later interleaving of reservations, claims, clean-ups, provisioning and inserts, until
  the domain is deleted.
\<close>

theorem claim_permanent:
  assumes "address_run t0 d ((t, AClaim i u, Inr x) # es) d'" and "addresses_ok d"
    and "lookup_by a_id i (addresses d) = Some a" and "\<forall>(s, c, r) \<in> set es. \<not> deletes_domain (a_domain a) c"
  shows "\<exists>b \<in> set (addresses d'). a_domain b = a_domain a \<and> a_local b = a_local a \<and>
    a_status b = Claimed \<and> a_claimed_by b = Some u"
proof -
  let ?Q = "\<lambda>b. a_status b = Claimed \<and> a_claimed_by b = Some u"
  from assms(1) obtain d1 where 1: "address_query (AClaim i u) t d = (Inr x, d1)"
    and 2: "address_run t d1 es d'"
    by (auto simp: address_run_Cons simp del: address_query.simps)
  then obtain r y where q: "claim_address i u t d = (r, d1)" "r = Inr y"
    by (auto simp: result_id_def split: prod.splits sum.splits)
  have "d1 = d\<lparr>addresses := set_by a_id i (claimed_row u t) (addresses d)\<rparr>"
    using q by (cases rule: claim_cases) simp_all
  moreover have "a \<in> set (addresses d)" "a_id a = i" using assms(3) by (auto dest: lookup_by_Some)
  ultimately have "claimed_row u t a \<in> set (addresses d1)" by (auto simp: set_set_by)
  then have s1: "row_at (a_domain a) (a_local a) ?Q d1"
    unfolding row_at_def by (intro bexI) (auto simp: at_address_def claimed_row_def)
  have ok1: "addresses_ok d1" using address_query_ok [OF assms(2), of "AClaim i u" t] 1 by simp
  have "addresses_ok d' \<and> row_at (a_domain a) (a_local a) ?Q d'"
    by (rule address_run_row_at [OF 2 ok1 s1 assms(4)])
      (auto simp: claimed_row_def provisioned_row_def)
  then show ?thesis by (auto simp: row_at_def at_address_def)
qed

text \<open>
  The availability check agrees with the reservation: for an address of an existing domain that is
  not on the blocked list, whose row (if it has one) is not BLOCKED and, if RESERVED, has an expiry
  time, the check answers yes exactly when a reservation at the same moment succeeds. (The reservation
  itself does not consult the blocked list.)
\<close>

theorem availability_agrees:
  assumes "addresses_ok d" and "\<exists>x \<in> set (domains d). d_id x = dm"
    and "\<forall>b \<in> set (blocked d). \<not> (bl_domain b = dm \<and> bl_local b = lp)"
    and "\<forall>a \<in> set (addresses d). at_address dm lp a \<longrightarrow>
      a_status a \<noteq> Blocked \<and> (a_status a = Reserved \<longrightarrow> a_reserved_until a \<noteq> None)"
  shows "fst (check_address_available dm lp t d) = Inr (\<exists>i. fst (reserve_address dm lp u h t d) = Inr i)"
proof (cases "find (at_address dm lp) (addresses d)")
  case None
  then show ?thesis using assms find_at_address_None [OF None]
    by (auto simp: check_address_available_def reserve_address_def Let_def)
next
  case (Some a)
  then have a: "a \<in> set (addresses d)" "at_address dm lp a" by (auto dest: find_Some_set)
  have only: "b = a" if "b \<in> set (addresses d)" "at_address dm lp b" for b
    using that a assms(1) by (auto simp: addresses_ok_def at_address_def dest: unique_onD)
  have "(\<exists>b \<in> set (addresses d). at_address dm lp b \<and> P b) \<longleftrightarrow> P a" for P
    using only a by blast
  moreover have "a_status a \<noteq> Blocked" "a_status a = Reserved \<Longrightarrow> a_reserved_until a \<noteq> None"
    using assms(4) a by auto
  ultimately show ?thesis using Some assms(3)
    by (cases "a_status a")
      (auto simp: check_address_available_def reserve_address_def Let_def expired_def unexpired_def)
qed

subsection \<open>A concrete run\<close>

fun address_exec :: "db \<Rightarrow> (time \<times> address_call) list \<Rightarrow> address_event list \<times> db" where
  "address_exec d [] = ([], d)"
| "address_exec d ((t, c) # cs) =
     (case address_query c t d of (r, d1) \<Rightarrow>
        (case address_exec d1 cs of (es, d') \<Rightarrow> ((t, c, r) # es, d')))"

lemma address_exec_run:
  "sorted (t # map fst cs) \<Longrightarrow> address_run t d (fst (address_exec d cs)) (snd (address_exec d cs))"
proof (induction cs arbitrary: t d)
  case (Cons e cs)
  obtain s c where e: "e = (s, c)" by force
  obtain r d1 where q: "address_query c s d = (r, d1)" by force
  have "address_run s d1 (fst (address_exec d1 cs)) (snd (address_exec d1 cs))"
    by (rule Cons.IH) (use Cons.prems e in simp)
  with Cons.prems e q show ?case
    by (cases "address_exec d1 cs") (simp add: address_run_Cons del: address_query.simps)
qed simp

definition demo_address_calls :: "(time \<times> address_call) list" where
  "demo_address_calls = [(0, AReserve 4 ''ann'' 10 2), (hour, AReserve 4 ''ann'' 11 2),
     (2 * hour, AClean []), (2 * hour, AReserve 4 ''ann'' 11 2)]"

definition demo_middle :: "address_event list" where
  "demo_middle = [(hour, AReserve 4 ''ann'' 11 2, Inl (raise_exception ''Address not available'')),
     (2 * hour, AClean [], Inr None)]"


definition free_address :: address where
  "free_address = freed_row (custom_address\<lparr>a_claimed_by := None, a_claimed_at := None\<rparr>)"

definition free_db :: db where
  "free_db = custom_db\<lparr>addresses := [free_address]\<rparr>"

definition later_calls :: "(time \<times> address_call) list" where
  "later_calls = [(5, AClaim 14 10), (9, AClaim 14 11), (9, AReserve 13 ''ann'' 11 2), (9, AClean [])]"

theorem claim_permanent_witness:
  "\<exists>b \<in> set (addresses (snd (address_exec free_db later_calls))).
     a_domain b = 13 \<and> a_local b = ''ann'' \<and> a_status b = Claimed \<and> a_claimed_by b = Some 10"
proof -
  let ?d = "snd (address_exec free_db later_calls)"
  let ?rest = "[(9, AClaim 14 11, Inl (raise_exception ''Address already claimed'')),
    (9, AReserve 13 ''ann'' 11 2, Inl (raise_exception ''Address not available'')), (9, AClean [], Inr None)]"
  have es: "fst (address_exec free_db later_calls) = (5, AClaim 14 10, Inr (Some 14)) # ?rest"
    by code_simp
  have "address_run 0 free_db (fst (address_exec free_db later_calls)) ?d"
    by (rule address_exec_run) (simp add: later_calls_def)
  then have run: "address_run 0 free_db ((5, AClaim 14 10, Inr (Some 14)) # ?rest) ?d"
    by (simp only: es)
  have ok: "addresses_ok free_db"
    by (simp add: addresses_ok_def free_db_def custom_db_def demo_db_def free_address_def
        custom_address_def freed_row_def unique_on_def)
  have a: "lookup_by a_id 14 (addresses free_db) = Some free_address"
    "a_domain free_address = 13" "a_local free_address = ''ann''"
    by (simp_all add: free_db_def free_address_def custom_address_def freed_row_def)
  have keep: "\<forall>(s, c, r) \<in> set ?rest. \<not> deletes_domain (a_domain free_address) c" by simp
  from claim_permanent [OF run ok a(1) keep] a(2,3) show ?thesis by simp
qed

theorem availability_agrees_witness:
  "fst (check_address_available 13 ''ann'' 7 custom_db) = Inr False \<and>
   fst (check_address_available 13 ''bob'' 7 custom_db) = Inr True"
proof -
  have ok: "addresses_ok custom_db"
    by (simp add: addresses_ok_def custom_db_def demo_db_def custom_address_def unique_on_def)
  have dm: "\<exists>x \<in> set (domains custom_db). d_id x = 13"
    by (simp add: custom_db_def custom_domain_def)
  have rows: "blocked custom_db = []" "addresses custom_db = [custom_address]"
    "a_status custom_address = Claimed"
    by (simp_all add: custom_db_def demo_db_def migrated_db_def custom_address_def)
  have "\<not> (\<exists>i. fst (reserve_address 13 ''ann'' 10 2 7 custom_db) = Inr i)"
    "\<exists>i. fst (reserve_address 13 ''bob'' 10 2 7 custom_db) = Inr i"
    by (simp_all add: reserve_address_def rows at_address_def custom_address_def Let_def)
      (simp add: custom_db_def custom_domain_def)
  with availability_agrees [OF ok dm, of "''ann''" 7 10 2] availability_agrees [OF ok dm, of "''bob''" 7 10 2] rows
  show ?thesis by simp
qed

section \<open>Creating an address\<close>

lemma reserve_result:
  assumes "reserve_address dm lp u h t d = (Inr i, d')" and "addresses_ok d"
  shows "\<forall>b \<in> set (addresses d'). a_id b = i \<longrightarrow> at_address dm lp b \<and> a_status b = Reserved \<and>
      a_reserved_by b = Some u \<and> a_reserved_until b = Some (t + int h * hour)"
    and "mailboxes d' = mailboxes d" and "jobs d' = jobs d" and "domains d' = domains d"
proof -
  from assms(1) have "(\<forall>b \<in> set (addresses d'). a_id b = i \<longrightarrow> at_address dm lp b \<and> a_status b = Reserved \<and>
      a_reserved_by b = Some u \<and> a_reserved_until b = Some (t + int h * hour)) \<and>
      mailboxes d' = mailboxes d \<and> jobs d' = jobs d \<and> domains d' = domains d"
  proof (cases rule: reserve_cases)
    case inserted
    have "\<forall>b \<in> set (addresses d). a_id b \<noteq> next_id d" using assms(2) by (fastforce simp: addresses_ok_def)
    with inserted show ?thesis by (auto simp: at_address_def) (auto simp: reserved_row_def)
  next
    case (taken a)
    have "b = a" if "b \<in> set (addresses d)" "a_id b = a_id a" for b
      using that taken(1) assms(2) by (auto simp: addresses_ok_def dest: unique_onD)
    with taken show ?thesis
      by (auto simp: set_set_by at_address_def) (auto simp: reserved_row_def split: if_splits)
  qed simp
  then show "\<forall>b \<in> set (addresses d'). a_id b = i \<longrightarrow> at_address dm lp b \<and> a_status b = Reserved \<and>
      a_reserved_by b = Some u \<and> a_reserved_until b = Some (t + int h * hour)"
    and "mailboxes d' = mailboxes d" and "jobs d' = jobs d" and "domains d' = domains d" by auto
qed

lemma select_address_ro [pres_intro]: "query_preserves I (select_address P)"
  by (simp add: query_preserves_def select_address_def)

lemma address_by_id_Inr:
  assumes "address_by_id i w = (Inr a, w')"
  shows "a \<in> set (addresses (db w)) \<and> a_id a = i \<and> db w' = db w"
proof -
  from assms have "stmt (select_address (\<lambda>a. a_id a = i)) w = (Inr a, w')"
    by (auto simp: address_by_id_def map_err_def split: prod.splits sum.splits)
  then show ?thesis
    by (auto simp: select_address_def elim!: stmt_InrE split: option.splits dest: find_Some_set)
qed

lemma get_by_id_Inr:
  assumes "get_by_id i w = (Inr x, w')"
  shows "x \<in> set (domains (db w)) \<and> d_id x = i \<and> db w' = db w"
proof -
  from assms have "stmt (select_domain (\<lambda>x. d_id x = i)) w = (Inr x, w')"
    by (auto simp: get_by_id_def map_err_def split: prod.splits sum.splits)
  then show ?thesis
    by (auto simp: select_domain_def elim!: stmt_InrE split: option.splits dest: find_Some_set)
qed

lemma check_domain_open_Inr:
  "check_domain_open u x w = (Inr v, w') \<longleftrightarrow> w' = w \<and> d_status x = DomActive \<and> d_registration x \<and>
     (d_ownership x = UserOwned \<longrightarrow> d_user x = Some u \<and> d_verification x = VerVerified)"
  by (auto simp: check_domain_open_def)

lemma repo_reserve_Inr:
  assumes "repo_reserve_address dm lp u h w = (Inr a, w')" and "addresses_ok (db w)"
  obtains t where "reserve_address dm (to_lower (trim_space lp)) u h t (db w) = (Inr (a_id a), db w')"
    and "a \<in> set (addresses (db w'))"
proof -
  from assms(1) obtain i w1 where
    "map_err (\<lambda>_. Sentinel ErrAddressExists) (stmt (reserve_address dm (to_lower (trim_space lp)) u h)) w = (Inr i, w1)"
    and 2: "address_by_id i w1 = (Inr a, w')"
    unfolding repo_reserve_address_def Let_def by (rule seq_InrE)
  then have "stmt (reserve_address dm (to_lower (trim_space lp)) u h) w = (Inr i, w1)"
    by (auto simp: map_err_def split: prod.splits sum.splits)
  then obtain t where "reserve_address dm (to_lower (trim_space lp)) u h t (db w) = (Inr i, db w1)"
    by (rule stmt_InrE)
  with address_by_id_Inr [OF 2] that show thesis by auto
qed

lemma create_mailbox_Inr:
  assumes "create_mailbox_for_address i w = (Inr (), w')"
  obtains t where "db w' = (db w)\<lparr>mailboxes := mailboxes (db w) @ [new_mailbox (next_id (db w)) i],
      jobs := jobs (db w) @ [new_job (next_id (db w) + 1) AccountCreate (next_id (db w)) t],
      next_id := next_id (db w) + 2\<rparr>"
proof -
  let ?body = "seq (stmt (insert_mailbox i)) (\<lambda>m. seq (stmt (insert_job AccountCreate m)) (\<lambda>_. ret (Commit ())))
     :: ('a, unit tx) act"
  have tx: "transaction ?body w = (Inr (), w')" using assms by (simp add: create_mailbox_for_address_def)
  have c: "?body v \<noteq> (Inr (Abandon b), v')" for v v' b by (auto elim!: seq_InrE)
  obtain v v' where v: "db v = db w" "?body v = (Inr (Commit ()), v')" "db w' = db v'"
    by (rule transaction_committedE [OF tx c])
  from v(2) obtain m v1 where 1: "stmt (insert_mailbox i) v = (Inr m, v1)"
    and 2: "stmt (insert_job AccountCreate m) v1 = (Inr (), v')"
    by (auto elim!: seq_InrE)
  from 1 obtain t1 where "insert_mailbox i t1 (db w) = (Inr m, db v1)" using v(1) by (auto elim: stmt_InrE)
  then have m: "m = next_id (db w)"
    and d1: "db v1 = (db w)\<lparr>mailboxes := mailboxes (db w) @ [new_mailbox (next_id (db w)) i],
      next_id := next_id (db w) + 1\<rparr>"
    by (auto simp: insert_mailbox_def split: if_splits)
  from 2 obtain t2 where "insert_job AccountCreate m t2 (db v1) = (Inr (), db v')" by (rule stmt_InrE)
  then have "db v' = snd (insert_job AccountCreate m t2 (db v1))" by simp
  with v(3) m d1 show thesis by (intro that [of t2]) (simp add: insert_job_def)
qed



text \<open>
  How the address handlers answer a denial by the plan: for an open domain and a valid local part,
  when the account is suspended or its quota of addresses is used up, creating and reserving an address
  answer 500 and not the 403 of the handler's own branches, whose texts differ from those of the
  errors.
\<close>

theorem quota_denial_answered_500:
  assumes "get_by_id i w = (Inr x, w1)" and "check_domain_open u x w1 = (Inr (), w1)"
    and "normalize_local_part lp = Inr n"
    and "can_create_address u w1 = (Inl (Sentinel s), w2)" and "s \<in> {ErrQuotaExceeded, ErrAccountSuspended}"
  shows "fst (create_address_handler (Some u) (Some i) (Some lp) w) = Inr (ErrorJson 500 ''internal server error'') \<and>
    fst (reserve_address_handler (Some u) (Some i) (Some lp) w) = Inr (ErrorJson 500 ''internal server error'')"
proof -
  have "create_address u i lp w = (Inl (Sentinel s), w2)"
    and "service_reserve_address u i lp w = (Inl (Sentinel s), w2)"
    using assms by (simp_all add: create_address_def service_reserve_address_def)
  with assms(5) show ?thesis
    by (auto simp: create_address_handler_def reserve_address_handler_def with_request_def with_ids_def
        answer_apply address_error_def)
qed

definition suspended_db :: db where
  "suspended_db = custom_db\<lparr>accounts := [\<lparr>pa_id = 11, pa_status = AccSuspended\<rparr>]\<rparr>"

theorem quota_denial_answered_500_witness:
  "fst (create_address_handler (Some 10) (Some 13) (Some ''bob'') (world_of suspended_db)) =
     Inr (ErrorJson 500 ''internal server error'')"
proof -
  let ?w = "world_of suspended_db"
  have 1: "get_by_id 13 ?w = (Inr custom_domain, ?w)"
    by (simp add: get_by_id_def select_domain_def map_err_apply run_query_def world_of_def suspended_db_def
        custom_db_def custom_domain_def platform_domain_def)
  have 2: "check_domain_open 10 custom_domain ?w = (Inr (), ?w)"
    by (simp add: check_domain_open_Inr custom_domain_def)
  have 3: "normalize_local_part ''bob'' = Inr ''bob''" by code_simp
  have "fst (can_create_address 10 ?w) = Inl (Sentinel ErrAccountSuspended)"
    by code_simp
  then have 4: "can_create_address 10 ?w = (Inl (Sentinel ErrAccountSuspended), snd (can_create_address 10 ?w))"
    by (metis prod.collapse)
  from quota_denial_answered_500 [OF 1 2 3 4] show ?thesis by simp
qed

lemma claim_address_outcome:
  "(\<exists>m. claim_address i u t d = (Inl (raise_exception m), d)) \<or> (\<exists>d'. claim_address i u t d = (Inr True, d'))"
proof (cases "lookup_by a_id i (addresses d)")
  case None
  have "claim_address i u t d = (Inl (raise_exception ''Address not found''), d)"
    unfolding claim_address_def None option.case ..
  then show ?thesis by blast
next
  case (Some a)
  show ?thesis unfolding claim_address_def Some option.case by (simp only: split: if_split) blast
qed

text \<open>
  A claim the database refuses (no such address, already claimed, blocked, or reserved by someone
  else) is always answered with 500, never with the 404, 409 or 403 the handler has for it: the SQL
  errors arrive with the driver's prefix and SQLSTATE, and the handler compares whole texts. The
  refusal changes nothing.
\<close>

theorem claim_refusal_answered_500:
  assumes "quiet w" and "fst (claim_address i u (clock w) (db w)) = Inl e"
  shows "claim_address_handler (Some u) (Some i) w = (Inr (ErrorJson 500 ''internal server error''), w)"
proof -
  obtain r d' where cl: "claim_address i u (clock w) (db w) = (r, d')" by force
  with assms(2) have r: "r = Inl e" by simp
  have e: "e \<in> range raise_exception" and d: "snd (claim_address i u (clock w) (db w)) = db w"
    using claim_address_outcome [of i u "clock w" "db w"] cl r by auto
  then have q: "claim_address i u (clock w) (db w) = (Inl e, db w)" using assms(2) by (metis prod.collapse)
  have "stmt (claim_address i u) w = (Inl e, w)"
    using assms(1) q by (simp add: quiet_def run_query_def sql_now_def)
  then have "service_claim_address i u w = (Inl e, w)"
    by (simp add: service_claim_address_def repo_claim_address_def)
  moreover have "claim_error (raise_exception m) = ErrorJson 500 ''internal server error''" for m
    by (simp add: claim_error_def raise_exception_def pg_error_def)
  ultimately show ?thesis using e by (auto simp: claim_address_handler_def answer_apply)
qed

theorem claim_refusal_answered_500_witness:
  "claim_address_handler (Some 11) (Some 14) (world_of custom_db) =
     (Inr (ErrorJson 500 ''internal server error''), world_of custom_db)"
proof (rule claim_refusal_answered_500)
  show "quiet (world_of custom_db)" by (simp add: quiet_def world_of_def)
  show "fst (claim_address 14 11 (clock (world_of custom_db)) (db (world_of custom_db))) =
      Inl (raise_exception ''Address already claimed'')"
    by (simp add: claim_address_def world_of_def custom_db_def custom_address_def)
qed


end
