(* ===== verification/Retry.thy ===== *)
theory Retry
  imports Errors Complex_Main
begin

text \<open>
  The retry policy of the provisioning worker: \<^verbatim>\<open>internal/provisioning/retry.go\<close> and the error
  classification and truncation of \<^verbatim>\<open>worker.go\<close>. Integer shifts wrap at 64 bits as Go's do. The
  float64 arithmetic of the backoff is modelled over the rationals: rounding is left out, the
  conversion to a duration truncates towards zero. The random number is an argument in \<open>[0, 1)\<close>.
\<close>

datatype error_type =
    ErrorTemporary | ErrorTimeout | ErrorRateLimited | ErrorConflict | ErrorAlreadyExists
  | ErrorNotFound | ErrorUnauthorized | ErrorForbidden | ErrorInvalid | ErrorPermanent

record retry_policy =
  max_attempts :: int
  initial_backoff :: time
  max_backoff :: time
  jitter_fraction :: rat

definition default_retry_policy :: retry_policy where
  "default_retry_policy = \<lparr>max_attempts = 10, initial_backoff = 2 * second,
     max_backoff = 5 * minute, jitter_fraction = 1 / 4\<rparr>"

fun is_retryable :: "error_type \<Rightarrow> bool" where
  "is_retryable ErrorTemporary = True"
| "is_retryable ErrorTimeout = True"
| "is_retryable ErrorRateLimited = True"
| "is_retryable ErrorConflict = True"
| "is_retryable ErrorAlreadyExists = True"
| "is_retryable ErrorNotFound = True"
| "is_retryable _ = False"

definition shl_one :: "nat \<Rightarrow> int" where
  "shl_one n = wrap64 (2 ^ n)"

definition truncate_rat :: "rat \<Rightarrow> int" where
  "truncate_rat x = (if x < 0 then - \<lfloor>- x\<rfloor> else \<lfloor>x\<rfloor>)"

definition seconds :: "time \<Rightarrow> rat" where
  "seconds t = of_int t / of_int second"

definition calculate_backoff :: "retry_policy \<Rightarrow> int \<Rightarrow> rat \<Rightarrow> time" where
  "calculate_backoff p attempt rnd =
     (if attempt < 1 then initial_backoff p
      else
        let power = shl_one (nat (attempt - 1));
            exponential = of_int power * seconds (initial_backoff p);
            exponential = (if exponential > seconds (max_backoff p) then seconds (max_backoff p)
                           else exponential);
            jitter = (rnd - 1 / 2) * 2 * jitter_fraction p * exponential;
            backoff = exponential + jitter;
            backoff = (if backoff < 0 then exponential * (1 / 2) else backoff)
        in truncate_rat (backoff * of_int second))"

definition classify_http_error :: "int \<Rightarrow> error_type" where
  "classify_http_error code =
     (if code \<ge> 500 then ErrorTemporary
      else if code = 429 then ErrorRateLimited
      else if code = 409 then ErrorConflict
      else if code = 404 then ErrorNotFound
      else if code = 401 then ErrorUnauthorized
      else if code = 403 then ErrorForbidden
      else if code \<ge> 400 \<and> code < 500 then ErrorInvalid
      else ErrorPermanent)"

definition classify_error :: "goerr option \<Rightarrow> error_type" where
  "classify_error err =
     (case err of None \<Rightarrow> ErrorPermanent
      | Some e \<Rightarrow>
         (let s = err_text e in
          if str_contains s ''timeout'' \<or> str_contains s ''context deadline exceeded'' then ErrorTimeout
          else if str_contains s ''429'' \<or> str_contains s ''rate limit'' then ErrorRateLimited
          else if str_contains s ''409'' \<or> str_contains s ''conflict'' \<or> str_contains s ''already exists''
            then ErrorConflict
          else if str_contains s ''404'' \<or> str_contains s ''not found'' then ErrorNotFound
          else if str_contains s ''DNS'' \<or> str_contains s ''lookup'' then ErrorTemporary
          else ErrorPermanent))"

definition truncate_error :: "string \<Rightarrow> nat \<Rightarrow> string" where
  "truncate_error err max_len =
     (if length err \<le> max_len then err else take max_len err @ ''... (truncated)'')"

section \<open>Bounds of the backoff\<close>

definition policy_ok :: "retry_policy \<Rightarrow> bool" where
  "policy_ok p \<longleftrightarrow> 0 < initial_backoff p \<and> 0 < max_backoff p \<and>
     0 \<le> jitter_fraction p \<and> jitter_fraction p \<le> 1"

definition base_backoff :: "retry_policy \<Rightarrow> int \<Rightarrow> time" where
  "base_backoff p attempt = min (2 ^ nat (attempt - 1) * initial_backoff p) (max_backoff p)"

lemma shl_one_small: "n \<le> 62 \<Longrightarrow> shl_one n = 2 ^ n"
proof -
  assume n: "n \<le> 62"
  then have "(2 :: int) ^ n \<le> 2 ^ 62" by (intro power_increasing) simp_all
  then have hi: "(2 :: int) ^ n < 2 ^ 63" by (rule le_less_trans) simp
  have lo: "- (2 ^ 63) \<le> (2 :: int) ^ n" by (rule order_trans [of _ 0]) simp_all
  from lo hi show ?thesis unfolding shl_one_def by (rule wrap64_id)
qed

lemma shl_one_overflow: "64 \<le> n \<Longrightarrow> shl_one n = 0"
proof -
  assume "64 \<le> n"
  then obtain k where "n = 64 + k" using le_Suc_ex by blast
  then have "(2 :: int) ^ n = 2 ^ 64 * 2 ^ k" by (simp only: power_add)
  then have "((2 :: int) ^ n + 2 ^ 63) mod 2 ^ 64 = 2 ^ 63"
    by (simp only: mod_mult_self4 [of "2 ^ 64" "2 ^ k" "2 ^ 63", simplified mult.commute])
      (simp add: mult.commute)
  then show ?thesis by (simp add: shl_one_def wrap64_def)
qed

lemma truncate_bounds: "0 \<le> x \<Longrightarrow> x - 1 < of_int (truncate_rat x) \<and> of_int (truncate_rat x) \<le> x"
  by (simp add: truncate_rat_def) linarith

lemma jitter_bounds:
  fixes b j r :: rat
  assumes "0 \<le> b" and "0 \<le> j" and "0 \<le> r" and "r < 1"
  shows "(1 - j) * b \<le> b + (r - 1 / 2) * 2 * j * b" and "b + (r - 1 / 2) * 2 * j * b \<le> (1 + j) * b"
proof -
  have jb: "0 \<le> j * b" using assms by simp
  have lo: "- 1 \<le> (r - 1 / 2) * 2" and hi: "(r - 1 / 2) * 2 \<le> 1"
    using assms by simp_all
  have e: "(r - 1 / 2) * 2 * j * b = ((r - 1 / 2) * 2) * (j * b)" by simp
  show "(1 - j) * b \<le> b + (r - 1 / 2) * 2 * j * b"
    using mult_right_mono [OF lo jb] unfolding e by (simp add: algebra_simps)
  show "b + (r - 1 / 2) * 2 * j * b \<le> (1 + j) * b"
    using mult_right_mono [OF hi jb] unfolding e by (simp add: algebra_simps)
qed

lemma seconds_scale [simp]: "seconds t * of_int second = of_int t"
  by (simp add: seconds_def second_def)

lemma seconds_le_iff: "seconds s \<le> seconds t \<longleftrightarrow> s \<le> t"
  by (simp add: seconds_def second_def divide_le_cancel)

lemma seconds_mult: "of_int k * seconds t = seconds (k * t)"
  by (simp add: seconds_def)

lemma capped_seconds:
  "(if seconds s > seconds t then seconds t else seconds s) = seconds (min s t)"
  using seconds_le_iff [of s t] by (auto simp: min_def not_less)

lemma calculate_backoff_unfold:
  assumes "policy_ok p" and "1 \<le> attempt" and "attempt \<le> 63" and "0 \<le> rnd" and "rnd < 1"
  defines "b \<equiv> of_int (base_backoff p attempt) :: rat"
  shows "calculate_backoff p attempt rnd =
    truncate_rat (b + (rnd - 1 / 2) * 2 * jitter_fraction p * b)"
proof -
  let ?s = "seconds (base_backoff p attempt)"
  let ?j = "(rnd - 1 / 2) * 2 * jitter_fraction p"
  have n: "nat (attempt - 1) \<le> 62" using assms by simp
  have "0 < base_backoff p attempt" using assms by (simp add: base_backoff_def policy_ok_def)
  then have s0: "0 \<le> ?s" by (simp add: seconds_def second_def)
  have "(1 - jitter_fraction p) * ?s \<le> ?s + ?j * ?s"
    by (rule jitter_bounds) (use assms s0 in \<open>simp_all add: policy_ok_def\<close>)
  moreover have "0 \<le> (1 - jitter_fraction p) * ?s"
    using assms s0 by (simp add: policy_ok_def)
  ultimately have pos: "\<not> ?s + ?j * ?s < 0" by linarith
  have exp: "(if of_int (shl_one (nat (attempt - 1))) * seconds (initial_backoff p) > seconds (max_backoff p)
      then seconds (max_backoff p)
      else of_int (shl_one (nat (attempt - 1))) * seconds (initial_backoff p)) = ?s"
    by (simp only: shl_one_small [OF n] seconds_mult capped_seconds base_backoff_def)
  have "\<not> attempt < 1" using assms by simp
  then have "calculate_backoff p attempt rnd = truncate_rat ((?s + ?j * ?s) * of_int second)"
    unfolding calculate_backoff_def Let_def exp using pos by (simp only: if_False)
  also have "(?s + ?j * ?s) * of_int second = b + ?j * b"
    by (simp add: b_def distrib_right mult.assoc)
  finally show ?thesis .
qed

text \<open>
  C39. For attempts 1 to 63 the delay before the next attempt is the exponential delay
  \<open>2^(attempt-1) * initial\<close>, capped at the maximum, up to the jitter fraction in either direction
  (and less than a nanosecond of truncation). The cap is applied before the jitter, so the delay can
  exceed \<open>MaxBackoff\<close>, by at most the jitter fraction.
\<close>

theorem calculate_backoff_bounds:
  assumes "policy_ok p" and "1 \<le> attempt" and "attempt \<le> 63" and "0 \<le> rnd" and "rnd < 1"
  shows "(1 - jitter_fraction p) * of_int (base_backoff p attempt) - 1
           < of_int (calculate_backoff p attempt rnd)
       \<and> of_int (calculate_backoff p attempt rnd)
           \<le> (1 + jitter_fraction p) * of_int (base_backoff p attempt)"
proof -
  let ?b = "of_int (base_backoff p attempt) :: rat"
  let ?x = "?b + (rnd - 1 / 2) * 2 * jitter_fraction p * ?b"
  have b0: "0 \<le> ?b" using assms by (simp add: base_backoff_def policy_ok_def)
  have j: "0 \<le> jitter_fraction p" "jitter_fraction p \<le> 1" using assms by (simp_all add: policy_ok_def)
  note x = jitter_bounds [OF b0 j(1) assms(4,5)]
  have "0 \<le> (1 - jitter_fraction p) * ?b" using b0 j by simp
  with x(1) have "0 \<le> ?x" by linarith
  from truncate_bounds [OF this] x show ?thesis
    unfolding calculate_backoff_unfold [OF assms] by linarith
qed

theorem calculate_backoff_bounds_witness:
  "policy_ok default_retry_policy \<and>
   of_int (calculate_backoff default_retry_policy 12 (9 / 10)) \<le> (1 + 1 / 4 :: rat) * of_int (5 * minute)"
proof -
  have p: "policy_ok default_retry_policy"
    by (simp add: policy_ok_def default_retry_policy_def)
  have "base_backoff default_retry_policy 12 = 5 * minute"
    by (simp add: base_backoff_def default_retry_policy_def minute_def second_def)
  with p calculate_backoff_bounds [OF p, of 12 "9 / 10"] show ?thesis
    by (simp add: default_retry_policy_def)
qed

lemma truncate_error_short: "length e \<le> n \<Longrightarrow> truncate_error e n = e"
  by (simp add: truncate_error_def)

lemma truncate_error_prefix: "take n (truncate_error e n) = take n e"
  by (simp add: truncate_error_def)

lemma truncate_error_length: "length (truncate_error e n) \<le> n + 15"
  by (simp add: truncate_error_def)

lemma classify_timeout_wrapped:
  "str_contains (err_text e) ''timeout'' \<Longrightarrow> classify_error (Some (Wrapped p e)) = ErrorTimeout"
  using err_is_Wrapped_text [of e "''timeout''" p] by (simp add: classify_error_def)

lemma classify_http_retryable_iff:
  "is_retryable (classify_http_error c) \<longleftrightarrow> 500 \<le> c \<or> c \<in> {404, 409, 429}"
  by (auto simp: classify_http_error_def)

end
