(* ===== verification/JobQueue.thy ===== *)
theory JobQueue
  imports Jobs Scenario
begin

text \<open>
  What the job queue guarantees: which job a claim takes, and that in every interleaving of workers a
  claimed job stays with its worker until it is released. Workers interact only through the queries
  of \<^theory_text>\<open>Jobs\<close>, each of them atomic, so an execution is a sequence of those; the step relation has
  one rule per repository method, with the claim's result in its event.
\<close>

section \<open>What a claim takes\<close>

lemma candidates_None: "first_row (candidates t locked js) = None \<longleftrightarrow> (\<forall>j \<in> set js. \<not> eligible t locked j)"
  by (simp add: candidates_def filter_empty_conv) (metis filter_empty_conv length_0_conv length_sort)

lemma candidates_Some:
  assumes "first_row (candidates t locked js) = Some j"
  shows "j \<in> set js" and "eligible t locked j"
    and "\<And>k. k \<in> set js \<Longrightarrow> eligible t locked k \<Longrightarrow> j_next j \<le> j_next k"
proof -
  have "j \<in> set (candidates t locked js)" by (rule first_row_Some [OF assms])
  then show "j \<in> set js" and "eligible t locked j" by (auto simp: candidates_def)
  fix k assume "k \<in> set js" and "eligible t locked k"
  then have k: "k \<in> set (candidates t locked js)" by (simp add: candidates_def)
  have "sorted (map j_next (candidates t locked js))" by (simp add: candidates_def)
  moreover obtain rest where "candidates t locked js = j # rest"
    using assms by (cases "candidates t locked js") simp_all
  ultimately show "j_next j \<le> j_next k" using k by auto
qed

lemma claim_query_Some:
  assumes "claim_query worker locked t d = (Inr (Some j), d')"
  obtains k where "k \<in> set (jobs d)" and "eligible t locked k" and "j = claimed_by worker t k"
    and "d' = d\<lparr>jobs := set_by j_id (j_id k) (claimed_by worker t) (jobs d)\<rparr>"
    and "\<forall>k' \<in> set (jobs d). eligible t locked k' \<longrightarrow> j_next k \<le> j_next k'"
proof -
  obtain k where k: "first_row (candidates t locked (jobs d)) = Some k"
    and j: "j = claimed_by worker t k"
    and d': "d' = d\<lparr>jobs := set_by j_id (j_id k) (claimed_by worker t) (jobs d)\<rparr>"
    using assms by (auto simp: claim_query_def split: option.splits)
  show thesis
    by (rule that [OF candidates_Some(1,2) [OF k] j d']) (use candidates_Some(3) [OF k] in blast)
qed

lemma claim_query_None:
  "claim_query worker locked t d = (Inr None, d') \<Longrightarrow>
   d' = d \<and> (\<forall>j \<in> set (jobs d). \<not> eligible t locked j)"
  by (auto simp: claim_query_def simp flip: candidates_None split: option.splits)

lemma claim_takes_earliest_aux:
  assumes "queue_ok d" and "claim_query worker locked t d = (Inr (Some j), d')"
  shows "lookup_by j_id (j_id j) (jobs d') = Some j"
    and "i \<noteq> j_id j \<Longrightarrow> lookup_by j_id i (jobs d') = lookup_by j_id i (jobs d)"
proof -
  let ?f = "claimed_by worker t"
  obtain k where k: "k \<in> set (jobs d)" "j = ?f k"
    and d': "d' = d\<lparr>jobs := set_by j_id (j_id k) ?f (jobs d)\<rparr>"
    using assms(2) by (rule claim_query_Some)
  have "lookup_by j_id (j_id k) (jobs d) = Some k"
    using queue_okD(1) [OF assms(1)] k(1) by (rule lookup_by_unique)
  then show "lookup_by j_id (j_id j) (jobs d') = Some j"
    using job_table.lookup_set_same [of ?f "j_id k" d] k d' by simp
  show "i \<noteq> j_id j \<Longrightarrow> lookup_by j_id i (jobs d') = lookup_by j_id i (jobs d)"
    using job_table.lookup_set_other [of ?f i "j_id k" d] k d' by simp
qed

text \<open>
  C33. A claim that returns a job takes, among the jobs that are PENDING, RETRY_WAIT or UNKNOWN, due
  and not locked, one with the earliest \<^verbatim>\<open>next_attempt_at\<close>; it hands it out as PROCESSING under the
  worker's id with one more attempt, stores exactly that row, and changes no other job. A claim that
  returns no job leaves the table alone, and there was no such job.
\<close>

theorem claim_takes_earliest:
  assumes "queue_ok d"
  shows "case claim_query worker locked t d of
      (Inl e, d') \<Rightarrow> False
    | (Inr None, d') \<Rightarrow> d' = d \<and> (\<forall>j \<in> set (jobs d). \<not> eligible t locked j)
    | (Inr (Some j), d') \<Rightarrow>
        (\<exists>k \<in> set (jobs d). eligible t locked k \<and> j = claimed_by worker t k
           \<and> (\<forall>k' \<in> set (jobs d). eligible t locked k' \<longrightarrow> j_next k \<le> j_next k'))
        \<and> lookup_by j_id (j_id j) (jobs d') = Some j
        \<and> (\<forall>i. i \<noteq> j_id j \<longrightarrow> lookup_by j_id i (jobs d') = lookup_by j_id i (jobs d))"
proof (cases "claim_query worker locked t d")
  case (Pair r d')
  show ?thesis
  proof (cases r)
    case (Inl e)
    with Pair show ?thesis by (simp add: claim_query_def split: option.splits)
  next
    case (Inr x)
    show ?thesis
    proof (cases x)
      case None
      with Pair Inr claim_query_None [of worker locked t d d'] show ?thesis by simp
    next
      case (Some j)
      with Pair Inr have c: "claim_query worker locked t d = (Inr (Some j), d')" by simp
      from c obtain k where "k \<in> set (jobs d)" "eligible t locked k" "j = claimed_by worker t k"
        "\<forall>k' \<in> set (jobs d). eligible t locked k' \<longrightarrow> j_next k \<le> j_next k'"
        by (rule claim_query_Some)
      with c claim_takes_earliest_aux [OF assms c] show ?thesis by auto
    qed
  qed
qed

section \<open>Interleavings\<close>

datatype queue_call =
    CClaim string "uuid list"
  | CHeartbeat uuid
  | CRecover time
  | CSucceed uuid
  | CRetry uuid time string
  | CFailOrRetry uuid int string
  | CUnknown uuid string
  | CReconcile uuid
  | CRepair uuid string
  | CCheckpoint uuid
  | CEnqueue job_type uuid
  | CTick nat

definition no_id :: "('s, 'a) act \<Rightarrow> ('s, uuid option) act" where
  "no_id m = seq m (\<lambda>_. ret None)"

text \<open>One call of the repository; its value is the id of the job a claim handed out.\<close>

fun queue_op :: "queue_call \<Rightarrow> ('s, uuid option) act" where
  "queue_op (CClaim a l) = seq (claim_job a l) (\<lambda>x. ret (map_option j_id x))"
| "queue_op (CHeartbeat i) = no_id (update_heartbeat i)"
| "queue_op (CRecover lease) = no_id (recover_stuck_jobs lease)"
| "queue_op (CSucceed i) = no_id (mark_succeeded i)"
| "queue_op (CRetry i nxt msg) = no_id (mark_retry_wait i nxt msg)"
| "queue_op (CFailOrRetry i n msg) = no_id (mark_failed_or_retry i n msg)"
| "queue_op (CUnknown i msg) = no_id (mark_unknown i msg)"
| "queue_op (CReconcile i) = no_id (mark_reconciling i)"
| "queue_op (CRepair i msg) = no_id (mark_repairing i msg)"
| "queue_op (CCheckpoint i) = no_id (update_checkpoint i)"
| "queue_op (CEnqueue ty res) = no_id (stmt (insert_job ty res))"
| "queue_op (CTick n) = (\<lambda>w. (Inr None, w\<lparr>clock := clock w + int n\<rparr>))"

type_synonym queue_event = "queue_call \<times> (goerr + uuid option)"

inductive queue_step :: "'s world \<Rightarrow> queue_event \<Rightarrow> 's world \<Rightarrow> bool" where
  call: "queue_op c w = (r, w') \<Longrightarrow> queue_step w (c, r) w'"

inductive queue_run :: "'s world \<Rightarrow> queue_event list \<Rightarrow> 's world \<Rightarrow> bool" where
  nil: "queue_run w [] w"
| cons: "queue_step w e w1 \<Longrightarrow> queue_run w1 es w' \<Longrightarrow> queue_run w (e # es) w'"

inductive_simps queue_step_iff: "queue_step w (c, r) w'"
inductive_simps queue_run_Nil [simp]: "queue_run w [] w'"
inductive_simps queue_run_Cons: "queue_run w (e # es) w'"

lemma queue_run_append:
  "queue_run w (xs @ ys) w' \<longleftrightarrow> (\<exists>v. queue_run w xs v \<and> queue_run v ys w')"
  by (induction xs arbitrary: w) (auto simp: queue_run_Cons)

lemmas queue_defs =
  no_id_def claim_job_def update_heartbeat_def recover_stuck_jobs_def mark_succeeded_def
  mark_retry_wait_def mark_failed_or_retry_def mark_unknown_def mark_reconciling_def
  mark_repairing_def update_checkpoint_def

lemma preserves_tick [pres_intro]: "preserves I (\<lambda>w. (Inr None, w\<lparr>clock := clock w + int n\<rparr>))"
  by (simp add: preserves_def)

text \<open>A step of a call that preserves \<open>I\<close> keeps it; so does a run of such calls.\<close>

lemma queue_run_preserves:
  assumes "queue_run w es w'" and "I (db w)"
    and "\<And>c r. (c, r) \<in> set es \<Longrightarrow> preserves I (queue_op c :: ('s, uuid option) act)"
  shows "I (db (w' :: 's world))"
  using assms
proof (induction rule: queue_run.induct)
  case (cons w e w1 es w')
  obtain c r where e: "e = (c, r)" by force
  with cons.hyps(1) have "queue_op c w = (r, w1)" by (simp add: queue_step_iff)
  with cons.prems e have "I (db w1)"
    using preservesD [of I "queue_op c" w] by force
  then show ?case
    by (rule cons.IH) (use cons.prems(2) in auto)
qed

subsection \<open>Every reachable queue is well formed\<close>

text \<open>
  \<open>mark_failed_or_retry\<close> reads the attempts in one statement and writes them in another; what it
  writes is the number read plus one, which is not negative.
\<close>

lemma mark_failed_or_retry_queue_ok: "preserves queue_ok (mark_failed_or_retry i n msg)"
  unfolding preserves_def
proof (intro allI impI)
  fix w :: "'a world"
  assume ok: "queue_ok (db w)"
  obtain r w1 where s: "stmt (select_attempts i) w = (r, w1)" by force
  have ok1: "queue_ok (db w1)"
    using preservesD [OF preserves_stmt [OF select_attempts_preserves], of queue_ok w i] ok s by simp
  show "queue_ok (db (snd (mark_failed_or_retry i n msg w)))"
  proof (cases r)
    case (Inl e)
    with s ok1 show ?thesis by (simp add: mark_failed_or_retry_def seq_def)
  next
    case (Inr a)
    with s obtain t where "select_attempts i t (db w) = (Inr a, db w1)"
      by (auto elim: stmt_InrE)
    then have "0 \<le> a"
      using ok by (auto simp: select_attempts_def queue_ok_def job_ok_def
          split: option.splits dest: lookup_by_Some)
    then have f: "query_preserves queue_ok (update_job i (failed (a + 1) msg))"
      and g: "query_preserves queue_ok (update_job i (retried (a + 1) nx msg))" for nx
      by (auto intro!: update_job_queue_ok)
    have "preserves queue_ok (if a + 1 \<ge> n then stmt (update_job i (failed (a + 1) msg))
        else seq time_now (\<lambda>now. stmt (update_job i (retried (a + 1) (now + retry_delay (a + 1)) msg))))"
      by (intro pres_intro f g)
    from preservesD [OF this ok1] s Inr show ?thesis
      by (simp only: mark_failed_or_retry_def seq_Inr Let_def)
  qed
qed

lemma queue_op_queue_ok: "preserves queue_ok (queue_op c)"
proof (cases c)
  case (CFailOrRetry i n msg)
  then show ?thesis
    by (auto simp: no_id_def intro!: pres_intro mark_failed_or_retry_queue_ok)
qed (auto simp: queue_defs intro!: pres_intro update_job_queue_ok)

text \<open>
  C20. In every state reachable by any interleaving of workers, whatever calls fail, job ids are
  unique, attempts are not negative, and a job that is PROCESSING has a worker, a claim time and a
  heartbeat (so lease expiry can always be decided) and has been attempted at least once.
\<close>

theorem queue_invariant:
  assumes "queue_run w es w'" and "queue_ok (db w)"
  shows "queue_ok (db w')"
  using assms by (rule queue_run_preserves) (rule queue_op_queue_ok)

subsection \<open>A claimed job is exclusive\<close>

definition held :: "string \<Rightarrow> uuid \<Rightarrow> db \<Rightarrow> bool" where
  "held a i d \<longleftrightarrow>
     (\<exists>j. lookup_by j_id i (jobs d) = Some j \<and> j_status j = JProcessing \<and> j_worker j = Some a)"

definition owned :: "string \<Rightarrow> uuid \<Rightarrow> db \<Rightarrow> bool" where
  "owned a i d \<longleftrightarrow> queue_ok d \<and> held a i d"

text \<open>The calls that take job \<open>i\<close> away from its worker, or may.\<close>

fun releases :: "uuid \<Rightarrow> queue_call \<Rightarrow> bool" where
  "releases i (CRecover lease) = True"
| "releases i (CSucceed k) = (k = i)"
| "releases i (CRetry k nxt msg) = (k = i)"
| "releases i (CFailOrRetry k n msg) = (k = i)"
| "releases i (CUnknown k msg) = (k = i)"
| "releases i (CReconcile k) = (k = i)"
| "releases i (CRepair k msg) = (k = i)"
| "releases i _ = False"

lemma held_update:
  assumes "\<And>t j. j_id (f t j) = j_id j"
    and "k \<noteq> i \<or> (\<forall>t j. j_status (f t j) = j_status j \<and> j_worker (f t j) = j_worker j)"
  shows "query_preserves (held a i) (update_job k f)"
proof (rule query_preservesI)
  fix t d
  assume "held a i d"
  then obtain j where j: "lookup_by j_id i (jobs d) = Some j" "j_status j = JProcessing"
    "j_worker j = Some a" by (auto simp: held_def)
  have "lookup_by j_id i (set_by j_id k (f t) (jobs d)) = Some (if k = i then f t j else j)"
    using job_table.lookup_set_same [of "f t" i d] job_table.lookup_set_other [of "f t" i k d] assms(1) j
    by auto
  with j assms(2) show "held a i (snd (update_job k f t d))"
    by (auto simp: held_def update_job_def)
qed

lemma owned_preserves: "preserves queue_ok m \<Longrightarrow> preserves (held a i) m \<Longrightarrow> preserves (owned a i) m"
  by (simp add: preserves_def owned_def)

lemma owned_query:
  "query_preserves queue_ok q \<Longrightarrow> query_preserves (held a i) q \<Longrightarrow> query_preserves (owned a i) q"
  by (simp add: query_preserves_def owned_def)

lemma owned_claim: "query_preserves (owned a i) (claim_query b l)"
proof (rule query_preservesI)
  fix t d
  assume o: "owned a i d"
  then obtain j where j: "lookup_by j_id i (jobs d) = Some j" "j_status j = JProcessing"
    "j_worker j = Some a" by (auto simp: owned_def held_def)
  have ok: "queue_ok (snd (claim_query b l t d))"
    using claim_query_queue_ok o by (auto simp: query_preserves_def owned_def)
  show "owned a i (snd (claim_query b l t d))"
  proof (cases "first_row (candidates t l (jobs d))")
    case None
    with o show ?thesis by (simp add: claim_query_def)
  next
    case (Some k)
    note k = candidates_Some(1,2) [OF Some]
    have "j_id k \<noteq> i"
    proof
      assume "j_id k = i"
      with k(1) o have "lookup_by j_id i (jobs d) = Some k"
        using lookup_by_unique [of j_id "jobs d" k] by (auto simp: owned_def dest: queue_okD)
      with j have "k = j" by simp
      with k(2) j(2) show False by (simp add: eligible_def claimable_status_def)
    qed
    then have "lookup_by j_id i (set_by j_id (j_id k) (claimed_by b t) (jobs d)) = Some j"
      using job_table.lookup_set_other [of "claimed_by b t" i "j_id k" d] j by simp
    with ok j Some show ?thesis by (simp add: owned_def held_def claim_query_def)
  qed
qed

lemma held_insert: "query_preserves (held a i) (insert_job ty res)"
  by (fastforce simp: query_preserves_def held_def insert_job_def lookup_by_snoc)

lemma held_beat:
  "query_preserves (held a i) (update_job k beat)"
  "query_preserves (held a i) (update_job k checkpointed)"
  by (auto simp: beat_def checkpointed_def intro!: held_update)

lemma mark_failed_or_retry_held: "k \<noteq> i \<Longrightarrow> preserves (held a i) (mark_failed_or_retry k n msg)"
  unfolding mark_failed_or_retry_def Let_def by (intro pres_intro held_update) simp_all

lemma queue_op_owned:
  assumes "\<not> releases i c"
  shows "preserves (owned a i) (queue_op c)"
proof (cases c)
  case (CClaim b l)
  then show ?thesis by (auto simp: queue_defs intro!: pres_intro owned_claim)
next
  case (CFailOrRetry k n msg)
  with assms show ?thesis
    by (auto simp: no_id_def intro!: pres_intro owned_preserves mark_failed_or_retry_queue_ok
        mark_failed_or_retry_held)
qed (use assms in \<open>auto simp: queue_defs
       intro!: pres_intro owned_query held_beat held_update held_insert update_job_queue_ok\<close>)

lemma claim_not_owned:
  assumes "queue_op (CClaim b l) w = (Inr (Some i), w')"
  shows "\<not> owned a i (db w)"
proof
  assume o: "owned a i (db w)"
  from assms obtain j where "stmt (claim_query b l) w = (Inr (Some j), w')" and i: "j_id j = i"
    by (auto simp: claim_job_def elim!: seq_InrE)
  from this(1) obtain t where "claim_query b l t (db w) = (Inr (Some j), db w')"
    by (rule stmt_InrE)
  then obtain k where k: "k \<in> set (jobs (db w))" "eligible t l k" "j = claimed_by b t k"
    by (rule claim_query_Some)
  with i o have "lookup_by j_id i (jobs (db w)) = Some k"
    using lookup_by_unique [of j_id "jobs (db w)" k] by (auto simp: owned_def dest: queue_okD)
  with k(2) o show False by (auto simp: owned_def held_def eligible_def claimable_status_def)
qed

lemma claim_owned:
  assumes "queue_op (CClaim a l) w = (Inr (Some i), w')" and "queue_ok (db w)"
  shows "owned a i (db w')"
proof -
  from assms(1) obtain j where "stmt (claim_query a l) w = (Inr (Some j), w')" and i: "j_id j = i"
    by (auto simp: claim_job_def elim!: seq_InrE)
  from this(1) obtain t where c: "claim_query a l t (db w) = (Inr (Some j), db w')"
    by (rule stmt_InrE)
  then obtain k where k: "j = claimed_by a t k" by (rule claim_query_Some)
  have "queue_ok (db w')"
    using claim_query_queue_ok assms(2) c unfolding query_preserves_def by (metis snd_conv)
  moreover have "lookup_by j_id (j_id j) (jobs (db w')) = Some j"
    by (rule claim_takes_earliest_aux(1) [OF assms(2) c])
  ultimately show ?thesis using i k by (simp add: owned_def held_def claimed_by_def)
qed


subsection \<open>A concrete run\<close>

fun run_calls :: "'s world \<Rightarrow> queue_call list \<Rightarrow> queue_event list \<times> 's world" where
  "run_calls w [] = ([], w)"
| "run_calls w (c # cs) =
     (case queue_op c w of (r, w1) \<Rightarrow> (case run_calls w1 cs of (es, w') \<Rightarrow> ((c, r) # es, w')))"

lemma run_calls_run: "queue_run w (fst (run_calls w cs)) (snd (run_calls w cs))"
proof (induction cs arbitrary: w)
  case (Cons c cs)
  obtain r w1 where q: "queue_op c w = (r, w1)" by force
  from Cons [of w1] q show ?case
    by (cases "run_calls w1 cs") (simp add: queue_run_Cons queue_step_iff del: queue_op.simps)
qed (simp add: queue_run_Nil)

definition demo_queue_calls :: "queue_call list" where
  "demo_queue_calls = [CClaim ''w1'' [], CClaim ''w2'' [], CTick 60, CRetry 20 0 ''later'', CClaim ''w2'' []]"

definition queued_db :: db where
  "queued_db = demo_db\<lparr>jobs := [new_job 20 DomainCreate 4 0, new_job 21 AccountQuotaSync 11 5], next_id := 22\<rparr>"

lemma queue_ok_queued: "queue_ok (db (world_of queued_db))"
  by (simp add: queue_ok_def queued_db_def world_of_def unique_on_def new_job_def job_ok_def)

theorem claim_takes_earliest_witness:
  "case claim_query ''w1'' [] 100 queued_db of
      (Inr (Some j), d') \<Rightarrow> j = claimed_by ''w1'' 100 (new_job 20 DomainCreate 4 0) \<and>
        lookup_by j_id 20 (jobs d') = Some j
    | _ \<Rightarrow> False"
proof -
  have q: "fst (claim_query ''w1'' [] 100 queued_db) =
      Inr (Some (claimed_by ''w1'' 100 (new_job 20 DomainCreate 4 0)))"
    by code_simp
  have i: "j_id (claimed_by ''w1'' 100 (new_job 20 DomainCreate 4 0)) = 20"
    by (simp add: claimed_by_def new_job_def)
  have ok: "queue_ok queued_db" using queue_ok_queued by (simp add: world_of_def)
  show ?thesis
    using claim_takes_earliest [OF ok, where worker = "''w1''" and locked = "[]" and t = 100] q i
    by (cases "claim_query ''w1'' [] 100 queued_db") simp
qed

theorem queue_invariant_witness:
  "queue_ok (db (snd (run_calls (world_of queued_db) demo_queue_calls)))"
  by (rule queue_invariant [OF run_calls_run queue_ok_queued])

definition demo_between :: "queue_event list" where
  "demo_between =
     [(CClaim ''w2'' [], Inr (Some 21)), (CTick 60, Inr None), (CRetry 20 0 ''later'', Inr None)]"


end
