(* ===== verification/Triples.thy ===== *)
theory Triples
  imports World
begin

text \<open>
  Triples over the database: from a state in \<open>P\<close>, an action that returns \<open>a\<close> ends in \<open>Q a\<close> and an action
  that fails ends in \<open>E\<close>, whatever the environment does. A failing statement may have had its effect
  (the reply was lost), so its rule asks \<open>E\<close> of both outcomes; a transaction asks nothing of the states
  inside its body, only of the one it commits.
\<close>

definition triple :: "(db \<Rightarrow> bool) \<Rightarrow> ('s, 'a) act \<Rightarrow> ('a \<Rightarrow> db \<Rightarrow> bool) \<Rightarrow> (db \<Rightarrow> bool) \<Rightarrow> bool" where
  "triple P m Q E \<longleftrightarrow>
     (\<forall>w. P (db w) \<longrightarrow> (case m w of (Inl e, w') \<Rightarrow> E (db w') | (Inr a, w') \<Rightarrow> Q a (db w')))"

named_theorems triple_intro \<open>rules for triples\<close>

lemma tripleD_Inr: "triple P m Q E \<Longrightarrow> P (db w) \<Longrightarrow> m w = (Inr a, w') \<Longrightarrow> Q a (db w')"
  by (force simp: triple_def)

lemma tripleD_Inl: "triple P m Q E \<Longrightarrow> P (db w) \<Longrightarrow> m w = (Inl e, w') \<Longrightarrow> E (db w')"
  by (force simp: triple_def)

lemma tripleI:
  assumes "\<And>w a w'. P (db w) \<Longrightarrow> m w = (Inr a, w') \<Longrightarrow> Q a (db w')"
    and "\<And>w e w'. P (db w) \<Longrightarrow> m w = (Inl e, w') \<Longrightarrow> E (db w')"
  shows "triple P m Q E"
  using assms by (auto simp: triple_def split: prod.splits sum.splits)

lemma triple_conseq:
  assumes "triple P' m Q' E'" and "\<And>d. P d \<Longrightarrow> P' d" and "\<And>a d. Q' a d \<Longrightarrow> Q a d" and "\<And>d. E' d \<Longrightarrow> E d"
  shows "triple P m Q E"
  by (rule tripleI) (use assms in \<open>blast dest: tripleD_Inr tripleD_Inl\<close>)+

lemma triple_ret: "(\<And>d. P d \<Longrightarrow> Q a d) \<Longrightarrow> triple P (ret a) Q E"
  by (simp add: triple_def)

lemma triple_fail: "(\<And>d. P d \<Longrightarrow> E d) \<Longrightarrow> triple P (fail e) Q E"
  by (simp add: triple_def)

lemma triple_seq:
  assumes "triple P m R E" and "\<And>a. triple (R a) (k a) Q E"
  shows "triple P (seq m k) Q E"
  using assms by (fastforce simp: triple_def seq_def split: prod.splits sum.splits)

lemma triple_attempt:
  "triple P m (\<lambda>a. Q (Inr a)) (\<lambda>d. \<forall>e. Q (Inl e) d) \<Longrightarrow> triple P (attempt m) Q E"
proof (rule tripleI)
  fix w :: "'a world" and r w'
  assume t: "triple P m (\<lambda>a. Q (Inr a)) (\<lambda>d. \<forall>e. Q (Inl e) d)" and P: "P (db w)"
    and a: "attempt m w = (Inr r, w')"
  from a have m: "m w = (r, w')" by (auto simp: attempt_apply)
  show "Q r (db w')"
  proof (cases r)
    case (Inl e)
    with tripleD_Inl [OF t P, of e w'] m show ?thesis by simp
  next
    case (Inr x)
    with tripleD_Inr [OF t P, of x w'] m show ?thesis by simp
  qed
qed (simp add: attempt_apply)

lemma triple_map_err: "triple P m Q E \<Longrightarrow> triple P (map_err f m) Q E"
  by (fastforce simp: triple_def map_err_def split: prod.splits sum.splits)

lemma triple_wrap_err: "triple P m Q E \<Longrightarrow> triple P (wrap_err p m) Q E"
  by (simp add: wrap_err_def triple_map_err)

lemma triple_tag_err: "triple P m Q E \<Longrightarrow> triple P (tag_err s m) Q E"
  by (simp add: tag_err_def triple_map_err)

lemma triple_ignore: "triple P m (\<lambda>_. Q) Q \<Longrightarrow> triple P (ignore m) (\<lambda>_. Q) E"
  by (auto simp: triple_def split: prod.splits sum.splits) (metis snd_conv sum.exhaust surj_pair)

lemma triple_remote: "(\<And>a d. P d \<Longrightarrow> Q a d) \<Longrightarrow> (\<And>d. P d \<Longrightarrow> E d) \<Longrightarrow> triple P (remote_call f) Q E"
  by (auto simp: triple_def remote_call_def split: prod.splits sum.splits)

lemma triple_now: "(\<And>a d. P d \<Longrightarrow> Q a d) \<Longrightarrow> triple P time_now Q E"
  by (simp add: triple_def)

lemma triple_lift: "(\<And>a d. r = Inr a \<Longrightarrow> P d \<Longrightarrow> Q a d) \<Longrightarrow> (\<And>e d. r = Inl e \<Longrightarrow> P d \<Longrightarrow> E d) \<Longrightarrow> triple P (lift r) Q E"
  by (simp add: triple_def split: sum.splits)

lemma triple_stmt:
  assumes "\<And>t d a d'. P d \<Longrightarrow> q t d = (Inr a, d') \<Longrightarrow> Q a d' \<and> E d'"
    and "\<And>t d e d'. P d \<Longrightarrow> q t d = (Inl e, d') \<Longrightarrow> E d'" and "\<And>d. P d \<Longrightarrow> E d"
  shows "triple P (stmt q) Q E"
proof (rule tripleI)
  fix w :: "'b world" and a w'
  assume "P (db w)" "stmt q w = (Inr a, w')"
  with assms(1) show "Q a (db w')" by (blast dest: stmt_InrD)
next
  fix w :: "'b world" and e w'
  assume P: "P (db w)" and s: "stmt q w = (Inl e, w')"
  have "E (snd (q t (db w)))" for t
    using assms(1,2) [OF P] by (cases "q t (db w)"; cases "fst (q t (db w))") auto
  with stmt_db [of q w] s assms(3) [OF P] show "E (db w')" by auto
qed

text \<open>A statement that keeps \<open>P\<close> and the error condition, whatever it returns.\<close>

lemma triple_stmt_keeps:
  assumes "query_preserves P q" and "\<And>d. P d \<Longrightarrow> E d"
  shows "triple P (stmt q) (\<lambda>_. P) E"
proof -
  have k: "P d \<Longrightarrow> q t d = (r, d') \<Longrightarrow> P d'" for t d r d'
    using assms(1) unfolding query_preserves_def by (metis snd_conv)
  show ?thesis
  proof (rule triple_stmt)
    fix t d a d'
    assume "P d" "q t d = (Inr a, d')"
    with k assms(2) show "P d' \<and> E d'" by blast
  next
    fix t d e d'
    assume "P d" "q t d = (Inl e, d')"
    with k assms(2) show "E d'" by blast
  qed (rule assms(2))
qed

lemma triple_transaction:
  assumes "triple P body (\<lambda>x d. \<exists>a. x = Commit a \<and> Q a d \<and> E d) (\<lambda>_. True)" and "\<And>d. P d \<Longrightarrow> E d"
  shows "triple P (transaction body) Q E"
proof (rule tripleI)
  fix w :: "'a world" and a w'
  assume P: "P (db w)" and t: "transaction body w = (Inr a, w')"
  from t show "Q a (db w')"
  proof (cases rule: transaction_InrE)
    case (commit v v')
    with tripleD_Inr [OF assms(1), of v] P show ?thesis by auto
  next
    case (abandon v v')
    with tripleD_Inr [OF assms(1), of v] P show ?thesis by auto
  qed
next
  fix w :: "'a world" and e w'
  assume P: "P (db w)" and t: "transaction body w = (Inl e, w')"
  obtain r w1 where b: "begin_tx w = (r, w1)" by force
  then have d: "db w1 = db w" using begin_tx_db [of w] by simp
  let ?v = "w1\<lparr>tx_time := Some (clock w1)\<rparr>"
  obtain s w2 where c: "body ?v = (s, w2)" by force
  have E1: "E (db w1)" using assms(2) P d by simp
  show "E (db w')"
  proof (cases r)
    case (Inl e')
    with t b E1 show ?thesis by (simp add: transaction_def)
  next
    case r: (Inr _)
    show ?thesis
    proof (cases s)
      case (Inl e')
      with t b c r E1 show ?thesis by (auto simp: transaction_def)
    next
      case (Inr x)
      from tripleD_Inr [OF assms(1), of ?v] c Inr P d obtain a where x: "x = Commit a" "E (db w2)" by auto
      with t b c r Inr have "commit_tx (db w1) a (w2\<lparr>tx_time := None\<rparr>) = (Inl e, w')"
        by (simp add: transaction_def)
      with x(2) E1 show ?thesis
        by (auto simp: commit_tx_def Let_def split: list.splits option.splits fault.splits prod.splits)
    qed
  qed
qed

lemma triple_named_transaction:
  assumes "triple P body (\<lambda>x d. \<exists>a. x = Commit a \<and> Q a d \<and> E d) (\<lambda>_. True)" and "\<And>d. P d \<Longrightarrow> E d"
  shows "triple P (named_transaction f g body) Q E"
proof -
  have t: "triple P (transaction body) Q E" by (rule triple_transaction) (use assms in auto)
  show ?thesis
  proof (rule tripleI)
    fix w :: "'a world" and a w'
    assume "P (db w)" "named_transaction f g body w = (Inr a, w')"
    then show "Q a (db w')" using tripleD_Inr [OF t] by (simp add: named_transaction_Inr)
  next
    fix w :: "'a world" and e w'
    assume P: "P (db w)" and n: "named_transaction f g body w = (Inl e, w')"
    then have s: "snd (transaction body w) = w'" using named_transaction_snd [of f g body w] by simp
    obtain e' where "fst (transaction body w) = Inl e'"
      using n named_transaction_Inr [of f g body w] by (cases "transaction body w"; cases "fst (transaction body w)") auto
    with s have "transaction body w = (Inl e', w')" by (metis prod.collapse)
    with P show "E (db w')" using tripleD_Inl [OF t] by blast
  qed
qed

lemma triple_if: "(b \<Longrightarrow> triple P m Q E) \<Longrightarrow> (\<not> b \<Longrightarrow> triple P n Q E) \<Longrightarrow> triple P (if b then m else n) Q E"
  by simp

lemma triple_option:
  "(x = None \<Longrightarrow> triple P m Q E) \<Longrightarrow> (\<And>a. x = Some a \<Longrightarrow> triple P (n a) Q E) \<Longrightarrow>
   triple P (case x of None \<Rightarrow> m | Some a \<Rightarrow> n a) Q E"
  by (cases x) simp_all

lemma triple_sum:
  "(\<And>e. x = Inl e \<Longrightarrow> triple P (m e) Q E) \<Longrightarrow> (\<And>a. x = Inr a \<Longrightarrow> triple P (n a) Q E) \<Longrightarrow>
   triple P (case x of Inl e \<Rightarrow> m e | Inr a \<Rightarrow> n a) Q E"
  by (cases x) simp_all

lemma triple_for_each: "(\<And>x. triple P (f x) (\<lambda>_. P) E) \<Longrightarrow> triple P (for_each f xs) (\<lambda>_. P) E"
  by (induction xs) (auto intro: triple_ret triple_seq)

text \<open>An action that preserves \<open>P\<close> as an invariant.\<close>

lemma triple_preserves: "preserves P m \<Longrightarrow> (\<And>d. P d \<Longrightarrow> E d) \<Longrightarrow> triple P m (\<lambda>_. P) E"
  by (rule tripleI) (metis preservesD snd_conv)+

end
