(* ===== verification/Worker.thy ===== *)
theory Worker
  imports Addresses Retry JobQueue Triples
begin

text \<open>
  The provisioning worker: \<^verbatim>\<open>internal/provisioning/worker.go\<close>. The Stalwart client and the resolver are
  services outside this theory; what they answer, and when they fail, is theirs to decide. A timeout of
  a call is a failure of that call. The heartbeat of a running job is a queue call of its own
  (\<open>CHeartbeat\<close> in \<open>JobQueue\<close>), interleaved by the scheduler.
\<close>

record 's stalwart =
  sw_domain_matches :: "string \<Rightarrow> string \<Rightarrow> ('s, bool) service"
  sw_find_domain :: "string \<Rightarrow> ('s, string) service"
  sw_create_domain :: "string \<Rightarrow> ('s, string) service"
  sw_account_matches :: "string \<Rightarrow> string \<Rightarrow> string \<Rightarrow> ('s, bool) service"
  sw_find_account :: "string \<Rightarrow> ('s, string) service"
  sw_create_account :: "string \<Rightarrow> string \<Rightarrow> string \<Rightarrow> string \<Rightarrow> ('s, string) service"
  sw_discover_mailboxes :: "string \<Rightarrow> ('s, (string \<times> string) list) service"
  sw_create_archive :: "string \<Rightarrow> ('s, string option) service"
  sw_session_state :: "('s, string) service"
  sw_update_quota :: "string \<Rightarrow> int \<Rightarrow> ('s, unit) service"
  sw_disable_account :: "string \<Rightarrow> ('s, unit) service"
  sw_enable_account :: "string \<Rightarrow> ('s, unit) service"

record worker =
  wk_id :: string
  wk_lease :: time
  wk_heartbeat :: time
  wk_max_attempts :: int
  wk_policy :: retry_policy
  wk_shutting_down :: bool
  wk_slots_used :: nat

definition new_worker :: "string \<Rightarrow> int \<Rightarrow> int \<Rightarrow> int \<Rightarrow> int \<Rightarrow> worker" where
  "new_worker i lease heartbeat attempts backoff =
     \<lparr>wk_id = i, wk_lease = wrap64 (lease * second), wk_heartbeat = wrap64 (heartbeat * second),
      wk_max_attempts = attempts,
      wk_policy = \<lparr>max_attempts = attempts, initial_backoff = 2 * second,
                   max_backoff = wrap64 (backoff * second), jitter_fraction = 1 / 4\<rparr>,
      wk_shutting_down = False, wk_slots_used = 0\<rparr>"

definition slot_capacity :: nat where
  "slot_capacity = 5"


section \<open>Domains\<close>

text \<open>A nullable text column read through \<^verbatim>\<open>sql.NullString\<close>, with the empty string for NULL.\<close>

definition null_string :: "string option \<Rightarrow> string" where
  "null_string x = (case x of None \<Rightarrow> '''' | Some s \<Rightarrow> s)"

definition found_id :: "goerr + string \<Rightarrow> string option" where
  "found_id r = (case r of Inl e \<Rightarrow> None | Inr s \<Rightarrow> if s = '''' then None else Some s)"

definition exec_domain :: "uuid \<Rightarrow> (domain \<Rightarrow> domain) \<Rightarrow> ('s, unit) act" where
  "exec_domain i f = seq (stmt (update_domain i f)) (\<lambda>_. ret ())"

definition process_domain_create :: "'s stalwart \<Rightarrow> job \<Rightarrow> ('s, unit) act" where
  "process_domain_create c j =
     seq (wrap_err ''failed to get domain'' (stmt (select_domain (\<lambda>x. d_id x = j_resource j)))) (\<lambda>x.
     let sid = null_string (d_stalwart x) in
     seq (if sid \<noteq> '''' then
            seq (attempt (remote_call (sw_domain_matches c sid (d_name x)))) (\<lambda>r. ret (r = Inr True))
          else ret False) (\<lambda>skip.
     if skip then ret ()
     else
       seq (attempt (remote_call (sw_find_domain c (d_name x)))) (\<lambda>r.
       case found_id r of
         Some existing \<Rightarrow>
           seq (wrap_err ''failed to update domain with existing Stalwart ID''
                  (exec_domain (j_resource j) (d_stalwart_update (\<lambda>_. Some existing)))) (\<lambda>_.
           wrap_err ''failed to update job status''
             (stmt (update_job (j_id j) (\<lambda>t k. k\<lparr>j_status := JSucceeded\<rparr>))))
       | None \<Rightarrow>
           seq (wrap_err ''failed to create domain in Stalwart'' (remote_call (sw_create_domain c (d_name x)))) (\<lambda>new.
           let sid = (if new = '''' then d_name x else new) in
           exec_domain (j_resource j) (\<lambda>y. y\<lparr>d_status := DomActive, d_stalwart := Some sid\<rparr>)))))"

text \<open>The token column is scanned into a \<^verbatim>\<open>string\<close>, which refuses NULL.\<close>

definition scan_null :: goerr where
  "scan_null = Plain ''can't scan into dest[1]: cannot scan NULL into *string''"

definition process_domain_verify :: "'s resolver \<Rightarrow> job \<Rightarrow> ('s, unit) act" where
  "process_domain_verify r j =
     seq (stmt (select_domain (\<lambda>x. d_id x = j_resource j))) (\<lambda>x.
     case d_token x of
       None \<Rightarrow> fail scan_null
     | Some token \<Rightarrow>
         seq (wrap_err ''DNS lookup failed'' (remote_call (lookup_txt r (''_norest-verification.'' @ d_name x)))) (\<lambda>txts.
         if \<not> list_ex (txt_matches token) txts
         then fail (Plain ''verification record not found or token mismatch'')
         else
           seq (exec_domain (j_resource j) (d_verification_update (\<lambda>_. VerVerified))) (\<lambda>_.
           seq (attempt (remote_call (lookup_mx r (d_name x)))) (\<lambda>_.
           seq (exec_domain (j_resource j) (\<lambda>y. y\<lparr>d_status := DomActive, d_registration := True\<rparr>)) (\<lambda>_.
           wrap_err ''failed to create DOMAIN_CREATE job'' (stmt (insert_job DomainCreate (j_resource j))))))))"


section \<open>Mailboxes\<close>

definition update_mailbox :: "uuid \<Rightarrow> (time \<Rightarrow> mailbox \<Rightarrow> mailbox) \<Rightarrow> unit query" where
  "update_mailbox i f = (\<lambda>t d. (Inr (), d\<lparr>mailboxes := set_by m_id i (f t) (mailboxes d)\<rparr>))"

definition select_mailbox_account :: "uuid \<Rightarrow> (mailbox \<times> address \<times> domain) query" where
  "select_mailbox_account i = (\<lambda>t d.
     (case first_row [(m, a, x). m \<leftarrow> mailboxes d, m_id m = i, a \<leftarrow> addresses d, m_address m = a_id a,
                                 x \<leftarrow> domains d, a_domain a = d_id x] of
        None \<Rightarrow> Inl (Sentinel ErrNoRows) | Some r \<Rightarrow> Inr r, d))"

definition set_domain_id_by_name :: "string \<Rightarrow> string \<Rightarrow> unit query" where
  "set_domain_id_by_name name sid = (\<lambda>t d.
     (Inr (), d\<lparr>domains := set_by d_name name (d_stalwart_update (\<lambda>_. Some sid)) (domains d)\<rparr>))"

definition delete_mappings :: "uuid \<Rightarrow> unit query" where
  "delete_mappings i = (\<lambda>t d. (Inr (), d\<lparr>mappings := delete_where (\<lambda>p. mp_mailbox p = i) (mappings d)\<rparr>))"

definition insert_mapping :: "uuid \<Rightarrow> string \<Rightarrow> string \<Rightarrow> unit query" where
  "insert_mapping i role sid = (\<lambda>t d.
     if \<exists>p \<in> set (mappings d). mp_mailbox p = i \<and> mp_role p = role
     then (Inl (unique_violation ''mailbox_mappings_mailbox_id_role_key''), d)
     else (Inr (), d\<lparr>mappings := mappings d @ [\<lparr>mp_mailbox = i, mp_role = role, mp_stalwart = sid\<rparr>]\<rparr>))"

definition upsert_sync_state :: "uuid \<Rightarrow> string \<Rightarrow> unit query" where
  "upsert_sync_state i st = (\<lambda>t d.
     (Inr (),
      case lookup_by ss_mailbox i (sync_states d) of
        None \<Rightarrow> d\<lparr>sync_states := sync_states d @
          [\<lparr>ss_mailbox = i, ss_state = Some st, ss_status = ''idle'', ss_synced_at = Some t, ss_error = None\<rparr>]\<rparr>
      | Some s \<Rightarrow> d\<lparr>sync_states := set_by ss_mailbox i
          (\<lambda>s. s\<lparr>ss_state := Some st, ss_status := ''idle'', ss_synced_at := Some t\<rparr>) (sync_states d)\<rparr>))"

text \<open>Make sure the mailbox's domain exists in Stalwart; the result is its id there.\<close>

definition ensure_stalwart_domain :: "'s stalwart \<Rightarrow> string \<Rightarrow> string \<Rightarrow> ('s, string) act" where
  "ensure_stalwart_domain c sid name =
     (if sid \<noteq> '''' then ret sid
      else
        seq (attempt (remote_call (sw_find_domain c name))) (\<lambda>r.
        case found_id r of
          Some existing \<Rightarrow>
            seq (wrap_err ''failed to update domain with existing Stalwart ID''
                   (stmt (set_domain_id_by_name name existing))) (\<lambda>_. ret existing)
        | None \<Rightarrow>
            seq (wrap_err ''failed to create Stalwart domain'' (remote_call (sw_create_domain c name))) (\<lambda>new.
            seq (wrap_err ''failed to update domain with new Stalwart ID''
                   (stmt (set_domain_id_by_name name new))) (\<lambda>_. ret new))))"

text \<open>Find the account in Stalwart by name or create it; the result is its id there.\<close>

definition ensure_stalwart_account ::
  "'s stalwart \<Rightarrow> nat list \<Rightarrow> string \<Rightarrow> string \<Rightarrow> string \<Rightarrow> ('s, string) act" where
  "ensure_stalwart_account c rnd lp sid name =
     seq (attempt (remote_call (sw_find_account c name))) (\<lambda>r.
     case found_id r of
       Some existing \<Rightarrow> ret existing
     | None \<Rightarrow>
         seq (wrap_err ''failed to create account in Stalwart''
                (remote_call (sw_create_account c lp sid (base64_encode rnd) name))) (\<lambda>new.
         ret (if new = '''' then name else new)))"

definition persist_provisioning :: "uuid \<Rightarrow> string \<Rightarrow> ('s, unit) act" where
  "persist_provisioning i acc =
     named_transaction id (\<lambda>_. Wrapped ''failed to commit provisioning state'') (
       seq (wrap_err ''failed to update mailbox to provisioning''
              (stmt (update_mailbox i (\<lambda>t m. m\<lparr>m_status := MbProvisioning, m_stalwart := Some acc\<rparr>)))) (\<lambda>_.
       seq (wrap_err ''failed to update address to claimed'' (stmt (provision_address i))) (\<lambda>_.
       ret (Commit ()))))"

definition persist_mappings :: "uuid \<Rightarrow> (string \<times> string) list \<Rightarrow> ('s, unit) act" where
  "persist_mappings i ms =
     named_transaction (Wrapped ''failed to begin transaction for mailbox mappings'')
       (\<lambda>_. Wrapped ''failed to commit mailbox mappings'') (
       seq (wrap_err ''failed to clear existing mailbox mappings'' (stmt (delete_mappings i))) (\<lambda>_.
       seq (for_each (\<lambda>(role, sid).
              wrap_err (''failed to insert mailbox mapping for role '' @ role)
                (stmt (insert_mapping i role sid))) ms) (\<lambda>_.
       ret (Commit ()))))"

definition persist_activation :: "uuid \<Rightarrow> string \<Rightarrow> ('s, unit) act" where
  "persist_activation i st =
     named_transaction (Wrapped ''failed to begin transaction for checkpoint'')
       (\<lambda>_. Wrapped ''failed to commit activation'') (
       seq (wrap_err ''failed to persist initial sync checkpoint''
              (stmt (update_mailbox i (\<lambda>t m. m\<lparr>m_jmap_state := Some st, m_checkpoint := Some st,
                 m_synced_at := Some t\<rparr>)))) (\<lambda>_.
       seq (wrap_err ''failed to update mailbox to active''
              (stmt (update_mailbox i (\<lambda>t m. m\<lparr>m_status := MbActive\<rparr>)))) (\<lambda>_.
       seq (wrap_err ''failed to initialize mail_sync_state'' (stmt (upsert_sync_state i st))) (\<lambda>_.
       ret (Commit ())))))"

text \<open>The mailboxes Stalwart reports, with an archive created when there is none.\<close>

definition discover_with_archive :: "'s stalwart \<Rightarrow> string \<Rightarrow> ('s, (string \<times> string) list) act" where
  "discover_with_archive c acc =
     seq (wrap_err ''failed to discover mailboxes'' (remote_call (sw_discover_mailboxes c acc))) (\<lambda>ms.
     if ''archive'' \<in> fst ` set ms then ret ms
     else
       seq (wrap_err ''failed to create archive mailbox'' (remote_call (sw_create_archive c acc))) (\<lambda>r.
       case r of
         None \<Rightarrow> fail (Plain ''archive mailbox was not created successfully'')
       | Some i \<Rightarrow> ret (ms @ [(''archive'', i)])))"

definition select_claimant :: "uuid \<Rightarrow> uuid option query" where
  "select_claimant i = (\<lambda>t d.
     (case first_row [a_claimed_by a. a \<leftarrow> addresses d, m \<leftarrow> mailboxes d, a_id a = m_address m, m_id m = i] of
        None \<Rightarrow> Inl (Sentinel ErrNoRows) | Some u \<Rightarrow> Inr u, d))"

definition activate_user :: "uuid \<Rightarrow> nat query" where
  "activate_user u = (\<lambda>t d.
     let P = (\<lambda>x. u_id x = u \<and> u_status x = UserPending) in
     (Inr (count_where P (users d)), d\<lparr>users := update_where P (u_status_update (\<lambda>_. UserActive)) (users d)\<rparr>))"

text \<open>The last part of the handler, from the account's id on.\<close>

definition activate_account :: "'s stalwart \<Rightarrow> job \<Rightarrow> string \<Rightarrow> ('s, unit) act" where
  "activate_account c j acc =
     (let i = j_resource j in
        seq (persist_provisioning i acc) (\<lambda>_.
        seq (attempt (update_checkpoint (j_id j))) (\<lambda>_.
        seq (discover_with_archive c acc) (\<lambda>ms.
        seq (persist_mappings i ms) (\<lambda>_.
        seq (attempt (update_checkpoint (j_id j))) (\<lambda>_.
        seq (wrap_err ''failed to update mailbox to syncing''
               (stmt (update_mailbox i (\<lambda>t m. m\<lparr>m_status := MbSyncing\<rparr>)))) (\<lambda>_.
        seq (wrap_err ''failed to get JMAP session for initial sync'' (remote_call (sw_session_state c))) (\<lambda>st.
        seq (persist_activation i st) (\<lambda>_.
        seq (attempt (stmt (select_claimant i))) (\<lambda>r.
        case r of
          Inl e \<Rightarrow> ret ()
        | Inr None \<Rightarrow> ret ()
        | Inr (Some u) \<Rightarrow> seq (attempt (stmt (activate_user u))) (\<lambda>_. ret ())))))))))))"

definition process_account_create :: "'s stalwart \<Rightarrow> nat list \<Rightarrow> job \<Rightarrow> ('s, unit) act" where
  "process_account_create c rnd j =
     seq (wrap_err ''failed to get mailbox'' (stmt (select_mailbox_account (j_resource j)))) (\<lambda>(m, a, x).
     let lp = a_local a; name = a_local a @ ''@'' @ d_name x; acc0 = null_string (m_stalwart m) in
     seq (ensure_stalwart_domain c (null_string (d_stalwart x)) (d_name x)) (\<lambda>sid.
     seq (if acc0 \<noteq> '''' \<and> m_status m = MbActive then
            seq (attempt (remote_call (sw_account_matches c acc0 lp sid))) (\<lambda>r. ret (r = Inr True))
          else ret False) (\<lambda>skip.
     if skip then ret ()
     else seq (ensure_stalwart_account c rnd lp sid name) (activate_account c j))))"

section \<open>Accounts\<close>

definition select_quota :: "uuid \<Rightarrow> (int \<times> account_status) query" where
  "select_quota acc = (\<lambda>t d.
     (case first_row (sort_key (\<lambda>(s, p, a). - sb_created s)
        [(s, p, a). s \<leftarrow> subscriptions d, sb_account s = acc, sb_status s \<in> {SubActive, SubTrialing},
                    p \<leftarrow> plans d, pl_id p = sb_plan s, a \<leftarrow> accounts d, pa_id a = sb_account s]) of
        None \<Rightarrow> Inl (Sentinel ErrNoRows)
      | Some (s, p, a) \<Rightarrow> Inr (pl_max_storage p, pa_status a), d))"

definition account_mailbox_ids :: "uuid \<Rightarrow> db \<Rightarrow> string list" where
  "account_mailbox_ids acc d =
     [sid. m \<leftarrow> mailboxes d, a \<leftarrow> addresses d, m_address m = a_id a, x \<leftarrow> domains d, a_domain a = d_id x,
           d_account x = Some acc, sid \<leftarrow> (case m_stalwart m of None \<Rightarrow> [] | Some s \<Rightarrow> [s])]"

definition quota_bytes :: "int \<times> account_status \<Rightarrow> int" where
  "quota_bytes q = (if snd q = AccSuspended then 1 else fst q)"

definition process_account_quota_sync :: "'s stalwart \<Rightarrow> job \<Rightarrow> ('s, unit) act" where
  "process_account_quota_sync c j =
     seq (stmt (select_quota (j_resource j))) (\<lambda>q.
     seq (stmt (\<lambda>t d. (Inr (account_mailbox_ids (j_resource j) d), d))) (\<lambda>ids.
     for_each (\<lambda>i. remote_call (sw_update_quota c i (quota_bytes q))) ids))"

definition select_mailbox :: "uuid \<Rightarrow> mailbox query" where
  "select_mailbox i = (\<lambda>t d.
     (case lookup_by m_id i (mailboxes d) of None \<Rightarrow> Inl (Sentinel ErrNoRows) | Some m \<Rightarrow> Inr m, d))"

definition process_account_disable :: "'s stalwart \<Rightarrow> job \<Rightarrow> ('s, unit) act" where
  "process_account_disable c j =
     seq (wrap_err ''failed to get mailbox'' (stmt (select_mailbox (j_resource j)))) (\<lambda>m.
     if m_status m = MbDisabled then ret ()
     else
       seq (if null_string (m_stalwart m) \<noteq> '''' then
              wrap_err ''failed to disable account in Stalwart''
                (remote_call (sw_disable_account c (null_string (m_stalwart m))))
            else ret ()) (\<lambda>_.
       stmt (update_mailbox (j_resource j) (\<lambda>t m. m\<lparr>m_status := MbDisabled\<rparr>))))"

definition process_account_enable :: "'s stalwart \<Rightarrow> job \<Rightarrow> ('s, unit) act" where
  "process_account_enable c j =
     seq (wrap_err ''failed to get mailbox'' (stmt (select_mailbox (j_resource j)))) (\<lambda>m.
     if m_status m = MbActive then ret ()
     else
       seq (if null_string (m_stalwart m) \<noteq> '''' then
              wrap_err ''failed to enable account in Stalwart''
                (remote_call (sw_enable_account c (null_string (m_stalwart m))))
            else ret ()) (\<lambda>_.
       stmt (update_mailbox (j_resource j) (\<lambda>t m. m\<lparr>m_status := MbActive\<rparr>))))"


section \<open>The job loop\<close>

definition process_job :: "'s stalwart \<Rightarrow> 's resolver \<Rightarrow> nat list \<Rightarrow> job \<Rightarrow> ('s, unit) act" where
  "process_job c r rnd j =
     (case j_type j of
        DomainCreate \<Rightarrow> process_domain_create c j
      | AccountCreate \<Rightarrow> process_account_create c rnd j
      | DomainVerify \<Rightarrow> process_domain_verify r j
      | AccountQuotaSync \<Rightarrow> process_account_quota_sync c j
      | AccountSuspend \<Rightarrow> process_account_quota_sync c j
      | AccountReactivate \<Rightarrow> process_account_quota_sync c j
      | AccountDisable \<Rightarrow> process_account_disable c j
      | AccountEnable \<Rightarrow> process_account_enable c j
      | _ \<Rightarrow> ret ())"

definition handle_job_success :: "job \<Rightarrow> ('s, unit) act" where
  "handle_job_success j = seq (attempt (mark_succeeded (j_id j))) (\<lambda>_. ret ())"

definition gives_up :: "worker \<Rightarrow> job \<Rightarrow> goerr \<Rightarrow> bool" where
  "gives_up wk j e = (\<not> is_retryable (classify_error (Some e)) \<or> j_attempts j \<ge> wk_max_attempts wk)"

definition handle_job_failure :: "worker \<Rightarrow> rat \<Rightarrow> job \<Rightarrow> goerr \<Rightarrow> ('s, unit) act" where
  "handle_job_failure wk rnd j e =
     (let msg = truncate_error (err_text e) 1000 in
      if gives_up wk j e
      then seq (attempt (mark_failed_or_retry (j_id j) (wk_max_attempts wk) msg)) (\<lambda>_. ret ())
      else
        let backoff = calculate_backoff (wk_policy wk) (j_attempts j) rnd in
        seq time_now (\<lambda>now.
        seq (attempt (mark_retry_wait (j_id j) (now + backoff) msg)) (\<lambda>_. ret ())))"

definition finish_job :: "worker \<Rightarrow> rat \<Rightarrow> job \<Rightarrow> goerr + unit \<Rightarrow> ('s, unit) act" where
  "finish_job wk rnd j r =
     (case r of Inl e \<Rightarrow> handle_job_failure wk rnd j e | Inr _ \<Rightarrow> handle_job_success j)"

datatype outcome = ShuttingDown | AtCapacity | ClaimFailed goerr | NoJob | Ran job "goerr + unit"

text \<open>
  One poll. It takes a slot of the semaphore and gives it back on every path; \<open>locked\<close> are the rows
  other transactions hold while it claims.
\<close>

definition take_slot :: "worker \<Rightarrow> worker" where
  "take_slot wk = wk\<lparr>wk_slots_used := wk_slots_used wk + 1\<rparr>"

definition give_slot :: "worker \<Rightarrow> worker" where
  "give_slot wk = wk\<lparr>wk_slots_used := wk_slots_used wk - 1\<rparr>"

definition poll ::
  "'s stalwart \<Rightarrow> 's resolver \<Rightarrow> nat list \<Rightarrow> rat \<Rightarrow> uuid list \<Rightarrow> worker \<Rightarrow> ('s, outcome \<times> worker) act" where
  "poll c r bytes rnd locked wk =
     (if wk_shutting_down wk then ret (ShuttingDown, wk)
      else if wk_slots_used wk \<ge> slot_capacity then ret (AtCapacity, wk)
      else
        let wk = take_slot wk in
        seq (attempt (claim_job (wk_id wk) locked)) (\<lambda>x.
        case x of
          Inl e \<Rightarrow> ret (ClaimFailed e, give_slot wk)
        | Inr None \<Rightarrow> ret (NoJob, give_slot wk)
        | Inr (Some j) \<Rightarrow>
            seq (attempt (process_job c r bytes j)) (\<lambda>res.
            seq (finish_job wk rnd j res) (\<lambda>_.
            ret (Ran j res, give_slot wk)))))"

definition worker_recover :: "worker \<Rightarrow> ('s, nat) act" where
  "worker_recover wk = recover_stuck_jobs (wk_lease wk)"

text \<open>One tick of \<^verbatim>\<open>Run\<close>: the backlog metrics, the clean-up of reservations, then a poll.\<close>

definition tick ::
  "'s stalwart \<Rightarrow> 's resolver \<Rightarrow> nat list \<Rightarrow> rat \<Rightarrow> uuid list \<Rightarrow> worker \<Rightarrow> ('s, outcome \<times> worker) act" where
  "tick c r bytes rnd locked wk =
     seq (attempt get_backlog_stats) (\<lambda>_.
     seq (attempt (clean_reservations locked)) (\<lambda>_.
     poll c r bytes rnd locked wk))"

text \<open>
  \<^verbatim>\<open>gracefulShutdown\<close>: set the flag, then ask once a second for the number of jobs still being
  processed, until there is none, the count fails, or the timeout (\<open>ticks\<close>) is over.
\<close>

datatype shutdown_result = TimedOut | Drained

fun await_drain :: "worker \<Rightarrow> nat \<Rightarrow> ('s, shutdown_result) act" where
  "await_drain wk 0 = ret TimedOut"
| "await_drain wk (Suc ticks) =
     (\<lambda>w. seq (count_processing (wk_id wk)) (\<lambda>n.
        if n = 0 then ret Drained else await_drain wk ticks) (w\<lparr>clock := clock w + second\<rparr>))"

definition graceful_shutdown :: "worker \<Rightarrow> worker \<times> ('s, shutdown_result) act" where
  "graceful_shutdown wk = (let wk = wk\<lparr>wk_shutting_down := True\<rparr> in (wk, await_drain wk 30))"


section \<open>Failing jobs\<close>

text \<open>
  What one failing round does to a job's row, read off the code: the claim, then either the second
  count of \<^verbatim>\<open>MarkFailedOrRetry\<close> or the plain retry. \<open>t\<close> is the time of the round.
\<close>

definition after_failure :: "worker \<Rightarrow> rat \<Rightarrow> goerr \<Rightarrow> time \<Rightarrow> job \<Rightarrow> job" where
  "after_failure wk rnd e t j =
     (let msg = truncate_error (err_text e) 1000 in
      if gives_up wk j e then
        let n = j_attempts j + 1 in
        if n \<ge> wk_max_attempts wk then failed n msg t j
        else retried n (t + retry_delay n) msg t j
      else rescheduled JRetryWait (t + calculate_backoff (wk_policy wk) (j_attempts j) rnd) msg t j)"

lemma set_by_cong:
  "(\<And>r. r \<in> set rows \<Longrightarrow> key r = k \<Longrightarrow> f r = g r) \<Longrightarrow> set_by key k f rows = set_by key k g rows"
  by (induction rows) auto

lemma handle_job_failure_quiet:
  assumes "quiet w" and "queue_ok (db w)" and "lookup_by j_id (j_id j) (jobs (db w)) = Some j"
  shows "handle_job_failure wk rnd j e w =
    (Inr (), w\<lparr>db := (db w)\<lparr>jobs := set_by j_id (j_id j) (after_failure wk rnd e (clock w)) (jobs (db w))\<rparr>\<rparr>)"
proof -
  have f: "faults w = []" "tx_time w = None" using assms(1) by (simp_all add: quiet_def)
  have only: "k = j" if "k \<in> set (jobs (db w))" "j_id k = j_id j" for k
    using that assms(2,3) by (auto dest: queue_okD lookup_by_Some unique_onD)
  have row: "set_by j_id (j_id j) g (jobs (db w)) = set_by j_id (j_id j) (after_failure wk rnd e (clock w)) (jobs (db w))"
    if "g j = after_failure wk rnd e (clock w) j" for g
    by (rule set_by_cong) (use that only in auto)
  show ?thesis
  proof (cases "gives_up wk j e")
    case True
    show ?thesis
    proof (cases "j_attempts j + 1 \<ge> wk_max_attempts wk")
      case m: True
      have "failed (j_attempts j + 1) (truncate_error (err_text e) 1000) (clock w) j = after_failure wk rnd e (clock w) j"
        using True m by (simp add: after_failure_def Let_def)
      from row [of "failed (j_attempts j + 1) (truncate_error (err_text e) 1000) (clock w)", OF this] show ?thesis using f assms(3) True m
        by (simp add: handle_job_failure_def mark_failed_or_retry_def select_attempts_def update_job_def
            act_simps Let_def)
    next
      case m: False
      have "retried (j_attempts j + 1) (clock w + retry_delay (j_attempts j + 1))
          (truncate_error (err_text e) 1000) (clock w) j = after_failure wk rnd e (clock w) j"
        using True m by (simp add: after_failure_def Let_def)
      from row [of "retried (j_attempts j + 1) (clock w + retry_delay (j_attempts j + 1)) (truncate_error (err_text e) 1000) (clock w)", OF this] show ?thesis using f assms(3) True m
        by (simp add: handle_job_failure_def mark_failed_or_retry_def select_attempts_def update_job_def
            act_simps Let_def)
    qed
  next
    case False
    have "rescheduled JRetryWait (clock w + calculate_backoff (wk_policy wk) (j_attempts j) rnd)
        (truncate_error (err_text e) 1000) (clock w) j = after_failure wk rnd e (clock w) j"
      using False by (simp add: after_failure_def Let_def)
    from row [of "rescheduled JRetryWait (clock w + calculate_backoff (wk_policy wk) (j_attempts j) rnd) (truncate_error (err_text e) 1000) (clock w)", OF this] show ?thesis using f False
      by (simp add: handle_job_failure_def mark_retry_wait_def update_job_def act_simps Let_def)
  qed
qed

lemma slot_roundtrip [simp]: "give_slot (take_slot wk) = wk"
  by (simp add: give_slot_def take_slot_def)

lemma take_slot_fields [simp]:
  "wk_id (take_slot wk) = wk_id wk" "wk_max_attempts (take_slot wk) = wk_max_attempts wk"
  "wk_policy (take_slot wk) = wk_policy wk"
  by (simp_all add: take_slot_def)

lemma gives_up_take_slot [simp]: "gives_up (take_slot wk) = gives_up wk"
  by (intro ext) (simp add: gives_up_def)

lemma after_failure_take_slot [simp]: "after_failure (take_slot wk) = after_failure wk"
  by (intro ext) (simp add: after_failure_def Let_def)

lemma never_fails:
  "\<exists>w'. handle_job_success j w = (Inr (), w')" "\<exists>w'. handle_job_failure wk rnd j e w = (Inr (), w')"
  "\<exists>w'. finish_job wk rnd j r w = (Inr (), w')"
proof -
  show s: "\<exists>w'. handle_job_success j w = (Inr (), w')"
    by (simp add: handle_job_success_def seq_def attempt_apply)
  show f: "\<exists>w'. handle_job_failure wk rnd j e w = (Inr (), w')" for e
    by (simp add: handle_job_failure_def seq_def attempt_apply Let_def)
  show "\<exists>w'. finish_job wk rnd j r w = (Inr (), w')"
    using s f by (cases r) (simp_all add: finish_job_def)
qed

text \<open>
  A poll never fails and gives its slot of the semaphore back on every path, so the worker's
  capacity is not lost, whatever happens to the calls it makes; a worker that is shutting down or
  whose slots are all taken does not touch the database.
\<close>

theorem poll_returns_slot:
  "(\<exists>out. fst (poll c r bytes rnd locked wk w) = Inr (out, wk)) \<and>
   (wk_shutting_down wk \<or> slot_capacity \<le> wk_slots_used wk \<longrightarrow> snd (poll c r bytes rnd locked wk w) = w)"
proof
  show "\<exists>out. fst (poll c r bytes rnd locked wk w) = Inr (out, wk)"
  proof (cases "wk_shutting_down wk \<or> slot_capacity \<le> wk_slots_used wk")
    case True
    then show ?thesis by (auto simp: poll_def)
  next
    case False
    obtain x w1 where 1: "claim_job (wk_id wk) locked w = (x, w1)" by force
    show ?thesis
    proof (cases "\<exists>j. x = Inr (Some j)")
      case True
      then obtain j where x: "x = Inr (Some j)" by blast
      obtain res w2 where 2: "process_job c r bytes j w1 = (res, w2)" by force
      obtain w3 where 3: "finish_job (take_slot wk) rnd j res w2 = (Inr (), w3)"
        using never_fails(3) by blast
      from False 1 2 3 x show ?thesis by (simp add: poll_def Let_def seq_def attempt_apply)
    next
      case no: False
      with False 1 show ?thesis
        by (auto simp: poll_def Let_def seq_def attempt_apply split: sum.splits option.splits)
    qed
  qed
qed (auto simp: poll_def)

text \<open>A Stalwart server that knows no domain and no account yet, and has no archive folder.\<close>

definition fresh_stalwart :: "'s stalwart" where
  "fresh_stalwart = \<lparr>sw_domain_matches = \<lambda>_ _ s. (Inr False, s), sw_find_domain = \<lambda>_ s. (Inr '''', s),
     sw_create_domain = \<lambda>_ s. (Inr ''d1'', s), sw_account_matches = \<lambda>_ _ _ s. (Inr False, s),
     sw_find_account = \<lambda>_ s. (Inr '''', s), sw_create_account = \<lambda>_ _ _ _ s. (Inr ''a1'', s),
     sw_discover_mailboxes = \<lambda>_ s. (Inr [(''inbox'', ''m1'')], s), sw_create_archive = \<lambda>_ s. (Inr (Some ''m2''), s),
     sw_session_state = \<lambda>s. (Inr ''st0'', s), sw_update_quota = \<lambda>_ _ s. (Inr (), s),
     sw_disable_account = \<lambda>_ s. (Inr (), s), sw_enable_account = \<lambda>_ s. (Inr (), s)\<rparr>"

theorem poll_returns_slot_witness:
  "snd (poll fresh_stalwart generous_resolver [] 0 []
     (new_worker ''w'' 60 20 10 300\<lparr>wk_shutting_down := True\<rparr>) demo_world) = demo_world"
proof -
  let ?wk = "new_worker ''w'' 60 20 10 300\<lparr>wk_shutting_down := True\<rparr>"
  have "wk_shutting_down ?wk" by simp
  with poll_returns_slot [of fresh_stalwart generous_resolver "[]" 0 "[]" ?wk demo_world] show ?thesis by blast
qed

lemma claim_quiet:
  fixes wid :: string
  assumes "quiet w" and "queue_ok (db w)" and "first_row (candidates (clock w) locked (jobs (db w))) = Some k"
  defines "w1 \<equiv> w\<lparr>db := (db w)\<lparr>jobs := set_by j_id (j_id k) (claimed_by wid (clock w)) (jobs (db w))\<rparr>\<rparr>"
  shows "claim_job wid locked w = (Inr (Some (claimed_by wid (clock w) k)), w1)"
    and "quiet w1" and "queue_ok (db w1)"
    and "lookup_by j_id (j_id k) (jobs (db w1)) = Some (claimed_by wid (clock w) k)"
proof -
  have f: "faults w = []" "tx_time w = None" using assms(1) by (simp_all add: quiet_def)
  have q: "claim_query wid locked (clock w) (db w) = (Inr (Some (claimed_by wid (clock w) k)), db w1)"
    using assms(3) by (simp add: claim_query_def w1_def)
  show "claim_job wid locked w = (Inr (Some (claimed_by wid (clock w) k)), w1)"
    using f q by (simp add: claim_job_def act_simps w1_def)
  show "quiet w1" using assms(1) by (simp add: quiet_def w1_def)
  show "queue_ok (db w1)"
    using claim_query_queue_ok assms(2) q unfolding query_preserves_def by (metis snd_conv)
  show "lookup_by j_id (j_id k) (jobs (db w1)) = Some (claimed_by wid (clock w) k)"
    using claim_takes_earliest_aux(1) [OF assms(2) q] by (simp add: claimed_by_def)
qed

text \<open>
  What a poll does to a job that fails: when no database call fails and the job's own work fails
  with an error without touching the queue, the poll rewrites exactly the row of the job it claimed,
  from claimed to the state \<open>after_failure\<close> gives: FAILED, or RETRY_WAIT with the time of the next
  attempt, with the error's text cut to 1000 characters and the lease released.
\<close>

theorem poll_failure_effect:
  assumes "quiet w" and "queue_ok (db w)" and "\<not> wk_shutting_down wk" and "wk_slots_used wk < slot_capacity"
    and "first_row (candidates (clock w) locked (jobs (db w))) = Some k"
    and "process_job c r bytes (claimed_by (wk_id wk) (clock w) k)
           (w\<lparr>db := (db w)\<lparr>jobs := set_by j_id (j_id k) (claimed_by (wk_id wk) (clock w)) (jobs (db w))\<rparr>\<rparr>) = (Inl e, w2)"
    and "quiet w2"
    and "jobs (db w2) = set_by j_id (j_id k) (claimed_by (wk_id wk) (clock w)) (jobs (db w))"
    and "next_id (db w2) = next_id (db w)"
  shows "jobs (db (snd (poll c r bytes rnd locked wk w))) =
    set_by j_id (j_id k) (\<lambda>j. after_failure wk rnd e (clock w2) (claimed_by (wk_id wk) (clock w) j)) (jobs (db w))"
proof -
  let ?j = "claimed_by (wk_id wk) (clock w) k"
  note cl = claim_quiet [OF assms(1,2,5), of "wk_id wk"]
  have ok2: "queue_ok (db w2)" using cl(3) assms(8,9) by (simp add: queue_ok_def)
  have l2: "lookup_by j_id (j_id ?j) (jobs (db w2)) = Some ?j"
    using cl(4) assms(8) by (simp add: claimed_by_def)
  have id: "j_id ?j = j_id k" by (simp add: claimed_by_def)
  have comp: "set_by j_id (j_id k) (after_failure wk rnd e (clock w2))
        (set_by j_id (j_id k) (claimed_by (wk_id wk) (clock w)) (jobs (db w))) =
      set_by j_id (j_id k) (\<lambda>j. after_failure wk rnd e (clock w2) (claimed_by (wk_id wk) (clock w) j)) (jobs (db w))"
    by (subst set_by_set_by) (simp_all add: claimed_by_def comp_def)
  show ?thesis
    using assms(3,4) cl(1) assms(6) handle_job_failure_quiet [OF assms(7) ok2 l2, of "take_slot wk" rnd e]
    by (simp add: poll_def Let_def seq_def attempt_apply finish_job_def assms(8) id comp)
qed

text \<open>A queue whose only job names a domain that does not exist, and a client nobody answers.\<close>

definition no_answer :: "goerr + 'a" where
  "no_answer = Inl (Plain ''connection refused'')"

definition dead_client :: "'s stalwart" where
  "dead_client = \<lparr>sw_domain_matches = \<lambda>_ _ s. (no_answer, s), sw_find_domain = \<lambda>_ s. (no_answer, s),
     sw_create_domain = \<lambda>_ s. (no_answer, s), sw_account_matches = \<lambda>_ _ _ s. (no_answer, s),
     sw_find_account = \<lambda>_ s. (no_answer, s), sw_create_account = \<lambda>_ _ _ _ s. (no_answer, s),
     sw_discover_mailboxes = \<lambda>_ s. (no_answer, s), sw_create_archive = \<lambda>_ s. (no_answer, s),
     sw_session_state = \<lambda>s. (no_answer, s), sw_update_quota = \<lambda>_ _ s. (no_answer, s),
     sw_disable_account = \<lambda>_ s. (no_answer, s), sw_enable_account = \<lambda>_ s. (no_answer, s)\<rparr>"

definition dead_resolver :: "'s resolver" where
  "dead_resolver = \<lparr>lookup_txt = \<lambda>_ s. (no_answer, s), lookup_mx = \<lambda>_ s. (no_answer, s)\<rparr>"

definition lost_domain_db :: db where
  "lost_domain_db = demo_db\<lparr>jobs := [new_job 20 DomainCreate 99 0], next_id := 21\<rparr>"

definition demo_worker :: worker where
  "demo_worker = new_worker ''w1'' 60 20 3 300"

theorem poll_failure_effect_witness:
  "jobs (db (snd (poll dead_client dead_resolver [] (1 / 2) [] demo_worker (world_of lost_domain_db)))) =
     [after_failure demo_worker (1 / 2) (Wrapped ''failed to get domain'' (Sentinel ErrNoRows)) 1000000000000
       (claimed_by ''w1'' 1000000000000 (new_job 20 DomainCreate 99 0))]"
proof -
  let ?w = "world_of lost_domain_db"
  let ?k = "new_job 20 DomainCreate 99 0"
  let ?w1 = "?w\<lparr>db := (db ?w)\<lparr>jobs := set_by j_id (j_id ?k) (claimed_by (wk_id demo_worker) (clock ?w)) (jobs (db ?w))\<rparr>\<rparr>"
  let ?e = "Wrapped ''failed to get domain'' (Sentinel ErrNoRows)"
  have q: "quiet ?w" "quiet ?w1" by (simp_all add: quiet_def world_of_def)
  have ok: "queue_ok (db ?w)"
    by (simp add: queue_ok_def lost_domain_db_def world_of_def unique_on_def new_job_def job_ok_def)
  have wk: "\<not> wk_shutting_down demo_worker" "wk_slots_used demo_worker < slot_capacity" "wk_id demo_worker = ''w1''"
    by (simp_all add: demo_worker_def new_worker_def slot_capacity_def)
  have f: "first_row (candidates (clock ?w) [] (jobs (db ?w))) = Some ?k"
    by (simp add: candidates_def eligible_def claimable_status_def lost_domain_db_def world_of_def new_job_def)
  have p: "process_job dead_client dead_resolver [] (claimed_by (wk_id demo_worker) (clock ?w) ?k) ?w1 = (Inl ?e, ?w1)"
    by (simp add: process_job_def claimed_by_def new_job_def process_domain_create_def seq_def wrap_err_def
        map_err_apply run_query_def sql_now_def select_domain_def world_of_def lost_domain_db_def demo_db_def
        migrated_db_def platform_domain_def)
  have "jobs (db (snd (poll dead_client dead_resolver [] (1 / 2) [] demo_worker ?w))) =
    set_by j_id (j_id ?k) (\<lambda>j. after_failure demo_worker (1 / 2) ?e (clock ?w1) (claimed_by (wk_id demo_worker) (clock ?w) j)) (jobs (db ?w))"
    by (rule poll_failure_effect [OF q(1) ok wk(1,2) f p q(2)]) simp_all
  then show ?thesis by (simp add: wk world_of_def lost_domain_db_def new_job_def)
qed

text \<open>One failing round after another, on the row alone; a round needs the job to be claimable.\<close>

type_synonym round = "rat \<times> goerr \<times> time \<times> time"

fun failing_round :: "worker \<Rightarrow> round \<Rightarrow> job \<Rightarrow> job" where
  "failing_round wk (rnd, e, t0, t) j =
     (if claimable_status (j_status j) then after_failure wk rnd e t (claimed_by (wk_id wk) t0 j) else j)"

definition failing_rounds :: "worker \<Rightarrow> round list \<Rightarrow> job \<Rightarrow> job" where
  "failing_rounds wk rs j = fold (failing_round wk) rs j"

lemma failing_round_progress:
  assumes "claimable_status (j_status j)"
  shows "j_status (failing_round wk r j) = JFailed \<or>
     (j_status (failing_round wk r j) = JRetryWait \<and> j_attempts j < j_attempts (failing_round wk r j) \<and>
      j_attempts (failing_round wk r j) < wk_max_attempts wk)"
  using assms
  by (cases r) (auto simp: after_failure_def Let_def failed_def retried_def rescheduled_def released_def
      claimed_by_def gives_up_def)

lemma failed_stays: "j_status j = JFailed \<Longrightarrow> failing_rounds wk rs j = j"
proof (induction rs)
  case (Cons r rs)
  then have "failing_round wk r j = j" by (cases r) (simp add: claimable_status_def)
  with Cons show ?case by (simp add: failing_rounds_def)
qed (simp add: failing_rounds_def)



section \<open>Verifying a domain\<close>

lemma txt_matches_iff: "txt_matches token txt \<longleftrightarrow> txt = txt_prefix @ token"
proof
  assume "txt_matches token txt"
  then obtain t where t: "txt = txt_prefix @ t" and d: "drop (length txt_prefix) txt = token"
    by (auto simp: txt_matches_def has_prefix_iff)
  from d show "txt = txt_prefix @ token" unfolding t by simp
qed (simp add: txt_matches_def)

lemma exec_domain_Inr:
  assumes "exec_domain i f w = (Inr (), w')"
  shows "db w' = (db w)\<lparr>domains := set_by d_id i f (domains (db w))\<rparr>"
proof -
  from assms obtain n where "stmt (update_domain i f) w = (Inr n, w')"
    unfolding exec_domain_def by (auto elim!: seq_InrE)
  then show ?thesis by (auto simp: update_domain_def elim!: stmt_InrE)
qed

lemma remote_call_Inr:
  assumes "remote_call f w = (Inr a, w')"
  shows "fst (f (remote w)) = Inr a \<and> db w' = db w"
  using assms by (auto simp: remote_call_def split: prod.splits)

lemma select_domain_Inr:
  assumes "stmt (select_domain P) w = (Inr x, w')"
  shows "x \<in> set (domains (db w)) \<and> P x \<and> db w' = db w \<and> remote w' = remote w"
proof -
  have "remote w' = remote w" using remote_stmt [of "select_domain P" w] assms by simp
  with assms show ?thesis
    by (auto simp: select_domain_def elim!: stmt_InrE split: option.splits dest: find_Some_set)
qed

text \<open>The TXT record that proves ownership: the domain's record name carries the stored token.\<close>

definition published :: "'s resolver \<Rightarrow> 's \<Rightarrow> domain \<Rightarrow> bool" where
  "published r s x \<longleftrightarrow> (\<exists>tok txts. d_token x = Some tok \<and>
     fst (lookup_txt r (''_norest-verification.'' @ d_name x) s) = Inr txts \<and> txt_prefix @ tok \<in> set txts)"

text \<open>
  C8. Proof of ownership: unless the DNS answers with a TXT record of the domain that carries the stored
  token, the verification job changes nothing in the tables and fails. When the job succeeds, the
  record was there, the domain is verified, active and open for registration, and exactly one
  DOMAIN_CREATE job was queued for it; other domains keep their rows. This holds whatever calls fail.
\<close>

theorem domain_verified_only_with_record:
  fixes w :: "'s world"
  assumes "process_domain_verify r j w = (res, w')"
  shows "(\<not> (\<exists>x \<in> set (domains (db w)). d_id x = j_resource j \<and> published r (remote w) x) \<longrightarrow>
      db w' = db w \<and> (\<exists>e. res = Inl e)) \<and>
    (res = Inr () \<longrightarrow>
      domains (db w') = set_by d_id (j_resource j)
        (\<lambda>y. y\<lparr>d_verification := VerVerified, d_status := DomActive, d_registration := True\<rparr>) (domains (db w)) \<and>
      (\<exists>t. jobs (db w') = jobs (db w) @ [new_job (next_id (db w)) DomainCreate (j_resource j) t]))"
proof
  let ?i = "j_resource j"
  show "\<not> (\<exists>x \<in> set (domains (db w)). d_id x = ?i \<and> published r (remote w) x) \<longrightarrow>
      db w' = db w \<and> (\<exists>e. res = Inl e)"
  proof
    assume no: "\<not> (\<exists>x \<in> set (domains (db w)). d_id x = ?i \<and> published r (remote w) x)"
    obtain r1 w1 where 1: "stmt (select_domain (\<lambda>x. d_id x = ?i)) w = (r1, w1)" by force
    then have d1: "db w1 = db w"
      using read_only [OF preserves_stmt [OF domains_ok_select], of "\<lambda>x. d_id x = ?i" w] by simp
    show "db w' = db w \<and> (\<exists>e. res = Inl e)"
    proof (cases r1)
      case (Inl e)
      with 1 assms d1 show ?thesis by (auto simp: process_domain_verify_def)
    next
      case (Inr x)
      note x = select_domain_Inr [OF 1 [unfolded Inr]]
      show ?thesis
      proof (cases "d_token x")
        case None
        with 1 Inr assms d1 show ?thesis by (auto simp: process_domain_verify_def)
      next
        case (Some tok)
        let ?look = "wrap_err ''DNS lookup failed'' (remote_call (lookup_txt r (''_norest-verification.'' @ d_name x)))"
        obtain r2 w2 where 2: "?look w1 = (r2, w2)" by force
        have d2: "db w2 = db w1"
          using read_only [OF preserves_wrap_err [OF preserves_remote], of "''DNS lookup failed''"
              "lookup_txt r (''_norest-verification.'' @ d_name x)" w1] 2 by simp
        show ?thesis
        proof (cases r2)
          case (Inl e)
          with 1 2 Inr Some assms d1 d2 show ?thesis by (auto simp: process_domain_verify_def)
        next
          case txts: (Inr txts)
          from 2 have "remote_call (lookup_txt r (''_norest-verification.'' @ d_name x)) w1 = (Inr txts, w2)"
            unfolding txts wrap_err_Inr .
          from remote_call_Inr [OF this]
          have "fst (lookup_txt r (''_norest-verification.'' @ d_name x) (remote w)) = Inr txts"
            using x by simp
          with no x Some have "\<not> list_ex (txt_matches tok) txts"
            by (auto simp: list_ex_iff txt_matches_iff published_def)
          with 1 2 Inr Some txts assms d1 d2 show ?thesis by (auto simp: process_domain_verify_def)
        qed
      qed
    qed
  qed
  show "res = Inr () \<longrightarrow>
      domains (db w') = set_by d_id ?i
        (\<lambda>y. y\<lparr>d_verification := VerVerified, d_status := DomActive, d_registration := True\<rparr>) (domains (db w)) \<and>
      (\<exists>t. jobs (db w') = jobs (db w) @ [new_job (next_id (db w)) DomainCreate ?i t])"
  proof
    assume "res = Inr ()"
    with assms obtain x txts mx w1 w2 w3 w4 w5 where
      1: "stmt (select_domain (\<lambda>x. d_id x = ?i)) w = (Inr x, w1)" and
      2: "remote_call (lookup_txt r (''_norest-verification.'' @ d_name x)) w1 = (Inr txts, w2)" and
      3: "exec_domain ?i (d_verification_update (\<lambda>_. VerVerified)) w2 = (Inr (), w3)" and
      4: "attempt (remote_call (lookup_mx r (d_name x))) w3 = (Inr mx, w4)" and
      5: "exec_domain ?i (\<lambda>y. y\<lparr>d_status := DomActive, d_registration := True\<rparr>) w4 = (Inr (), w5)" and
      6: "stmt (insert_job DomainCreate ?i) w5 = (Inr (), w')"
      unfolding process_domain_verify_def by (auto elim!: seq_InrE split: option.splits if_splits)
    have d1: "db w1 = db w" using select_domain_Inr [OF 1] by simp
    have d2: "db w2 = db w1" using remote_call_Inr [OF 2] by simp
    have d4: "db w4 = db w3"
      using read_only [OF preserves_attempt [OF preserves_remote], of "lookup_mx r (d_name x)" w3] 4 by simp
    obtain t where "insert_job DomainCreate ?i t (db w5) = (Inr (), db w')" using 6 by (rule stmt_InrE)
    then have d6: "db w' = snd (insert_job DomainCreate ?i t (db w5))" by simp
    note d5 = exec_domain_Inr [OF 5] and d3 = exec_domain_Inr [OF 3]
    have "domains (db w') = set_by d_id ?i
        (\<lambda>y. y\<lparr>d_verification := VerVerified, d_status := DomActive, d_registration := True\<rparr>) (domains (db w))"
      unfolding d6 d5 d4 d3 d2 d1 by (simp add: set_by_set_by comp_def)
    moreover have "jobs (db w') = jobs (db w) @ [new_job (next_id (db w)) DomainCreate ?i t]"
      unfolding d6 d5 d4 d3 d2 d1 by simp
    ultimately show "domains (db w') = set_by d_id ?i
        (\<lambda>y. y\<lparr>d_verification := VerVerified, d_status := DomActive, d_registration := True\<rparr>) (domains (db w)) \<and>
      (\<exists>t. jobs (db w') = jobs (db w) @ [new_job (next_id (db w)) DomainCreate ?i t])" by blast
  qed
qed

definition txt_resolver :: "string list \<Rightarrow> 's resolver" where
  "txt_resolver txts = \<lparr>lookup_txt = \<lambda>_ s. (Inr txts, s), lookup_mx = \<lambda>_ s. (no_answer, s)\<rparr>"

definition unverified_db :: db where
  "unverified_db = demo_db\<lparr>domains := [custom_domain\<lparr>d_status := DomPending, d_verification := VerVerifying,
     d_registration := False\<rparr>]\<rparr>"

theorem domain_verified_only_with_record_witness:
  "domains (db (snd (process_domain_verify (txt_resolver [''v=spf1'', ''norest-verification=tok''])
      (new_job 20 DomainVerify 13 0) (world_of unverified_db)))) = [custom_domain] \<and>
   db (snd (process_domain_verify (txt_resolver [''norest-verification=other''])
      (new_job 20 DomainVerify 13 0) (world_of unverified_db))) = unverified_db"
proof
  let ?j = "new_job 20 DomainVerify 13 0" and ?w = "world_of unverified_db"
  let ?r = "txt_resolver [''v=spf1'', ''norest-verification=tok'']"
  have "succeeds (process_domain_verify ?r ?j ?w)" by code_simp
  then obtain w' where e: "process_domain_verify ?r ?j ?w = (Inr (), w')" by (auto elim: succeedsE)
  have "domains (db w') = set_by d_id 13
      (\<lambda>y. y\<lparr>d_verification := VerVerified, d_status := DomActive, d_registration := True\<rparr>) (domains (db ?w))"
    using domain_verified_only_with_record [OF e] by (simp add: new_job_def)
  also have "\<dots> = [custom_domain]"
    by (simp add: world_of_def unverified_db_def custom_domain_def)
  finally show "domains (db (snd (process_domain_verify ?r ?j ?w))) = [custom_domain]" using e by simp
  let ?r2 = "txt_resolver [''norest-verification=other'']"
  obtain res w2 where e2: "process_domain_verify ?r2 ?j ?w = (res, w2)" by force
  have "\<not> (\<exists>x \<in> set (domains (db ?w)). d_id x = j_resource ?j \<and> published ?r2 (remote ?w) x)"
    by (simp add: world_of_def unverified_db_def published_def txt_resolver_def txt_prefix_def custom_domain_def)
  with domain_verified_only_with_record [OF e2] e2 show "db (snd (process_domain_verify ?r2 ?j ?w)) = unverified_db"
    by (simp add: world_of_def)
qed

end
