(* ===== verification/AccountJobs.thy ===== *)
theory AccountJobs
  imports Worker
begin

text \<open>
  The account jobs of the worker (\<^verbatim>\<open>processAccountCreate\<close>, \<^verbatim>\<open>processAccountQuotaSync\<close>): a mailbox becomes
  active only when its Stalwart account, its first checkpoint and its synchronisation state are in
  place, wherever the handler is interrupted; and a quota synchronisation tells Stalwart the quota of
  every mailbox of the account. The proofs are triples over the database (\<open>Triples\<close>).
\<close>

section \<open>Creating an account\<close>

definition ready_row :: "mailbox \<Rightarrow> bool" where
  "ready_row m \<longleftrightarrow> m_stalwart m \<noteq> None \<and> m_checkpoint m \<noteq> None \<and> m_jmap_state m = m_checkpoint m \<and>
     m_synced_at m \<noteq> None"

definition has_sync :: "uuid \<Rightarrow> db \<Rightarrow> bool" where
  "has_sync i d \<longleftrightarrow> (\<exists>s \<in> set (sync_states d). ss_mailbox s = i \<and> ss_state s \<noteq> None)"

text \<open>An active mailbox has its Stalwart account, its initial checkpoint and its synchronisation state.\<close>

definition mailbox_ready :: "db \<Rightarrow> bool" where
  "mailbox_ready d \<longleftrightarrow> (\<forall>m \<in> set (mailboxes d). m_status m = MbActive \<longrightarrow> ready_row m \<and> has_sync (m_id m) d)"

text \<open>The stages of the handler: the mailbox exists, has its account, has its checkpoint.\<close>

definition stage :: "uuid \<Rightarrow> (mailbox \<Rightarrow> bool) \<Rightarrow> db \<Rightarrow> bool" where
  "stage i Q d \<longleftrightarrow> mailbox_ready d \<and> (\<exists>m \<in> set (mailboxes d). m_id m = i) \<and>
     (\<forall>m \<in> set (mailboxes d). m_id m = i \<longrightarrow> Q m)"

definition with_account :: "mailbox \<Rightarrow> bool" where
  "with_account m \<longleftrightarrow> m_stalwart m \<noteq> None"

lemma stage_ready: "stage i Q d \<Longrightarrow> mailbox_ready d"
  by (simp add: stage_def)

lemma stage_weaken: "stage i Q d \<Longrightarrow> (\<And>m. Q m \<Longrightarrow> R m) \<Longrightarrow> stage i R d"
  by (auto simp: stage_def)

lemma stage_update:
  assumes "stage i Q d" and "\<And>m. m_id (f m) = m_id m"
    and "\<And>m. Q m \<Longrightarrow> R (f m)" and "\<And>m. Q m \<Longrightarrow> m_status (f m) = MbActive \<Longrightarrow> m_status m = MbActive \<and> (ready_row m \<longrightarrow> ready_row (f m))"
  shows "stage i R (d\<lparr>mailboxes := set_by m_id i f (mailboxes d)\<rparr>)"
proof -
  have "\<forall>m \<in> set (set_by m_id i f (mailboxes d)). m_status m = MbActive \<longrightarrow> ready_row m \<and> has_sync (m_id m) d"
    using assms by (auto simp: set_set_by stage_def mailbox_ready_def)
  moreover have "\<exists>m \<in> set (set_by m_id i f (mailboxes d)). m_id m = i"
    using assms(1,2) by (force simp: set_set_by stage_def)
  moreover have "\<forall>m \<in> set (set_by m_id i f (mailboxes d)). m_id m = i \<longrightarrow> R m"
    using assms by (auto simp: set_set_by stage_def)
  ultimately show ?thesis by (simp add: stage_def mailbox_ready_def has_sync_def)
qed

lemma triple_stage_update:
  assumes "\<And>t m. m_id (f t m) = m_id m" and "\<And>t m. Q m \<Longrightarrow> R (f t m)"
    and "\<And>t m. Q m \<Longrightarrow> m_status (f t m) = MbActive \<Longrightarrow> m_status m = MbActive \<and> (ready_row m \<longrightarrow> ready_row (f t m))"
  shows "triple (stage i Q) (stmt (update_mailbox i f)) (\<lambda>_. stage i R) mailbox_ready"
proof -
  have u: "stage i R (d\<lparr>mailboxes := set_by m_id i (f t) (mailboxes d)\<rparr>)" if "stage i Q d" for t d
    by (rule stage_update [OF that]) (use assms in auto)
  show ?thesis
    by (rule triple_stmt) (use u stage_ready [OF u] stage_ready in \<open>auto simp: update_mailbox_def\<close>)
qed

text \<open>Queries on other tables keep what depends only on the mailboxes and their synchronisation state.\<close>

definition on_mail :: "(db \<Rightarrow> bool) \<Rightarrow> bool" where
  "on_mail P \<longleftrightarrow> (\<forall>d d'. mailboxes d' = mailboxes d \<longrightarrow> sync_states d' = sync_states d \<longrightarrow> P d \<longrightarrow> P d')"

lemma stage_other:
  assumes "\<And>t d. mailboxes (snd (q t d)) = mailboxes d" and "\<And>t d. sync_states (snd (q t d)) = sync_states d"
    and "on_mail P"
  shows "query_preserves P q"
  using assms unfolding query_preserves_def on_mail_def by blast

definition active_at :: "uuid \<Rightarrow> db \<Rightarrow> bool" where
  "active_at i d \<longleftrightarrow> (\<exists>m \<in> set (mailboxes d). m_id m = i \<and> m_status m = MbActive)"

lemma on_mail_intro [simp]:
  "on_mail (stage i Q)" "on_mail (active_at i)" "on_mail (\<lambda>_. b)"
  "on_mail P \<Longrightarrow> on_mail R \<Longrightarrow> on_mail (\<lambda>d. P d \<and> R d)" "on_mail P \<Longrightarrow> on_mail (\<lambda>d. b \<longrightarrow> P d)"
  by (auto simp: on_mail_def stage_def mailbox_ready_def has_sync_def active_at_def)

lemma other_queries:
  "mailboxes (snd (update_job k f t d)) = mailboxes d" "sync_states (snd (update_job k f t d)) = sync_states d"
  "mailboxes (snd (set_domain_id_by_name nm s t d)) = mailboxes d"
  "sync_states (snd (set_domain_id_by_name nm s t d)) = sync_states d"
  "mailboxes (snd (delete_mappings k t d)) = mailboxes d" "sync_states (snd (delete_mappings k t d)) = sync_states d"
  "mailboxes (snd (insert_mapping k nm s t d)) = mailboxes d"
  "sync_states (snd (insert_mapping k nm s t d)) = sync_states d"
  "mailboxes (snd (provision_address k t d)) = mailboxes d"
  "sync_states (snd (provision_address k t d)) = sync_states d"
  "mailboxes (snd (select_claimant k t d)) = mailboxes d"
  "sync_states (snd (select_claimant k t d)) = sync_states d"
  "mailboxes (snd (activate_user k t d)) = mailboxes d"
  "sync_states (snd (activate_user k t d)) = sync_states d"
  by (simp_all add: update_job_def set_domain_id_by_name_def delete_mappings_def insert_mapping_def
      provision_address_def select_claimant_def activate_user_def Let_def split: option.split)

lemmas stage_queries = stage_other [OF other_queries(1,2)] stage_other [OF other_queries(3,4)]
  stage_other [OF other_queries(5,6)] stage_other [OF other_queries(7,8)] stage_other [OF other_queries(9,10)]
  stage_other [OF other_queries(11,12)] stage_other [OF other_queries(13,14)]

lemma stage_preserves:
  assumes "on_mail P"
  shows "preserves P (ensure_stalwart_domain c sid nm)"
    and "preserves P (ensure_stalwart_account c rnd lp sid nm)"
    and "preserves P (update_checkpoint k)"
    and "preserves P (discover_with_archive c acc)"
    and "preserves P (persist_mappings k ms)"
  unfolding ensure_stalwart_domain_def ensure_stalwart_account_def update_checkpoint_def
    discover_with_archive_def persist_mappings_def
  by (intro pres_intro stage_queries assms)+

lemma triple_stage_preserves:
  "preserves (stage i Q) m \<Longrightarrow> triple (stage i Q) m (\<lambda>_. stage i Q) mailbox_ready"
  by (rule triple_preserves) (auto dest: stage_ready)

lemma triple_persist_provisioning:
  "triple (stage i Q) (persist_provisioning i acc) (\<lambda>_. stage i with_account) mailbox_ready"
  unfolding persist_provisioning_def
proof (rule triple_named_transaction)
  let ?f = "\<lambda>t m. m\<lparr>m_status := MbProvisioning, m_stalwart := Some acc\<rparr>"
  have u: "triple (stage i Q) (stmt (update_mailbox i ?f)) (\<lambda>_. stage i with_account) mailbox_ready"
    by (rule triple_stage_update) (simp_all add: with_account_def)
  have p: "triple (stage i with_account) (stmt (provision_address i)) (\<lambda>_. stage i with_account) mailbox_ready"
    by (rule triple_stmt_keeps) (auto intro: stage_queries dest: stage_ready)
  have r: "triple (stage i with_account) (ret (Commit ()))
      (\<lambda>x d. \<exists>a. x = Commit a \<and> stage i with_account d \<and> mailbox_ready d) mailbox_ready"
    by (rule triple_ret) (auto dest: stage_ready)
  have "triple (stage i Q) (seq (wrap_err ''failed to update mailbox to provisioning'' (stmt (update_mailbox i ?f)))
      (\<lambda>_. seq (wrap_err ''failed to update address to claimed'' (stmt (provision_address i))) (\<lambda>_. ret (Commit ()))))
      (\<lambda>x d. \<exists>a. x = Commit a \<and> stage i with_account d \<and> mailbox_ready d) mailbox_ready"
    by (intro triple_seq [OF triple_wrap_err [OF u]] triple_seq [OF triple_wrap_err [OF p]] r)
  then show "triple (stage i Q) (seq (wrap_err ''failed to update mailbox to provisioning'' (stmt (update_mailbox i ?f)))
      (\<lambda>_. seq (wrap_err ''failed to update address to claimed'' (stmt (provision_address i))) (\<lambda>_. ret (Commit ()))))
      (\<lambda>x d. \<exists>a. x = Commit a \<and> stage i with_account d \<and> mailbox_ready d) (\<lambda>_. True)"
    by (rule triple_conseq) auto
qed (rule stage_ready)

text \<open>Between the last two statements of the activation the new active row has no synchronisation state yet.\<close>

definition activating :: "uuid \<Rightarrow> db \<Rightarrow> bool" where
  "activating i d \<longleftrightarrow> (\<exists>m \<in> set (mailboxes d). m_id m = i) \<and>
     (\<forall>m \<in> set (mailboxes d). m_status m = MbActive \<longrightarrow> ready_row m \<and> (m_id m = i \<or> has_sync (m_id m) d)) \<and>
     (\<forall>m \<in> set (mailboxes d). m_id m = i \<longrightarrow> m_status m = MbActive)"

lemma activating_update:
  "stage i ready_row d \<Longrightarrow>
   activating i (d\<lparr>mailboxes := set_by m_id i (\<lambda>m. m\<lparr>m_status := MbActive\<rparr>) (mailboxes d)\<rparr>)"
proof -
  let ?f = "\<lambda>m. m\<lparr>m_status := MbActive\<rparr>"
  assume s: "stage i ready_row d"
  then obtain m where "m \<in> set (mailboxes d)" "m_id m = i" by (auto simp: stage_def)
  then have "\<exists>m \<in> set (set_by m_id i ?f (mailboxes d)). m_id m = i"
    by (intro bexI [OF _ set_by_mem_same]) auto
  moreover have "\<forall>m \<in> set (set_by m_id i ?f (mailboxes d)). m_status m = MbActive \<longrightarrow>
      ready_row m \<and> (m_id m = i \<or> has_sync (m_id m) d)"
  proof
    fix m
    assume "m \<in> set (set_by m_id i ?f (mailboxes d))"
    then obtain n where n: "n \<in> set (mailboxes d)" "m = (if m_id n = i then ?f n else n)"
      by (auto simp only: set_set_by)
    have r: "ready_row (?f n) = ready_row n" by (simp add: ready_row_def)
    show "m_status m = MbActive \<longrightarrow> ready_row m \<and> (m_id m = i \<or> has_sync (m_id m) d)"
      using s n r by (cases "m_id n = i") (simp_all add: stage_def mailbox_ready_def)
  qed
  moreover have "\<forall>m \<in> set (set_by m_id i ?f ms). m_id m = i \<longrightarrow> m_status m = MbActive" for ms :: "mailbox list"
    by (induction ms) auto
  ultimately show ?thesis by (simp add: activating_def has_sync_def)
qed

lemma upsert_sync_here: "has_sync i (snd (upsert_sync_state i st t d))"
proof (cases "lookup_by ss_mailbox i (sync_states d)")
  case (Some s)
  then have s: "s \<in> set (sync_states d)" "ss_mailbox s = i" by (auto dest: lookup_by_Some)
  from set_by_mem_same [where key = ss_mailbox, OF s, of "\<lambda>s. s\<lparr>ss_state := Some st, ss_status := ''idle'', ss_synced_at := Some t\<rparr>"]
  show ?thesis using Some s(2) unfolding upsert_sync_state_def has_sync_def
    by (intro bexI) auto
qed (simp add: upsert_sync_state_def has_sync_def)

lemma upsert_sync_keeps: "has_sync k d \<Longrightarrow> has_sync k (snd (upsert_sync_state i st t d))"
proof -
  assume "has_sync k d"
  then obtain s where s: "s \<in> set (sync_states d)" "ss_mailbox s = k" "ss_state s \<noteq> None"
    by (auto simp: has_sync_def)
  from set_by_mem [OF s(1), of ss_mailbox i
      "\<lambda>s. s\<lparr>ss_state := Some st, ss_status := ''idle'', ss_synced_at := Some t\<rparr>"] s
  have "\<exists>r \<in> set (set_by ss_mailbox i (\<lambda>s. s\<lparr>ss_state := Some st, ss_status := ''idle'', ss_synced_at := Some t\<rparr>)
      (sync_states d)). ss_mailbox r = k \<and> ss_state r \<noteq> None"
    by (intro bexI) (auto split: if_splits)
  with s show ?thesis by (auto simp: upsert_sync_state_def has_sync_def split: option.split)
qed

lemma upsert_mailboxes: "mailboxes (snd (upsert_sync_state i st t d)) = mailboxes d"
  by (simp add: upsert_sync_state_def split: option.split)

lemma activating_done:
  assumes "activating i d"
  shows "mailbox_ready (snd (upsert_sync_state i st t d)) \<and> active_at i (snd (upsert_sync_state i st t d))"
  using assms upsert_sync_here upsert_sync_keeps
  by (auto simp: activating_def mailbox_ready_def active_at_def upsert_mailboxes)

lemma triple_persist_activation:
  "triple (stage i with_account) (persist_activation i st) (\<lambda>_ d. mailbox_ready d \<and> active_at i d) mailbox_ready"
  unfolding persist_activation_def
proof (rule triple_named_transaction)
  let ?T = "\<lambda>_ :: db. True"
  let ?f = "\<lambda>t m. m\<lparr>m_jmap_state := Some st, m_checkpoint := Some st, m_synced_at := Some t\<rparr>"
  let ?Q = "\<lambda>x d. \<exists>a. x = Commit a \<and> (mailbox_ready d \<and> active_at i d) \<and> mailbox_ready d"
  have 1: "triple (stage i with_account) (stmt (update_mailbox i ?f)) (\<lambda>_. stage i ready_row) ?T"
    by (rule triple_conseq [OF triple_stage_update [where Q = with_account and R = ready_row]])
      (auto simp: with_account_def ready_row_def)
  have 2: "triple (stage i ready_row) (stmt (update_mailbox i (\<lambda>t m. m\<lparr>m_status := MbActive\<rparr>))) (\<lambda>_. activating i) ?T"
    by (rule triple_stmt) (auto simp: update_mailbox_def activating_update)
  have 3: "triple (activating i) (stmt (upsert_sync_state i st)) (\<lambda>_ d. mailbox_ready d \<and> active_at i d) ?T"
    by (rule triple_stmt) (use activating_done in \<open>metis snd_conv\<close>)+
  have 4: "triple (\<lambda>d. mailbox_ready d \<and> active_at i d) (ret (Commit ())) ?Q ?T"
    by (rule triple_ret) simp
  show "triple (stage i with_account)
     (seq (wrap_err ''failed to persist initial sync checkpoint'' (stmt (update_mailbox i ?f))) (\<lambda>_.
      seq (wrap_err ''failed to update mailbox to active''
             (stmt (update_mailbox i (\<lambda>t m. m\<lparr>m_status := MbActive\<rparr>)))) (\<lambda>_.
      seq (wrap_err ''failed to initialize mail_sync_state'' (stmt (upsert_sync_state i st))) (\<lambda>_.
      ret (Commit ()))))) ?Q ?T"
    by (intro triple_seq [OF triple_wrap_err [OF 1]] triple_seq [OF triple_wrap_err [OF 2]]
        triple_seq [OF triple_wrap_err [OF 3]] 4)
qed (rule stage_ready)

lemma triple_keep:
  assumes "preserves P m" and "\<And>d. P d \<Longrightarrow> mailbox_ready d"
  shows "triple P m (\<lambda>_. P) mailbox_ready"
  by (rule triple_preserves) (use assms in auto)

lemma select_mailbox_account_Inr:
  "select_mailbox_account i t d = (Inr (m, a, x), d') \<Longrightarrow> d' = d \<and> m \<in> set (mailboxes d) \<and> m_id m = i"
  by (auto simp: select_mailbox_account_def split: option.splits dest!: first_row_Some)

lemma triple_activate_account:
  "triple (stage (j_resource j) Q) (activate_account c j acc)
     (\<lambda>_ d. mailbox_ready d \<and> active_at (j_resource j) d) mailbox_ready"
proof -
  let ?i = "j_resource j"
  let ?A = "\<lambda>d. mailbox_ready d \<and> active_at ?i d"
  have onA: "on_mail ?A" by (auto simp: on_mail_def mailbox_ready_def has_sync_def active_at_def)
  have c: "triple (stage ?i R) (attempt (update_checkpoint k)) (\<lambda>_. stage ?i R) mailbox_ready" for R k
    by (rule triple_keep) (auto intro!: preserves_attempt stage_preserves dest: stage_ready)
  have d: "triple (stage ?i R) (discover_with_archive c acc) (\<lambda>_. stage ?i R) mailbox_ready" for R
    by (rule triple_keep) (auto intro!: stage_preserves dest: stage_ready)
  have m: "triple (stage ?i R) (persist_mappings ?i ms) (\<lambda>_. stage ?i R) mailbox_ready" for R ms
    by (rule triple_keep) (auto intro!: stage_preserves dest: stage_ready)
  have u: "triple (stage ?i with_account) (stmt (update_mailbox ?i (\<lambda>t m. m\<lparr>m_status := MbSyncing\<rparr>)))
      (\<lambda>_. stage ?i with_account) mailbox_ready"
    by (rule triple_stage_update) (simp_all add: with_account_def)
  have s: "triple (stage ?i with_account) (remote_call (sw_session_state c)) (\<lambda>_. stage ?i with_account) mailbox_ready"
    by (rule triple_remote) (auto dest: stage_ready)
  have x: "triple ?A (attempt (stmt (select_claimant ?i))) (\<lambda>_. ?A) mailbox_ready"
    by (rule triple_keep) (auto intro!: preserves_attempt preserves_stmt stage_queries onA)
  have y: "triple ?A (attempt (stmt (activate_user v))) (\<lambda>_. ?A) mailbox_ready" for v
    by (rule triple_keep) (auto intro!: preserves_attempt preserves_stmt stage_queries onA)
  have z: "triple ?A (ret ()) (\<lambda>_. ?A) mailbox_ready" by (rule triple_ret) simp
  show ?thesis
    unfolding activate_account_def Let_def
    by (intro triple_seq [OF triple_persist_provisioning] triple_seq [OF c] triple_seq [OF d]
        triple_seq [OF m] triple_seq [OF triple_wrap_err [OF u]] triple_seq [OF triple_wrap_err [OF s]]
        triple_seq [OF triple_persist_activation] triple_seq [OF x] triple_sum triple_option
        triple_seq [OF y] z)
qed

lemma triple_account_create:
  "triple mailbox_ready (process_account_create c rnd j)
     (\<lambda>_ d. mailbox_ready d \<and> active_at (j_resource j) d) mailbox_ready"
proof -
  let ?i = "j_resource j"
  let ?S = "\<lambda>m d. stage ?i (\<lambda>_. True) d \<and> (m_status m = MbActive \<longrightarrow> active_at ?i d)"
  have on: "on_mail (?S m)" for m by simp
  have sel: "triple mailbox_ready (stmt (select_mailbox_account ?i)) (\<lambda>(m, a, x). ?S m) mailbox_ready"
    by (rule triple_stmt)
      (auto simp: stage_def active_at_def select_mailbox_account_def split: option.splits dest!: first_row_Some)
  have dom: "triple (?S m) (ensure_stalwart_domain c sid nm) (\<lambda>_. ?S m) mailbox_ready" for m sid nm
    by (rule triple_keep) (use stage_preserves(1) [OF on] in \<open>auto dest: stage_ready\<close>)
  have acc: "triple (?S m) (ensure_stalwart_account c rnd lp sid nm) (\<lambda>_. ?S m) mailbox_ready" for m lp sid nm
    by (rule triple_keep) (use stage_preserves(2) [OF on] in \<open>auto dest: stage_ready\<close>)
  have act: "triple (?S m) (activate_account c j a) (\<lambda>_ d. mailbox_ready d \<and> active_at ?i d) mailbox_ready" for m a
    by (rule triple_conseq [OF triple_activate_account [where Q = "\<lambda>_. True"]]) auto
  have skip: "triple (?S m) (if acc0 \<noteq> '''' \<and> m_status m = MbActive then
       seq (attempt (remote_call (sw_account_matches c acc0 lp sid))) (\<lambda>r. ret (r = Inr True)) else ret False)
      (\<lambda>b d. ?S m d \<and> (b \<longrightarrow> active_at ?i d)) mailbox_ready" for m acc0 lp sid
  proof (rule triple_if)
    assume a: "acc0 \<noteq> '''' \<and> m_status m = MbActive"
    have "triple (?S m) (attempt (remote_call (sw_account_matches c acc0 lp sid))) (\<lambda>_. ?S m) mailbox_ready"
      by (rule triple_attempt, rule triple_remote) auto
    then show "triple (?S m) (seq (attempt (remote_call (sw_account_matches c acc0 lp sid))) (\<lambda>r. ret (r = Inr True)))
        (\<lambda>b d. ?S m d \<and> (b \<longrightarrow> active_at ?i d)) mailbox_ready"
      by (rule triple_seq) (rule triple_ret, use a in simp)
  qed (rule triple_ret, simp)
  have rest: "triple (\<lambda>d. ?S m d \<and> (b \<longrightarrow> active_at ?i d))
      (if b then ret () else seq (ensure_stalwart_account c rnd lp sid nm) (activate_account c j))
      (\<lambda>_ d. mailbox_ready d \<and> active_at ?i d) mailbox_ready" for m b lp sid nm
  proof (rule triple_if)
    assume "\<not> b"
    show "triple (\<lambda>d. ?S m d \<and> (b \<longrightarrow> active_at ?i d))
        (seq (ensure_stalwart_account c rnd lp sid nm) (activate_account c j))
        (\<lambda>_ d. mailbox_ready d \<and> active_at ?i d) mailbox_ready"
      by (rule triple_conseq [OF triple_seq [OF acc [of m] act [of m]]]) auto
  qed (rule triple_ret, auto dest: stage_ready)
  have body: "triple (case r of (m, a, x) \<Rightarrow> ?S m)
      (case r of (m, a, x) \<Rightarrow>
        (let lp = a_local a; name = a_local a @ ''@'' @ d_name x; acc0 = null_string (m_stalwart m) in
         seq (ensure_stalwart_domain c (null_string (d_stalwart x)) (d_name x)) (\<lambda>sid.
         seq (if acc0 \<noteq> '''' \<and> m_status m = MbActive then
                seq (attempt (remote_call (sw_account_matches c acc0 lp sid))) (\<lambda>r. ret (r = Inr True))
              else ret False) (\<lambda>skip.
         if skip then ret () else seq (ensure_stalwart_account c rnd lp sid name) (activate_account c j)))))
      (\<lambda>_ d. mailbox_ready d \<and> active_at ?i d) mailbox_ready" for r
    unfolding Let_def
    by (cases r) (simp only: prod.case, rule triple_seq [OF dom], rule triple_seq [OF skip], rule rest)
  show ?thesis
    unfolding process_account_create_def
    by (rule triple_seq [OF triple_wrap_err [OF sel]]) (rule body)
qed

text \<open>
  C6. Activation is the last step: run over tables in which every active mailbox is ready, the account
  job leaves such tables, whichever of its statements, commits and remote calls fail (a failed
  statement may still have had its effect). When it reports success, its mailbox is active, hence it has
  its Stalwart account, its checkpoint and its synchronisation state.
\<close>

theorem account_active_only_when_ready:
  assumes "mailbox_ready (db w)" and "process_account_create c rnd j w = (res, w')"
  shows "mailbox_ready (db w') \<and>
    (res = Inr () \<longrightarrow> (\<exists>m \<in> set (mailboxes (db w')). m_id m = j_resource j \<and> m_status m = MbActive \<and>
       ready_row m \<and> has_sync (m_id m) (db w')))"
proof (cases res)
  case (Inl e)
  then show ?thesis using tripleD_Inl [OF triple_account_create assms(1)] assms(2) by simp
next
  case (Inr x)
  with assms(2) have e: "process_account_create c rnd j w = (Inr x, w')" by simp
  from tripleD_Inr [OF triple_account_create assms(1) e] show ?thesis
    by (auto simp: active_at_def mailbox_ready_def)
qed

definition pending_mailbox_db :: db where
  "pending_mailbox_db = custom_db\<lparr>mailboxes := [\<lparr>m_id = 15, m_address = 14, m_stalwart = None,
     m_status = MbPending, m_jmap_state = None, m_checkpoint = None, m_synced_at = None\<rparr>]\<rparr>"

theorem account_active_only_when_ready_witness:
  "\<exists>m \<in> set (mailboxes (db (snd (process_account_create fresh_stalwart [1, 2, 3] (new_job 20 AccountCreate 15 0)
     (world_of pending_mailbox_db))))). m_id m = 15 \<and> m_status m = MbActive"
proof -
  let ?w = "world_of pending_mailbox_db" and ?j = "new_job 20 AccountCreate 15 0"
  have "succeeds (process_account_create fresh_stalwart [1, 2, 3] ?j ?w)" by code_simp
  then obtain w' where e: "process_account_create fresh_stalwart [1, 2, 3] ?j ?w = (Inr (), w')"
    by (auto elim: succeedsE)
  have "mailbox_ready (db ?w)" by (simp add: world_of_def pending_mailbox_db_def mailbox_ready_def)
  from account_active_only_when_ready [OF this e] e show ?thesis by (auto simp: new_job_def)
qed


section \<open>Quota synchronisation\<close>

lemma for_each_recorded:
  assumes "\<And>x s. f x s = (Inr (), s @ [g x])"
  shows "for_each (\<lambda>x. remote_call (f x)) xs w = (Inr (), w\<lparr>remote := remote w @ map g xs\<rparr>)"
proof (induction xs arbitrary: w)
  case (Cons x xs)
  have "remote_call (f x) w = (Inr (), w\<lparr>remote := remote w @ [g x]\<rparr>)" by (simp add: remote_call_def assms)
  then show ?case by (simp add: Cons.IH)
qed simp

lemma select_quota_Inr:
  assumes "stmt (select_quota acc) w = (Inr q, w')"
  shows "\<exists>s p a. s \<in> set (subscriptions (db w)) \<and> sb_account s = acc \<and> sb_status s \<in> {SubActive, SubTrialing} \<and>
    p \<in> set (plans (db w)) \<and> pl_id p = sb_plan s \<and> a \<in> set (accounts (db w)) \<and> pa_id a = acc \<and>
    q = (pl_max_storage p, pa_status a)"
proof -
  from assms obtain t where "select_quota acc t (db w) = (Inr q, db w')" by (rule stmt_InrE)
  then obtain r where "first_row (sort_key (\<lambda>(s, p, a). - sb_created s)
        [(s, p, a). s \<leftarrow> subscriptions (db w), sb_account s = acc, sb_status s \<in> {SubActive, SubTrialing},
                    p \<leftarrow> plans (db w), pl_id p = sb_plan s, a \<leftarrow> accounts (db w), pa_id a = sb_account s]) = Some r"
    and q: "q = (case r of (s, p, a) \<Rightarrow> (pl_max_storage p, pa_status a))"
    by (simp add: select_quota_def split: option.splits prod.splits)
  note r = first_row_Some [OF this(1)]
  obtain s p a where [simp]: "r = (s, p, a)" by (cases r)
  show ?thesis using r q by (intro exI [of _ s] exI [of _ p] exI [of _ a]) simp
qed


definition recording_stalwart :: "(string \<times> int) list stalwart" where
  "recording_stalwart = fresh_stalwart\<lparr>sw_update_quota := \<lambda>i b s. (Inr (), s @ [(i, b)])\<rparr>"

definition recording_world :: "(string \<times> int) list world" where
  "recording_world = \<lparr>clock = 0, tx_time = None, faults = [],
     db = pending_mailbox_db\<lparr>accounts := [\<lparr>pa_id = 11, pa_status = AccSuspended\<rparr>],
       mailboxes := map (m_stalwart_update (\<lambda>_. Some ''a1'')) (mailboxes pending_mailbox_db)\<rparr>,
     remote = []\<rparr>"


end
