(* ===== verification/JmapObjects.thy ===== *)
theory JmapObjects
  imports Json
begin

text \<open>
  The JMAP objects of \<^verbatim>\<open>internal/stalwart\<close>: each Go struct as a record, and its JSON decoding, field by field in
  the order of the struct. A Go map field is the list of its entries in the order an iteration visits
  them. Of the session resource the capabilities and accounts, which no code reads, are left out.
\<close>

record email_address =
  ea_name :: string
  ea_email :: string

definition dec_email_address :: "json option \<Rightarrow> goerr + email_address" where
  "dec_email_address = dec_struct (\<lambda>f.
     bind_sum (dec_str (f ''name'')) (\<lambda>x0.
     bind_sum (dec_str (f ''email'')) (\<lambda>x1.
     Inr \<lparr>ea_name = x0, ea_email = x1\<rparr>)))"

record body_part =
  bp_part :: string
  bp_blob :: string
  bp_type :: string
  bp_name :: string
  bp_disposition :: string
  bp_charset :: string
  bp_size :: int

definition dec_body_part :: "json option \<Rightarrow> goerr + body_part" where
  "dec_body_part = dec_struct (\<lambda>f.
     bind_sum (dec_str (f ''partId'')) (\<lambda>x0.
     bind_sum (dec_str (f ''blobId'')) (\<lambda>x1.
     bind_sum (dec_str (f ''type'')) (\<lambda>x2.
     bind_sum (dec_str (f ''name'')) (\<lambda>x3.
     bind_sum (dec_str (f ''disposition'')) (\<lambda>x4.
     bind_sum (dec_str (f ''charset'')) (\<lambda>x5.
     bind_sum (dec_int (f ''size'')) (\<lambda>x6.
     Inr \<lparr>bp_part = x0, bp_blob = x1, bp_type = x2, bp_name = x3, bp_disposition = x4,
         bp_charset = x5, bp_size = x6\<rparr>))))))))"

record body_value =
  bv_value :: string
  bv_encoding :: bool
  bv_truncated :: bool

definition dec_body_value :: "json option \<Rightarrow> goerr + body_value" where
  "dec_body_value = dec_struct (\<lambda>f.
     bind_sum (dec_str (f ''value'')) (\<lambda>x0.
     bind_sum (dec_bool (f ''isEncodingProblem'')) (\<lambda>x1.
     bind_sum (dec_bool (f ''isTruncated'')) (\<lambda>x2.
     Inr \<lparr>bv_value = x0, bv_encoding = x1, bv_truncated = x2\<rparr>))))"

record email =
  em_id :: string
  em_blob :: string
  em_thread :: string
  em_mailboxes :: "(string \<times> bool) list"
  em_keywords :: "(string \<times> bool) list"
  em_size :: int
  em_received :: string
  em_from :: "email_address list"
  em_to :: "email_address list"
  em_cc :: "email_address list"
  em_bcc :: "email_address list"
  em_reply_to :: "email_address list"
  em_subject :: string
  em_preview :: string
  em_has_attachment :: bool
  em_message_id :: "string list"
  em_in_reply_to :: "string list"
  em_references :: "string list"
  em_sent :: string
  em_text_body :: "body_part list"
  em_html_body :: "body_part list"
  em_attachments :: "body_part list"
  em_values :: "(string \<times> body_value) list"

definition dec_email :: "json option \<Rightarrow> goerr + email" where
  "dec_email = dec_struct (\<lambda>f.
     bind_sum (dec_str (f ''id'')) (\<lambda>x0.
     bind_sum (dec_str (f ''blobId'')) (\<lambda>x1.
     bind_sum (dec_str (f ''threadId'')) (\<lambda>x2.
     bind_sum (dec_map dec_bool (f ''mailboxIds'')) (\<lambda>x3.
     bind_sum (dec_map dec_bool (f ''keywords'')) (\<lambda>x4.
     bind_sum (dec_int (f ''size'')) (\<lambda>x5.
     bind_sum (dec_str (f ''receivedAt'')) (\<lambda>x6.
     bind_sum (dec_list dec_email_address (f ''from'')) (\<lambda>x7.
     bind_sum (dec_list dec_email_address (f ''to'')) (\<lambda>x8.
     bind_sum (dec_list dec_email_address (f ''cc'')) (\<lambda>x9.
     bind_sum (dec_list dec_email_address (f ''bcc'')) (\<lambda>x10.
     bind_sum (dec_list dec_email_address (f ''replyTo'')) (\<lambda>x11.
     bind_sum (dec_str (f ''subject'')) (\<lambda>x12.
     bind_sum (dec_str (f ''preview'')) (\<lambda>x13.
     bind_sum (dec_bool (f ''hasAttachment'')) (\<lambda>x14.
     bind_sum (dec_list dec_str (f ''messageId'')) (\<lambda>x15.
     bind_sum (dec_list dec_str (f ''inReplyTo'')) (\<lambda>x16.
     bind_sum (dec_list dec_str (f ''references'')) (\<lambda>x17.
     bind_sum (dec_str (f ''sentAt'')) (\<lambda>x18.
     bind_sum (dec_list dec_body_part (f ''textBody'')) (\<lambda>x19.
     bind_sum (dec_list dec_body_part (f ''htmlBody'')) (\<lambda>x20.
     bind_sum (dec_list dec_body_part (f ''attachments'')) (\<lambda>x21.
     bind_sum (dec_map dec_body_value (f ''bodyValues'')) (\<lambda>x22.
     Inr \<lparr>em_id = x0, em_blob = x1, em_thread = x2, em_mailboxes = x3, em_keywords = x4,
         em_size = x5, em_received = x6, em_from = x7, em_to = x8, em_cc = x9, em_bcc = x10,
         em_reply_to = x11, em_subject = x12, em_preview = x13, em_has_attachment = x14,
         em_message_id = x15, em_in_reply_to = x16, em_references = x17, em_sent = x18,
         em_text_body = x19, em_html_body = x20, em_attachments = x21,
         em_values = x22\<rparr>))))))))))))))))))))))))"

record email_query_response =
  eq_account :: string
  eq_state :: string
  eq_changes :: bool
  eq_position :: int
  eq_total :: int
  eq_ids :: "string list"

definition dec_email_query_response :: "json option \<Rightarrow> goerr + email_query_response" where
  "dec_email_query_response = dec_struct (\<lambda>f.
     bind_sum (dec_str (f ''accountId'')) (\<lambda>x0.
     bind_sum (dec_str (f ''queryState'')) (\<lambda>x1.
     bind_sum (dec_bool (f ''canCalculateChanges'')) (\<lambda>x2.
     bind_sum (dec_int (f ''position'')) (\<lambda>x3.
     bind_sum (dec_int (f ''total'')) (\<lambda>x4.
     bind_sum (dec_list dec_str (f ''ids'')) (\<lambda>x5.
     Inr \<lparr>eq_account = x0, eq_state = x1, eq_changes = x2, eq_position = x3, eq_total = x4,
         eq_ids = x5\<rparr>)))))))"

record email_get_response =
  eg_account :: string
  eg_state :: string
  eg_list :: "email list"
  eg_not_found :: "string list"

definition dec_email_get_response :: "json option \<Rightarrow> goerr + email_get_response" where
  "dec_email_get_response = dec_struct (\<lambda>f.
     bind_sum (dec_str (f ''accountId'')) (\<lambda>x0.
     bind_sum (dec_str (f ''state'')) (\<lambda>x1.
     bind_sum (dec_list dec_email (f ''list'')) (\<lambda>x2.
     bind_sum (dec_list dec_str (f ''notFound'')) (\<lambda>x3.
     Inr \<lparr>eg_account = x0, eg_state = x1, eg_list = x2, eg_not_found = x3\<rparr>)))))"

record set_error =
  se_type :: string
  se_description :: string

definition dec_set_error :: "json option \<Rightarrow> goerr + set_error" where
  "dec_set_error = dec_struct (\<lambda>f.
     bind_sum (dec_str (f ''type'')) (\<lambda>x0.
     bind_sum (dec_str (f ''description'')) (\<lambda>x1.
     Inr \<lparr>se_type = x0, se_description = x1\<rparr>)))"

record email_set_response =
  es_account :: string
  es_old :: string
  es_new :: string
  es_created :: "(string \<times> email) list"
  es_updated :: "(string \<times> json) list"
  es_destroyed :: "string list"
  es_not_created :: "(string \<times> set_error) list"
  es_not_updated :: "(string \<times> set_error) list"
  es_not_destroyed :: "(string \<times> set_error) list"

definition dec_email_set_response :: "json option \<Rightarrow> goerr + email_set_response" where
  "dec_email_set_response = dec_struct (\<lambda>f.
     bind_sum (dec_str (f ''accountId'')) (\<lambda>x0.
     bind_sum (dec_str (f ''oldState'')) (\<lambda>x1.
     bind_sum (dec_str (f ''newState'')) (\<lambda>x2.
     bind_sum (dec_map dec_email (f ''created'')) (\<lambda>x3.
     bind_sum (dec_map dec_any (f ''updated'')) (\<lambda>x4.
     bind_sum (dec_list dec_str (f ''destroyed'')) (\<lambda>x5.
     bind_sum (dec_map dec_set_error (f ''notCreated'')) (\<lambda>x6.
     bind_sum (dec_map dec_set_error (f ''notUpdated'')) (\<lambda>x7.
     bind_sum (dec_map dec_set_error (f ''notDestroyed'')) (\<lambda>x8.
     Inr \<lparr>es_account = x0, es_old = x1, es_new = x2, es_created = x3, es_updated = x4,
         es_destroyed = x5, es_not_created = x6, es_not_updated = x7,
         es_not_destroyed = x8\<rparr>))))))))))"

record changes =
  ch_account :: string
  ch_old :: string
  ch_new :: string
  ch_more :: bool
  ch_created :: "string list"
  ch_updated :: "string list"
  ch_destroyed :: "string list"

definition dec_changes :: "json option \<Rightarrow> goerr + changes" where
  "dec_changes = dec_struct (\<lambda>f.
     bind_sum (dec_str (f ''accountId'')) (\<lambda>x0.
     bind_sum (dec_str (f ''oldState'')) (\<lambda>x1.
     bind_sum (dec_str (f ''newState'')) (\<lambda>x2.
     bind_sum (dec_bool (f ''hasMoreChanges'')) (\<lambda>x3.
     bind_sum (dec_list dec_str (f ''created'')) (\<lambda>x4.
     bind_sum (dec_list dec_str (f ''updated'')) (\<lambda>x5.
     bind_sum (dec_list dec_str (f ''destroyed'')) (\<lambda>x6.
     Inr \<lparr>ch_account = x0, ch_old = x1, ch_new = x2, ch_more = x3, ch_created = x4,
         ch_updated = x5, ch_destroyed = x6\<rparr>))))))))"

record recipient_status =
  rs_reply :: string
  rs_delivered :: string
  rs_displayed :: string

definition dec_recipient_status :: "json option \<Rightarrow> goerr + recipient_status" where
  "dec_recipient_status = dec_struct (\<lambda>f.
     bind_sum (dec_str (f ''smtpReply'')) (\<lambda>x0.
     bind_sum (dec_str (f ''delivered'')) (\<lambda>x1.
     bind_sum (dec_str (f ''displayed'')) (\<lambda>x2.
     Inr \<lparr>rs_reply = x0, rs_delivered = x1, rs_displayed = x2\<rparr>))))"

record submission =
  su_id :: string
  su_identity :: string
  su_email :: string
  su_thread :: string
  su_send_at :: "string option"
  su_undo :: string
  su_status :: "(string \<times> recipient_status) list"

definition dec_submission :: "json option \<Rightarrow> goerr + submission" where
  "dec_submission = dec_struct (\<lambda>f.
     bind_sum (dec_str (f ''id'')) (\<lambda>x0.
     bind_sum (dec_str (f ''identityId'')) (\<lambda>x1.
     bind_sum (dec_str (f ''emailId'')) (\<lambda>x2.
     bind_sum (dec_str (f ''threadId'')) (\<lambda>x3.
     bind_sum (dec_ptr dec_str (f ''sendAt'')) (\<lambda>x4.
     bind_sum (dec_str (f ''undoStatus'')) (\<lambda>x5.
     bind_sum (dec_map dec_recipient_status (f ''deliveryStatus'')) (\<lambda>x6.
     Inr \<lparr>su_id = x0, su_identity = x1, su_email = x2, su_thread = x3, su_send_at = x4,
         su_undo = x5, su_status = x6\<rparr>))))))))"

record submission_set_response =
  us_account :: string
  us_old :: string
  us_new :: string
  us_created :: "(string \<times> submission) list"
  us_updated :: "(string \<times> json) list"
  us_destroyed :: "string list"
  us_not_created :: "(string \<times> set_error) list"
  us_not_updated :: "(string \<times> set_error) list"
  us_not_destroyed :: "(string \<times> set_error) list"

definition dec_submission_set_response :: "json option \<Rightarrow> goerr + submission_set_response" where
  "dec_submission_set_response = dec_struct (\<lambda>f.
     bind_sum (dec_str (f ''accountId'')) (\<lambda>x0.
     bind_sum (dec_str (f ''oldState'')) (\<lambda>x1.
     bind_sum (dec_str (f ''newState'')) (\<lambda>x2.
     bind_sum (dec_map dec_submission (f ''created'')) (\<lambda>x3.
     bind_sum (dec_map dec_any (f ''updated'')) (\<lambda>x4.
     bind_sum (dec_list dec_str (f ''destroyed'')) (\<lambda>x5.
     bind_sum (dec_map dec_set_error (f ''notCreated'')) (\<lambda>x6.
     bind_sum (dec_map dec_set_error (f ''notUpdated'')) (\<lambda>x7.
     bind_sum (dec_map dec_set_error (f ''notDestroyed'')) (\<lambda>x8.
     Inr \<lparr>us_account = x0, us_old = x1, us_new = x2, us_created = x3, us_updated = x4,
         us_destroyed = x5, us_not_created = x6, us_not_updated = x7,
         us_not_destroyed = x8\<rparr>))))))))))"

record submission_get_response =
  ug_account :: string
  ug_state :: string
  ug_list :: "submission list"
  ug_not_found :: "string list"

definition dec_submission_get_response :: "json option \<Rightarrow> goerr + submission_get_response" where
  "dec_submission_get_response = dec_struct (\<lambda>f.
     bind_sum (dec_str (f ''accountId'')) (\<lambda>x0.
     bind_sum (dec_str (f ''state'')) (\<lambda>x1.
     bind_sum (dec_list dec_submission (f ''list'')) (\<lambda>x2.
     bind_sum (dec_list dec_str (f ''notFound'')) (\<lambda>x3.
     Inr \<lparr>ug_account = x0, ug_state = x1, ug_list = x2, ug_not_found = x3\<rparr>)))))"

record identity =
  in_id :: string
  in_name :: string
  in_email :: string
  in_reply_to :: "email_address list"
  in_bcc :: "email_address list"
  in_text :: string
  in_html :: string
  in_may_delete :: bool

definition dec_identity :: "json option \<Rightarrow> goerr + identity" where
  "dec_identity = dec_struct (\<lambda>f.
     bind_sum (dec_str (f ''id'')) (\<lambda>x0.
     bind_sum (dec_str (f ''name'')) (\<lambda>x1.
     bind_sum (dec_str (f ''email'')) (\<lambda>x2.
     bind_sum (dec_list dec_email_address (f ''replyTo'')) (\<lambda>x3.
     bind_sum (dec_list dec_email_address (f ''bcc'')) (\<lambda>x4.
     bind_sum (dec_str (f ''textSignature'')) (\<lambda>x5.
     bind_sum (dec_str (f ''htmlSignature'')) (\<lambda>x6.
     bind_sum (dec_bool (f ''mayDelete'')) (\<lambda>x7.
     Inr \<lparr>in_id = x0, in_name = x1, in_email = x2, in_reply_to = x3, in_bcc = x4, in_text = x5,
         in_html = x6, in_may_delete = x7\<rparr>)))))))))"

record identity_get_response =
  ig_account :: string
  ig_state :: string
  ig_list :: "identity list"
  ig_not_found :: "string list"

definition dec_identity_get_response :: "json option \<Rightarrow> goerr + identity_get_response" where
  "dec_identity_get_response = dec_struct (\<lambda>f.
     bind_sum (dec_str (f ''accountId'')) (\<lambda>x0.
     bind_sum (dec_str (f ''state'')) (\<lambda>x1.
     bind_sum (dec_list dec_identity (f ''list'')) (\<lambda>x2.
     bind_sum (dec_list dec_str (f ''notFound'')) (\<lambda>x3.
     Inr \<lparr>ig_account = x0, ig_state = x1, ig_list = x2, ig_not_found = x3\<rparr>)))))"

record folder =
  fo_id :: string
  fo_name :: string
  fo_parent :: string
  fo_role :: string
  fo_total_emails :: int
  fo_unread_emails :: int
  fo_total_threads :: int
  fo_unread_threads :: int

definition dec_folder :: "json option \<Rightarrow> goerr + folder" where
  "dec_folder = dec_struct (\<lambda>f.
     bind_sum (dec_str (f ''id'')) (\<lambda>x0.
     bind_sum (dec_str (f ''name'')) (\<lambda>x1.
     bind_sum (dec_str (f ''parentId'')) (\<lambda>x2.
     bind_sum (dec_str (f ''role'')) (\<lambda>x3.
     bind_sum (dec_int (f ''totalEmails'')) (\<lambda>x4.
     bind_sum (dec_int (f ''unreadEmails'')) (\<lambda>x5.
     bind_sum (dec_int (f ''totalThreads'')) (\<lambda>x6.
     bind_sum (dec_int (f ''unreadThreads'')) (\<lambda>x7.
     Inr \<lparr>fo_id = x0, fo_name = x1, fo_parent = x2, fo_role = x3, fo_total_emails = x4,
         fo_unread_emails = x5, fo_total_threads = x6, fo_unread_threads = x7\<rparr>)))))))))"

record folder_get_response =
  fg_account :: string
  fg_state :: string
  fg_list :: "folder list"
  fg_not_found :: "string list"

definition dec_folder_get_response :: "json option \<Rightarrow> goerr + folder_get_response" where
  "dec_folder_get_response = dec_struct (\<lambda>f.
     bind_sum (dec_str (f ''accountId'')) (\<lambda>x0.
     bind_sum (dec_str (f ''state'')) (\<lambda>x1.
     bind_sum (dec_list dec_folder (f ''list'')) (\<lambda>x2.
     bind_sum (dec_list dec_str (f ''notFound'')) (\<lambda>x3.
     Inr \<lparr>fg_account = x0, fg_state = x1, fg_list = x2, fg_not_found = x3\<rparr>)))))"

record folder_set_response =
  fs_account :: string
  fs_old :: string
  fs_new :: string
  fs_created :: "(string \<times> folder) list"
  fs_updated :: "(string \<times> json) list"
  fs_destroyed :: "string list"
  fs_not_created :: "(string \<times> set_error) list"
  fs_not_updated :: "(string \<times> set_error) list"
  fs_not_destroyed :: "(string \<times> set_error) list"

definition dec_folder_set_response :: "json option \<Rightarrow> goerr + folder_set_response" where
  "dec_folder_set_response = dec_struct (\<lambda>f.
     bind_sum (dec_str (f ''accountId'')) (\<lambda>x0.
     bind_sum (dec_str (f ''oldState'')) (\<lambda>x1.
     bind_sum (dec_str (f ''newState'')) (\<lambda>x2.
     bind_sum (dec_map dec_folder (f ''created'')) (\<lambda>x3.
     bind_sum (dec_map dec_any (f ''updated'')) (\<lambda>x4.
     bind_sum (dec_list dec_str (f ''destroyed'')) (\<lambda>x5.
     bind_sum (dec_map dec_set_error (f ''notCreated'')) (\<lambda>x6.
     bind_sum (dec_map dec_set_error (f ''notUpdated'')) (\<lambda>x7.
     bind_sum (dec_map dec_set_error (f ''notDestroyed'')) (\<lambda>x8.
     Inr \<lparr>fs_account = x0, fs_old = x1, fs_new = x2, fs_created = x3, fs_updated = x4,
         fs_destroyed = x5, fs_not_created = x6, fs_not_updated = x7,
         fs_not_destroyed = x8\<rparr>))))))))))"

record session =
  js_username :: string
  js_api :: string
  js_download :: string
  js_upload :: string
  js_events :: string
  js_state :: string

definition dec_session :: "json option \<Rightarrow> goerr + session" where
  "dec_session = dec_struct (\<lambda>f.
     bind_sum (dec_str (f ''username'')) (\<lambda>x0.
     bind_sum (dec_str (f ''apiUrl'')) (\<lambda>x1.
     bind_sum (dec_str (f ''downloadUrl'')) (\<lambda>x2.
     bind_sum (dec_str (f ''uploadUrl'')) (\<lambda>x3.
     bind_sum (dec_str (f ''eventSourceUrl'')) (\<lambda>x4.
     bind_sum (dec_str (f ''state'')) (\<lambda>x5.
     Inr \<lparr>js_username = x0, js_api = x1, js_download = x2, js_upload = x3, js_events = x4,
         js_state = x5\<rparr>)))))))"

record thread_object =
  to_id :: string
  to_emails :: "string list"

definition dec_thread_object :: "json option \<Rightarrow> goerr + thread_object" where
  "dec_thread_object = dec_struct (\<lambda>f.
     bind_sum (dec_str (f ''id'')) (\<lambda>x0.
     bind_sum (dec_list dec_str (f ''emailIds'')) (\<lambda>x1.
     Inr \<lparr>to_id = x0, to_emails = x1\<rparr>)))"

record thread_get_response =
  tg_account :: string
  tg_state :: string
  tg_list :: "thread_object list"
  tg_not_found :: "string list"

definition dec_thread_get_response :: "json option \<Rightarrow> goerr + thread_get_response" where
  "dec_thread_get_response = dec_struct (\<lambda>f.
     bind_sum (dec_str (f ''accountId'')) (\<lambda>x0.
     bind_sum (dec_str (f ''state'')) (\<lambda>x1.
     bind_sum (dec_list dec_thread_object (f ''list'')) (\<lambda>x2.
     bind_sum (dec_list dec_str (f ''notFound'')) (\<lambda>x3.
     Inr \<lparr>tg_account = x0, tg_state = x1, tg_list = x2, tg_not_found = x3\<rparr>)))))"

record thread_query_response =
  tq_account :: string
  tq_state :: string
  tq_sort :: bool
  tq_position :: int
  tq_total :: int
  tq_ids :: "string list"

definition dec_thread_query_response :: "json option \<Rightarrow> goerr + thread_query_response" where
  "dec_thread_query_response = dec_struct (\<lambda>f.
     bind_sum (dec_str (f ''accountId'')) (\<lambda>x0.
     bind_sum (dec_str (f ''queryState'')) (\<lambda>x1.
     bind_sum (dec_bool (f ''canCalculateSort'')) (\<lambda>x2.
     bind_sum (dec_int (f ''position'')) (\<lambda>x3.
     bind_sum (dec_int (f ''total'')) (\<lambda>x4.
     bind_sum (dec_list dec_str (f ''ids'')) (\<lambda>x5.
     Inr \<lparr>tq_account = x0, tq_state = x1, tq_sort = x2, tq_position = x3, tq_total = x4,
         tq_ids = x5\<rparr>)))))))"

record uploaded_blob =
  ub_account :: string
  ub_id :: string
  ub_type :: string
  ub_size :: int

definition dec_uploaded_blob :: "json option \<Rightarrow> goerr + uploaded_blob" where
  "dec_uploaded_blob = dec_struct (\<lambda>f.
     bind_sum (dec_str (f ''accountId'')) (\<lambda>x0.
     bind_sum (dec_str (f ''blobId'')) (\<lambda>x1.
     bind_sum (dec_str (f ''type'')) (\<lambda>x2.
     bind_sum (dec_int (f ''size'')) (\<lambda>x3.
     Inr \<lparr>ub_account = x0, ub_id = x1, ub_type = x2, ub_size = x3\<rparr>)))))"

end
