(* ===== verification/Stalwart.thy ===== *)
theory Stalwart
  imports World JmapObjects
begin

text \<open>
  The Stalwart client (\<^verbatim>\<open>internal/stalwart\<close>: client, jmap, session, mailbox, email, email_submission,
  identity, sync, thread, blob). The transport, \<^verbatim>\<open>http.Client.Do\<close> with the server behind it, is the
  component \<open>cl_do\<close> of the client record, a service on the state \<open>'s\<close>; everything above it is the code's. A
  reply carries its body as text and as what \<^verbatim>\<open>json.Unmarshal\<close> makes of it (\<open>None\<close> where it is no JSON).
\<close>

datatype payload = Empty | JsonBody json | RawBody string

record http_request =
  rq_method :: string
  rq_url :: string
  rq_type :: string
  rq_body :: payload

record http_reply =
  hp_status :: int
  hp_length :: int
  hp_type :: string
  hp_broken :: "goerr option"
  hp_text :: string
  hp_json :: "json option"

record 's client =
  cl_base :: string
  cl_do :: "http_request \<Rightarrow> ('s, http_reply) service"
  cl_now :: "'s \<Rightarrow> time"


section \<open>Requests\<close>

definition response_limit :: int where
  "response_limit = 10 * 1024 * 1024"

definition do_request :: "'s client \<Rightarrow> string \<Rightarrow> string \<Rightarrow> payload \<Rightarrow> string \<Rightarrow> ('s, http_reply) service" where
  "do_request c meth url body ctype =
     seq (wrap_err ''executing request'' (cl_do c \<lparr>rq_method = meth, rq_url = url, rq_type = ctype, rq_body = body\<rparr>)) (\<lambda>r.
     if hp_length r > response_limit
     then fail (Plain (''response too large: '' @ int_text (hp_length r) @ '' bytes''))
     else ret r)"

definition read_and_close :: "http_reply \<Rightarrow> ('s, string) service" where
  "read_and_close r =
     (case hp_broken r of Some e \<Rightarrow> fail (Wrapped ''reading response body'' e) | None \<Rightarrow> ret (hp_text r))"

definition invalid_json :: goerr where
  "invalid_json = Plain ''invalid character in JSON''"

definition parse_json :: "http_reply \<Rightarrow> (json option \<Rightarrow> goerr + 'a) \<Rightarrow> ('s, 'a) service" where
  "parse_json r d = wrap_err ''parsing JSON''
     (lift (case hp_json r of None \<Rightarrow> Inl invalid_json | Some j \<Rightarrow> d (Some j)))"

definition health_check :: "'s client \<Rightarrow> ('s, unit) service" where
  "health_check c =
     seq (wrap_err ''stalwart unreachable'' (cl_do c \<lparr>rq_method = ''GET'', rq_url = cl_base c @ ''/.well-known/jmap'',
            rq_type = '''', rq_body = Empty\<rparr>)) (\<lambda>r.
     if hp_status r \<ge> 500 then fail (Plain (''stalwart returned server error: '' @ int_text (hp_status r)))
     else ret ())"


section \<open>JMAP calls\<close>

record method_response =
  mr_name :: string
  mr_data :: json
  mr_call :: string

definition jmap_error :: "string \<Rightarrow> string \<Rightarrow> goerr" where
  "jmap_error ty desc =
     Plain (if desc \<noteq> '''' then ''JMAP error ['' @ ty @ '']: '' @ desc else ''JMAP error ['' @ ty @ '']'')"

definition core_urn :: string where "core_urn = ''urn:ietf:params:jmap:core''"
definition mail_urn :: string where "mail_urn = ''urn:ietf:params:jmap:mail''"

definition jmap_mail_using :: "string list" where
  "jmap_mail_using = [core_urn, mail_urn]"

definition jmap_submission_using :: "string list" where
  "jmap_submission_using = [core_urn, mail_urn, ''urn:ietf:params:jmap:submission'']"

definition jmap_request :: "string list \<Rightarrow> json list \<Rightarrow> json" where
  "jmap_request us calls = JObj [(''using'', JArr (map JStr us)), (''methodCalls'', JArr calls)]"

text \<open>One element of \<^verbatim>\<open>methodResponses\<close>: the triple of its name, its data and its call id.\<close>

definition parse_method_response :: "json \<Rightarrow> goerr + method_response" where
  "parse_method_response raw =
     bind_sum (case dec_list dec_any (Some raw) of Inl e \<Rightarrow> Inl (Wrapped ''parsing method response triple'' e) | Inr xs \<Rightarrow> Inr xs)
       (\<lambda>triple.
     if length triple < 2 then Inl (Plain ''invalid method response format: expected at least 2 elements'')
     else
       bind_sum (case dec_str (Some (triple ! 0)) of Inl e \<Rightarrow> Inl (Wrapped ''parsing method name'' e) | Inr s \<Rightarrow> Inr s) (\<lambda>name.
       if name = ''error'' then
         (case dec_set_error (Some (triple ! 1)) of
            Inl e \<Rightarrow> Inl (Plain (''JMAP error (unparseable): '' @ go_print (triple ! 1)))
          | Inr x \<Rightarrow> Inl (jmap_error (se_type x) (se_description x)))
       else
         Inr \<lparr>mr_name = name, mr_data = triple ! 1,
              mr_call = (if length triple \<ge> 3 then
                           (case dec_str (Some (triple ! 2)) of Inl e \<Rightarrow> '''' | Inr s \<Rightarrow> s) else '''')\<rparr>))"

definition dec_envelope :: "json option \<Rightarrow> goerr + json list" where
  "dec_envelope = dec_struct (\<lambda>f.
     bind_sum (dec_list dec_any (f ''methodResponses'')) (\<lambda>rs.
     bind_sum (dec_str (f ''sessionState'')) (\<lambda>_. Inr rs)))"

definition call_jmap :: "'s client \<Rightarrow> string list \<Rightarrow> json list \<Rightarrow> ('s, method_response list) service" where
  "call_jmap c us calls =
     seq (wrap_err ''JMAP request'' (do_request c ''POST'' (cl_base c @ ''/jmap'')
            (JsonBody (jmap_request us calls)) ''application/json'')) (\<lambda>r.
     seq (read_and_close r) (\<lambda>data.
     if hp_status r \<noteq> 200
     then fail (Plain (''JMAP returned status '' @ int_text (hp_status r) @ '': '' @ data))
     else
       seq (parse_json r dec_envelope) (\<lambda>rs.
       if rs = [] then fail (Plain ''no method responses in JMAP response'')
       else lift (map_sum_list parse_method_response rs))))"

definition call_jmap_first ::
  "'s client \<Rightarrow> string list \<Rightarrow> json list \<Rightarrow> (json option \<Rightarrow> goerr + 'a) \<Rightarrow> ('s, 'a) service" where
  "call_jmap_first c us calls d =
     seq (call_jmap c us calls) (\<lambda>rs.
     if rs = [] then fail (Plain ''no method responses'')
     else wrap_err ''parsing method response data'' (lift (d (Some (mr_data (rs ! 0))))))"

definition method_call :: "string \<Rightarrow> (string \<times> json) list \<Rightarrow> string \<Rightarrow> json" where
  "method_call name args tag = JArr [JStr name, JObj args, JStr tag]"

text \<open>Arguments that are sent only when they are given.\<close>

definition opt_arg :: "string \<Rightarrow> json option \<Rightarrow> (string \<times> json) list" where
  "opt_arg k v = (case v of None \<Rightarrow> [] | Some j \<Rightarrow> [(k, j)])"

definition pos_arg :: "string \<Rightarrow> int \<Rightarrow> (string \<times> json) list" where
  "pos_arg k n = (if n > 0 then [(k, JNum n)] else [])"

definition json_strs :: "string list \<Rightarrow> json" where
  "json_strs xs = JArr (map JStr xs)"

definition ids_arg :: "string list option \<Rightarrow> json" where
  "ids_arg ids = (case ids of None \<Rightarrow> JNull | Some xs \<Rightarrow> json_strs xs)"


section \<open>Sessions, folders, identities\<close>

definition get_session_at :: "'s client \<Rightarrow> string \<Rightarrow> string \<Rightarrow> ('s, session) service" where
  "get_session_at c path what =
     seq (wrap_err what (do_request c ''GET'' (cl_base c @ path) Empty '''')) (\<lambda>r.
     seq (read_and_close r) (\<lambda>data.
     if hp_status r \<noteq> 200
     then fail (Plain (what @ '' returned status '' @ int_text (hp_status r) @ '': '' @ data))
     else wrap_err ''parsing JMAP session'' (parse_json r dec_session)))"

definition get_jmap_well_known :: "'s client \<Rightarrow> ('s, session) service" where
  "get_jmap_well_known c = get_session_at c ''/.well-known/jmap'' ''JMAP discovery''"

definition get_jmap_session :: "'s client \<Rightarrow> ('s, session) service" where
  "get_jmap_session c = get_session_at c ''/jmap/session'' ''JMAP session''"

definition folder_get :: "'s client \<Rightarrow> string \<Rightarrow> string list option \<Rightarrow> ('s, folder_get_response) service" where
  "folder_get c acc ids = wrap_err ''Mailbox/get''
     (call_jmap_first c jmap_mail_using
        [method_call ''Mailbox/get'' ((''accountId'', JStr acc) # opt_arg ''ids'' (map_option json_strs ids)) ''mg0'']
        dec_folder_get_response)"

definition folder_set ::
  "'s client \<Rightarrow> string \<Rightarrow> json option \<Rightarrow> json option \<Rightarrow> string list option \<Rightarrow> ('s, folder_set_response) service" where
  "folder_set c acc create update destroy = wrap_err ''Mailbox/set''
     (call_jmap_first c jmap_mail_using
        [method_call ''Mailbox/set'' ((''accountId'', JStr acc) # opt_arg ''create'' create @ opt_arg ''update'' update @
           opt_arg ''destroy'' (map_option json_strs destroy)) ''ms0'']
        dec_folder_set_response)"

text \<open>A map is filled by assignments: the last one for a key counts.\<close>

fun map_put :: "'k \<Rightarrow> 'v \<Rightarrow> ('k \<times> 'v) list \<Rightarrow> ('k \<times> 'v) list" where
  "map_put k v [] = [(k, v)]"
| "map_put k v ((k', v') # r) = (if k' = k then (k, v) # r else (k', v') # map_put k v r)"

definition discover_mailboxes :: "'s client \<Rightarrow> string \<Rightarrow> ('s, (string \<times> string) list) service" where
  "discover_mailboxes c acc =
     seq (wrap_err ''getting mailboxes'' (folder_get c acc None)) (\<lambda>r.
     ret (fold (\<lambda>m acc. if fo_role m \<noteq> '''' then map_put (fo_role m) (fo_id m) acc else acc) (fg_list r) []))"

definition get_mailbox_by_name :: "'s client \<Rightarrow> string \<Rightarrow> string \<Rightarrow> ('s, folder) service" where
  "get_mailbox_by_name c acc name =
     seq (wrap_err ''getting mailboxes'' (folder_get c acc None)) (\<lambda>r.
     case find (\<lambda>m. fo_name m = name) (fg_list r) of
       None \<Rightarrow> fail (Plain (''mailbox not found: '' @ name)) | Some m \<Rightarrow> ret m)"

definition identity_get :: "'s client \<Rightarrow> string \<Rightarrow> ('s, identity_get_response) service" where
  "identity_get c acc = wrap_err ''Identity/get''
     (call_jmap_first c jmap_submission_using [method_call ''Identity/get'' [(''accountId'', JStr acc)] ''ig0'']
        dec_identity_get_response)"

definition find_primary_identity :: "'s client \<Rightarrow> string \<Rightarrow> ('s, identity) service" where
  "find_primary_identity c acc =
     seq (identity_get c acc) (\<lambda>r.
     case ig_list r of
       [] \<Rightarrow> fail (Plain (''no sending identities found for account '' @ acc)) | i # _ \<Rightarrow> ret i)"


section \<open>Emails\<close>

definition email_query_at ::
  "'s client \<Rightarrow> string \<Rightarrow> json option \<Rightarrow> json option \<Rightarrow> int \<Rightarrow> int \<Rightarrow> ('s, email_query_response) service" where
  "email_query_at c acc flt srt position limit = wrap_err ''Email/query''
     (call_jmap_first c jmap_mail_using
        [method_call ''Email/query'' ((''accountId'', JStr acc) # opt_arg ''filter'' flt @ opt_arg ''sort'' srt @
           pos_arg ''position'' position @ pos_arg ''limit'' limit @ [(''calculateTotal'', JBool True)]) ''eq0'']
        dec_email_query_response)"

definition email_query ::
  "'s client \<Rightarrow> string \<Rightarrow> json option \<Rightarrow> json option \<Rightarrow> int \<Rightarrow> ('s, email_query_response) service" where
  "email_query c acc flt srt limit = wrap_err ''Email/query''
     (call_jmap_first c jmap_mail_using
        [method_call ''Email/query'' ((''accountId'', JStr acc) # opt_arg ''filter'' flt @ opt_arg ''sort'' srt @
           pos_arg ''limit'' limit @ [(''calculateTotal'', JBool True)]) ''eq0'']
        dec_email_query_response)"

definition email_get ::
  "'s client \<Rightarrow> string \<Rightarrow> string list option \<Rightarrow> string list option \<Rightarrow> ('s, email_get_response) service" where
  "email_get c acc ids props = wrap_err ''Email/get''
     (call_jmap_first c jmap_mail_using
        [method_call ''Email/get'' ([(''accountId'', JStr acc), (''ids'', ids_arg ids)] @
           opt_arg ''properties'' (map_option json_strs props)) ''eg0'']
        dec_email_get_response)"

definition body_properties :: "string list" where
  "body_properties =
     [''id'', ''blobId'', ''threadId'', ''mailboxIds'', ''keywords'', ''size'', ''receivedAt'', ''from'', ''to'',
      ''cc'', ''bcc'', ''replyTo'', ''subject'', ''preview'', ''hasAttachment'', ''attachments'', ''messageId'',
      ''inReplyTo'', ''references'', ''sentAt'', ''textBody'', ''htmlBody'', ''bodyValues'']"

definition email_get_with_body :: "'s client \<Rightarrow> string \<Rightarrow> string list \<Rightarrow> ('s, email_get_response) service" where
  "email_get_with_body c acc ids = wrap_err ''Email/get (with body)''
     (call_jmap_first c jmap_mail_using
        [method_call ''Email/get'' [(''accountId'', JStr acc), (''ids'', json_strs ids),
           (''properties'', json_strs body_properties), (''fetchTextBodyValues'', JBool True),
           (''fetchHTMLBodyValues'', JBool True)] ''eg0'']
        dec_email_get_response)"

text \<open>The first entry of a map of failures, as an error.\<close>

definition set_failure :: "string \<Rightarrow> (string \<times> set_error) list \<Rightarrow> goerr option" where
  "set_failure what m =
     (case m of [] \<Rightarrow> None
      | (k, e) # _ \<Rightarrow> Some (Plain (what @ '' failed for '' @ k @ '': ['' @ se_type e @ ''] '' @ se_description e)))"

definition fail_on :: "goerr option \<Rightarrow> ('s, 'a) service \<Rightarrow> ('s, 'a) service" where
  "fail_on e m = (case e of None \<Rightarrow> m | Some x \<Rightarrow> fail x)"

definition email_set ::
  "'s client \<Rightarrow> string \<Rightarrow> json option \<Rightarrow> json option \<Rightarrow> string list option \<Rightarrow> ('s, email_set_response) service" where
  "email_set c acc create update destroy =
     seq (wrap_err ''Email/set'' (call_jmap_first c jmap_mail_using
        [method_call ''Email/set'' ((''accountId'', JStr acc) # opt_arg ''create'' create @ opt_arg ''update'' update @
           opt_arg ''destroy'' (map_option json_strs destroy)) ''es0'']
        dec_email_set_response)) (\<lambda>r.
     fail_on (set_failure ''Email/set create'' (es_not_created r))
    (fail_on (set_failure ''Email/set update'' (es_not_updated r))
    (fail_on (set_failure ''Email/set destroy'' (es_not_destroyed r))
    (ret r))))"


section \<open>Submissions\<close>

definition submission_args :: "string \<Rightarrow> string \<Rightarrow> string \<Rightarrow> json option \<Rightarrow> (string \<times> json) list" where
  "submission_args acc email ident upd =
     [(''accountId'', JStr acc),
      (''create'', JObj [(''sub0'', JObj [(''identityId'', JStr ident), (''emailId'', JStr email)])])] @
     opt_arg ''onSuccessUpdateEmail'' (map_option (\<lambda>u. JObj [(''#sub0'', u)]) upd)"

definition submission_set ::
  "'s client \<Rightarrow> string \<Rightarrow> string \<Rightarrow> string \<Rightarrow> json option \<Rightarrow> ('s, submission_set_response) service" where
  "submission_set c acc email ident upd =
     seq (wrap_err ''EmailSubmission/set'' (call_jmap_first c jmap_submission_using
        [method_call ''EmailSubmission/set'' (submission_args acc email ident upd) ''esub0'']
        dec_submission_set_response)) (\<lambda>r.
     fail_on (set_failure ''EmailSubmission/set create'' (us_not_created r)) (ret r))"

definition submission_get :: "'s client \<Rightarrow> string \<Rightarrow> string list \<Rightarrow> ('s, submission_get_response) service" where
  "submission_get c acc ids = wrap_err ''EmailSubmission/get''
     (call_jmap_first c jmap_submission_using
        [method_call ''EmailSubmission/get'' [(''accountId'', JStr acc), (''ids'', json_strs ids)] ''0'']
        dec_submission_get_response)"


section \<open>Changes and threads\<close>

text \<open>
  \<^verbatim>\<open>GetChanges\<close>, \<^verbatim>\<open>ThreadGet\<close> and \<^verbatim>\<open>ThreadQuery\<close> look at the first response themselves. \<open>on_error\<close> is what each
  does with a response named \<^verbatim>\<open>error\<close>.
\<close>

definition first_response ::
  "'s client \<Rightarrow> json list \<Rightarrow> (set_error \<Rightarrow> goerr) \<Rightarrow> string \<Rightarrow> (json option \<Rightarrow> goerr + 'a) \<Rightarrow> ('s, 'a) service" where
  "first_response c calls on_error what d =
     seq (call_jmap c jmap_mail_using calls) (\<lambda>rs.
     let r = rs ! 0 in
     if mr_name r = ''error'' then
       fail (on_error (case dec_set_error (Some (mr_data r)) of
                         Inl e \<Rightarrow> \<lparr>se_type = '''', se_description = ''''\<rparr> | Inr x \<Rightarrow> x))
     else wrap_err (''parsing '' @ what @ '' response'') (lift (d (Some (mr_data r)))))"

definition changes_error :: "set_error \<Rightarrow> goerr" where
  "changes_error x =
     (if se_type x = ''cannotCalculateChanges'' then Plain ''cannotCalculateChanges''
      else jmap_error (se_type x) (se_description x))"

definition get_changes :: "'s client \<Rightarrow> string \<Rightarrow> string \<Rightarrow> string \<Rightarrow> ('s, changes) service" where
  "get_changes c acc entity since =
     first_response c [method_call (entity @ ''/changes'') [(''accountId'', JStr acc), (''sinceState'', JStr since)] ''0'']
       changes_error (entity @ ''/changes'') dec_changes"

definition thread_error :: "set_error \<Rightarrow> goerr" where
  "thread_error x = jmap_error (se_type x) (se_description x)"

definition thread_get :: "'s client \<Rightarrow> string \<Rightarrow> string list \<Rightarrow> ('s, thread_get_response) service" where
  "thread_get c acc ids =
     first_response c [method_call ''Thread/get'' [(''accountId'', JStr acc), (''ids'', json_strs ids)] ''0'']
       thread_error ''Thread/get'' dec_thread_get_response"

definition thread_query :: "'s client \<Rightarrow> string \<Rightarrow> json option \<Rightarrow> int \<Rightarrow> int \<Rightarrow> ('s, thread_query_response) service" where
  "thread_query c acc flt position limit =
     first_response c [method_call ''Thread/query'' ((''accountId'', JStr acc) # opt_arg ''filter'' flt @
         pos_arg ''position'' position @ pos_arg ''limit'' limit) ''0'']
       thread_error ''Thread/query'' dec_thread_query_response"


section \<open>Blobs\<close>

text \<open>\<^verbatim>\<open>strings.ReplaceAll\<close> for a non-empty pattern and \<^verbatim>\<open>strings.Index\<close>.\<close>

function replace_all :: "string \<Rightarrow> string \<Rightarrow> string \<Rightarrow> string" where
  "replace_all [] old new = []"
| "replace_all (c # cs) old new =
     (if old \<noteq> [] \<and> has_prefix (c # cs) old then new @ replace_all (drop (length old) (c # cs)) old new
      else c # replace_all cs old new)"
  by pat_completeness auto
termination by (relation "measure (\<lambda>(s, _, _). length s)") auto

fun str_index :: "string \<Rightarrow> string \<Rightarrow> nat option" where
  "str_index [] sub = (if sub = [] then Some 0 else None)"
| "str_index (c # cs) sub = (if has_prefix (c # cs) sub then Some 0 else map_option Suc (str_index cs sub))"

text \<open>A URL of the session on localhost is redirected to the configured server.\<close>

definition internal_url :: "string \<Rightarrow> string \<Rightarrow> string" where
  "internal_url base url =
     (if str_contains url ''localhost'' then
        (case str_index url ''/jmap'' of None \<Rightarrow> url | Some i \<Rightarrow> base @ drop i url)
      else url)"

definition upload_blob :: "'s client \<Rightarrow> string \<Rightarrow> string \<Rightarrow> string \<Rightarrow> ('s, uploaded_blob) service" where
  "upload_blob c acc ctype body =
     seq (wrap_err ''getting JMAP session for upload'' (get_jmap_session c)) (\<lambda>s.
     let url = replace_all (js_upload s) ''{accountId}'' acc in
     if url = '''' then fail (Plain ''no uploadUrl found in JMAP session'')
     else
       seq (wrap_err ''executing upload request'' (cl_do c \<lparr>rq_method = ''POST'', rq_url = internal_url (cl_base c) url,
              rq_type = ctype, rq_body = RawBody body\<rparr>)) (\<lambda>r.
       seq (read_and_close r) (\<lambda>data.
       if hp_status r \<noteq> 201 \<and> hp_status r \<noteq> 200
       then fail (Plain (''upload returned status '' @ int_text (hp_status r) @ '': '' @ data))
       else wrap_err ''parsing upload response'' (parse_json r dec_uploaded_blob))))"

definition download_url :: "session \<Rightarrow> string \<Rightarrow> string \<Rightarrow> string \<Rightarrow> string \<Rightarrow> string" where
  "download_url s acc blob ty name =
     replace_all (replace_all (replace_all (replace_all (js_download s)
       ''{accountId}'' acc) ''{blobId}'' blob) ''{type}'' ty) ''{name}'' name"

definition download_blob ::
  "'s client \<Rightarrow> string \<Rightarrow> string \<Rightarrow> string \<Rightarrow> string \<Rightarrow> ('s, string \<times> string) service" where
  "download_blob c acc blob ty name =
     seq (wrap_err ''getting JMAP session for download'' (get_jmap_session c)) (\<lambda>s.
     seq (wrap_err ''executing download request'' (cl_do c \<lparr>rq_method = ''GET'',
            rq_url = internal_url (cl_base c) (download_url s acc blob ty name), rq_type = '''', rq_body = Empty\<rparr>)) (\<lambda>r.
     if hp_status r \<noteq> 200
     then fail (Plain (''download returned status '' @ int_text (hp_status r) @ '': '' @
            (case hp_broken r of None \<Rightarrow> hp_text r | Some e \<Rightarrow> '''')))
     else ret (hp_text r, if hp_type r = '''' then ''application/octet-stream'' else hp_type r)))"

section \<open>Errors of the client\<close>

lemma parse_method_response_Inr: "parse_method_response raw = Inr m \<Longrightarrow> mr_name m \<noteq> ''error''"
  by (auto simp: parse_method_response_def Let_def split: sum.splits if_splits)

lemma map_sum_list_Inr: "map_sum_list f xs = Inr ys \<Longrightarrow> y \<in> set ys \<Longrightarrow> \<exists>x \<in> set xs. f x = Inr y"
proof (induction xs arbitrary: ys)
  case (Cons x xs)
  then show ?case by (cases "f x"; cases "map_sum_list f xs") auto
qed simp

lemma call_jmap_Inr:
  assumes "call_jmap c us calls s = (Inr rs, s')"
  shows "rs \<noteq> [] \<and> (\<forall>m \<in> set rs. mr_name m \<noteq> ''error'')"
proof -
  from assms obtain raws where r: "raws \<noteq> []" "map_sum_list parse_method_response raws = Inr rs"
    unfolding call_jmap_def by (auto elim!: seq_InrE split: if_splits)
  have "rs \<noteq> []" using r by (cases raws; cases "parse_method_response (hd raws)"; cases "map_sum_list parse_method_response (tl raws)") auto
  with r(2) show ?thesis by (auto dest: map_sum_list_Inr parse_method_response_Inr)
qed

text \<open>Errors whose text does not begin with a given character; the client's begin with a phrase of their own.\<close>

definition starts_not :: "char \<Rightarrow> goerr \<Rightarrow> bool" where
  "starts_not ch e \<longleftrightarrow> (case err_text e of [] \<Rightarrow> True | x # _ \<Rightarrow> x \<noteq> ch)"

definition errs_not :: "char \<Rightarrow> ('s, 'a) service \<Rightarrow> bool" where
  "errs_not ch m \<longleftrightarrow> (\<forall>s e s'. m s = (Inl e, s') \<longrightarrow> starts_not ch e)"

lemma errs_not_seq: "errs_not ch m \<Longrightarrow> (\<And>a. errs_not ch (k a)) \<Longrightarrow> errs_not ch (seq m k)"
  by (fastforce simp: errs_not_def seq_def split: prod.splits sum.splits)

lemma errs_not_wrap: "p \<noteq> [] \<Longrightarrow> hd p \<noteq> ch \<Longrightarrow> errs_not ch (wrap_err p m)"
  by (cases p) (auto simp: errs_not_def wrap_err_def map_err_def starts_not_def split: prod.splits sum.splits)

lemma errs_not_simps:
  "errs_not ch (ret a)" "errs_not ch (fail e) \<longleftrightarrow> starts_not ch e" "errs_not ch (lift r) \<longleftrightarrow> (\<forall>e. r = Inl e \<longrightarrow> starts_not ch e)"
  by (auto simp: errs_not_def)

lemma parse_method_response_Inl: "parse_method_response raw = Inl e \<Longrightarrow> starts_not CHR ''c'' e"
  by (auto simp: parse_method_response_def starts_not_def jmap_error_def Let_def split: sum.splits if_splits)

lemma map_sum_list_Inl: "map_sum_list f xs = Inl e \<Longrightarrow> \<exists>x \<in> set xs. f x = Inl e"
proof (induction xs)
  case (Cons x xs)
  then show ?case by (cases "f x"; cases "map_sum_list f xs") auto
qed simp

lemma parse_responses_Inl:
  assumes "map_sum_list parse_method_response rs = Inl e"
  shows "starts_not CHR ''c'' e"
  using map_sum_list_Inl [OF assms] parse_method_response_Inl by blast

lemma call_jmap_errs:
  fixes c :: "'s client"
  shows "errs_not CHR ''c'' (call_jmap c us calls)"
  unfolding call_jmap_def
proof (intro errs_not_seq errs_not_wrap)
  fix r
  show "errs_not CHR ''c'' (read_and_close r :: ('s, string) service)"
    by (auto simp: read_and_close_def errs_not_simps starts_not_def split: option.splits)
  show "errs_not CHR ''c'' (if hp_status r \<noteq> 200 then fail (Plain (''JMAP returned status '' @ int_text (hp_status r) @ '': '' @ data))
      else seq (parse_json r dec_envelope) (\<lambda>rs.
        if rs = [] then fail (Plain ''no method responses in JMAP response'')
        else lift (map_sum_list parse_method_response rs)) :: ('s, method_response list) service)" for data
  proof (cases "hp_status r \<noteq> 200")
    case False
    have "errs_not CHR ''c'' (seq (parse_json r dec_envelope) (\<lambda>rs.
        if rs = [] then fail (Plain ''no method responses in JMAP response'')
        else lift (map_sum_list parse_method_response rs)) :: ('s, method_response list) service)"
    proof (rule errs_not_seq)
      show "errs_not CHR ''c'' (parse_json r dec_envelope :: ('s, json list) service)"
        unfolding parse_json_def by (rule errs_not_wrap) simp_all
      show "errs_not CHR ''c'' (if rs = [] then fail (Plain ''no method responses in JMAP response'')
          else lift (map_sum_list parse_method_response rs) :: ('s, method_response list) service)" for rs
        using parse_responses_Inl by (auto simp: errs_not_simps starts_not_def)
    qed
    with False show ?thesis by simp
  qed (simp add: errs_not_simps starts_not_def)
qed simp_all

text \<open>
  \<^verbatim>\<open>GetChanges\<close> never reports \<^verbatim>\<open>cannotCalculateChanges\<close>: whatever the server answers, no error of the call
  has that text, because \<^verbatim>\<open>callJMAP\<close> already turns a response named \<^verbatim>\<open>error\<close> into an error of its own. The
  callers that compare the text never take their resynchronisation branch.
\<close>

theorem get_changes_never_resyncs:
  "\<not> (\<exists>e s'. get_changes c acc entity since s = (Inl e, s') \<and> err_text e = ''cannotCalculateChanges'')"
proof (clarify)
  fix e s'
  assume g: "get_changes c acc entity since s = (Inl e, s')" and t: "err_text e = ''cannotCalculateChanges''"
  have "starts_not CHR ''c'' e"
  proof (cases "call_jmap c jmap_mail_using
      [method_call (entity @ ''/changes'') [(''accountId'', JStr acc), (''sinceState'', JStr since)] ''0''] s")
    case (Pair r s1)
    show ?thesis
    proof (cases r)
      case (Inl x)
      with g Pair have "call_jmap c jmap_mail_using
          [method_call (entity @ ''/changes'') [(''accountId'', JStr acc), (''sinceState'', JStr since)] ''0''] s = (Inl e, s1)"
        by (simp add: get_changes_def first_response_def)
      with call_jmap_errs [of c] show ?thesis unfolding errs_not_def by blast
    next
      case (Inr rs)
      with Pair have "mr_name (rs ! 0) \<noteq> ''error''" by (auto dest: call_jmap_Inr)
      with g Pair Inr show ?thesis
        by (auto simp: get_changes_def first_response_def Let_def wrap_err_def map_err_def starts_not_def
            split: sum.splits)
    qed
  qed
  with t show False by (simp add: starts_not_def)
qed

end
