(* ===== verification/Management.thy ===== *)
theory Management
  imports Stalwart
begin

text \<open>
  The management calls of the Stalwart client (\<^verbatim>\<open>internal/stalwart/management.go\<close>): requests to the
  \<^verbatim>\<open>x:Domain\<close>, \<^verbatim>\<open>x:Account\<close> and \<^verbatim>\<open>x:AppPassword\<close> methods, whose replies are read as untyped JSON. The
  code asserts \<^verbatim>\<open>notCreated.(map[string]any)\<close> without a test: on a value that is no object, null included,
  it panics. A panic ends the process; here it is the result \<open>go_panic\<close>, so that its occurrence can be
  stated, and no theorem relies on what a caller does with it.
\<close>

definition go_panic :: goerr where
  "go_panic = Plain ''panic: interface conversion: interface {} is not map[string]interface {}''"

section \<open>Requests and replies\<close>

definition stalwart_urn :: string where "stalwart_urn = ''urn:stalwart:jmap''"

text \<open>Send the calls and decode the reply as \<^verbatim>\<open>map[string]any\<close>; the result is \<^verbatim>\<open>methodResponses\<close>.\<close>

definition management_reply ::
  "'s client \<Rightarrow> string list \<Rightarrow> string \<Rightarrow> string \<Rightarrow> string \<Rightarrow> json list \<Rightarrow> ('s, http_reply \<times> json list) service" where
  "management_reply c us what_request what_status what_parse calls =
     seq (wrap_err what_request (do_request c ''POST'' (cl_base c @ ''/jmap'')
            (JsonBody (jmap_request us calls)) ''application/json'')) (\<lambda>r.
     seq (read_and_close r) (\<lambda>data.
     if hp_status r \<noteq> 200
     then fail (Plain (what_status @ '' returned status '' @ int_text (hp_status r) @ '': '' @ data))
     else
       wrap_err what_parse
         (lift (case hp_json r of
            None \<Rightarrow> Inl invalid_json
          | Some JNull \<Rightarrow> Inr (r, [])
          | Some (JObj fs) \<Rightarrow> Inr (r, case field_arr ''methodResponses'' fs of None \<Rightarrow> [] | Some xs \<Rightarrow> xs)
          | Some _ \<Rightarrow> Inl unmarshal_error))))"

definition named_reply :: "'s client \<Rightarrow> string \<Rightarrow> json list \<Rightarrow> ('s, http_reply \<times> json list) service" where
  "named_reply c what calls =
     management_reply c [core_urn, stalwart_urn] (what @ '' request'') what (''parsing '' @ what @ '' response'') calls"

text \<open>
  The loop over the responses. What the code does with the details of one: go on, return, or panic. A
  response that is no array of at least two elements is skipped, one named \<^verbatim>\<open>error\<close> ends the loop.
\<close>

datatype 'a step = Continue | Return "goerr + 'a"

fun scan_responses :: "((string \<times> json) list \<Rightarrow> 'a step) \<Rightarrow> json list \<Rightarrow> (goerr + 'a) option" where
  "scan_responses f [] = None"
| "scan_responses f (r # rs) =
     (case as_arr r of
        None \<Rightarrow> scan_responses f rs
      | Some xs \<Rightarrow>
          if length xs < 2 then scan_responses f rs
          else if xs ! 0 = JStr ''error'' then Some (Inl (Plain (''JMAP error: '' @ go_print (xs ! 1))))
          else
            (case as_obj (xs ! 1) of
               None \<Rightarrow> scan_responses f rs
             | Some details \<Rightarrow>
                 (case f details of Continue \<Rightarrow> scan_responses f rs | Return x \<Rightarrow> Some x)))"

definition scan :: "((string \<times> json) list \<Rightarrow> 'a step) \<Rightarrow> json list \<Rightarrow> 'a \<Rightarrow> goerr + 'a" where
  "scan f rs dflt = (case scan_responses f rs of None \<Rightarrow> Inr dflt | Some x \<Rightarrow> x)"

text \<open>\<^verbatim>\<open>if v, has := details[k]; has && len(v.(map[string]any)) > 0\<close>: the error it returns, if any.\<close>

definition rejected :: "string \<Rightarrow> (string \<times> json) list \<Rightarrow> goerr option" where
  "rejected k details =
     (case obj_get k details of
        None \<Rightarrow> None
      | Some v \<Rightarrow>
          (case as_obj v of
             None \<Rightarrow> Some go_panic
           | Some [] \<Rightarrow> None
           | Some (f # fs) \<Rightarrow> Some (Plain (''JMAP '' @ k @ '': '' @ go_print v))))"

definition unless_rejected :: "string \<Rightarrow> (string \<times> json) list \<Rightarrow> 'a step \<Rightarrow> 'a step" where
  "unless_rejected k details next = (case rejected k details of Some e \<Rightarrow> Return (Inl e) | None \<Rightarrow> next)"

definition management_request :: "'s client \<Rightarrow> json list \<Rightarrow> ('s, string) service" where
  "management_request c calls =
     seq (management_reply c [core_urn] ''management request'' ''management request'' ''parsing management response'' calls)
       (\<lambda>(r, rs). lift (scan (\<lambda>d. unless_rejected ''notCreated'' d (unless_rejected ''notUpdated'' d Continue)) rs
          (hp_text r)))"


section \<open>Creation\<close>

text \<open>
  The loop that looks for the string field \<open>k\<close> of a created object: in each response the first object
  that has it; a later response overrides an earlier one.
\<close>

definition first_created :: "string \<Rightarrow> (string \<times> json) list \<Rightarrow> string option" where
  "first_created k details =
     (case field_obj ''created'' details of
        None \<Rightarrow> None
      | Some m \<Rightarrow> first_row [s. (key, v) \<leftarrow> m, fs \<leftarrow> (case as_obj v of None \<Rightarrow> [] | Some fs \<Rightarrow> [fs]),
                               s \<leftarrow> (case field_str k fs of None \<Rightarrow> [] | Some s \<Rightarrow> [s])])"

fun scan_created :: "string \<Rightarrow> json list \<Rightarrow> string \<Rightarrow> goerr + string" where
  "scan_created k [] acc = Inr acc"
| "scan_created k (r # rs) acc =
     (case as_arr r of
        None \<Rightarrow> scan_created k rs acc
      | Some xs \<Rightarrow>
          if length xs < 2 then scan_created k rs acc
          else if xs ! 0 = JStr ''error'' then Inl (Plain (''JMAP error: '' @ go_print (xs ! 1)))
          else
            (case as_obj (xs ! 1) of
               None \<Rightarrow> scan_created k rs acc
             | Some details \<Rightarrow>
                 (case rejected ''notCreated'' details of
                    Some e \<Rightarrow> Inl e
                  | None \<Rightarrow> scan_created k rs
                      (case first_created k details of None \<Rightarrow> acc | Some s \<Rightarrow> s))))"

definition create_key :: "string \<Rightarrow> string \<Rightarrow> time \<Rightarrow> string" where
  "create_key kind name t = kind @ ''_'' @ name @ ''_'' @ int_text t"

definition create_domain_call :: "string \<Rightarrow> time \<Rightarrow> json" where
  "create_domain_call name t =
     method_call ''x:Domain/set'' [(''create'', JObj [(create_key ''domain'' name t, JObj [(''name'', JStr name)])])] ''0''"

definition stalwart_create_domain :: "'s client \<Rightarrow> string \<Rightarrow> ('s, string) service" where
  "stalwart_create_domain c name = (\<lambda>s.
     seq (named_reply c ''CreateDomain'' [create_domain_call name (cl_now c s)])
       (\<lambda>(r, rs). lift (scan_created ''id'' rs '''')) s)"

definition create_account_call :: "string \<Rightarrow> string \<Rightarrow> string \<Rightarrow> string \<Rightarrow> time \<Rightarrow> json" where
  "create_account_call name domain_id secret desc t =
     method_call ''x:Account/set''
       [(''create'', JObj [(create_key ''account'' name t,
          JObj [(''@type'', JStr ''User''), (''name'', JStr name), (''domainId'', JStr domain_id),
                (''description'', JStr desc),
                (''credentials'', JObj [(''0'', JObj [(''@type'', JStr ''Password''), (''secret'', JStr secret)])])])])] ''0''"

definition stalwart_create_account ::
  "'s client \<Rightarrow> string \<Rightarrow> string \<Rightarrow> string \<Rightarrow> string \<Rightarrow> ('s, string) service" where
  "stalwart_create_account c name domain_id secret desc = (\<lambda>s.
     seq (named_reply c ''CreateAccount'' [create_account_call name domain_id secret desc (cl_now c s)])
       (\<lambda>(r, rs). lift (scan_created ''id'' rs '''')) s)"

definition create_app_password :: "'s client \<Rightarrow> string \<Rightarrow> string \<Rightarrow> ('s, string) service" where
  "create_app_password c acc desc = (\<lambda>s.
     seq (named_reply c ''CreateAppPassword''
            [method_call ''x:AppPassword/set'' [(''accountId'', JStr acc),
               (''create'', JObj [(create_key ''app_password'' acc (cl_now c s), JObj [(''description'', JStr desc)])])] ''0''])
       (\<lambda>(r, rs).
     seq (lift (scan_created ''secret'' rs '''')) (\<lambda>secret.
     if secret = '''' then fail (Plain (''app password secret not found in response: '' @ hp_text r))
     else ret secret)) s)"


section \<open>Updates\<close>

definition account_update_call :: "string \<Rightarrow> (string \<times> json) list \<Rightarrow> json" where
  "account_update_call acc patch =
     method_call ''x:Account/set'' [(''update'', JObj [(acc, JObj patch)])] ''0''"

definition update_account_quota :: "'s client \<Rightarrow> string \<Rightarrow> int \<Rightarrow> ('s, unit) service" where
  "update_account_quota c acc bytes =
     seq (named_reply c ''UpdateAccountQuota'' [account_update_call acc [(''maxDiskQuota'', JNum bytes)]])
       (\<lambda>(r, rs). lift (scan (\<lambda>d. unless_rejected ''notUpdated'' d Continue) rs ()))"

definition disable_account :: "'s client \<Rightarrow> string \<Rightarrow> ('s, unit) service" where
  "disable_account c acc =
     seq (named_reply c ''DisableAccount'' [account_update_call acc [(''active'', JBool False)]])
       (\<lambda>(r, rs). lift (scan (\<lambda>d. unless_rejected ''notUpdated'' d Continue) rs ()))"

definition enable_account :: "'s client \<Rightarrow> string \<Rightarrow> ('s, unit) service" where
  "enable_account c acc =
     seq (named_reply c ''EnableAccount'' [account_update_call acc [(''active'', JBool True)]])
       (\<lambda>(r, rs). lift (scan (\<lambda>d. unless_rejected ''notUpdated'' d Continue) rs ()))"


section \<open>Queries\<close>

definition get_call :: "string \<Rightarrow> string list option \<Rightarrow> json" where
  "get_call meth ids = method_call meth (opt_arg ''ids'' (map_option json_strs ids)) ''0''"

definition nonempty_list :: "(string \<times> json) list \<Rightarrow> bool step" where
  "nonempty_list d =
     (case field_arr ''list'' d of Some (x # xs) \<Rightarrow> Return (Inr True) | _ \<Rightarrow> Continue)"

definition first_matches :: "((string \<times> json) list \<Rightarrow> bool) \<Rightarrow> (string \<times> json) list \<Rightarrow> bool step" where
  "first_matches P d =
     (case field_arr ''list'' d of
        Some (x # xs) \<Rightarrow>
          (case as_obj x of Some fs \<Rightarrow> if P fs then Return (Inr True) else Continue | None \<Rightarrow> Continue)
      | _ \<Rightarrow> Continue)"

text \<open>The id of the first object of the list that has the name and a textual id.\<close>

definition listed_id :: "string \<Rightarrow> json \<Rightarrow> string list" where
  "listed_id name x =
     [i. fs \<leftarrow> (case as_obj x of None \<Rightarrow> [] | Some fs \<Rightarrow> [fs]), field_str ''name'' fs = Some name,
         i \<leftarrow> (case field_str ''id'' fs of None \<Rightarrow> [] | Some i \<Rightarrow> [i])]"

definition named_id :: "string \<Rightarrow> (string \<times> json) list \<Rightarrow> string step" where
  "named_id name d =
     (case field_arr ''list'' d of
        None \<Rightarrow> Continue
      | Some xs \<Rightarrow>
          (case first_row (concat (map (listed_id name) xs)) of
             None \<Rightarrow> Continue | Some i \<Rightarrow> Return (Inr i)))"

definition domain_exists :: "'s client \<Rightarrow> string \<Rightarrow> ('s, bool) service" where
  "domain_exists c i =
     seq (named_reply c ''DomainExists'' [get_call ''x:Domain/get'' (Some [i])])
       (\<lambda>(r, rs). lift (scan nonempty_list rs False))"

definition domain_exists_and_matches :: "'s client \<Rightarrow> string \<Rightarrow> string \<Rightarrow> ('s, bool) service" where
  "domain_exists_and_matches c i name =
     seq (named_reply c ''DomainExistsAndMatches'' [get_call ''x:Domain/get'' (Some [i])])
       (\<lambda>(r, rs). lift (scan (first_matches (\<lambda>fs. field_str ''name'' fs = Some name)) rs False))"

definition find_domain_by_name :: "'s client \<Rightarrow> string \<Rightarrow> ('s, string) service" where
  "find_domain_by_name c name =
     seq (named_reply c ''FindDomainByName'' [get_call ''x:Domain/get'' None])
       (\<lambda>(r, rs). lift (scan (named_id name) rs ''''))"

definition find_account_by_name :: "'s client \<Rightarrow> string \<Rightarrow> ('s, string) service" where
  "find_account_by_name c name =
     seq (named_reply c ''FindAccountByName'' [get_call ''x:Account/get'' None])
       (\<lambda>(r, rs). lift (scan (named_id name) rs ''''))"

definition account_exists :: "'s client \<Rightarrow> string \<Rightarrow> ('s, bool) service" where
  "account_exists c i =
     seq (named_reply c ''AccountExists'' [get_call ''x:Account/get'' (Some [i])])
       (\<lambda>(r, rs). lift (scan nonempty_list rs False))"

definition account_exists_and_matches :: "'s client \<Rightarrow> string \<Rightarrow> string \<Rightarrow> string \<Rightarrow> ('s, bool) service" where
  "account_exists_and_matches c i lp dm =
     seq (named_reply c ''AccountExistsAndMatches'' [get_call ''x:Account/get'' (Some [i])])
       (\<lambda>(r, rs). lift (scan (first_matches
          (\<lambda>fs. field_str ''name'' fs = Some lp \<and> field_str ''domainId'' fs = Some dm)) rs False))"

section \<open>What the calls make of a reply\<close>

definition static_reply :: "json \<Rightarrow> http_reply" where
  "static_reply j = \<lparr>hp_status = 200, hp_length = 0, hp_type = ''application/json'', hp_broken = None,
     hp_text = '''', hp_json = Some j\<rparr>"

text \<open>The server answers every request with \<open>j\<close>.\<close>

definition answers :: "'s client \<Rightarrow> json \<Rightarrow> bool" where
  "answers c j \<longleftrightarrow> (\<forall>rq s. cl_do c rq s = (Inr (static_reply j), s))"

definition one_response :: "string \<Rightarrow> (string \<times> json) list \<Rightarrow> json" where
  "one_response meth details = JObj [(''methodResponses'', JArr [JArr [JStr meth, JObj details, JStr ''0'']])]"

text \<open>A list of accounts as the server reports it: each with its id and its name.\<close>

definition account_list :: "(string \<times> string) list \<Rightarrow> json" where
  "account_list accs = one_response ''x:Account/get''
     [(''list'', JArr (map (\<lambda>(i, n). JObj [(''id'', JStr i), (''name'', JStr n)]) accs))]"

lemma management_reply_answers:
  assumes "answers c (one_response meth details)"
  shows "management_reply c us a b p calls s =
    (Inr (static_reply (one_response meth details), [JArr [JStr meth, JObj details, JStr ''0'']]), s)"
proof -
  let ?j = "one_response meth details"
  have do: "do_request c m url b t s = (Inr (static_reply ?j), s)" for m url b t s
    using assms by (simp add: do_request_def answers_def static_reply_def response_limit_def seq_def wrap_err_def map_err_def)
  have j: "hp_json (static_reply ?j) = Some (JObj [(''methodResponses'', JArr [JArr [JStr meth, JObj details, JStr ''0'']])])"
    by (simp add: static_reply_def one_response_def)
  have w: "wrap_err a (do_request c m url b' t) s = (Inr (static_reply ?j), s)" for m url b' t
    using do by simp
  have f: "field_arr ''methodResponses'' [(''methodResponses'', JArr xs)] = Some xs" for xs
    by (simp add: field_arr_def obj_get_def)
  have r: "read_and_close (static_reply ?j) s = (Inr '''', s)" by (simp add: read_and_close_def static_reply_def)
  have st: "hp_status (static_reply ?j) = 200" by (simp add: static_reply_def)
  show ?thesis
    unfolding management_reply_def
    by (subst seq_Inr, rule w, subst seq_Inr, rule r) (simp add: st j f)
qed

lemma named_id_accounts:
  "named_id name [(''list'', JArr (map (\<lambda>(i, n). JObj [(''id'', JStr i), (''name'', JStr n)]) accs))] =
   (case find (\<lambda>(i, n). n = name) accs of None \<Rightarrow> Continue | Some (i, n) \<Rightarrow> Return (Inr i))"
proof -
  let ?o = "\<lambda>(i, n). JObj [(''id'', JStr i), (''name'', JStr n)]"
  have c: "listed_id name (?o a) = (if snd a = name then [fst a] else [])" for a
    by (cases a) (simp add: listed_id_def field_str_def obj_get_def)
  have f: "first_row (concat (map (listed_id name) (map ?o accs))) = map_option fst (find (\<lambda>(i, n). n = name) accs)"
  proof (induction accs)
    case (Cons a accs)
    then show ?case unfolding list.map c by (cases a) simp
  qed simp
  have a: "field_arr ''list'' [(''list'', JArr xs)] = Some xs" for xs by (simp add: field_arr_def obj_get_def)
  show ?thesis unfolding named_id_def a option.case f by (auto split: option.split)
qed

lemma find_account_answers:
  assumes "answers c (account_list accs)"
  shows "find_account_by_name c name s = (Inr (case find (\<lambda>(i, n). n = name) accs of None \<Rightarrow> '''' | Some (i, n) \<Rightarrow> i), s)"
  using assms by (simp add: find_account_by_name_def named_reply_def account_list_def management_reply_answers
      scan_def named_id_accounts seq_def split: option.splits)

lemma account_lookup_misses:
  assumes "answers c (account_list accs)" and "\<forall>(i, n) \<in> set accs. CHR ''@'' \<notin> set n"
  shows "find_account_by_name c (lp @ ''@'' @ dm) s = (Inr '''', s) \<and>
    (\<forall>i n. find (\<lambda>(i, n). n = lp) accs = Some (i, n) \<longrightarrow> find_account_by_name c lp s = (Inr i, s))"
proof -
  have "find (\<lambda>(i, n). n = lp @ ''@'' @ dm) accs = None"
    using assms(2) by (auto simp: find_None_iff)
  then show ?thesis by (auto simp: find_account_answers [OF assms(1)])
qed

definition static_client :: "json \<Rightarrow> unit client" where
  "static_client j = \<lparr>cl_base = ''http://stalwart:8080'', cl_do = \<lambda>rq s. (Inr (static_reply j), s), cl_now = \<lambda>s. 0\<rparr>"

lemma static_client_answers [simp]: "answers (static_client j) j"
  by (simp add: answers_def static_client_def)

text \<open>The server gives the answers of a list, one by one, and then none.\<close>

definition scripted_client :: "json list client" where
  "scripted_client = \<lparr>cl_base = ''http://stalwart:8080'',
     cl_do = (\<lambda>rq s. case s of [] \<Rightarrow> (Inl (Plain ''connection refused''), []) | j # r \<Rightarrow> (Inr (static_reply j), r)),
     cl_now = \<lambda>s. 0\<rparr>"



end
