(* ===== verification/WorkerClient.thy ===== *)
theory WorkerClient
  imports AccountJobs Management
begin

text \<open>
  The worker on the code's own Stalwart client: the services the worker was verified against for any
  behaviour (record \<open>stalwart\<close>), built from the client of \<^verbatim>\<open>internal/stalwart\<close>.
\<close>

text \<open>The creation of the archive folder (\<^verbatim>\<open>processAccountCreate\<close>, step 9.5).\<close>

definition create_archive :: "'s client \<Rightarrow> string \<Rightarrow> ('s, string option) service" where
  "create_archive c acc =
     seq (folder_set c acc
            (Some (JObj [(''arch0'', JObj [(''name'', JStr ''Archive''), (''role'', JStr ''archive'')])])) None None) (\<lambda>r.
     ret (map_option fo_id (map_of (fs_created r) ''arch0'')))"

definition worker_client :: "'s client \<Rightarrow> 's stalwart" where
  "worker_client c = \<lparr>
     sw_domain_matches = domain_exists_and_matches c,
     sw_find_domain = find_domain_by_name c,
     sw_create_domain = stalwart_create_domain c,
     sw_account_matches = account_exists_and_matches c,
     sw_find_account = find_account_by_name c,
     sw_create_account = stalwart_create_account c,
     sw_discover_mailboxes = discover_mailboxes c,
     sw_create_archive = create_archive c,
     sw_session_state = seq (get_jmap_session c) (\<lambda>s. ret (js_state s)),
     sw_update_quota = update_account_quota c,
     sw_disable_account = disable_account c,
     sw_enable_account = enable_account c\<rparr>"

lemma ensure_account_missed:
  fixes w :: "'s world"
  assumes "find_account_by_name c name (remote w) = (Inr '''', remote w)"
  shows "ensure_stalwart_account (worker_client c) rnd lp sid name w =
    seq (wrap_err ''failed to create account in Stalwart''
           (remote_call (stalwart_create_account c lp sid (base64_encode rnd) name)))
      (\<lambda>new. ret (if new = '''' then name else new)) w"
proof -
  have "attempt (remote_call (find_account_by_name c name)) w = (Inr (Inr ''''), w)"
    using assms by (simp add: attempt_apply remote_call_def)
  then show ?thesis
    by (simp add: ensure_stalwart_account_def worker_client_def found_id_def)
qed

text \<open>
  C40. A repeated account job does not find the account it created: \<^verbatim>\<open>CreateAccount\<close> sends the local part as
  the account's name, the step that is to prevent duplicates looks for the full address and compares whole
  names. So on a server whose account names contain no at sign the step goes on to \<^verbatim>\<open>CreateAccount\<close> with the
  same local part, whatever accounts exist; a look-up of the local part would have found the account.
\<close>

theorem repeated_job_creates_again:
  fixes w :: "'s world"
  assumes "answers c (account_list accs)" and "\<forall>(i, n) \<in> set accs. CHR ''@'' \<notin> set n"
  shows "ensure_stalwart_account (worker_client c) rnd lp sid (lp @ ''@'' @ dm) w =
      seq (wrap_err ''failed to create account in Stalwart''
             (remote_call (stalwart_create_account c lp sid (base64_encode rnd) (lp @ ''@'' @ dm))))
        (\<lambda>new. ret (if new = '''' then lp @ ''@'' @ dm else new)) w \<and>
    (\<forall>i n. find (\<lambda>(i, n). n = lp) accs = Some (i, n) \<longrightarrow> find_account_by_name c lp (remote w) = (Inr i, remote w))"
proof -
  note miss = account_lookup_misses [OF assms, of lp dm "remote w"]
  show ?thesis using miss [THEN conjunct2] by (simp only: ensure_account_missed [OF miss [THEN conjunct1]])
qed

theorem repeated_job_creates_again_witness:
  "ensure_stalwart_account (worker_client (static_client (account_list [(''a1'', ''ann'')]))) [1, 2, 3] ''ann'' ''d1''
     (''ann'' @ ''@'' @ ''example.org'') (world_of pending_mailbox_db) =
   seq (wrap_err ''failed to create account in Stalwart''
          (remote_call (stalwart_create_account (static_client (account_list [(''a1'', ''ann'')])) ''ann'' ''d1''
             (base64_encode [1, 2, 3]) (''ann'' @ ''@'' @ ''example.org''))))
     (\<lambda>new. ret (if new = '''' then ''ann'' @ ''@'' @ ''example.org'' else new)) (world_of pending_mailbox_db)"
  by (rule repeated_job_creates_again [where accs = "[(''a1'', ''ann'')]", THEN conjunct1]) simp_all

end
