(* ===== verification/Runs.thy ===== *)
theory Runs
  imports World
begin

text \<open>
  Runs of a component's calls: a call is an action that is carried out as a whole, so any interleaving of
  callers is a sequence of calls. The locale \<open>exclusive_grant\<close> is the contract of a call that hands
  something out once: what it hands out stays held until a call that releases it, and while it is held no
  call hands it out.
\<close>

lemma stmt_sndE:
  assumes "stmt q w = (Inr r, w')"
  obtains t where "fst (q t (db w)) = Inr r" and "db w' = snd (q t (db w))"
  using assms by (auto elim!: stmt_InrE) (metis fst_conv snd_conv)

lemma preserves_step: "preserves I m \<Longrightarrow> m w = (r, w') \<Longrightarrow> I (db w) \<Longrightarrow> I (db w')"
  by (metis preservesD snd_conv)

lemma query_preserves_select: "query_preserves I (\<lambda>t d. (f t d, d))"
  by (simp add: query_preserves_def)

text \<open>The two outcomes of a sequence, and what a remote call leaves alone.\<close>

lemma seqE:
  assumes "seq m k w = (r, w')"
  obtains (fails) e where "m w = (Inl e, w')" "r = Inl e" | (continues) a w1 where "m w = (Inr a, w1)" "k a w1 = (r, w')"
  using assms by (auto simp: seq_def split: prod.splits sum.splits)

lemma remoteE:
  assumes "wrap_err p (remote_call f) w = (r, w')"
  obtains "db w' = db w" "clock w' = clock w" "\<And>a. r = Inr a \<Longrightarrow> f (remote w) = (Inr a, remote w')"
  using assms by (auto simp: wrap_err_def map_err_def remote_call_def split: prod.splits sum.splits)

lemma remote_InrD: "remote_call f w = (Inr a, w') \<Longrightarrow> f (remote w) = (Inr a, remote w') \<and> db w' = db w \<and> clock w' = clock w"
  by (auto simp: remote_call_def split: prod.splits)

text \<open>A transaction leaves the tables as they were, or as its body left them, also where it reports an error.\<close>

lemma transaction_outcome:
  fixes w :: "'s world"
  assumes "transaction body w = (r, w')"
  obtains (unchanged) "db w' = db w"
  | (committed) v a v' where "db (v :: 's world) = db w" "body v = (Inr (Commit a), v')" "db w' = db v'" "\<forall>b. r = Inr b \<longrightarrow> b = a"
proof -
  obtain x w1 where b: "begin_tx w = (x, w1)" by force
  then have d: "db w1 = db w" using begin_tx_db [of w] by simp
  let ?v = "w1\<lparr>tx_time := Some (clock w1)\<rparr>"
  obtain y w2 where c: "body ?v = (y, w2)" by force
  show thesis
  proof (cases "\<exists>e. x = Inl e")
    case True
    with assms b d show thesis by (auto simp: transaction_def intro: unchanged)
  next
    case False
    then obtain u where x: "x = Inr u" by (cases x) auto
    show thesis
    proof (cases "\<exists>a. y = Inr (Commit a)")
      case True
      then obtain a where y: "y = Inr (Commit a)" by blast
      with assms b c x have t: "commit_tx (db w1) a (w2\<lparr>tx_time := None\<rparr>) = (r, w')" by (simp add: transaction_def)
      then have "db w' = db w1 \<or> db w' = db w2" and "\<forall>b. r = Inr b \<longrightarrow> b = a"
        by (auto simp: commit_tx_def Let_def split: list.splits option.splits fault.splits prod.splits)
      with c y d committed [of ?v a w2] unchanged show thesis by auto
    next
      case False
      with assms b c d x show thesis
        by (cases y) (auto simp: transaction_def intro: unchanged split: tx.splits)
    qed
  qed
qed

inductive run :: "('c \<Rightarrow> ('s, 'a) act) \<Rightarrow> 's world \<Rightarrow> ('c \<times> (goerr + 'a)) list \<Rightarrow> 's world \<Rightarrow> bool" for op where
  run_nil: "run op w [] w"
| run_cons: "op c w = (r, w1) \<Longrightarrow> run op w1 es w' \<Longrightarrow> run op w ((c, r) # es) w'"

inductive_simps run_Nil [simp]: "run op w [] w'"
inductive_simps run_Cons: "run op w (e # es) w'"

lemma run_append: "run op w (xs @ ys) w' \<longleftrightarrow> (\<exists>v. run op w xs v \<and> run op v ys w')"
  by (induction xs arbitrary: w) (auto simp: run_Cons)

lemma run_preserves:
  fixes op :: "'c \<Rightarrow> ('s, 'a) act"
  assumes "run op w es w'" and "I (db w)" and "\<And>c r. (c, r) \<in> set es \<Longrightarrow> preserves I (op c)"
  shows "I (db w')"
  using assms
proof (induction rule: run.induct)
  case (run_cons c w r w1 es w')
  from run_cons.prems have "I (db w1)"
    using preservesD [of I "op c" w] run_cons.hyps(1) by force
  then show ?case by (rule run_cons.IH) (use run_cons.prems(2) in auto)
qed

text \<open>The run of a list of calls, computed.\<close>

fun run_list :: "('c \<Rightarrow> ('s, 'a) act) \<Rightarrow> 's world \<Rightarrow> 'c list \<Rightarrow> ('c \<times> (goerr + 'a)) list \<times> 's world" where
  "run_list op w [] = ([], w)"
| "run_list op w (c # cs) =
     (case op c w of (r, w1) \<Rightarrow> (case run_list op w1 cs of (es, w') \<Rightarrow> ((c, r) # es, w')))"

lemma run_list_run: "run op w (fst (run_list op w cs)) (snd (run_list op w cs))"
proof (induction cs arbitrary: w)
  case (Cons c cs)
  obtain r w1 where q: "op c w = (r, w1)" by force
  from Cons [of w1] q show ?case by (cases "run_list op w1 cs") (simp add: run_Cons)
qed simp

locale exclusive_grant =
  fixes op :: "'c \<Rightarrow> ('s, 'a) act"
    and granted :: "'c \<Rightarrow> 'a \<Rightarrow> bool"
    and releases :: "'c \<Rightarrow> bool"
    and held :: "db \<Rightarrow> bool"
    and valid :: "db \<Rightarrow> bool"
  assumes granted_held: "op c w = (Inr a, w') \<Longrightarrow> granted c a \<Longrightarrow> valid (db w) \<Longrightarrow> held (db w')"
    and kept: "\<not> releases c \<Longrightarrow> preserves held (op c)"
    and not_held: "op c w = (Inr a, w') \<Longrightarrow> granted c a \<Longrightarrow> \<not> held (db w)"
begin

lemma exclusive:
  assumes "run op w ((c, Inr a) # es @ [(c', Inr a')]) w'" and "granted c a" and "granted c' a'" and "valid (db w)"
  shows "\<exists>(x, r) \<in> set es. releases x"
proof (rule ccontr)
  assume no: "\<not> (\<exists>(x, r) \<in> set es. releases x)"
  from assms(1) obtain w1 w2 where s1: "op c w = (Inr a, w1)" and run: "run op w1 es w2" and s2: "op c' w2 = (Inr a', w')"
    by (auto simp: run_Cons run_append)
  have "held (db w1)" by (rule granted_held [OF s1 assms(2,4)])
  with run no have "held (db w2)" by (auto elim!: run_preserves intro!: kept)
  with not_held [OF s2 assms(3)] show False by blast
qed

end

end
