(* ===== verification/MailStore.thy ===== *)
theory MailStore
  imports Runs Triples Tables Scenario
begin

text \<open>
  The mail tables a request works with (\<^verbatim>\<open>internal/db/mail.go\<close>, \<^verbatim>\<open>idempotency.go\<close>, \<^verbatim>\<open>reactions.go\<close> and
  \<^verbatim>\<open>internal/mail/reconciliation.go\<close>): the user's mailbox and its folder mappings, the synchronisation
  state, reactions, the idempotency keys of send requests and the log of intents.
\<close>

section \<open>The mailbox of a user\<close>

text \<open>Several queries recognise an empty result by the text of the error.\<close>

definition on_no_rows_text :: "goerr \<Rightarrow> string \<Rightarrow> goerr \<Rightarrow> goerr" where
  "on_no_rows_text e p x = (if err_text x = ''no rows in result set'' then e else Wrapped p x)"

definition first_or_no_rows :: "'a list \<Rightarrow> goerr + 'a" where
  "first_or_no_rows xs = (case xs of [] \<Rightarrow> Inl (Sentinel ErrNoRows) | x # _ \<Rightarrow> Inr x)"

lemma first_or_no_rows_InrD: "first_or_no_rows xs = Inr x \<Longrightarrow> x \<in> set xs"
  by (auto simp: first_or_no_rows_def split: list.splits)

lemma first_or_no_rows_InlD: "first_or_no_rows xs = Inl e \<Longrightarrow> xs = []"
  by (auto simp: first_or_no_rows_def split: list.splits)

definition claimed_mailboxes :: "uuid \<Rightarrow> db \<Rightarrow> mailbox list" where
  "claimed_mailboxes u d =
     filter (\<lambda>m. \<exists>a \<in> set (addresses d). a_id a = m_address m \<and> a_claimed_by a = Some u) (mailboxes d)"

definition select_user_mailbox :: "uuid \<Rightarrow> mailbox query" where
  "select_user_mailbox u = (\<lambda>t d. (first_or_no_rows (claimed_mailboxes u d), d))"

definition get_mailbox_by_user :: "uuid \<Rightarrow> ('s, mailbox) act" where
  "get_mailbox_by_user u =
     map_err (on_no_rows_text (Plain ''no mailbox found for user'') ''querying mailbox'') (stmt (select_user_mailbox u))"

definition select_address_row :: "uuid \<Rightarrow> address query" where
  "select_address_row i = (\<lambda>t d. (first_or_no_rows (filter (\<lambda>a. a_id a = i) (addresses d)), d))"

definition mail_address_by_id :: "uuid \<Rightarrow> ('s, address) act" where
  "mail_address_by_id i =
     map_err (on_no_rows_text (Plain ''address not found'') ''querying address'') (stmt (select_address_row i))"

definition select_mapping :: "uuid \<Rightarrow> string \<Rightarrow> string query" where
  "select_mapping i role = (\<lambda>t d.
     (first_or_no_rows (map mp_stalwart (filter (\<lambda>p. mp_mailbox p = i \<and> mp_role p = role) (mappings d))), d))"

definition mapping_by_role :: "uuid \<Rightarrow> string \<Rightarrow> ('s, string) act" where
  "mapping_by_role i role =
     map_err (on_no_rows_text (Plain (''mailbox mapping not found for role: '' @ role)) ''querying mailbox mapping'')
       (stmt (select_mapping i role))"


section \<open>Synchronisation state\<close>

definition select_sync_state :: "uuid \<Rightarrow> sync_state query" where
  "select_sync_state i = (\<lambda>t d. (first_or_no_rows (filter (\<lambda>s. ss_mailbox s = i) (sync_states d)), d))"

definition get_sync_state :: "uuid \<Rightarrow> ('s, sync_state option) act" where
  "get_sync_state i =
     seq (attempt (stmt (select_sync_state i))) (\<lambda>r.
     case r of
       Inr s \<Rightarrow> ret (Some s)
     | Inl e \<Rightarrow> if err_text e = ''no rows in result set'' then ret None else fail (Wrapped ''querying sync state'' e))"

definition write_sync_state :: "uuid \<Rightarrow> string \<Rightarrow> string \<Rightarrow> string option \<Rightarrow> unit query" where
  "write_sync_state i st status msg = (\<lambda>t d.
     case lookup_by ss_mailbox i (sync_states d) of
       Some s \<Rightarrow> (Inr (), d\<lparr>sync_states := set_by ss_mailbox i
         (\<lambda>s. s\<lparr>ss_state := Some st, ss_synced_at := Some t, ss_status := status, ss_error := msg\<rparr>) (sync_states d)\<rparr>)
     | None \<Rightarrow>
         if \<forall>m \<in> set (mailboxes d). m_id m \<noteq> i
         then (Inl (foreign_key_violation ''mail_sync_state'' ''mail_sync_state_mailbox_id_fkey''), d)
         else (Inr (), d\<lparr>sync_states := sync_states d @ [\<lparr>ss_mailbox = i, ss_state = Some st, ss_status = status,
                 ss_synced_at = Some t, ss_error = msg\<rparr>]\<rparr>))"

definition update_sync_state :: "uuid \<Rightarrow> string \<Rightarrow> string \<Rightarrow> string \<Rightarrow> ('s, unit) act" where
  "update_sync_state i st status msg =
     wrap_err ''updating sync state''
       (stmt (write_sync_state i st status (if msg = '''' then None else Some msg)))"


section \<open>Reactions\<close>

definition reaction_is :: "string \<Rightarrow> string \<Rightarrow> string \<Rightarrow> reaction \<Rightarrow> bool" where
  "reaction_is m u e r \<longleftrightarrow> re_message r = m \<and> re_user r = u \<and> re_emoji r = e"

text \<open>\<^verbatim>\<open>INSERT ... ON CONFLICT DO NOTHING\<close>, with the number of rows.\<close>

definition insert_reaction :: "string \<Rightarrow> string \<Rightarrow> string \<Rightarrow> nat query" where
  "insert_reaction m u e = (\<lambda>t d.
     if \<exists>r \<in> set (reactions d). reaction_is m u e r then (Inr 0, d)
     else (Inr 1, d\<lparr>reactions := reactions d @
             [\<lparr>re_id = next_id d, re_message = m, re_user = u, re_emoji = e, re_created = t\<rparr>],
             next_id := next_id d + 1\<rparr>))"

definition delete_reaction :: "string \<Rightarrow> string \<Rightarrow> string \<Rightarrow> unit query" where
  "delete_reaction m u e = (\<lambda>t d. (Inr (), d\<lparr>reactions := delete_where (reaction_is m u e) (reactions d)\<rparr>))"

definition toggle_reaction_row :: "string \<Rightarrow> string \<Rightarrow> string \<Rightarrow> ('s, bool) act" where
  "toggle_reaction_row m u e =
     seq (wrap_err ''toggling reaction'' (stmt (insert_reaction m u e))) (\<lambda>n.
     if n > 0 then ret True
     else seq (wrap_err ''removing reaction'' (stmt (delete_reaction m u e))) (\<lambda>_. ret False))"

definition reactions_for_message :: "string \<Rightarrow> ('s, reaction list) act" where
  "reactions_for_message m = wrap_err ''querying reactions''
     (stmt (\<lambda>t d. (Inr (sort_key re_created (filter (\<lambda>r. re_message r = m) (reactions d))), d)))"


section \<open>Idempotency keys\<close>

record idempotent_state =
  is_status :: string
  is_code :: int
  is_body :: "json option"

definition key_is :: "uuid \<Rightarrow> string \<Rightarrow> send_key \<Rightarrow> bool" where
  "key_is u k r \<longleftrightarrow> sk_user r = u \<and> sk_key r = k"

definition select_key :: "uuid \<Rightarrow> string \<Rightarrow> send_key query" where
  "select_key u k = (\<lambda>t d. (first_or_no_rows (filter (key_is u k) (send_keys d)), d))"

definition day :: time where "day = 24 * hour"

definition insert_key :: "uuid \<Rightarrow> string \<Rightarrow> string \<Rightarrow> unit query" where
  "insert_key u k h = (\<lambda>t d.
     if \<exists>r \<in> set (send_keys d). key_is u k r then (Inl (unique_violation ''send_idempotency_keys_pkey''), d)
     else (Inr (), d\<lparr>send_keys := send_keys d @ [\<lparr>sk_user = u, sk_key = k, sk_hash = h, sk_status = ''IN_PROGRESS'',
             sk_code = None, sk_body = None, sk_expires = t + 30 * day\<rparr>]\<rparr>))"

text \<open>\<^verbatim>\<open>StartIdempotentRequest\<close>: \<open>None\<close> lets the caller proceed. The row found, if any, is judged after the commit.\<close>

definition start_key_body :: "uuid \<Rightarrow> string \<Rightarrow> string \<Rightarrow> ('s, send_key option tx) act" where
  "start_key_body u k h =
     seq (attempt (stmt (select_key u k))) (\<lambda>r.
     case r of
       Inr row \<Rightarrow> ret (Commit (Some row))
     | Inl e \<Rightarrow>
         if err_is e ErrNoRows then
           seq (wrap_err ''insert idempotency key'' (stmt (insert_key u k h))) (\<lambda>_. ret (Commit None))
         else fail (Wrapped ''query idempotency key'' e))"

definition start_commit_text :: "send_key option \<Rightarrow> string" where
  "start_commit_text x = (case x of None \<Rightarrow> ''commit idempotency key'' | Some _ \<Rightarrow> ''commit'')"

definition start_idempotent :: "uuid \<Rightarrow> string \<Rightarrow> string \<Rightarrow> ('s, idempotent_state option) act" where
  "start_idempotent u k h =
     seq (named_transaction (Wrapped ''begin transaction'') (\<lambda>x. Wrapped (start_commit_text x)) (start_key_body u k h)) (\<lambda>x.
     case x of
       None \<Rightarrow> ret None
     | Some row \<Rightarrow>
         if sk_hash row \<noteq> h then fail (Sentinel ErrIdempotencyMismatch)
         else if sk_status row = ''IN_PROGRESS'' then fail (Sentinel ErrIdempotencyInProgress)
         else ret (Some \<lparr>is_status = sk_status row, is_code = (case sk_code row of None \<Rightarrow> 0 | Some c \<Rightarrow> c),
                        is_body = sk_body row\<rparr>))"

definition completed_key :: "string \<Rightarrow> int \<Rightarrow> json option \<Rightarrow> send_key \<Rightarrow> send_key" where
  "completed_key status code body r = r\<lparr>sk_status := status, sk_code := Some code, sk_body := body\<rparr>"

definition complete_key :: "uuid \<Rightarrow> string \<Rightarrow> string \<Rightarrow> int \<Rightarrow> json option \<Rightarrow> unit query" where
  "complete_key u k status code body = (\<lambda>t d.
     (Inr (), d\<lparr>send_keys := update_where (key_is u k) (completed_key status code body) (send_keys d)\<rparr>))"

definition complete_idempotent :: "uuid \<Rightarrow> string \<Rightarrow> string \<Rightarrow> int \<Rightarrow> json option \<Rightarrow> ('s, unit) act" where
  "complete_idempotent u k status code body = stmt (complete_key u k status code body)"

definition delete_key :: "uuid \<Rightarrow> string \<Rightarrow> unit query" where
  "delete_key u k = (\<lambda>t d. (Inr (), d\<lparr>send_keys := delete_where (key_is u k) (send_keys d)\<rparr>))"

definition clear_idempotent :: "uuid \<Rightarrow> string \<Rightarrow> ('s, unit) act" where
  "clear_idempotent u k = stmt (delete_key u k)"


section \<open>The log of intents\<close>

text \<open>The log accepts several rows with one key; the first of them is the one a query finds.\<close>

definition select_intent :: "uuid \<Rightarrow> string \<Rightarrow> recon_log query" where
  "select_intent u k = (\<lambda>t d. (first_or_no_rows (filter (\<lambda>r. rl_user r = u \<and> rl_key r = k) (recon_logs d)), d))"

definition insert_intent :: "uuid \<Rightarrow> string \<Rightarrow> string \<Rightarrow> json \<Rightarrow> uuid query" where
  "insert_intent u k ty payload = (\<lambda>t d.
     (Inr (next_id d), d\<lparr>recon_logs := recon_logs d @ [\<lparr>rl_id = next_id d, rl_user = u, rl_key = k, rl_type = ty,
        rl_payload = payload, rl_status = ''EXECUTING'', rl_response = None, rl_updated = t\<rparr>],
        next_id := next_id d + 1\<rparr>))"

definition set_intent :: "uuid \<Rightarrow> (time \<Rightarrow> recon_log \<Rightarrow> recon_log) \<Rightarrow> unit query" where
  "set_intent i f = (\<lambda>t d. (Inr (), d\<lparr>recon_logs := set_by rl_id i (f t) (recon_logs d)\<rparr>))"

definition log_intent :: "uuid \<Rightarrow> string \<Rightarrow> string \<Rightarrow> json \<Rightarrow> ('s, uuid) act" where
  "log_intent u k ty payload =
     seq (if k = '''' then ret None
          else seq (attempt (stmt (select_intent u k))) (\<lambda>r. ret (case r of Inl e \<Rightarrow> None | Inr row \<Rightarrow> Some row))) (\<lambda>found.
     case found of
       None \<Rightarrow> stmt (insert_intent u k ty payload)
     | Some row \<Rightarrow>
         if rl_status row = ''SUCCESS'' then fail (Sentinel ErrIdempotencyMismatch)
         else if rl_status row = ''PENDING'' \<or> rl_status row = ''EXECUTING'' then fail (Sentinel ErrIdempotencyInProgress)
         else seq (stmt (set_intent (rl_id row) (\<lambda>t r. r\<lparr>rl_status := ''EXECUTING'', rl_updated := t\<rparr>)))
                (\<lambda>_. ret (rl_id row)))"

definition insert_outbox :: "uuid \<Rightarrow> string \<Rightarrow> json \<Rightarrow> unit query" where
  "insert_outbox u ty payload = (\<lambda>t d.
     (Inr (), d\<lparr>outbox := outbox d @ [\<lparr>ob_id = next_id d, ob_user = Some u, ob_type = ty, ob_payload = payload,
        ob_status = ''pending'', ob_created = t, ob_published = None, ob_error = None\<rparr>],
        next_id := next_id d + 1\<rparr>))"

definition mark_success :: "uuid \<Rightarrow> uuid \<Rightarrow> string \<Rightarrow> json \<Rightarrow> json \<Rightarrow> ('s, unit) act" where
  "mark_success i u ty event response = transaction (
     seq (stmt (set_intent i (\<lambda>t r. r\<lparr>rl_status := ''SUCCESS'', rl_response := Some response, rl_updated := t\<rparr>))) (\<lambda>_.
     seq (if ty = '''' then ret () else stmt (insert_outbox u ty event)) (\<lambda>_.
     ret (Commit ()))))"

text \<open>
  \<^verbatim>\<open>MarkFailed\<close> and \<^verbatim>\<open>MarkUnknown\<close> paste the error's text into a JSON literal; the column accepts it only where the
  text needs no escaping. Their own errors are ignored.
\<close>

definition set_intent_error :: "uuid \<Rightarrow> string \<Rightarrow> goerr \<Rightarrow> unit query" where
  "set_intent_error i status e = (\<lambda>t d.
     if json_literal (err_text e)
     then set_intent i (\<lambda>t r. r\<lparr>rl_status := status, rl_updated := t,
            rl_response := Some (JObj [(''error'', JStr (err_text e))])\<rparr>) t d
     else (Inl (pg_error ''invalid input syntax for type json'' ''22P02''), d))"

definition mark_intent_failed :: "uuid \<Rightarrow> goerr \<Rightarrow> ('s, unit) act" where
  "mark_intent_failed i e = ignore (stmt (set_intent_error i ''FAILED'' e))"

definition mark_intent_unknown :: "uuid \<Rightarrow> goerr \<Rightarrow> ('s, unit) act" where
  "mark_intent_unknown i e = ignore (stmt (set_intent_error i ''UNKNOWN'' e))"

section \<open>A key is granted once\<close>

datatype key_call =
    KStart uuid string string
  | KComplete uuid string string int "json option"
  | KClear uuid string

datatype key_result = Proceed | Replay idempotent_state | Stored

fun key_op :: "key_call \<Rightarrow> ('s, key_result) act" where
  "key_op (KStart u k h) =
     seq (start_idempotent u k h) (\<lambda>x. ret (case x of None \<Rightarrow> Proceed | Some s \<Rightarrow> Replay s))"
| "key_op (KComplete u k status code body) = seq (complete_idempotent u k status code body) (\<lambda>_. ret Stored)"
| "key_op (KClear u k) = seq (clear_idempotent u k) (\<lambda>_. ret Stored)"

definition key_held :: "uuid \<Rightarrow> string \<Rightarrow> db \<Rightarrow> bool" where
  "key_held u k d \<longleftrightarrow> (u, k) \<in> set (map (\<lambda>r. (sk_user r, sk_key r)) (send_keys d))"

lemma start_proceeds:
  fixes w :: "'s world"
  assumes "start_idempotent u k h w = (Inr None, w')"
  shows "\<not> key_held u k (db w) \<and>
    (\<exists>t. send_keys (db w') = send_keys (db w) @ [\<lparr>sk_user = u, sk_key = k, sk_hash = h, sk_status = ''IN_PROGRESS'',
       sk_code = None, sk_body = None, sk_expires = t + 30 * day\<rparr>])"
proof -
  from assms have t: "transaction (start_key_body u k h) w = (Inr None, w')"
    by (auto simp: start_idempotent_def named_transaction_Inr elim!: seq_InrE split: option.splits if_splits)
  have n: "start_key_body u k h v \<noteq> (Inr (Abandon b), v')" for b and v v' :: "'s world"
    by (cases "attempt (stmt (select_key u k)) v"; cases "fst (attempt (stmt (select_key u k)) v)")
      (auto simp: start_key_body_def seq_def[of "attempt _"] elim!: seq_InrE split: sum.splits if_splits)
  from t n obtain v v' :: "'s world" where v: "db v = db w" "start_key_body u k h v = (Inr (Commit None), v')" "db w' = db v'"
    by (rule transaction_committedE)
  from v(2) obtain r v1 where s: "attempt (stmt (select_key u k)) v = (Inr r, v1)"
    and "stmt (insert_key u k h) v1 = (Inr (), v')"
    by (auto simp: start_key_body_def elim!: seq_InrE split: sum.splits if_splits)
  moreover have "db v1 = db v"
    using s stmt_db [of "select_key u k" v] by (auto simp: attempt_apply select_key_def)
  ultimately obtain t where "fst (insert_key u k h t (db w)) = Inr ()" "db w' = snd (insert_key u k h t (db w))"
    using v by (metis stmt_sndE)
  then show ?thesis by (auto simp: insert_key_def key_held_def key_is_def split: if_splits)
qed

lemma completed_key_same: "map (\<lambda>r. (sk_user r, sk_key r)) (update_where P (completed_key s c b) rows) =
    map (\<lambda>r. (sk_user r, sk_key r)) rows"
  by (rule map_update_where) (simp add: completed_key_def)

lemma key_held_query:
  "query_preserves (key_held u k) (select_key u' k')"
  "query_preserves (key_held u k) (insert_key u' k' h)"
  "query_preserves (key_held u k) (complete_key u' k' status code body)"
  "(u', k') \<noteq> (u, k) \<Longrightarrow> query_preserves (key_held u k) (delete_key u' k')"
  by (simp_all add: query_preserves_def key_held_def select_key_def insert_key_def complete_key_def delete_key_def
      completed_key_same del: set_map) (auto simp: key_is_def table_simps image_iff)

lemma key_op_keeps: "c \<noteq> KClear u k \<Longrightarrow> preserves (key_held u k) (key_op c)"
  by (cases c)
    (auto simp: start_idempotent_def start_key_body_def complete_idempotent_def clear_idempotent_def
      intro!: pres_intro key_held_query)

lemma key_op_proceed:
  "key_op c w = (Inr Proceed, w') \<Longrightarrow> \<exists>u k h. c = KStart u k h \<and> start_idempotent u k h w = (Inr None, w')"
  by (cases c) (auto elim!: seq_InrE split: option.splits)

interpretation key_grant: exclusive_grant "key_op :: key_call \<Rightarrow> ('s, key_result) act"
  "\<lambda>c r. r = Proceed \<and> (\<exists>h. c = KStart u k h)" "\<lambda>c. c = KClear u k" "key_held u k" "\<lambda>_. True"
  for u k
proof
  fix c a and w w' :: "'s world"
  assume s: "key_op c w = (Inr a, w')" and g: "a = Proceed \<and> (\<exists>h. c = KStart u k h)"
  then obtain h where "start_idempotent u k h w = (Inr None, w')" using key_op_proceed [of c w w'] by auto
  from start_proceeds [OF this] show "key_held u k (db w')" and "\<not> key_held u k (db w)"
    by (auto simp: key_held_def)
qed (rule key_op_keeps)

text \<open>
  C24. A send key is granted once: if two requests of a user with one key are both told to proceed, the key
  was cleared in between. This holds for every interleaving of the store's calls, whatever their hashes
  and whichever calls fail or lose their reply; the expiry date of a key plays no part.
\<close>

theorem key_granted_once:
  assumes "run key_op w ((KStart u k h, Inr Proceed) # es @ [(KStart u k h', Inr Proceed)]) w'"
  shows "\<exists>(c, r) \<in> set es. c = KClear u k"
  by (rule key_grant.exclusive [OF assms]) auto

definition demo_key_calls :: "key_call list" where
  "demo_key_calls = [KStart 10 ''k'' ''h'', KStart 10 ''k'' ''h'', KComplete 10 ''k'' ''COMPLETED'' 200 None,
     KStart 10 ''k'' ''h'', KStart 10 ''k'' ''other'', KClear 10 ''k'', KStart 10 ''k'' ''h'']"

definition demo_key_events :: "(key_call \<times> (goerr + key_result)) list" where
  "demo_key_events =
     [(KStart 10 ''k'' ''h'', Inl (Sentinel ErrIdempotencyInProgress)),
      (KComplete 10 ''k'' ''COMPLETED'' 200 None, Inr Stored),
      (KStart 10 ''k'' ''h'', Inr (Replay \<lparr>is_status = ''COMPLETED'', is_code = 200, is_body = None\<rparr>)),
      (KStart 10 ''k'' ''other'', Inl (Sentinel ErrIdempotencyMismatch)), (KClear 10 ''k'', Inr Stored)]"

theorem key_granted_once_witness: "\<exists>(c, r) \<in> set demo_key_events. c = KClear 10 ''k''"
proof -
  have es: "fst (run_list key_op demo_world demo_key_calls) =
      (KStart 10 ''k'' ''h'', Inr Proceed) # demo_key_events @ [(KStart 10 ''k'' ''h'', Inr Proceed)]"
    by code_simp
  show ?thesis
    by (rule key_granted_once [OF run_list_run [of key_op demo_world demo_key_calls, unfolded es]])
qed


section \<open>Toggling a reaction\<close>

text \<open>The abstract state of the reactions: who reacted to which message with what.\<close>

definition reaction_set :: "db \<Rightarrow> (string \<times> string \<times> string) set" where
  "reaction_set d = (\<lambda>r. (re_message r, re_user r, re_emoji r)) ` set (reactions d)"

lemma reaction_is_key: "reaction_is m u e r \<longleftrightarrow> (re_message r, re_user r, re_emoji r) = (m, u, e)"
  by (auto simp: reaction_is_def)

lemma insert_reaction_set:
  "reaction_set (snd (insert_reaction m u e t d)) = insert (m, u, e) (reaction_set d)"
  "fst (insert_reaction m u e t d) = Inr (if (m, u, e) \<in> reaction_set d then 0 else 1)"
  by (auto simp: insert_reaction_def reaction_set_def reaction_is_key image_iff)

lemma delete_reaction_set:
  "reaction_set (snd (delete_reaction m u e t d)) = reaction_set d - {(m, u, e)}"
  by (auto simp: delete_reaction_def reaction_set_def reaction_is_key image_iff table_simps)

text \<open>
  C37. \<^verbatim>\<open>ToggleReaction\<close> implements a toggle of a set: it reports whether the user had not yet reacted so, and
  afterwards exactly this reaction is added or removed.
\<close>

theorem toggle_reaction_refines:
  assumes "toggle_reaction_row m u e w = (Inr b, w')"
  shows "b = ((m, u, e) \<notin> reaction_set (db w)) \<and> reaction_set (db w') =
      (if b then insert (m, u, e) (reaction_set (db w)) else reaction_set (db w) - {(m, u, e)})"
proof -

  from assms obtain n w1 where s: "stmt (insert_reaction m u e) w = (Inr n, w1)"
    and k: "(if n > 0 then ret True
        else seq (wrap_err ''removing reaction'' (stmt (delete_reaction m u e))) (\<lambda>_. ret False)) w1 = (Inr b, w')"
    unfolding toggle_reaction_row_def by (auto elim!: seq_InrE)
  from s obtain t where "insert_reaction m u e t (db w) = (Inr n, db w1)" by (rule stmt_InrE)
  with insert_reaction_set [of m u e t "db w"]
  have 1: "reaction_set (db w1) = insert (m, u, e) (reaction_set (db w))"
    "n = (if (m, u, e) \<in> reaction_set (db w) then 0 else 1)" by simp_all
  show ?thesis
  proof (cases "n > 0")
    case True
    with k 1 show ?thesis by (auto split: if_splits)
  next
    case False
    with k obtain t' where "delete_reaction m u e t' (db w1) = (Inr (), db w')" and "\<not> b"
      by (auto elim!: seq_InrE stmt_InrE)
    with delete_reaction_set [of m u e t' "db w1"] False 1 show ?thesis by (auto split: if_splits)
  qed
qed

theorem toggle_reaction_refines_witness:
  "reaction_set (db (snd (toggle_reaction_row ''m'' ''ann'' ''+1'' demo_world))) =
     insert (''m'', ''ann'', ''+1'') (reaction_set demo_db)"
proof -
  have "fst (toggle_reaction_row ''m'' ''ann'' ''+1'' demo_world) = Inr True" by code_simp
  then have "toggle_reaction_row ''m'' ''ann'' ''+1'' demo_world =
      (Inr True, snd (toggle_reaction_row ''m'' ''ann'' ''+1'' demo_world))" by (metis prod.collapse)
  from toggle_reaction_refines [OF this] show ?thesis by (simp add: world_of_def)
qed

end
