(* ===== verification/JmapEncode.thy ===== *)
theory JmapEncode
  imports JmapObjects
begin

text \<open>
  What \<^verbatim>\<open>json.Marshal\<close> makes of the objects the program sends or stores, by the tags of their structs: a field
  tagged \<^verbatim>\<open>omitempty\<close> is left out where it has its zero value. Decoding gives the object back, when the keys of its
  maps are distinct, as a Go map's are. An empty slice or map is written as null (Go writes a slice that
  is empty but not nil as an empty array; both decode to the same).
\<close>

section \<open>Fields\<close>

definition enc_struct :: "(string \<times> bool \<times> json) list \<Rightarrow> json" where
  "enc_struct fs = JObj (map (\<lambda>(k, b, v). (k, v)) (filter (\<lambda>(k, b, v). \<not> b) fs))"

fun enc_list :: "('a \<Rightarrow> json) \<Rightarrow> 'a list \<Rightarrow> json" where
  "enc_list f [] = JNull"
| "enc_list f (x # xs) = JArr (map f (x # xs))"

fun enc_map :: "('a \<Rightarrow> json) \<Rightarrow> (string \<times> 'a) list \<Rightarrow> json" where
  "enc_map f [] = JNull"
| "enc_map f (x # xs) = JObj (map (\<lambda>(k, v). (k, f v)) (x # xs))"

fun enc_ptr :: "('a \<Rightarrow> json) \<Rightarrow> 'a option \<Rightarrow> json" where
  "enc_ptr f None = JNull"
| "enc_ptr f (Some x) = f x"

fun field_value :: "string \<Rightarrow> (string \<times> bool \<times> json) list \<Rightarrow> json option" where
  "field_value k [] = None"
| "field_value k ((k', b, v) # r) = (if k = k' then (if b then None else Some v) else field_value k r)"

lemma field_value_None: "k \<notin> fst ` set fs \<Longrightarrow> field_value k fs = None"
  by (induction fs) (auto split: if_splits)

lemma obj_get_fields:
  "distinct (map fst fs) \<Longrightarrow>
   obj_get k (map (\<lambda>(k, b, v). (k, v)) (filter (\<lambda>(k, b, v). \<not> b) fs)) = field_value k fs"
proof (induction fs)
  case (Cons f fs)
  obtain k' b v where f: "f = (k', b, v)" by (cases f)
  with Cons show ?case by (auto simp: obj_get_def map_add_def field_value_None split: option.splits)
qed (simp add: obj_get_def)

lemma dec_struct_enc:
  "distinct (map fst fs) \<Longrightarrow> dec_struct d (Some (enc_struct fs)) = d (\<lambda>k. field_value k fs)"
  by (simp add: enc_struct_def obj_get_fields)

lemma map_sum_list_enc: "(\<And>x. x \<in> set xs \<Longrightarrow> f (g x) = Inr x) \<Longrightarrow> map_sum_list f (map g xs) = Inr xs"
  by (induction xs) auto

lemma dec_list_enc: "(\<And>x. x \<in> set xs \<Longrightarrow> d (Some (f x)) = Inr x) \<Longrightarrow> dec_list d (Some (enc_list f xs)) = Inr xs"
proof (cases xs)
  case (Cons y ys)
  assume "\<And>x. x \<in> set xs \<Longrightarrow> d (Some (f x)) = Inr x"
  then have "map_sum_list (\<lambda>x. d (Some x)) (map f xs) = Inr xs" by (rule map_sum_list_enc)
  with Cons show ?thesis by (simp only: enc_list.simps dec_list.simps)
qed simp

lemma map_sum_list_keys:
  "distinct (map fst xs) \<Longrightarrow> set xs \<subseteq> set ys \<Longrightarrow> distinct (map fst ys) \<Longrightarrow>
   (\<And>k v. (k, v) \<in> set ys \<Longrightarrow> d (Some (f v)) = Inr v) \<Longrightarrow>
   map_sum_list (\<lambda>k. bind_sum (d (obj_get k (map (\<lambda>(k, v). (k, f v)) ys))) (\<lambda>v. Inr (k, v))) (map fst xs) = Inr xs"
proof (induction xs)
  case (Cons x xs)
  obtain k v where x: "x = (k, v)" by force
  have "obj_get k (map (\<lambda>(k, v). (k, f v)) ys) = Some (f v)"
    unfolding obj_get_def
    by (rule map_of_is_SomeI)
      (use Cons.prems x in \<open>auto simp: rev_map [symmetric] comp_def case_prod_unfold intro!: rev_image_eqI [of "(k, v)"]\<close>)
  with Cons x show ?case by auto
qed simp

lemma dec_map_enc:
  assumes "distinct (map fst xs)" and "\<And>k v. (k, v) \<in> set xs \<Longrightarrow> d (Some (f v)) = Inr v"
  shows "dec_map d (Some (enc_map f xs)) = Inr xs"
proof (cases xs)
  case (Cons y ys)
  have "map fst (map (\<lambda>(k, v). (k, f v)) xs) = map fst xs" by (simp add: comp_def case_prod_unfold)
  then have r: "remdups (map fst (map (\<lambda>(k, v). (k, f v)) xs)) = map fst xs"
    using assms(1) by (simp only: distinct_remdups_id)
  have e: "enc_map f xs = JObj (map (\<lambda>(k, v). (k, f v)) xs)" using Cons by simp
  show ?thesis
    unfolding e dec_map.simps r by (rule map_sum_list_keys) (use assms in auto)
qed simp

text \<open>A field that is left out where it is empty.\<close>

lemma dec_omit [simp]:
  "dec_str (if s = [] then None else Some (JStr s)) = Inr s"
  "dec_int (if n = 0 then None else Some (JNum n)) = Inr n"
  "dec_bool (if b then Some (JBool b) else None) = Inr b"
  "dec_ptr dec_str (if p = None then None else Some (enc_ptr JStr p)) = Inr p"
  "dec_list d (if xs = [] then None else Some (enc_list f xs)) = dec_list d (Some (enc_list f xs))"
  "dec_map d' (if ms = [] then None else Some (enc_map g ms)) = dec_map d' (Some (enc_map g ms))"
  by (auto split: option.splits)

lemmas dec_enc_simps [simp] = dec_list_enc dec_map_enc

declare enc_list.simps [simp del] enc_map.simps [simp del]


section \<open>Objects\<close>

definition enc_email_address :: "email_address \<Rightarrow> json" where
  "enc_email_address x = enc_struct
     [(''name'', ea_name x = [], JStr (ea_name x)),
      (''email'', False, JStr (ea_email x))]"

lemma dec_enc_email_address [simp]: "dec_email_address (Some (enc_email_address x)) = Inr x"
  by (simp add: dec_email_address_def enc_email_address_def dec_struct_enc)

definition enc_body_part :: "body_part \<Rightarrow> json" where
  "enc_body_part x = enc_struct
     [(''partId'', bp_part x = [], JStr (bp_part x)),
      (''blobId'', bp_blob x = [], JStr (bp_blob x)),
      (''type'', bp_type x = [], JStr (bp_type x)),
      (''name'', bp_name x = [], JStr (bp_name x)),
      (''disposition'', bp_disposition x = [], JStr (bp_disposition x)),
      (''charset'', bp_charset x = [], JStr (bp_charset x)),
      (''size'', bp_size x = 0, JNum (bp_size x))]"

lemma dec_enc_body_part [simp]: "dec_body_part (Some (enc_body_part x)) = Inr x"
  by (simp add: dec_body_part_def enc_body_part_def dec_struct_enc)

definition enc_body_value :: "body_value \<Rightarrow> json" where
  "enc_body_value x = enc_struct
     [(''value'', False, JStr (bv_value x)),
      (''isEncodingProblem'', \<not> bv_encoding x, JBool (bv_encoding x)),
      (''isTruncated'', \<not> bv_truncated x, JBool (bv_truncated x))]"

lemma dec_enc_body_value [simp]: "dec_body_value (Some (enc_body_value x)) = Inr x"
  by (simp add: dec_body_value_def enc_body_value_def dec_struct_enc)

definition enc_email :: "email \<Rightarrow> json" where
  "enc_email x = enc_struct
     [(''id'', em_id x = [], JStr (em_id x)),
      (''blobId'', em_blob x = [], JStr (em_blob x)),
      (''threadId'', em_thread x = [], JStr (em_thread x)),
      (''mailboxIds'', em_mailboxes x = [], enc_map JBool (em_mailboxes x)),
      (''keywords'', em_keywords x = [], enc_map JBool (em_keywords x)),
      (''size'', em_size x = 0, JNum (em_size x)),
      (''receivedAt'', em_received x = [], JStr (em_received x)),
      (''from'', em_from x = [], enc_list enc_email_address (em_from x)),
      (''to'', em_to x = [], enc_list enc_email_address (em_to x)),
      (''cc'', em_cc x = [], enc_list enc_email_address (em_cc x)),
      (''bcc'', em_bcc x = [], enc_list enc_email_address (em_bcc x)),
      (''replyTo'', em_reply_to x = [], enc_list enc_email_address (em_reply_to x)),
      (''subject'', em_subject x = [], JStr (em_subject x)),
      (''preview'', em_preview x = [], JStr (em_preview x)),
      (''hasAttachment'', \<not> em_has_attachment x, JBool (em_has_attachment x)),
      (''messageId'', em_message_id x = [], enc_list JStr (em_message_id x)),
      (''inReplyTo'', em_in_reply_to x = [], enc_list JStr (em_in_reply_to x)),
      (''references'', em_references x = [], enc_list JStr (em_references x)),
      (''sentAt'', em_sent x = [], JStr (em_sent x)),
      (''textBody'', em_text_body x = [], enc_list enc_body_part (em_text_body x)),
      (''htmlBody'', em_html_body x = [], enc_list enc_body_part (em_html_body x)),
      (''attachments'', em_attachments x = [], enc_list enc_body_part (em_attachments x)),
      (''bodyValues'', em_values x = [], enc_map enc_body_value (em_values x))]"

definition wf_email :: "email \<Rightarrow> bool" where
  "wf_email x \<longleftrightarrow> distinct (map fst (em_mailboxes x)) \<and>
     distinct (map fst (em_keywords x)) \<and>
     distinct (map fst (em_values x))"

lemma dec_enc_email: "wf_email x \<Longrightarrow> dec_email (Some (enc_email x)) = Inr x"
  by (simp add: dec_email_def enc_email_def wf_email_def dec_struct_enc)

definition enc_set_error :: "set_error \<Rightarrow> json" where
  "enc_set_error x = enc_struct
     [(''type'', False, JStr (se_type x)),
      (''description'', se_description x = [], JStr (se_description x))]"

lemma dec_enc_set_error [simp]: "dec_set_error (Some (enc_set_error x)) = Inr x"
  by (simp add: dec_set_error_def enc_set_error_def dec_struct_enc)

definition enc_email_set_response :: "email_set_response \<Rightarrow> json" where
  "enc_email_set_response x = enc_struct
     [(''accountId'', False, JStr (es_account x)),
      (''oldState'', False, JStr (es_old x)),
      (''newState'', False, JStr (es_new x)),
      (''created'', False, enc_map enc_email (es_created x)),
      (''updated'', False, enc_map id (es_updated x)),
      (''destroyed'', False, enc_list JStr (es_destroyed x)),
      (''notCreated'', False, enc_map enc_set_error (es_not_created x)),
      (''notUpdated'', False, enc_map enc_set_error (es_not_updated x)),
      (''notDestroyed'', False, enc_map enc_set_error (es_not_destroyed x))]"

definition wf_email_set_response :: "email_set_response \<Rightarrow> bool" where
  "wf_email_set_response x \<longleftrightarrow> distinct (map fst (es_created x)) \<and>
     (\<forall>(k, v) \<in> set (es_created x). wf_email v) \<and>
     distinct (map fst (es_updated x)) \<and>
     distinct (map fst (es_not_created x)) \<and>
     distinct (map fst (es_not_updated x)) \<and>
     distinct (map fst (es_not_destroyed x))"

lemma dec_enc_email_set_response: "wf_email_set_response x \<Longrightarrow> dec_email_set_response (Some (enc_email_set_response x)) = Inr x"
proof -
  assume wf: "wf_email_set_response x"
  have "dec_map dec_email (Some (enc_map enc_email (es_created x))) = Inr (es_created x)"
    by (rule dec_map_enc) (use wf in \<open>auto simp: wf_email_set_response_def intro!: dec_enc_email\<close>)
  with wf show ?thesis by (simp add: dec_email_set_response_def enc_email_set_response_def wf_email_set_response_def dec_struct_enc)
qed

definition enc_recipient_status :: "recipient_status \<Rightarrow> json" where
  "enc_recipient_status x = enc_struct
     [(''smtpReply'', rs_reply x = [], JStr (rs_reply x)),
      (''delivered'', False, JStr (rs_delivered x)),
      (''displayed'', False, JStr (rs_displayed x))]"

lemma dec_enc_recipient_status [simp]: "dec_recipient_status (Some (enc_recipient_status x)) = Inr x"
  by (simp add: dec_recipient_status_def enc_recipient_status_def dec_struct_enc)

definition enc_submission :: "submission \<Rightarrow> json" where
  "enc_submission x = enc_struct
     [(''id'', su_id x = [], JStr (su_id x)),
      (''identityId'', False, JStr (su_identity x)),
      (''emailId'', False, JStr (su_email x)),
      (''threadId'', su_thread x = [], JStr (su_thread x)),
      (''sendAt'', su_send_at x = None, enc_ptr JStr (su_send_at x)),
      (''undoStatus'', su_undo x = [], JStr (su_undo x)),
      (''deliveryStatus'', su_status x = [], enc_map enc_recipient_status (su_status x))]"

definition wf_submission :: "submission \<Rightarrow> bool" where
  "wf_submission x \<longleftrightarrow> distinct (map fst (su_status x))"

lemma dec_enc_submission: "wf_submission x \<Longrightarrow> dec_submission (Some (enc_submission x)) = Inr x"
  by (simp add: dec_submission_def enc_submission_def wf_submission_def dec_struct_enc)

definition enc_submission_set_response :: "submission_set_response \<Rightarrow> json" where
  "enc_submission_set_response x = enc_struct
     [(''accountId'', False, JStr (us_account x)),
      (''oldState'', False, JStr (us_old x)),
      (''newState'', False, JStr (us_new x)),
      (''created'', False, enc_map enc_submission (us_created x)),
      (''updated'', False, enc_map id (us_updated x)),
      (''destroyed'', False, enc_list JStr (us_destroyed x)),
      (''notCreated'', False, enc_map enc_set_error (us_not_created x)),
      (''notUpdated'', False, enc_map enc_set_error (us_not_updated x)),
      (''notDestroyed'', False, enc_map enc_set_error (us_not_destroyed x))]"

definition wf_submission_set_response :: "submission_set_response \<Rightarrow> bool" where
  "wf_submission_set_response x \<longleftrightarrow> distinct (map fst (us_created x)) \<and>
     (\<forall>(k, v) \<in> set (us_created x). wf_submission v) \<and>
     distinct (map fst (us_updated x)) \<and>
     distinct (map fst (us_not_created x)) \<and>
     distinct (map fst (us_not_updated x)) \<and>
     distinct (map fst (us_not_destroyed x))"

lemma dec_enc_submission_set_response: "wf_submission_set_response x \<Longrightarrow> dec_submission_set_response (Some (enc_submission_set_response x)) = Inr x"
proof -
  assume wf: "wf_submission_set_response x"
  have "dec_map dec_submission (Some (enc_map enc_submission (us_created x))) = Inr (us_created x)"
    by (rule dec_map_enc) (use wf in \<open>auto simp: wf_submission_set_response_def intro!: dec_enc_submission\<close>)
  with wf show ?thesis by (simp add: dec_submission_set_response_def enc_submission_set_response_def wf_submission_set_response_def dec_struct_enc)
qed

section \<open>Whatever was decoded can be stored and read back\<close>

lemma bind_sum_InrE:
  assumes "bind_sum r f = Inr b"
  obtains a where "r = Inr a" and "f a = Inr b"
  using assms by (cases r) auto

lemma dec_struct_InrE:
  assumes "dec_struct f j = Inr b"
  obtains g where "f g = Inr b"
  using assms by (cases "(f, j)" rule: dec_struct.cases) auto

lemma map_sum_list_pairs:
  "map_sum_list (\<lambda>k. bind_sum (h k) (\<lambda>v. Inr (k, v))) ks = Inr xs \<Longrightarrow>
   map fst xs = ks \<and> (\<forall>(k, v) \<in> set xs. h k = Inr v)"
  by (induction ks arbitrary: xs) (auto elim!: bind_sum_InrE)

lemma dec_map_Inr: "dec_map d j = Inr xs \<Longrightarrow> distinct (map fst xs) \<and> (\<forall>(k, v) \<in> set xs. \<exists>i. d i = Inr v)"
  by (cases "(d, j)" rule: dec_map.cases) (auto dest!: map_sum_list_pairs)

lemma wf_dec_email: "dec_email j = Inr e \<Longrightarrow> wf_email e"
  unfolding dec_email_def wf_email_def
  by (elim dec_struct_InrE bind_sum_InrE) (auto dest!: dec_map_Inr)

lemma wf_dec_email_set_response:
  assumes "dec_email_set_response j = Inr r"
  shows "wf_email_set_response r"
proof -
  from assms obtain g where "dec_map dec_email (g ''created'') = Inr (es_created r)"
    and "dec_map dec_any (g ''updated'') = Inr (es_updated r)"
    and "dec_map dec_set_error (g ''notCreated'') = Inr (es_not_created r)"
    and "dec_map dec_set_error (g ''notUpdated'') = Inr (es_not_updated r)"
    and "dec_map dec_set_error (g ''notDestroyed'') = Inr (es_not_destroyed r)"
    unfolding dec_email_set_response_def by (elim dec_struct_InrE bind_sum_InrE) auto
  then show ?thesis
    unfolding wf_email_set_response_def by (auto dest!: dec_map_Inr intro: wf_dec_email)
qed

text \<open>
  C33. Whatever answer to \<^verbatim>\<open>Email/set\<close> the client accepts, what the log of intents stores of it (\<^verbatim>\<open>json.Marshal\<close> of
  the decoded struct) decodes to the same struct: every field survives, with the nested emails, body parts
  and errors, although zero values are not written.
\<close>

theorem email_set_response_roundtrip:
  assumes "dec_email_set_response j = Inr r"
  shows "dec_email_set_response (Some (enc_email_set_response r)) = Inr r"
  by (rule dec_enc_email_set_response [OF wf_dec_email_set_response [OF assms]])

definition demo_set_answer :: json where
  "demo_set_answer = JObj [(''accountId'', JStr ''a1''), (''newState'', JStr ''s2''),
     (''created'', JObj [(''draft0'', JObj [(''id'', JStr ''e1''), (''size'', JNum 7),
        (''keywords'', JObj [(''$draft'', JBool True)]),
        (''to'', JArr [JObj [(''email'', JStr ''bob@example.org'')]])])]), (''updated'', JNull)]"

theorem email_set_response_roundtrip_witness:
  "case dec_email_set_response (Some demo_set_answer) of
     Inl e \<Rightarrow> False
   | Inr r \<Rightarrow> es_account r = ''a1'' \<and> dec_email_set_response (Some (enc_email_set_response r)) = Inr r"
proof -
  have a: "(case dec_email_set_response (Some demo_set_answer) of Inl e \<Rightarrow> False | Inr r \<Rightarrow> es_account r = ''a1'')"
    by code_simp
  then obtain r where r: "dec_email_set_response (Some demo_set_answer) = Inr r"
    by (cases "dec_email_set_response (Some demo_set_answer)") auto
  with a email_set_response_roundtrip [OF r] show ?thesis by simp
qed

end
