(* ===== verification/Subjects.thy ===== *)
theory Subjects
  imports Prelude
begin

text \<open>
  The subject by which replies are matched to a thread (\<^verbatim>\<open>NormalizeSubject\<close>, \<^verbatim>\<open>isReplySubject\<close> of
  \<^verbatim>\<open>internal/mail/thread_resolver.go\<close>): the nested loops of the code, that they end, and that they do what
  stripping one prefix at a time does.
\<close>

section \<open>The code's loops\<close>

definition reply_prefixes :: "string list" where
  "reply_prefixes = [''re:'', ''fwd:'', ''fw:'', ''re :'', ''fwd :'']"

text \<open>One turn of the outer loop: every prefix is tried once, on what the previous ones left.\<close>

fun strip_round :: "string list \<Rightarrow> string \<Rightarrow> string \<times> bool" where
  "strip_round [] s = (s, False)"
| "strip_round (p # ps) s =
     (if has_prefix s p then (fst (strip_round ps (trim_space (drop (length p) s))), True) else strip_round ps s)"

lemma strip_round_length: "[] \<notin> set ps \<Longrightarrow> length (fst (strip_round ps s)) \<le> length s"
proof (induction ps s rule: strip_round.induct)
  case (2 p ps s)
  have "length (trim_space (drop (length p) s)) \<le> length s"
    using trim_space_length [of "drop (length p) s"] by simp
  with 2 show ?case by auto
qed simp

lemma strip_round_shorter:
  assumes "[] \<notin> set ps" and "snd (strip_round ps s)"
  shows "length (fst (strip_round ps s)) < length s"
  using assms
proof (induction ps s rule: strip_round.induct)
  case (2 p ps s)
  show ?case
  proof (cases "has_prefix s p")
    case True
    let ?r = "trim_space (drop (length p) s)"
    have "0 < length p" "length p \<le> length s" using 2 True by (auto simp: has_prefix_iff)
    moreover have "length ?r \<le> length s - length p" using trim_space_length [of "drop (length p) s"] by simp
    ultimately have "length ?r < length s" by arith
    moreover have "length (fst (strip_round ps ?r)) \<le> length ?r" using 2 by (intro strip_round_length) simp
    ultimately show ?thesis using True by simp
  next
    case False
    with 2 show ?thesis by simp
  qed
qed simp

lemma strip_round_decreases: "strip_round reply_prefixes s = (s', True) \<Longrightarrow> length s' < length s"
  using strip_round_shorter [of reply_prefixes s] by (simp add: reply_prefixes_def)

function strip_prefixes :: "string \<Rightarrow> string" where
  "strip_prefixes s =
     (case strip_round reply_prefixes s of (s', changed) \<Rightarrow> if changed then strip_prefixes s' else s')"
  by pat_completeness auto
termination
  by (relation "measure length") (auto dest: strip_round_decreases [OF sym])

declare strip_prefixes.simps [simp del]

definition normalize_subject :: "string \<Rightarrow> string" where
  "normalize_subject s = strip_prefixes (to_lower (trim_space s))"

definition is_reply_subject :: "string \<Rightarrow> bool" where
  "is_reply_subject s =
     (let t = to_lower (trim_space s) in has_prefix t ''re:'' \<or> has_prefix t ''re :'')"


section \<open>Stripping one prefix at a time\<close>

lemma find_prefix: "find (has_prefix s) reply_prefixes = Some p \<Longrightarrow> p \<in> set reply_prefixes \<and> has_prefix s p"
  by (auto dest: find_Some_set)

lemma prefix_shorter:
  assumes "p \<in> set reply_prefixes" and "has_prefix s p"
  shows "length (trim_space (drop (length p) s)) < length s"
proof -
  have "0 < length p" "length p \<le> length s" using assms by (auto simp: has_prefix_iff reply_prefixes_def)
  moreover have "length (trim_space (drop (length p) s)) \<le> length s - length p"
    using trim_space_length [of "drop (length p) s"] by simp
  ultimately show ?thesis by arith
qed

function strip_one_by_one :: "string \<Rightarrow> string" where
  "strip_one_by_one s =
     (case find (has_prefix s) reply_prefixes of
        None \<Rightarrow> s | Some p \<Rightarrow> strip_one_by_one (trim_space (drop (length p) s)))"
  by pat_completeness auto
termination by (relation "measure length") (auto dest!: find_prefix intro: prefix_shorter)

declare strip_one_by_one.simps [simp del]

text \<open>At most one of the prefixes begins a text.\<close>

lemma prefix_unique:
  "p \<in> set reply_prefixes \<Longrightarrow> q \<in> set reply_prefixes \<Longrightarrow> has_prefix s p \<Longrightarrow> has_prefix s q \<Longrightarrow> p = q"
  by (auto simp: reply_prefixes_def has_prefix_iff)

lemma strip_one_step:
  assumes "p \<in> set reply_prefixes" and "has_prefix s p"
  shows "strip_one_by_one s = strip_one_by_one (trim_space (drop (length p) s))"
proof (cases "find (has_prefix s) reply_prefixes")
  case None
  with assms show ?thesis by (auto simp: find_None_iff_all)
next
  case (Some q)
  with assms have "q = p" by (auto dest!: find_prefix intro: prefix_unique)
  with Some show ?thesis by (subst strip_one_by_one.simps) simp
qed

lemma strip_one_done: "\<forall>p \<in> set reply_prefixes. \<not> has_prefix s p \<Longrightarrow> strip_one_by_one s = s"
  by (subst strip_one_by_one.simps) (auto simp: find_None_iff_all [THEN iffD2])

lemma strip_round_same:
  "set ps \<subseteq> set reply_prefixes \<Longrightarrow> strip_one_by_one (fst (strip_round ps s)) = strip_one_by_one s"
  by (induction ps s rule: strip_round.induct) (auto simp flip: strip_one_step)

lemma strip_round_unchanged:
  "\<not> snd (strip_round ps s) \<Longrightarrow> fst (strip_round ps s) = s \<and> (\<forall>p \<in> set ps. \<not> has_prefix s p)"
  by (induction ps s rule: strip_round.induct) (auto split: if_splits)

lemma strip_prefixes_one_by_one: "strip_prefixes s = strip_one_by_one s"
proof (induction s rule: strip_prefixes.induct)
  case (1 s)
  obtain s' changed where r: "strip_round reply_prefixes s = (s', changed)" by force
  have s': "strip_one_by_one s' = strip_one_by_one s" using strip_round_same [of reply_prefixes s] r by simp
  show ?case
  proof (cases changed)
    case True
    with 1 r s' show ?thesis by (subst strip_prefixes.simps) simp
  next
    case False
    with strip_round_unchanged [of reply_prefixes s] r have "s' = s" "\<forall>p \<in> set reply_prefixes. \<not> has_prefix s p" by auto
    with r False strip_one_done [of s] show ?thesis by (subst strip_prefixes.simps) simp
  qed
qed

text \<open>
  C32. The two nested loops of \<^verbatim>\<open>NormalizeSubject\<close> always end, and compute what removing one reply or forward
  prefix after the other does, with the white space around what is left: the order in which a round tries
  the prefixes, and what it does after the first match, make no difference.
\<close>

theorem normalize_subject_one_by_one:
  "normalize_subject s = strip_one_by_one (to_lower (trim_space s))"
  by (simp add: normalize_subject_def strip_prefixes_one_by_one)


section \<open>Replies have the subject of what they answer\<close>

definition trim_right :: "string \<Rightarrow> string" where
  "trim_right s = rev (trim_left (rev s))"

lemma trim_space_right: "trim_space s = trim_right (trim_left s)"
  by (simp add: trim_space_def trim_right_def)

lemma trim_right_Cons:
  "trim_right (c # s) = (if is_space c \<and> trim_right s = [] then [] else c # trim_right s)"
  by (simp add: trim_right_def trim_left_def dropWhile_append)

lemma trim_right_Nil [simp]: "trim_right [] = []"
  by (simp add: trim_right_def trim_left_def)

lemma trim_left_right: "trim_left (trim_right s) = trim_right (trim_left s)"
  by (induction s) (auto simp: trim_right_Cons trim_left_def)

lemma trim_right_idem [simp]: "trim_right (trim_right s) = trim_right s"
  by (simp add: trim_right_def)

lemma trim_space_trim_right: "trim_space (trim_right s) = trim_space s"
  by (simp add: trim_space_right trim_left_right)

lemma trim_right_append: "p \<noteq> [] \<Longrightarrow> \<not> is_space (last p) \<Longrightarrow> trim_right (p @ s) = p @ trim_right s"
proof (induction p)
  case (Cons c p)
  then show ?case by (cases p) (auto simp: trim_right_Cons)
qed simp

lemma trim_space_append:
  assumes "p \<noteq> []" and "\<not> is_space (hd p)" and "\<not> is_space (last p)"
  shows "trim_space (p @ s) = p @ trim_right s"
proof -
  have "trim_left (p @ s) = p @ s" using assms by (cases p) (simp_all add: trim_left_def)
  then show ?thesis using assms by (simp add: trim_space_right trim_right_append)
qed

lemma is_space_last: "p \<noteq> [] \<Longrightarrow> is_space (last (to_lower p)) = is_space (last p)"
  by (simp add: to_lower_def last_map)

lemma is_space_hd: "p \<noteq> [] \<Longrightarrow> is_space (hd (to_lower p)) = is_space (hd p)"
  by (simp add: to_lower_def hd_map)

lemma reply_prefix_ends:
  "p \<in> set reply_prefixes \<Longrightarrow> p \<noteq> [] \<and> \<not> is_space (hd p) \<and> \<not> is_space (last p)"
  by (auto simp: reply_prefixes_def is_space_def)

lemma strip_one_by_one_normal:
  "trim_space s = s \<Longrightarrow> to_lower s = s \<Longrightarrow>
   trim_space (strip_one_by_one s) = strip_one_by_one s \<and> to_lower (strip_one_by_one s) = strip_one_by_one s \<and>
   (\<forall>p \<in> set reply_prefixes. \<not> has_prefix (strip_one_by_one s) p)"
proof (induction s rule: strip_one_by_one.induct)
  case (1 s)
  show ?case
  proof (cases "find (has_prefix s) reply_prefixes")
    case None
    then have n: "\<forall>p \<in> set reply_prefixes. \<not> has_prefix s p" by (simp add: find_None_iff_all)
    with 1 show ?thesis unfolding strip_one_done [OF n] by blast
  next
    case (Some p)
    let ?r = "trim_space (drop (length p) s)"
    have "to_lower ?r = ?r"
      using 1(3) by (metis drop_map to_lower_def trim_space_to_lower)
    with 1(1) [OF Some] Some strip_one_step [of p s] show ?thesis by (auto dest!: find_prefix)
  qed
qed

lemma normalize_subject_normal:
  "trim_space (normalize_subject s) = normalize_subject s \<and> to_lower (normalize_subject s) = normalize_subject s \<and>
   (\<forall>p \<in> set reply_prefixes. \<not> has_prefix (normalize_subject s) p)"
  unfolding normalize_subject_def strip_prefixes_one_by_one
  by (rule strip_one_by_one_normal) (simp_all add: trim_space_to_lower)

text \<open>
  A reply or a forward, in any capitalisation and nested to any depth, has the normalized subject of what
  it answers, so the look-up by subject finds the thread; a normalized subject carries no prefix and no
  white space around it, and normalizing it again changes nothing.
\<close>

theorem replies_share_subject:
  assumes "to_lower p \<in> set reply_prefixes"
  shows "normalize_subject (p @ s) = normalize_subject s \<and>
    normalize_subject (normalize_subject s) = normalize_subject s \<and>
    (\<forall>q \<in> set reply_prefixes. \<not> has_prefix (normalize_subject s) q)"
proof -
  have ends: "p \<noteq> []" "\<not> is_space (hd p)" "\<not> is_space (last p)"
    using reply_prefix_ends [OF assms] is_space_hd [of p] is_space_last [of p] by auto
  have "normalize_subject (p @ s) = strip_one_by_one (to_lower p @ to_lower (trim_right s))"
    unfolding strip_prefixes_one_by_one normalize_subject_def trim_space_append [OF ends] by simp
  also have "\<dots> = strip_one_by_one (trim_space (to_lower (trim_right s)))"
    using strip_one_step [OF assms, of "to_lower p @ to_lower (trim_right s)"] by simp
  also have "\<dots> = normalize_subject s"
    by (simp add: strip_prefixes_one_by_one normalize_subject_def trim_space_to_lower trim_space_trim_right)
  finally have "normalize_subject (p @ s) = normalize_subject s" .
  moreover have "normalize_subject (normalize_subject s) = normalize_subject s"
    using normalize_subject_normal [of s]
    by (simp add: normalize_subject_def [of "normalize_subject s"] strip_prefixes_one_by_one strip_one_done)
  ultimately show ?thesis using normalize_subject_normal [of s] by blast
qed

theorem replies_share_subject_witness:
  "normalize_subject (''RE:'' @ '' Fwd : Re: Lunch '') = normalize_subject '' Fwd : Re: Lunch '' \<and>
   normalize_subject '' Fwd : Re: Lunch '' = ''lunch''"
proof -
  have "to_lower ''RE:'' \<in> set reply_prefixes" by code_simp
  from replies_share_subject [OF this] have "normalize_subject (''RE:'' @ '' Fwd : Re: Lunch '') = normalize_subject '' Fwd : Re: Lunch ''"
    by blast
  moreover have "normalize_subject '' Fwd : Re: Lunch '' = ''lunch''" by code_simp
  ultimately show ?thesis by (rule conjI)
qed

end
