(* ===== verification/Threads.thy ===== *)
theory Threads
  imports MailStore JmapEncode Subjects "HOL-Library.Product_Lexorder"
begin

text \<open>
  Conversations (\<^verbatim>\<open>internal/mail/thread_resolver.go\<close>, \<^verbatim>\<open>internal/db/threads.go\<close>, \<^verbatim>\<open>messages.go\<close>): the thread an
  email joins, the projection of a thread and the paged listing. The columns of a thread or message that no code uses are left out.
\<close>

section \<open>Threads and messages\<close>

definition select_thread_of :: "uuid \<Rightarrow> string \<Rightarrow> uuid query" where
  "select_thread_of acc sid = (\<lambda>t d.
     (first_or_no_rows (map ms_thread (filter (\<lambda>m. ms_account m = acc \<and> ms_stalwart m = sid) (messages d))), d))"

definition select_thread_by_message_ids :: "uuid \<Rightarrow> string list \<Rightarrow> uuid query" where
  "select_thread_by_message_ids acc ids = (\<lambda>t d.
     (first_or_no_rows (map ms_thread (filter (\<lambda>m. ms_account m = acc \<and> (\<exists>i \<in> set ids. ms_message_id m = Some i)) (messages d))), d))"

definition select_thread_by_subject :: "uuid \<Rightarrow> string \<Rightarrow> uuid query" where
  "select_thread_by_subject acc subj = (\<lambda>t d.
     (first_or_no_rows (map th_id (sort_key (\<lambda>h. - th_last h)
        (filter (\<lambda>h. th_account h = acc \<and> th_subject h = subj \<and> th_last h > t - 30 * day) (threads d)))), d))"

definition insert_thread :: "uuid \<Rightarrow> string \<Rightarrow> uuid query" where
  "insert_thread acc subj = (\<lambda>t d.
     if \<forall>m \<in> set (mailboxes d). m_id m \<noteq> acc
     then (Inl (foreign_key_violation ''threads'' ''threads_account_id_fkey''), d)
     else (Inr (next_id d), d\<lparr>threads := threads d @ [\<lparr>th_id = next_id d, th_account = acc, th_subject = subj,
             th_participants = JArr [], th_count = 1, th_unread = 0, th_snippet = None, th_last = t\<rparr>],
             next_id := next_id d + 1\<rparr>))"

text \<open>A look-up that falls through to the next rule when it finds no row.\<close>

definition or_else :: "('s, uuid) act \<Rightarrow> ('s, uuid \<times> bool) act \<Rightarrow> ('s, uuid \<times> bool) act" where
  "or_else look next =
     seq (attempt look) (\<lambda>r.
     case r of Inr i \<Rightarrow> ret (i, False) | Inl e \<Rightarrow> if e = Sentinel ErrNoRows then next else fail e)"

definition resolve_thread :: "uuid \<Rightarrow> email \<Rightarrow> ('s, uuid \<times> bool) act" where
  "resolve_thread acc e =
     (let normalized = normalize_subject (em_subject e);
          new = seq (stmt (insert_thread acc (if normalized = '''' then em_subject e else normalized))) (\<lambda>i. ret (i, True));
          by_subject = (if is_reply_subject (em_subject e) \<and> normalized \<noteq> ''''
                        then or_else (stmt (select_thread_by_subject acc normalized)) new else new);
          by_references = (if em_references e \<noteq> []
                           then or_else (stmt (select_thread_by_message_ids acc (em_references e))) by_subject else by_subject);
          by_reply = (if em_in_reply_to e \<noteq> []
                      then or_else (stmt (select_thread_by_message_ids acc (em_in_reply_to e))) by_references else by_references)
      in or_else (stmt (select_thread_of acc (em_id e))) by_reply)"

definition same_message :: "message \<Rightarrow> message \<Rightarrow> bool" where
  "same_message m r \<longleftrightarrow> ms_account r = ms_account m \<and> ms_stalwart r = ms_stalwart m"

text \<open>What an upsert writes over an existing row: everything but its identity and the time it was created.\<close>

definition overwrite_message :: "message \<Rightarrow> message \<Rightarrow> message" where
  "overwrite_message m r = r\<lparr>ms_thread := ms_thread m, ms_message_id := ms_message_id m,
     ms_in_reply_to := ms_in_reply_to m, ms_references := ms_references m, ms_subject := ms_subject m,
     ms_sender := ms_sender m, ms_recipients := ms_recipients m, ms_received := ms_received m, ms_sent := ms_sent m\<rparr>"

definition upsert_message :: "message \<Rightarrow> uuid query" where
  "upsert_message m = (\<lambda>t d.
     if \<forall>h \<in> set (threads d). \<not> (th_id h = ms_thread m \<and> th_account h = ms_account m)
     then (Inl (foreign_key_violation ''messages'' ''messages_thread_id_account_id_fkey''), d)
     else
       (case find (same_message m) (messages d) of
          Some r \<Rightarrow> (Inr (ms_id r), d\<lparr>messages := update_where (same_message m) (overwrite_message m) (messages d)\<rparr>)
        | None \<Rightarrow> (Inr (next_id d), d\<lparr>messages := messages d @ [m\<lparr>ms_id := next_id d, ms_created := t\<rparr>],
                     next_id := next_id d + 1\<rparr>)))"

definition same_link :: "message_mailbox \<Rightarrow> message_mailbox \<Rightarrow> bool" where
  "same_link l r \<longleftrightarrow> mm_message r = mm_message l \<and> mm_stalwart r = mm_stalwart l"

definition upsert_link :: "message_mailbox \<Rightarrow> unit query" where
  "upsert_link l = (\<lambda>t d.
     if \<forall>m \<in> set (messages d). ms_id m \<noteq> mm_message l
     then (Inl (foreign_key_violation ''message_mailboxes'' ''message_mailboxes_message_id_fkey''), d)
     else if \<exists>r \<in> set (message_mailboxes d). same_link l r
     then (Inr (), d\<lparr>message_mailboxes := update_where (same_link l) (\<lambda>_. l) (message_mailboxes d)\<rparr>)
     else (Inr (), d\<lparr>message_mailboxes := message_mailboxes d @ [l]\<rparr>))"

text \<open>The projection of a thread: its messages with a link outside the trash.\<close>

definition active_messages :: "uuid \<Rightarrow> db \<Rightarrow> message list" where
  "active_messages i d =
     filter (\<lambda>m. ms_thread m = i \<and> (\<exists>l \<in> set (message_mailboxes d). mm_message l = ms_id m \<and> \<not> mm_trashed l)) (messages d)"

definition unread_messages :: "uuid \<Rightarrow> db \<Rightarrow> message list" where
  "unread_messages i d =
     filter (\<lambda>m. \<exists>l \<in> set (message_mailboxes d). mm_message l = ms_id m \<and> mm_unread l) (active_messages i d)"

definition message_time :: "message \<Rightarrow> time option" where
  "message_time m = (case ms_received m of Some t \<Rightarrow> Some t | None \<Rightarrow> ms_sent m)"

definition last_message_time :: "message list \<Rightarrow> time option" where
  "last_message_time ms =
     (case List.map_filter message_time ms of [] \<Rightarrow> None | t # ts \<Rightarrow> Some (foldr max ts t))"

definition update_projection :: "uuid \<Rightarrow> unit query" where
  "update_projection i = (\<lambda>t d.
     let ms = active_messages i d in
     (Inr (), d\<lparr>threads := set_by th_id i (\<lambda>h. h\<lparr>th_count := length ms, th_unread := length (unread_messages i d),
        th_last := (case last_message_time ms of None \<Rightarrow> t | Some x \<Rightarrow> x)\<rparr>) (threads d)\<rparr>))"

definition update_thread_projection :: "uuid \<Rightarrow> ('s, unit) act" where
  "update_thread_projection i = wrap_err ''updating thread projection'' (stmt (update_projection i))"

definition create_thread :: "uuid \<Rightarrow> string \<Rightarrow> ('s, uuid) act" where
  "create_thread acc subj = wrap_err ''creating thread'' (stmt (insert_thread acc subj))"

definition get_thread :: "uuid \<Rightarrow> ('s, thread) act" where
  "get_thread i = map_err (on_no_rows_text (Plain ''thread not found'') ''getting thread'')
     (stmt (\<lambda>t d. (first_or_no_rows (filter (\<lambda>h. th_id h = i) (threads d)), d)))"

definition thread_account_scoped :: "uuid \<Rightarrow> uuid \<Rightarrow> ('s, thread) act" where
  "thread_account_scoped acc i =
     map_err (on_no_rows_text (Plain ''thread not found or unauthorized'') ''getting thread'')
       (stmt (\<lambda>t d. (first_or_no_rows (filter (\<lambda>h. th_id h = i \<and> th_account h = acc) (threads d)), d)))"

definition message_order :: "message \<Rightarrow> time \<times> uuid" where
  "message_order m = (case message_time m of Some t \<Rightarrow> (t, ms_id m) | None \<Rightarrow> (ms_created m, ms_id m))"

definition messages_by_thread :: "uuid \<Rightarrow> uuid \<Rightarrow> ('s, message list) act" where
  "messages_by_thread acc i = wrap_err ''getting messages by thread''
     (stmt (\<lambda>t d. (Inr (sort_key message_order (filter (\<lambda>m. ms_thread m = i \<and> ms_account m = acc) (messages d))), d)))"

definition thread_id_by_stalwart_id :: "uuid \<Rightarrow> string \<Rightarrow> ('s, uuid) act" where
  "thread_id_by_stalwart_id acc sid = wrap_err ''getting thread_id by stalwart id'' (stmt (select_thread_of acc sid))"

section \<open>The paged listing\<close>

text \<open>The order of the listing: newest first, then by descending id.\<close>

datatype page_key = Page (page_time: time) (page_id: uuid)

instantiation page_key :: linorder
begin

definition less_eq_page_key :: "page_key \<Rightarrow> page_key \<Rightarrow> bool" where
  "less_eq_page_key a b \<longleftrightarrow> page_time b < page_time a \<or> page_time a = page_time b \<and> page_id b \<le> page_id a"

definition less_page_key :: "page_key \<Rightarrow> page_key \<Rightarrow> bool" where
  "less_page_key a b \<longleftrightarrow> page_time b < page_time a \<or> page_time a = page_time b \<and> page_id b < page_id a"

instance
  by standard (auto simp: less_eq_page_key_def less_page_key_def page_key.expand)

end

definition thread_key :: "thread \<Rightarrow> page_key" where
  "thread_key h = Page (th_last h) (th_id h)"

definition in_mailbox :: "string \<Rightarrow> db \<Rightarrow> thread \<Rightarrow> bool" where
  "in_mailbox mb d h \<longleftrightarrow> (\<exists>m \<in> set (messages d). ms_thread m = th_id h \<and>
     (\<exists>l \<in> set (message_mailboxes d). mm_message l = ms_id m \<and> mm_stalwart l = mb))"

definition listed_threads :: "uuid \<Rightarrow> string \<Rightarrow> page_key option \<Rightarrow> db \<Rightarrow> thread list" where
  "listed_threads acc mb cursor d = sort_key thread_key
     (filter (\<lambda>h. th_account h = acc \<and> (mb \<noteq> '''' \<longrightarrow> in_mailbox mb d h) \<and>
        (case cursor of None \<Rightarrow> True | Some k \<Rightarrow> k < thread_key h)) (threads d))"

definition list_threads :: "uuid \<Rightarrow> string \<Rightarrow> nat \<Rightarrow> page_key option \<Rightarrow> ('s, thread list) act" where
  "list_threads acc mb limit cursor =
     wrap_err ''listing threads'' (stmt (\<lambda>t d. (Inr (take limit (listed_threads acc mb cursor d)), d)))"

lemma listed_after: "listed_threads acc mb (Some k) d = filter (\<lambda>h. k < thread_key h) (listed_threads acc mb None d)"
  by (simp add: listed_threads_def filter_sort conj_assoc)

lemma thread_key_inj: "unique_on th_id rows \<Longrightarrow> distinct (map thread_key rows)"
  by (auto simp: unique_on_def distinct_map inj_on_def thread_key_def)

lemma listed_strict:
  assumes "unique_on th_id (threads d)"
  shows "sorted_wrt (<) (map thread_key (listed_threads acc mb None d))"
proof -
  have "distinct (map thread_key (listed_threads acc mb None d))"
    using thread_key_inj [OF assms] by (simp add: listed_threads_def distinct_map inj_on_def)
  then show ?thesis
    by (simp add: strict_sorted_iff [symmetric] listed_threads_def) (simp add: strict_sorted_iff)
qed

text \<open>What lies after a part of a strictly sorted list.\<close>

lemma filter_after_last:
  "sorted_wrt (<) (map key (xs @ ys)) \<Longrightarrow> xs \<noteq> [] \<Longrightarrow> filter (\<lambda>h. (key (last xs) :: 'k :: linorder) < key h) (xs @ ys) = ys"
proof -
  assume s: "sorted_wrt (<) (map key (xs @ ys))" and n: "xs \<noteq> []"
  obtain zs z where xs: "xs = zs @ [z]" using n by (metis rev_exhaust)
  have "filter (\<lambda>h. key z < key h) xs = []"
    using s by (auto simp: xs filter_empty_conv sorted_wrt_append)
  moreover have "filter (\<lambda>h. key z < key h) ys = ys"
    using s by (auto simp: xs filter_id_conv sorted_wrt_append)
  ultimately show ?thesis by (simp add: xs)
qed

text \<open>A client that asks for page after page, from the last entry it got, until a page is empty.\<close>

fun follow_pages :: "nat \<Rightarrow> uuid \<Rightarrow> string \<Rightarrow> nat \<Rightarrow> page_key option \<Rightarrow> db \<Rightarrow> thread list" where
  "follow_pages 0 acc mb n cursor d = []"
| "follow_pages (Suc fuel) acc mb n cursor d =
     (let p = take n (listed_threads acc mb cursor d) in
      if p = [] then [] else p @ follow_pages fuel acc mb n (Some (thread_key (last p))) d)"

lemma follow_pages_rest:
  assumes "sorted_wrt (<) (map thread_key (listed_threads acc mb None d))" and "0 < n"
  shows "listed_threads acc mb None d = xs @ listed_threads acc mb cursor d \<Longrightarrow>
    length (listed_threads acc mb cursor d) < fuel \<Longrightarrow>
    follow_pages fuel acc mb n cursor d = listed_threads acc mb cursor d"
proof (induction fuel arbitrary: xs cursor)
  case (Suc fuel)
  let ?L = "listed_threads acc mb None d" and ?R = "listed_threads acc mb cursor d"
  show ?case
  proof (cases "take n ?R = []")
    case True
    with assms(2) show ?thesis by simp
  next
    case False
    let ?c = "Some (thread_key (last (take n ?R)))"
    have L: "?L = (xs @ take n ?R) @ drop n ?R" using Suc.prems(1) by simp
    have "listed_threads acc mb ?c d = drop n ?R"
      using filter_after_last [of thread_key "xs @ take n ?R" "drop n ?R"] assms(1) False
      by (simp only: listed_after L) simp
    moreover have "length (drop n ?R) < fuel"
    proof -
      have "0 < length ?R" using False by auto
      with Suc.prems(2) assms(2) show ?thesis by (simp only: length_drop)
    qed
    moreover from calculation L
    have "follow_pages fuel acc mb n ?c d = listed_threads acc mb ?c d"
      by (intro Suc.IH [of "xs @ take n ?R"]) auto
    ultimately show ?thesis using False by (simp add: Let_def)
  qed
qed simp

text \<open>
  Following the pages of a listing, whatever their size, yields every thread of the account (or of the
  folder asked for) exactly once, in the listing's order: no thread is skipped at a page boundary or shown
  twice, also where several threads have the same time.
\<close>

theorem pages_complete:
  assumes "unique_on th_id (threads d)" and "0 < n" and "length (threads d) < fuel"
  shows "follow_pages fuel acc mb n None d = listed_threads acc mb None d \<and>
    distinct (follow_pages fuel acc mb n None d) \<and>
    set (follow_pages fuel acc mb n None d) =
      {h \<in> set (threads d). th_account h = acc \<and> (mb \<noteq> '''' \<longrightarrow> in_mailbox mb d h)}"
proof -
  have "length (listed_threads acc mb None d) \<le> length (threads d)" by (simp add: listed_threads_def)
  with assms have f: "follow_pages fuel acc mb n None d = listed_threads acc mb None d"
    by (intro follow_pages_rest [where xs = "[]"] listed_strict) auto
  have "distinct (listed_threads acc mb None d)"
    using thread_key_inj [OF assms(1)] by (auto simp: listed_threads_def distinct_map)
  with f show ?thesis by (simp add: listed_threads_def)
qed

definition demo_thread :: "uuid \<Rightarrow> time \<Rightarrow> thread" where
  "demo_thread i t = \<lparr>th_id = i, th_account = 30, th_subject = ''lunch'', th_participants = JArr [], th_count = 1,
     th_unread = 0, th_snippet = None, th_last = t\<rparr>"

definition demo_threads_db :: db where
  "demo_threads_db = demo_db\<lparr>threads := [demo_thread 40 7, demo_thread 41 9, demo_thread 42 7]\<rparr>"

theorem pages_complete_witness:
  "follow_pages 4 30 '''' 2 None demo_threads_db = [demo_thread 41 9, demo_thread 42 7, demo_thread 40 7]"
proof -
  have "unique_on th_id (threads demo_threads_db)" and "length (threads demo_threads_db) < 4" by code_simp+
  from pages_complete [OF this(1) _ this(2), of 2 30 "''''"]
  have "follow_pages 4 30 '''' 2 None demo_threads_db = listed_threads 30 '''' None demo_threads_db" by simp
  moreover have "listed_threads 30 '''' None demo_threads_db = [demo_thread 41 9, demo_thread 42 7, demo_thread 40 7]"
    by code_simp
  ultimately show ?thesis by simp
qed

end
