(* ===== verification/ThreadSync.thy ===== *)
theory ThreadSync
  imports Threads
begin

text \<open>
  How an email enters the tables (\<^verbatim>\<open>internal/worker/sync_processor.go\<close>): it is given a thread, its row and
  its folder links are written, the thread's projection is recomputed, and the threads of messages that
  arrived before it and reply to it are merged into its thread. It runs inside a transaction of its caller.
\<close>

section \<open>The code\<close>

definition replies_to :: "uuid \<Rightarrow> string \<Rightarrow> message \<Rightarrow> bool" where
  "replies_to acc mid m \<longleftrightarrow> ms_account m = acc \<and> (ms_in_reply_to m = Some mid \<or> mid \<in> set (ms_references m))"

definition select_orphan_threads :: "uuid \<Rightarrow> string \<Rightarrow> uuid \<Rightarrow> uuid list query" where
  "select_orphan_threads acc mid canonical = (\<lambda>t d.
     (Inr (remdups (map ms_thread (filter (\<lambda>m. replies_to acc mid m \<and> ms_thread m \<noteq> canonical) (messages d)))), d))"

definition move_messages :: "uuid \<Rightarrow> uuid \<Rightarrow> unit query" where
  "move_messages canonical dup = (\<lambda>t d.
     if \<exists>m \<in> set (messages d). ms_thread m = dup \<and>
          (\<forall>h \<in> set (threads d). \<not> (th_id h = canonical \<and> th_account h = ms_account m))
     then (Inl (foreign_key_violation ''messages'' ''messages_thread_id_account_id_fkey''), d)
     else (Inr (), d\<lparr>messages := update_where (\<lambda>m. ms_thread m = dup) (\<lambda>m. m\<lparr>ms_thread := canonical\<rparr>) (messages d)\<rparr>))"

text \<open>Deleting a thread deletes its messages, and those their folder links.\<close>

definition delete_thread :: "uuid \<Rightarrow> unit query" where
  "delete_thread i = (\<lambda>t d.
     let gone = map ms_id (filter (\<lambda>m. ms_thread m = i) (messages d)) in
     (Inr (), d\<lparr>threads := delete_where (\<lambda>h. th_id h = i) (threads d),
        messages := delete_where (\<lambda>m. ms_thread m = i) (messages d),
        message_mailboxes := delete_where (\<lambda>l. mm_message l \<in> set gone) (message_mailboxes d)\<rparr>))"

definition merge_thread :: "uuid \<Rightarrow> uuid \<Rightarrow> ('s, unit) act" where
  "merge_thread canonical dup =
     seq (stmt (move_messages canonical dup)) (\<lambda>_.
     seq (update_thread_projection canonical) (\<lambda>_.
     stmt (delete_thread dup)))"

definition reconcile_orphans :: "uuid \<Rightarrow> string \<Rightarrow> uuid \<Rightarrow> ('s, unit) act" where
  "reconcile_orphans acc mid canonical =
     seq (stmt (select_orphan_threads acc mid canonical)) (\<lambda>dups. for_each (merge_thread canonical) dups)"

definition keyword_set :: "string \<Rightarrow> email \<Rightarrow> bool" where
  "keyword_set k e \<longleftrightarrow> map_of (em_keywords e) k = Some True"

definition first_message_id :: "email \<Rightarrow> string" where
  "first_message_id e = (case em_message_id e of [] \<Rightarrow> '''' | i # _ \<Rightarrow> i)"

definition message_of :: "uuid \<Rightarrow> uuid \<Rightarrow> email \<Rightarrow> message" where
  "message_of acc tid e = \<lparr>ms_id = 0, ms_account = acc, ms_thread = tid, ms_stalwart = em_id e,
     ms_message_id = Some (first_message_id e), ms_in_reply_to = first_row (em_in_reply_to e),
     ms_references = em_references e, ms_subject = Some (em_subject e),
     ms_sender = enc_list enc_email_address (em_from e), ms_recipients = enc_list enc_email_address (em_to e),
     ms_received = None, ms_sent = None, ms_created = 0\<rparr>"

definition link_of :: "uuid \<Rightarrow> email \<Rightarrow> string \<Rightarrow> message_mailbox" where
  "link_of i e mb = \<lparr>mm_message = i, mm_stalwart = mb, mm_unread = (\<not> keyword_set ''$seen'' e),
     mm_draft = keyword_set ''$draft'' e, mm_trashed = False, mm_sent = False, mm_keywords = []\<rparr>"

definition write_link :: "uuid \<Rightarrow> email \<Rightarrow> string \<times> bool \<Rightarrow> ('s, unit) act" where
  "write_link i e = (\<lambda>(mb, present).
     if present then wrap_err ''upsert message mailbox'' (wrap_err ''upserting message mailbox'' (stmt (upsert_link (link_of i e mb))))
     else ret ())"

definition process_email_sync :: "uuid \<Rightarrow> email \<Rightarrow> ('s, unit) act" where
  "process_email_sync acc e =
     seq (wrap_err ''resolve thread'' (resolve_thread acc e)) (\<lambda>(tid, is_new).
     seq (wrap_err ''upsert message'' (wrap_err ''upserting message'' (stmt (upsert_message (message_of acc tid e))))) (\<lambda>i.
     seq (for_each (write_link i e) (em_mailboxes e)) (\<lambda>_.
     seq (wrap_err ''update thread projection'' (update_thread_projection tid)) (\<lambda>_.
     if first_message_id e \<noteq> '''' then wrap_err ''reconcile orphans'' (reconcile_orphans acc (first_message_id e) tid)
     else ret ()))))"


section \<open>Well-formed conversations\<close>

definition thread_keys :: "db \<Rightarrow> (uuid \<times> uuid) set" where
  "thread_keys d = (\<lambda>h. (th_id h, th_account h)) ` set (threads d)"

definition message_keys :: "db \<Rightarrow> (uuid \<times> string) set" where
  "message_keys d = (\<lambda>m. (ms_account m, ms_stalwart m)) ` set (messages d)"

definition conversations_ok :: "db \<Rightarrow> bool" where
  "conversations_ok d \<longleftrightarrow>
     unique_on th_id (threads d) \<and> unique_on ms_id (messages d) \<and>
     unique_on (\<lambda>m. (ms_account m, ms_stalwart m)) (messages d) \<and>
     unique_on (\<lambda>l. (mm_message l, mm_stalwart l)) (message_mailboxes d) \<and>
     (\<forall>i \<in> th_id ` set (threads d) \<union> ms_id ` set (messages d). i < next_id d) \<and>
     (\<lambda>m. (ms_thread m, ms_account m)) ` set (messages d) \<subseteq> thread_keys d \<and>
     mm_message ` set (message_mailboxes d) \<subseteq> ms_id ` set (messages d)"

lemma image_update_where: "(\<And>r. P r \<Longrightarrow> k (f r) = k r) \<Longrightarrow> k ` set (update_where P f rows) = k ` set rows"
  using map_update_where [of P k f rows] by (metis set_map)

lemma image_set_by: "(\<And>r. k (f r) = k r) \<Longrightarrow> k ` set (set_by key i f rows) = k ` set rows"
  by (simp add: set_by_def image_update_where)

lemma conversations_okD:
  assumes "conversations_ok d"
  shows "h \<in> set (threads d) \<Longrightarrow> th_id h < next_id d" "m \<in> set (messages d) \<Longrightarrow> ms_id m < next_id d"
    "m \<in> set (messages d) \<Longrightarrow> (ms_thread m, ms_account m) \<in> thread_keys d"
  using assms by (auto simp: conversations_ok_def)

lemma ok_insert_thread: "query_preserves conversations_ok (insert_thread acc s)"
proof (rule query_preservesI)
  fix t d
  assume ok: "conversations_ok d"
  have "\<forall>h \<in> set (threads d). th_id h \<noteq> next_id d" by (metis conversations_okD(1) [OF ok] less_irrefl)
  with ok show "conversations_ok (snd (insert_thread acc s t d))"
    by (simp add: insert_thread_def conversations_ok_def unique_on_snoc) (auto simp: thread_keys_def less_Suc_eq)
qed

lemma same_message_key: "same_message m r \<longleftrightarrow> (ms_account r, ms_stalwart r) = (ms_account m, ms_stalwart m)"
  by (auto simp: same_message_def)

lemma overwrite_message_simps [simp]:
  "ms_id (overwrite_message m r) = ms_id r" "ms_account (overwrite_message m r) = ms_account r"
  "ms_stalwart (overwrite_message m r) = ms_stalwart r" "ms_thread (overwrite_message m r) = ms_thread m"
  by (simp_all add: overwrite_message_def)

text \<open>The two ways an upsert goes, and its refusal.\<close>

lemma upsert_message_cases:
  obtains (refused) e where "upsert_message m t d = (Inl e, d)"
  | (update) r where "(ms_thread m, ms_account m) \<in> thread_keys d" "r \<in> set (messages d)" "same_message m r"
      "upsert_message m t d =
         (Inr (ms_id r), d\<lparr>messages := update_where (same_message m) (overwrite_message m) (messages d)\<rparr>)"
  | (insert) "(ms_thread m, ms_account m) \<in> thread_keys d" "\<forall>r \<in> set (messages d). \<not> same_message m r"
      "upsert_message m t d = (Inr (next_id d),
         d\<lparr>messages := messages d @ [m\<lparr>ms_id := next_id d, ms_created := t\<rparr>], next_id := next_id d + 1\<rparr>)"
proof (cases "(ms_thread m, ms_account m) \<in> thread_keys d")
  case False
  then have "\<forall>h \<in> set (threads d). \<not> (th_id h = ms_thread m \<and> th_account h = ms_account m)"
    by (auto simp: thread_keys_def image_iff)
  then show thesis by (intro refused) (simp add: upsert_message_def)
next
  case True
  then have f: "(\<forall>h \<in> set (threads d). \<not> (th_id h = ms_thread m \<and> th_account h = ms_account m)) = False"
    by (auto simp: thread_keys_def)
  show thesis
  proof (cases "find (same_message m) (messages d)")
    case None
    then have "\<forall>r \<in> set (messages d). \<not> same_message m r" by (simp add: find_None_iff_all)
    with None True show thesis by (intro insert) (simp_all only: upsert_message_def f if_False option.case simp_thms)
  next
    case (Some r)
    from find_Some_set [OF Some] Some True show thesis
      by (intro update [of r]) (simp_all only: upsert_message_def f if_False option.case simp_thms)
  qed
qed

lemma ok_upsert_message: "query_preserves conversations_ok (upsert_message m)"
proof (rule query_preservesI)
  fix t d
  assume ok: "conversations_ok d"
  show "conversations_ok (snd (upsert_message m t d))"
  proof (cases m t d rule: upsert_message_cases)
    case (refused e)
    with ok show ?thesis by simp
  next
    case (update r)
    have u: "unique_on k (update_where (same_message m) (overwrite_message m) (messages d)) = unique_on k (messages d)"
      "k ` set (update_where (same_message m) (overwrite_message m) (messages d)) = k ` set (messages d)"
      if "\<And>r. k (overwrite_message m r) = k r" for k :: "message \<Rightarrow> 'k"
      using that by (simp_all add: unique_on_update_where image_update_where)
    have "(ms_thread m', ms_account m') \<in> thread_keys d"
      if "m' \<in> set (update_where (same_message m) (overwrite_message m) (messages d))" for m'
      using that ok update(1) by (auto simp: set_update_where conversations_ok_def same_message_def split: if_splits)
    with ok update show ?thesis by (simp add: conversations_ok_def u) (auto simp: thread_keys_def)
  next
    case insert
    have n: "\<forall>h \<in> set (messages d). ms_id h \<noteq> next_id d" by (metis conversations_okD(2) [OF ok] less_irrefl)
    have k: "thread_keys (d\<lparr>messages := x, next_id := y\<rparr>) = thread_keys d" for x y by (simp add: thread_keys_def)
    from ok insert n show ?thesis
      by (simp add: conversations_ok_def unique_on_snoc same_message_def k) (auto simp: less_Suc_eq)
  qed
qed

lemma ok_upsert_link: "query_preserves conversations_ok (upsert_link l)"
proof (rule query_preservesI)
  fix t d
  assume ok: "conversations_ok d"
  have u: "unique_on (\<lambda>l. (mm_message l, mm_stalwart l)) (update_where (same_link l) (\<lambda>_. l) (message_mailboxes d)) =
      unique_on (\<lambda>l. (mm_message l, mm_stalwart l)) (message_mailboxes d)"
    "mm_message ` set (update_where (same_link l) (\<lambda>_. l) (message_mailboxes d)) = mm_message ` set (message_mailboxes d)"
    by (auto intro!: unique_on_update_where image_update_where simp: same_link_def)
  show "conversations_ok (snd (upsert_link l t d))"
    using ok by (simp add: upsert_link_def conversations_ok_def thread_keys_def u unique_on_snoc)
      (use ok in \<open>auto simp: same_link_def intro!: rev_image_eqI\<close>)
qed

lemma ok_update_projection: "query_preserves conversations_ok (update_projection i)"
  by (simp add: query_preserves_def update_projection_def Let_def conversations_ok_def thread_keys_def
      unique_on_set_by image_set_by)

lemma ok_move_messages: "query_preserves conversations_ok (move_messages c i)"
proof (rule query_preservesI)
  fix t d
  assume ok: "conversations_ok d"
  let ?ms = "update_where (\<lambda>m. ms_thread m = i) (\<lambda>m. m\<lparr>ms_thread := c\<rparr>) (messages d)"
  have u: "unique_on k ?ms = unique_on k (messages d)" "k ` set ?ms = k ` set (messages d)"
    if "\<And>r. k (r\<lparr>ms_thread := c\<rparr>) = k r" for k :: "message \<Rightarrow> 'k"
    using that by (simp_all add: unique_on_update_where image_update_where)
  show "conversations_ok (snd (move_messages c i t d))"
  proof (cases "\<forall>m \<in> set (messages d). ms_thread m = i \<longrightarrow> (c, ms_account m) \<in> thread_keys d")
    case True
    then have "(ms_thread m, ms_account m) \<in> thread_keys d" if "m \<in> set ?ms" for m
      using that conversations_okD(3) [OF ok] by (auto simp: set_update_where split: if_splits)
    with ok show ?thesis by (simp add: move_messages_def conversations_ok_def u) (auto simp: thread_keys_def)
  next
    case False
    then have "\<exists>m \<in> set (messages d). ms_thread m = i \<and> (\<forall>h \<in> set (threads d). \<not> (th_id h = c \<and> th_account h = ms_account m))"
      by (force simp: thread_keys_def)
    with ok show ?thesis by (simp only: move_messages_def if_True snd_conv)
  qed
qed

lemma ok_delete_thread: "query_preserves conversations_ok (delete_thread i)"
proof (rule query_preservesI)
  fix t d
  assume ok: "conversations_ok d"
  have "(ms_thread m, ms_account m) \<in> thread_keys (snd (delete_thread i t d))"
    if "m \<in> set (messages d)" "ms_thread m \<noteq> i" for m
    using that ok by (auto simp: delete_thread_def Let_def conversations_ok_def thread_keys_def set_delete_where)
  moreover have "mm_message l \<in> ms_id ` set (messages (snd (delete_thread i t d)))"
    if l: "l \<in> set (message_mailboxes (snd (delete_thread i t d)))" for l
  proof -
    from l have "l \<in> set (message_mailboxes d)" and gone: "mm_message l \<notin> ms_id ` {m \<in> set (messages d). ms_thread m = i}"
      by (auto simp: delete_thread_def Let_def set_delete_where)
    with ok obtain m where m: "m \<in> set (messages d)" "ms_id m = mm_message l" by (force simp: conversations_ok_def)
    with gone have "ms_thread m \<noteq> i" by force
    with m show ?thesis by (force simp: delete_thread_def Let_def set_delete_where)
  qed
  ultimately show "conversations_ok (snd (delete_thread i t d))"
    using ok by (auto simp: delete_thread_def Let_def conversations_ok_def unique_on_delete_where set_delete_where)
qed


lemmas ok_queries = ok_insert_thread ok_upsert_message ok_upsert_link ok_update_projection ok_move_messages ok_delete_thread


lemma ok_update_thread_projection: "preserves conversations_ok (update_thread_projection i)"
  unfolding update_thread_projection_def by (intro pres_intro ok_queries)

lemma preserves_or_else: "preserves I look \<Longrightarrow> preserves I next \<Longrightarrow> preserves I (or_else look next)"
  unfolding or_else_def by (intro pres_intro) auto

lemma preserves_resolve_thread: "(\<And>s. query_preserves I (insert_thread acc s)) \<Longrightarrow> preserves I (resolve_thread acc e)"
  unfolding resolve_thread_def Let_def select_thread_of_def select_thread_by_subject_def select_thread_by_message_ids_def
  by (intro pres_intro preserves_or_else query_preserves_select)

lemmas ok_resolve_thread = preserves_resolve_thread [OF ok_insert_thread]

lemma ok_reconcile_orphans: "preserves conversations_ok (reconcile_orphans acc mid c)"
  unfolding reconcile_orphans_def merge_thread_def select_orphan_threads_def
  by (intro pres_intro query_preserves_select ok_queries ok_update_thread_projection)




section \<open>What a synchronisation achieves\<close>

definition moved :: "uuid set \<Rightarrow> uuid \<Rightarrow> message list \<Rightarrow> message list" where
  "moved dups c = update_where (\<lambda>m. ms_thread m \<in> dups) (\<lambda>m. m\<lparr>ms_thread := c\<rparr>)"

lemma set_moved: "set (moved dups c ms) = (\<lambda>m. if ms_thread m \<in> dups then m\<lparr>ms_thread := c\<rparr> else m) ` set ms"
  by (simp add: moved_def set_update_where)

definition projected :: "uuid \<Rightarrow> db \<Rightarrow> bool" where
  "projected i d \<longleftrightarrow> (\<forall>h \<in> set (threads d). th_id h = i \<longrightarrow>
     th_count h = length (active_messages i d) \<and> th_unread h = length (unread_messages i d))"

lemma projected_cong:
  assumes "messages d' = messages d" and "message_mailboxes d' = message_mailboxes d"
  shows "active_messages i d' = active_messages i d" and "unread_messages i d' = unread_messages i d"
  using assms by (simp_all add: active_messages_def unread_messages_def)

lemma update_thread_projection_InrE:
  assumes "update_thread_projection i w = (Inr u, w')"
  shows "messages (db w') = messages (db w)" and "message_mailboxes (db w') = message_mailboxes (db w)"
    and "projected i (db w')"
proof -
  obtain t where d: "db w' = snd (update_projection i t (db w))"
    using assms by (auto simp: update_thread_projection_def elim!: stmt_sndE)
  then show m: "messages (db w') = messages (db w)" and l: "message_mailboxes (db w') = message_mailboxes (db w)"
    by (simp_all add: update_projection_def Let_def)
  show "projected i (db w')"
    unfolding projected_def projected_cong [OF m l]
  proof (intro ballI)
    fix h
    let ?f = "\<lambda>r. r\<lparr>th_count := length (active_messages i (db w)), th_unread := length (unread_messages i (db w)),
        th_last := case last_message_time (active_messages i (db w)) of None \<Rightarrow> t | Some x \<Rightarrow> x\<rparr>"
    assume "h \<in> set (threads (db w'))"
    then have "h \<in> (\<lambda>r. if th_id r = i then ?f r else r) ` set (threads (db w))"
      by (simp add: d update_projection_def Let_def set_by_def set_update_where)
    then obtain r where "h = (if th_id r = i then ?f r else r)" by (rule imageE)
    then show "th_id h = i \<longrightarrow> th_count h = length (active_messages i (db w)) \<and> th_unread h = length (unread_messages i (db w))"
      by (cases "th_id r = i") simp_all
  qed
qed

lemma merge_thread_InrE:
  assumes "merge_thread c i w = (Inr u, w')" and "c \<noteq> i"
  shows "messages (db w') = moved {i} c (messages (db w))" and "message_mailboxes (db w') = message_mailboxes (db w)"
    and "projected c (db w')"
proof -
  from assms(1) obtain x y and w1 :: "'a world" and w2 :: "'a world"
    where s1: "stmt (move_messages c i) w = (Inr x, w1)" and s2: "update_thread_projection c w1 = (Inr y, w2)"
      and s3: "stmt (delete_thread i) w2 = (Inr u, w')"
    by (auto simp: merge_thread_def elim!: seq_InrE)
  from s1 obtain t where "fst (move_messages c i t (db w)) = Inr x" and "db w1 = snd (move_messages c i t (db w))"
    by (rule stmt_sndE)
  then have m1: "messages (db w1) = moved {i} c (messages (db w))" and l1: "message_mailboxes (db w1) = message_mailboxes (db w)"
    by (auto simp: move_messages_def update_where_def moved_def split: if_splits)
  note p = update_thread_projection_InrE [OF s2]
  from s3 obtain t where d: "db w' = snd (delete_thread i t (db w2))" by (rule stmt_sndE)
  have none: "filter (\<lambda>m. ms_thread m = i) (messages (db w2)) = []"
    using assms(2) by (auto simp: p(1) m1 set_moved filter_empty_conv)
  then have m: "messages (db w') = messages (db w2)" and l: "message_mailboxes (db w') = message_mailboxes (db w2)"
    by (auto simp add: d delete_thread_def delete_where_def filter_empty_conv filter_id_conv)
  then show "messages (db w') = moved {i} c (messages (db w))" and "message_mailboxes (db w') = message_mailboxes (db w)"
    by (simp_all add: p m1 l1)
  show "projected c (db w')"
    using p(3) unfolding projected_def projected_cong [OF m l] by (auto simp: d delete_thread_def Let_def set_delete_where)
qed

lemma moved_moved: "c \<notin> dups \<Longrightarrow> moved dups c (moved {i} c ms) = moved (insert i dups) c ms"
  by (simp add: moved_def update_where_def)

lemma moved_nothing [simp]: "moved {} c ms = ms"
  by (simp add: moved_def update_where_def)


lemma merge_threads_InrE:
  assumes "for_each (merge_thread c) dups w = (Inr u, w')" and "c \<notin> set dups" and "projected c (db w)"
  shows "messages (db w') = moved (set dups) c (messages (db w)) \<and> message_mailboxes (db w') = message_mailboxes (db w) \<and>
    projected c (db w')"
  using assms
proof (induction dups arbitrary: w)
  case (Cons i dups)
  from Cons.prems(1) obtain x and w1 :: "'a world" where s1: "merge_thread c i w = (Inr x, w1)"
    and s2: "for_each (merge_thread c) dups w1 = (Inr u, w')"
    by (auto elim!: seq_InrE)
  from Cons.prems(2) have "c \<noteq> i" "c \<notin> set dups" by auto
  with Cons.IH [OF s2] merge_thread_InrE [OF s1] show ?case by (simp add: moved_moved)
qed simp


text \<open>The thread of a message, by the account and the server's id of it.\<close>

definition in_thread :: "uuid \<Rightarrow> string \<Rightarrow> uuid \<Rightarrow> db \<Rightarrow> bool" where
  "in_thread acc sid i d \<longleftrightarrow> (\<exists>m \<in> set (messages d). ms_account m = acc \<and> ms_stalwart m = sid \<and> ms_thread m = i)"

definition replies_in :: "uuid \<Rightarrow> string \<Rightarrow> uuid \<Rightarrow> db \<Rightarrow> bool" where
  "replies_in acc mid i d \<longleftrightarrow> (\<forall>m \<in> set (messages d). replies_to acc mid m \<longrightarrow> ms_thread m = i)"

lemma moved_keys: "(\<And>m. k (m\<lparr>ms_thread := c\<rparr>) = k m) \<Longrightarrow> k ` set (moved dups c ms) = k ` set ms"
  by (simp add: moved_def image_update_where)

lemma reconcile_orphans_InrE:
  assumes "reconcile_orphans acc mid c w = (Inr u, w')" and "projected c (db w)"
  shows "replies_in acc mid c (db w')" and "projected c (db w')" and "message_keys (db w') = message_keys (db w)"
    and "in_thread acc sid c (db w) \<Longrightarrow> in_thread acc sid c (db w')"
proof -
  from assms(1) obtain dups and w1 :: "'a world" where s1: "stmt (select_orphan_threads acc mid c) w = (Inr dups, w1)"
    and s2: "for_each (merge_thread c) dups w1 = (Inr u, w')"
    by (auto simp: reconcile_orphans_def elim!: seq_InrE)
  from s1 obtain t where "fst (select_orphan_threads acc mid c t (db w)) = Inr dups"
    and d1: "db w1 = snd (select_orphan_threads acc mid c t (db w))"
    by (rule stmt_sndE)
  then have dups: "set dups = ms_thread ` {m \<in> set (messages (db w)). replies_to acc mid m \<and> ms_thread m \<noteq> c}"
    and d1: "db w1 = db w"
    by (auto simp: select_orphan_threads_def)
  have "c \<notin> set dups" using dups by auto
  from merge_threads_InrE [OF s2 this] assms(2)
  have m: "messages (db w') = moved (set dups) c (messages (db w))" and p: "projected c (db w')"
    by (simp_all add: d1)
  from p show "projected c (db w')" .
  have r: "replies_to acc mid (m\<lparr>ms_thread := c\<rparr>) = replies_to acc mid m" for m by (simp add: replies_to_def)
  show "replies_in acc mid c (db w')"
    by (auto simp: replies_in_def m set_moved dups r)
  show "message_keys (db w') = message_keys (db w)" by (simp add: message_keys_def m moved_keys)
  show "in_thread acc sid c (db w')" if "in_thread acc sid c (db w)"
    using that \<open>c \<notin> set dups\<close> by (auto simp: in_thread_def m set_moved intro!: bexI)
qed

lemma upsert_message_InrE:
  assumes "stmt (upsert_message m) w = (Inr i, w')"
  shows "message_keys (db w') = insert (ms_account m, ms_stalwart m) (message_keys (db w))"
    and "in_thread (ms_account m) (ms_stalwart m) (ms_thread m) (db w')"
proof -
  from assms obtain t where r: "fst (upsert_message m t (db w)) = Inr i" and d: "db w' = snd (upsert_message m t (db w))"
    by (rule stmt_sndE)
  have "message_keys (db w') = insert (ms_account m, ms_stalwart m) (message_keys (db w)) \<and>
    in_thread (ms_account m) (ms_stalwart m) (ms_thread m) (db w')"
  proof (cases m t "db w" rule: upsert_message_cases)
    case (refused e)
    with r show ?thesis by simp
  next
    case (update x)
    let ?ms = "update_where (same_message m) (overwrite_message m) (messages (db w))"
    have "overwrite_message m x \<in> set ?ms" using update(2,3) by (auto simp: set_update_where image_iff)
    moreover have "(\<lambda>m. (ms_account m, ms_stalwart m)) ` set ?ms = message_keys (db w)"
      by (simp add: image_update_where message_keys_def)
    moreover have "(ms_account m, ms_stalwart m) \<in> message_keys (db w)"
      using update(2,3) by (auto simp: message_keys_def same_message_def intro!: image_eqI [of _ _ x])
    ultimately show ?thesis using update(3,4)
      by (auto simp: d message_keys_def in_thread_def same_message_def intro!: bexI [of _ "overwrite_message m x"])
  next
    case insert
    then show ?thesis by (auto simp: d message_keys_def in_thread_def)
  qed
  then show "message_keys (db w') = insert (ms_account m, ms_stalwart m) (message_keys (db w))"
    and "in_thread (ms_account m) (ms_stalwart m) (ms_thread m) (db w')" by simp_all
qed

text \<open>Neither resolving a thread nor writing links touches the messages.\<close>

lemma resolve_thread_messages: "preserves (\<lambda>d. messages d = ms) (resolve_thread acc e)"
  by (rule preserves_resolve_thread) (simp add: query_preserves_def insert_thread_def)

lemma write_link_messages: "preserves (\<lambda>d. messages d = ms) (write_link i e p)"
  unfolding write_link_def by (intro pres_intro) (simp add: query_preserves_def upsert_link_def)

text \<open>The steps of a synchronisation that succeeded.\<close>

lemma process_email_syncE:
  assumes "process_email_sync acc e w = (Inr u, w')"
  obtains i new x y z and w1 w2 w3 w4 :: "'a world"
    where "resolve_thread acc e w = (Inr (i, new), w1)"
      "stmt (upsert_message (message_of acc i e)) w1 = (Inr x, w2)"
      "for_each (write_link x e) (em_mailboxes e) w2 = (Inr y, w3)" "update_thread_projection i w3 = (Inr z, w4)"
      "(if first_message_id e \<noteq> '''' then wrap_err ''reconcile orphans'' (reconcile_orphans acc (first_message_id e) i)
        else ret ()) w4 = (Inr u, w')"
  by (rule seq_InrE [OF assms [unfolded process_email_sync_def]], simp only: wrap_err_Inr split_paired_all prod.case,
      elim seq_InrE) (simp only: wrap_err_Inr)

lemma sync_joins:
  assumes "process_email_sync acc e w = (Inr u, w')"
  shows "\<exists>i. in_thread acc (em_id e) i (db w') \<and> projected i (db w') \<and>
    (first_message_id e \<noteq> '''' \<longrightarrow> replies_in acc (first_message_id e) i (db w')) \<and>
    message_keys (db w') = insert (acc, em_id e) (message_keys (db w))"
proof -
  from assms obtain i new x y z and w1 w2 w3 w4 :: "'a world"
    where s1: "resolve_thread acc e w = (Inr (i, new), w1)"
      and s2: "stmt (upsert_message (message_of acc i e)) w1 = (Inr x, w2)"
      and s3: "for_each (write_link x e) (em_mailboxes e) w2 = (Inr y, w3)"
      and s4: "update_thread_projection i w3 = (Inr z, w4)"
      and s5: "(if first_message_id e \<noteq> '''' then wrap_err ''reconcile orphans'' (reconcile_orphans acc (first_message_id e) i)
                else ret ()) w4 = (Inr u, w')"
    by (rule process_email_syncE)
  have m1: "messages (db w1) = messages (db w)"
    by (rule preserves_step [OF resolve_thread_messages s1]) simp
  have m3: "messages (db w3) = messages (db w2)"
    by (rule preserves_step [OF preserves_for_each [OF write_link_messages] s3]) simp
  note m4 = update_thread_projection_InrE [OF s4]
  have k: "message_keys (db w4) = insert (acc, em_id e) (message_keys (db w))" and t: "in_thread acc (em_id e) i (db w4)"
    using upsert_message_InrE [OF s2] by (simp_all add: message_of_def message_keys_def in_thread_def m1 m3 m4)
  show ?thesis
  proof (cases "first_message_id e = ''''")
    case True
    with s5 k t m4(3) show ?thesis by auto
  next
    case False
    with s5 have "reconcile_orphans acc (first_message_id e) i w4 = (Inr u, w')" by simp
    from reconcile_orphans_InrE [OF this m4(3)] k t show ?thesis by auto
  qed
qed

lemma sync_message_keys:
  "process_email_sync acc e w = (Inr u, w') \<Longrightarrow> message_keys (db w') = insert (acc, em_id e) (message_keys (db w))"
  using sync_joins by blast

text \<open>
  C27. After a successful synchronisation of an email the account has a row of it and no row more, every
  message of the account that names the email as the one it replies to or refers to is in its thread, and
  the counts of that thread are those of its messages and folder links: a reply may arrive before or
  after what it replies to.
\<close>

theorem sync_joins_conversation:
  assumes "process_email_sync acc e w = (Inr u, w')"
  shows "\<exists>i. in_thread acc (em_id e) i (db w') \<and> projected i (db w') \<and>
    (first_message_id e \<noteq> '''' \<longrightarrow> replies_in acc (first_message_id e) i (db w')) \<and>
    message_keys (db w') = insert (acc, em_id e) (message_keys (db w))"
  using assms by (rule sync_joins)

text \<open>A reply that arrives before what it replies to, with another subject.\<close>

definition demo_email :: "string \<Rightarrow> string \<Rightarrow> string \<Rightarrow> string list \<Rightarrow> email" where
  "demo_email i subj mid reply_to = \<lparr>em_id = i, em_blob = '''', em_thread = '''', em_mailboxes = [(''in'', True)],
     em_keywords = [], em_size = 1, em_received = '''', em_from = [], em_to = [], em_cc = [], em_bcc = [], em_reply_to = [],
     em_subject = subj, em_preview = '''', em_has_attachment = False, em_message_id = [mid], em_in_reply_to = reply_to,
     em_references = [], em_sent = '''', em_text_body = [], em_html_body = [], em_attachments = [], em_values = []\<rparr>"

definition demo_mailbox_db :: db where
  "demo_mailbox_db = demo_db\<lparr>mailboxes := [\<lparr>m_id = 30, m_address = 13, m_stalwart = Some ''acc'', m_status = MbActive,
     m_jmap_state = None, m_checkpoint = None, m_synced_at = None\<rparr>]\<rparr>"

definition demo_reply_synced :: "unit world" where
  "demo_reply_synced = snd (process_email_sync 30 (demo_email ''M2'' ''Answer'' ''b@x'' [''a@x'']) (world_of demo_mailbox_db))"

theorem sync_joins_conversation_witness:
  "\<exists>w' i. process_email_sync 30 (demo_email ''M1'' ''Question'' ''a@x'' []) demo_reply_synced = (Inr (), w') \<and>
     in_thread 30 ''M1'' i (db w') \<and> in_thread 30 ''M2'' i (db w')"
proof -
  let ?e = "demo_email ''M1'' ''Question'' ''a@x'' []"
  have "succeeds (process_email_sync 30 ?e demo_reply_synced)" by code_simp
  then obtain w' :: "unit world" where w: "process_email_sync 30 ?e demo_reply_synced = (Inr (), w')"
    by (rule succeedsE) simp
  have f: "first_message_id ?e = ''a@x''" "em_id ?e = ''M1''" by code_simp+
  from sync_joins_conversation [OF w, unfolded f] obtain i
    where i: "in_thread 30 ''M1'' i (db w')" "replies_in 30 ''a@x'' i (db w')" by auto
  have "\<exists>m \<in> set (messages (db (snd (process_email_sync 30 ?e demo_reply_synced)))).
      ms_account m = 30 \<and> ms_stalwart m = ''M2'' \<and> replies_to 30 ''a@x'' m" by code_simp
  with i(2) w have "in_thread 30 ''M2'' i (db w')" by (auto simp: in_thread_def replies_in_def)
  with w i(1) show ?thesis by blast
qed

end
