(* ===== verification/Numbers.thy ===== *)
theory Numbers
  imports Json
begin

text \<open>
  Numbers as text: what \<^verbatim>\<open>fmt.Sscanf\<close> reads from a text, and that it reads back what \<^verbatim>\<open>%d\<close> writes.
\<close>

section \<open>Reading a number\<close>

text \<open>\<^verbatim>\<open>fmt.Sscanf(s, "%d", &n)\<close> for an \<^verbatim>\<open>int\<close>: \<open>None\<close> where it reports an error and leaves the variable alone.\<close>

definition is_digit :: "char \<Rightarrow> bool" where
  "is_digit c \<longleftrightarrow> 48 \<le> (of_char c :: nat) \<and> (of_char c :: nat) \<le> 57"

definition digits_value :: "string \<Rightarrow> nat" where
  "digits_value = foldl (\<lambda>v c. 10 * v + (of_char c - 48)) 0"

definition scan_digits :: "bool \<Rightarrow> string \<Rightarrow> int option" where
  "scan_digits neg s =
     (let ds = takeWhile is_digit s; v = (if neg then - int (digits_value ds) else int (digits_value ds)) in
      if ds = [] \<or> v < - (2 ^ 63) \<or> 2 ^ 63 \<le> v then None else Some v)"

definition scan_int :: "string \<Rightarrow> int option" where
  "scan_int s =
     (case dropWhile (\<lambda>c. c \<noteq> CHR 0x0A \<and> is_space c) s of
        [] \<Rightarrow> None
      | c # r \<Rightarrow> if c = CHR ''-'' then scan_digits True r else if c = CHR ''+'' then scan_digits False r
                  else scan_digits False (c # r))"


section \<open>Reading what was written\<close>

lemma digits_aux_append: "digits_aux n (xs @ acc) = digits_aux n xs @ acc"
proof (induction n xs arbitrary: acc rule: digits_aux.induct)
  case (1 n xs)
  let ?c = "char_of (48 + n mod 10) :: char"
  have s: "digits_aux n ys = (if n < 10 then ?c # ys else digits_aux (n div 10) (?c # ys))" for ys
    by (simp only: digits_aux.simps [of n ys] Let_def)
  show ?case
  proof (cases "n < 10")
    case True
    then show ?thesis by (simp only: s if_True append_Cons)
  next
    case False
    with 1 [OF refl False, of acc] show ?thesis by (simp only: s if_False append_Cons)
  qed
qed

lemma nat_text_rec: "nat_text n = (if n < 10 then [char_of (48 + n)] else nat_text (n div 10) @ [char_of (48 + n mod 10)])"
proof -
  let ?c = "char_of (48 + n mod 10) :: char"
  have "digits_aux n [] = (if n < 10 then [?c] else digits_aux (n div 10) [?c])"
    by (simp only: digits_aux.simps [of n "[]"] Let_def)
  moreover have "digits_aux (n div 10) [?c] = digits_aux (n div 10) [] @ [?c]"
    using digits_aux_append [of "n div 10" "[]" "[?c]"] by (simp only: append_Nil)
  ultimately show ?thesis by (cases "n < 10") (simp_all only: nat_text_def mod_less if_True if_False)
qed

lemma digit_char: "k < 10 \<Longrightarrow> (of_char (char_of (48 + k) :: char) :: nat) = 48 + k"
  by (simp add: of_char_of)

lemma nat_text_digits: "list_all is_digit (nat_text n) \<and> digits_value (nat_text n) = n \<and> nat_text n \<noteq> []"
proof (induction n rule: less_induct)
  case (less n)
  show ?case
  proof (cases "n < 10")
    case True
    then show ?thesis by (subst (1 2 3) nat_text_rec) (simp add: is_digit_def digits_value_def digit_char)
  next
    case False
    then have "n div 10 < n" by simp
    from less [OF this] have IH: "list_all is_digit (nat_text (n div 10))" "digits_value (nat_text (n div 10)) = n div 10"
      by simp_all
    have "n mod 10 < 10" by simp
    note d = digit_char [OF this]
    from False have t: "nat_text n = nat_text (n div 10) @ [char_of (48 + n mod 10)]" by (subst nat_text_rec) simp
    show ?thesis using IH by (simp add: t digits_value_def) (simp add: is_digit_def d)
  qed
qed

lemma scan_digits_text:
  assumes "- (2 ^ 63) \<le> v" and "v < 2 ^ 63" and "v = (if neg then - int n else int n)"
  shows "scan_digits neg (nat_text n) = Some v"
proof -
  have t: "takeWhile is_digit (nat_text n) = nat_text n"
    using nat_text_digits [of n] by (simp add: takeWhile_eq_all_conv list_all_iff)
  show ?thesis using assms nat_text_digits [of n] by (auto simp: scan_digits_def Let_def t)
qed

lemma digit_not_space: "is_digit c \<Longrightarrow> \<not> is_space c \<and> c \<noteq> CHR ''-'' \<and> c \<noteq> CHR ''+''"
  by (auto simp: is_digit_def is_space_def)

lemma scan_int_text:
  assumes "- (2 ^ 63) \<le> v" and "v < 2 ^ 63"
  shows "scan_int (int_text v) = Some v"
proof (cases "v < 0")
  case True
  have "dropWhile (\<lambda>c. c \<noteq> CHR 0x0A \<and> is_space c) (CHR ''-'' # s) = CHR ''-'' # s" for s
    by (simp add: is_space_def)
  moreover have "scan_digits True (nat_text (nat (- v))) = Some v"
    using True assms by (intro scan_digits_text) auto
  ultimately show ?thesis using True by (simp add: scan_int_def int_text_def)
next
  case False
  obtain c r where t: "nat_text (nat v) = c # r" using nat_text_digits [of "nat v"] by (cases "nat_text (nat v)") auto
  then have "is_digit c" using nat_text_digits [of "nat v"] by simp
  note c = digit_not_space [OF this]
  have "scan_digits False (c # r) = Some v"
    using scan_digits_text [OF assms, of False "nat v"] False t by simp
  with c t False show ?thesis by (simp add: scan_int_def int_text_def)
qed

lemma int_text_nonempty: "int_text v \<noteq> ''''"
  using nat_text_digits [of "nat v"] by (simp add: int_text_def)

end
