(* ===== verification/MailSync.thy ===== *)
theory MailSync
  imports ThreadSync Management Numbers
begin

text \<open>
  How the tables follow the mail server (\<^verbatim>\<open>internal/worker/backfill_worker.go\<close>,
  \<^verbatim>\<open>reconciliation_worker.go\<close>): the resumable backfill of an account, the synchronisation of idle mailboxes
  from the server's changes, and what becomes of intents nobody completed.
\<close>

section \<open>Backfill\<close>

definition select_position :: "uuid \<Rightarrow> string option query" where
  "select_position acc = (\<lambda>t d.
     (first_or_no_rows (map sc_position (filter (\<lambda>s. sc_account s = acc) (checkpoints d))), d))"

text \<open>No row, NULL, the empty string and a text that is no number all start at 0.\<close>

definition position_value :: "string option \<Rightarrow> int" where
  "position_value p =
     (case p of None \<Rightarrow> 0 | Some s \<Rightarrow> if s = '''' then 0 else (case scan_int s of None \<Rightarrow> 0 | Some n \<Rightarrow> n))"

definition get_position :: "uuid \<Rightarrow> ('s, int) act" where
  "get_position acc =
     seq (attempt (stmt (select_position acc))) (\<lambda>r.
     case r of
       Inr p \<Rightarrow> ret (position_value p)
     | Inl e \<Rightarrow> if e = Sentinel ErrNoRows then ret 0 else fail (Wrapped ''getting backfill position'' e))"

definition save_position :: "uuid \<Rightarrow> int \<Rightarrow> unit query" where
  "save_position acc n = (\<lambda>t d.
     case lookup_by sc_account acc (checkpoints d) of
       Some s \<Rightarrow> (Inr (), d\<lparr>checkpoints := set_by sc_account acc
         (\<lambda>s. s\<lparr>sc_position := Some (int_text n), sc_status := ''backfilling''\<rparr>) (checkpoints d)\<rparr>)
     | None \<Rightarrow>
         if \<forall>m \<in> set (mailboxes d). m_id m \<noteq> acc
         then (Inl (foreign_key_violation ''sync_checkpoints'' ''sync_checkpoints_account_id_fkey''), d)
         else (Inr (), d\<lparr>checkpoints := checkpoints d @
                 [\<lparr>sc_account = acc, sc_position = Some (int_text n), sc_status = ''backfilling''\<rparr>]\<rparr>))"

definition sync_email :: "uuid \<Rightarrow> email \<Rightarrow> ('s, unit) act" where
  "sync_email acc e = wrap_err (''process email '' @ em_id e) (process_email_sync acc e)"

definition backfill_body :: "uuid \<Rightarrow> email list \<Rightarrow> int \<Rightarrow> ('s, bool tx) act" where
  "backfill_body acc es n =
     seq (for_each (sync_email acc) es) (\<lambda>_.
     seq (wrap_err ''update checkpoint'' (stmt (save_position acc n))) (\<lambda>_. ret (Commit False)))"

text \<open>The result says whether the account is complete.\<close>

definition run_backfill_batch :: "'s client \<Rightarrow> uuid \<Rightarrow> string \<Rightarrow> int \<Rightarrow> ('s, bool) act" where
  "run_backfill_batch c acc sid limit =
     seq (get_position acc) (\<lambda>p.
     seq (wrap_err ''email query'' (remote_call (email_query_at c sid None None p limit))) (\<lambda>q.
     if eq_ids q = [] then ret True
     else
       seq (wrap_err ''email get'' (remote_call (email_get c sid (Some (eq_ids q)) None))) (\<lambda>es.
       named_transaction (Wrapped ''begin tx'') (\<lambda>_. Wrapped ''commit'')
         (backfill_body acc (eg_list es) (wrap64 (p + int (length (eq_ids q))))))))"


section \<open>Following changes\<close>

definition stale_intents :: "time \<Rightarrow> db \<Rightarrow> recon_log list" where
  "stale_intents t d =
     filter (\<lambda>r. rl_status r \<in> {''PENDING'', ''EXECUTING'', ''UNKNOWN''} \<and> rl_updated r < t - 5 * minute) (recon_logs d)"

definition give_up_text :: "string \<Rightarrow> string" where
  "give_up_text ty = (if ty = ''Email/set'' then ''requires_manual_reconciliation'' else ''reconciliation_impossible'')"

definition give_up_intent :: "recon_log \<Rightarrow> ('s, unit) act" where
  "give_up_intent r = ignore (stmt (set_intent (rl_id r) (\<lambda>t x. x\<lparr>rl_status := ''UNKNOWN'', rl_updated := t,
     rl_response := Some (JObj [(''error'', JStr (give_up_text (rl_type r)))])\<rparr>)))"

definition reconcile_stale_intents :: "('s, unit) act" where
  "reconcile_stale_intents =
     ignore (seq (stmt (\<lambda>t d. (Inr (stale_intents t d), d))) (for_each give_up_intent))"

record sync_job =
  sy_mailbox :: uuid
  sy_user :: uuid
  sy_stalwart :: string
  sy_state :: string

definition synced_key :: "sync_state \<Rightarrow> bool \<times> time" where
  "synced_key s = (case ss_synced_at s of None \<Rightarrow> (False, 0) | Some t \<Rightarrow> (True, t))"

definition idle_rows :: "db \<Rightarrow> (mailbox \<times> address \<times> sync_state) list" where
  "idle_rows d = take 10 (sort_key (\<lambda>(m, a, s). synced_key s)
     [(m, a, s). m \<leftarrow> mailboxes d, a \<leftarrow> addresses d, m_address m = a_id a,
                 s \<leftarrow> sync_states d, ss_mailbox s = m_id m, ss_status s = ''idle''])"

text \<open>The four columns are scanned into strings, which refuse NULL.\<close>

definition scan_sync_job :: "mailbox \<times> address \<times> sync_state \<Rightarrow> sync_job option" where
  "scan_sync_job = (\<lambda>(m, a, s).
     case (a_claimed_by a, m_stalwart m, ss_state s) of
       (Some u, Some i, Some st) \<Rightarrow> Some \<lparr>sy_mailbox = m_id m, sy_user = u, sy_stalwart = i, sy_state = st\<rparr>
     | _ \<Rightarrow> None)"

text \<open>The loop goes on after a row it cannot scan, but the driver has then closed the result: no row follows.\<close>

fun scan_sync_jobs :: "(mailbox \<times> address \<times> sync_state) list \<Rightarrow> sync_job list" where
  "scan_sync_jobs [] = []"
| "scan_sync_jobs (r # rs) = (case scan_sync_job r of None \<Rightarrow> [] | Some j \<Rightarrow> j # scan_sync_jobs rs)"

definition set_sync :: "uuid \<Rightarrow> (time \<Rightarrow> sync_state \<Rightarrow> sync_state) \<Rightarrow> unit query" where
  "set_sync i f = (\<lambda>t d. (Inr (), d\<lparr>sync_states := set_by ss_mailbox i (f t) (sync_states d)\<rparr>))"

definition delete_message :: "uuid \<Rightarrow> string \<Rightarrow> unit query" where
  "delete_message acc sid = (\<lambda>t d.
     let P = (\<lambda>m. ms_account m = acc \<and> ms_stalwart m = sid); gone = map ms_id (filter P (messages d)) in
     (Inr (), d\<lparr>messages := delete_where P (messages d),
        message_mailboxes := delete_where (\<lambda>l. mm_message l \<in> set gone) (message_mailboxes d)\<rparr>))"

text \<open>
  The error of an event's insertion is ignored, but it aborts the transaction: the statement after it fails,
  and nothing is committed. So it ends the body.
\<close>

definition emit_event :: "uuid \<Rightarrow> string \<Rightarrow> string \<Rightarrow> ('s, unit) act" where
  "emit_event u ty i = stmt (insert_outbox u ty (JObj [(''message_id'', JStr i)]))"

definition sync_body :: "sync_job \<Rightarrow> changes \<Rightarrow> email list \<Rightarrow> ('s, unit tx) act" where
  "sync_body j ec es =
     seq (for_each (process_email_sync (sy_mailbox j)) es) (\<lambda>_.
     seq (for_each (\<lambda>i. stmt (delete_message (sy_mailbox j) i)) (ch_destroyed ec)) (\<lambda>_.
     seq (for_each (emit_event (sy_user j) ''message.created'') (ch_created ec)) (\<lambda>_.
     seq (for_each (emit_event (sy_user j) ''message.updated'') (ch_updated ec)) (\<lambda>_.
     seq (for_each (emit_event (sy_user j) ''message.deleted'') (ch_destroyed ec)) (\<lambda>_.
     seq (stmt (set_sync (sy_mailbox j) (\<lambda>t s. s\<lparr>ss_state := Some (ch_new ec), ss_status := ''idle'', ss_synced_at := Some t\<rparr>))) (\<lambda>_.
     ret (Commit ())))))))"

definition initial_sync :: "'s client \<Rightarrow> sync_job \<Rightarrow> ('s, unit) act" where
  "initial_sync c j =
     seq (attempt (remote_call (email_get c (sy_stalwart j) None None))) (\<lambda>r.
     stmt (set_sync (sy_mailbox j) (\<lambda>t s.
       case r of
         Inr es \<Rightarrow> if eg_state es \<noteq> '''' then s\<lparr>ss_state := Some (eg_state es), ss_status := ''idle'', ss_synced_at := Some t\<rparr>
                  else s\<lparr>ss_status := ''idle'', ss_synced_at := Some t\<rparr>
       | Inl e \<Rightarrow> s\<lparr>ss_status := ''idle'', ss_synced_at := Some t\<rparr>)))"

definition changes_failed :: "sync_job \<Rightarrow> goerr \<Rightarrow> ('s, unit) act" where
  "changes_failed j e = stmt (set_sync (sy_mailbox j) (\<lambda>t s.
     if err_text e = ''cannotCalculateChanges''
     then s\<lparr>ss_state := Some '''', ss_status := ''error'', ss_error := Some ''cannotCalculateChanges''\<rparr>
     else s\<lparr>ss_status := ''idle''\<rparr>))"

definition changed_emails :: "'s client \<Rightarrow> sync_job \<Rightarrow> changes \<Rightarrow> ('s, email list) act" where
  "changed_emails c j ec =
     (let ids = ch_created ec @ ch_updated ec in
      if ids = [] then ret []
      else seq (remote_call (email_get c (sy_stalwart j) (Some ids) None)) (\<lambda>es. ret (eg_list es)))"

text \<open>Nothing is returned: whatever fails is logged, if at all.\<close>

definition process_sync_job :: "'s client \<Rightarrow> sync_job \<Rightarrow> ('s, unit) act" where
  "process_sync_job c j =
     seq (ignore (stmt (set_sync (sy_mailbox j) (\<lambda>t s. s\<lparr>ss_status := ''syncing''\<rparr>)))) (\<lambda>_.
     if sy_state j = '''' then ignore (initial_sync c j)
     else
       seq (attempt (remote_call (get_changes c (sy_stalwart j) ''Email'' (sy_state j)))) (\<lambda>r.
       case r of
         Inl e \<Rightarrow> ignore (changes_failed j e)
       | Inr ec \<Rightarrow> ignore (seq (changed_emails c j ec) (\<lambda>es. transaction (sync_body j ec es)))))"

definition sync_outboxes :: "'s client \<Rightarrow> ('s, unit) act" where
  "sync_outboxes c =
     ignore (seq (stmt (\<lambda>t d. (Inr (idle_rows d), d))) (\<lambda>rs. for_each (process_sync_job c) (scan_sync_jobs rs)))"

text \<open>One tick of the worker.\<close>

definition reconciliation_tick :: "'s client \<Rightarrow> ('s, unit) act" where
  "reconciliation_tick c = seq reconcile_stale_intents (\<lambda>_. sync_outboxes c)"



section \<open>The position survives its printing\<close>

lemma position_text: "- (2 ^ 63) \<le> v \<Longrightarrow> v < 2 ^ 63 \<Longrightarrow> position_value (Some (int_text v)) = v"
  by (simp add: position_value_def scan_int_text int_text_nonempty)



section \<open>A batch is applied as a whole\<close>

definition stored_position :: "uuid \<Rightarrow> db \<Rightarrow> int" where
  "stored_position acc d = position_value (Option.bind (lookup_by sc_account acc (checkpoints d)) sc_position)"

definition mail_tables :: "db \<Rightarrow> thread list \<times> message list \<times> message_mailbox list \<times> sync_checkpoint list" where
  "mail_tables d = (threads d, messages d, message_mailboxes d, checkpoints d)"

lemma first_of_filter: "first_or_no_rows (map f (filter (\<lambda>r. key r = k) rows)) =
    (case lookup_by key k rows of None \<Rightarrow> Inl (Sentinel ErrNoRows) | Some r \<Rightarrow> Inr (f r))"
  by (induction rows) (auto simp: first_or_no_rows_def)

lemma get_position_InrE:
  assumes "get_position acc w = (Inr p, w')"
  shows "p = stored_position acc (db w) \<and> db w' = db w \<and> remote w' = remote w"
proof -
  let ?s = "stmt (select_position acc)"
  obtain r w1 where s: "?s w = (r, w1)" by force
  then have d: "db w1 = db w" "remote w1 = remote w"
    using stmt_db [of "select_position acc" w] remote_stmt [of "select_position acc" w] by (auto simp: select_position_def)
  show ?thesis
  proof (cases r)
    case (Inl e)
    with assms s have e: "e = Sentinel ErrNoRows" "p = 0" "w' = w1"
      by (auto simp: get_position_def attempt_apply split: if_splits)
    with s Inl have "fst (stmt (select_position acc) w) = Inl (Sentinel ErrNoRows)" by simp
    then have "lookup_by sc_account acc (checkpoints (db w)) = None"
      by (auto simp: stmt_def round_trip_def run_query_def select_position_def first_of_filter Let_def
          split: list.splits option.splits fault.splits prod.splits)
    with e d show ?thesis by (simp add: stored_position_def position_value_def)
  next
    case (Inr x)
    with s obtain t where "fst (select_position acc t (db w)) = Inr x" by (auto elim: stmt_sndE)
    with assms s Inr d show ?thesis
      by (auto simp: get_position_def attempt_apply stored_position_def select_position_def first_of_filter split: option.splits)
  qed
qed

lemma sync_emails_InrE:
  assumes "for_each (sync_email acc) es w = (Inr u, w')"
  shows "message_keys (db w') = (\<lambda>e. (acc, em_id e)) ` set es \<union> message_keys (db w)"
  using assms
proof (induction es arbitrary: w)
  case (Cons e es)
  from Cons.prems obtain x and w1 :: "'a world" where "sync_email acc e w = (Inr x, w1)"
    and r: "for_each (sync_email acc) es w1 = (Inr u, w')"
    by (auto elim!: seq_InrE)
  then have s: "process_email_sync acc e w = (Inr x, w1)" by (simp only: sync_email_def wrap_err_Inr)
  have "message_keys (db w1) = insert (acc, em_id e) (message_keys (db w))"
    by (rule sync_message_keys [OF s])
  with Cons.IH [OF r] show ?case by auto
qed simp

lemma lookup_by_set_by: "(\<And>r. key (f r) = key r) \<Longrightarrow> lookup_by key k (set_by key k f rows) = map_option f (lookup_by key k rows)"
  by (induction rows) auto

lemma save_position_InrE:
  assumes "stmt (save_position acc n) w = (Inr u, w')"
  shows "message_keys (db w') = message_keys (db w)"
    and "n = wrap64 k \<Longrightarrow> stored_position acc (db w') = n"
proof -
  from assms obtain t where q: "fst (save_position acc n t (db w)) = Inr u" "db w' = snd (save_position acc n t (db w))"
    by (rule stmt_sndE)
  then show "message_keys (db w') = message_keys (db w)"
    by (auto simp: save_position_def message_keys_def split: option.splits if_splits)
  have "Option.bind (lookup_by sc_account acc (checkpoints (db w'))) sc_position = Some (int_text n)"
    using q by (auto simp: save_position_def lookup_by_snoc lookup_by_set_by split: option.splits if_splits)
  then show "stored_position acc (db w') = n" if "n = wrap64 k"
    using that wrap64_range [of k] by (simp add: stored_position_def position_text)
qed


lemma backfill_body_committed:
  assumes "backfill_body acc es (wrap64 n) v = (Inr (Commit b), v')"
  shows "message_keys (db v') = (\<lambda>e. (acc, em_id e)) ` set es \<union> message_keys (db v) \<and>
    stored_position acc (db v') = wrap64 n \<and> b = False"
proof -
  from assms obtain x y and v1 :: "'a world" where s1: "for_each (sync_email acc) es v = (Inr x, v1)"
    and s2: "stmt (save_position acc (wrap64 n)) v1 = (Inr y, v')" and b: "b = False"
    by (auto simp: backfill_body_def elim!: seq_InrE)
  from save_position_InrE(1) [OF s2] save_position_InrE(2) [OF s2 refl] sync_emails_InrE [OF s1] b show ?thesis by simp
qed

text \<open>
  C28. A batch of the backfill is applied as a whole or not at all, wherever it fails: either the tables are
  untouched, or every email the server returned has its row, no other message has appeared, and the stored
  position has advanced by the number of ids the server listed from it.
\<close>

theorem backfill_all_or_nothing:
  assumes "run_backfill_batch c acc sid limit w = (r, w')"
  shows "db w' = db w \<or>
    (\<exists>q s es s'. email_query_at c sid None None (stored_position acc (db w)) limit (remote w) = (Inr q, s) \<and>
       email_get c sid (Some (eq_ids q)) None s = (Inr es, s') \<and>
       stored_position acc (db w') = wrap64 (stored_position acc (db w) + int (length (eq_ids q))) \<and>
       message_keys (db w') = (\<lambda>e. (acc, em_id e)) ` set (eg_list es) \<union> message_keys (db w))"
proof -
  from assms [unfolded run_backfill_batch_def] show ?thesis
  proof (cases rule: seqE)
    case (fails e)
    then show ?thesis
      using stmt_db [of "select_position acc" w]
      by (auto simp: get_position_def attempt_apply select_position_def split: sum.splits if_splits)
  next
    case (continues p w1)
    from get_position_InrE [OF continues(1)]
    have p: "p = stored_position acc (db w)" and w1: "db w1 = db w" "remote w1 = remote w" by simp_all
    from continues(2) show ?thesis
    proof (cases rule: seqE)
      case (fails e)
      with w1 show ?thesis by (auto elim: remoteE)
    next
      case (continues q w2)
      from continues(1) w1 have q: "email_query_at c sid None None p limit (remote w) = (Inr q, remote w2)" "db w2 = db w"
        by (auto dest!: remote_InrD)
      show ?thesis
      proof (cases "eq_ids q = []")
        case True
        with continues(2) q(2) show ?thesis by simp
      next
        case False
        with continues(2) have "seq (wrap_err ''email get'' (remote_call (email_get c sid (Some (eq_ids q)) None))) (\<lambda>es.
            named_transaction (Wrapped ''begin tx'') (\<lambda>_. Wrapped ''commit'')
              (backfill_body acc (eg_list es) (wrap64 (p + int (length (eq_ids q)))))) w2 = (r, w')"
          by (simp only: if_False)
        then show ?thesis
        proof (cases rule: seqE)
          case (fails e)
          with q(2) show ?thesis by (auto elim: remoteE)
        next
          case (continues es w3)
          from continues(1) q(2) have g: "email_get c sid (Some (eq_ids q)) None (remote w2) = (Inr es, remote w3)" "db w3 = db w"
            by (auto dest!: remote_InrD)
          let ?b = "backfill_body acc (eg_list es) (wrap64 (p + int (length (eq_ids q))))"
          from continues(2) have "transaction ?b w3 = (fst (transaction ?b w3), w')"
            by (metis named_transaction_snd prod.collapse snd_conv)
          then show ?thesis
          proof (cases rule: transaction_outcome)
            case unchanged
            with g(2) show ?thesis by simp
          next
            case (committed v a v')
            from backfill_body_committed [OF committed(2)] committed(1,3) q g p show ?thesis by auto
          qed
        qed
      qed
    qed
  qed
qed

definition demo_backfill_start :: "json list world" where
  "demo_backfill_start = world_with demo_mailbox_db
     [one_response ''Email/query'' [(''ids'', JArr [JStr ''M1'', JStr ''M2''])],
      one_response ''Email/get'' [(''list'', JArr [JObj [(''id'', JStr ''M2'')], JObj [(''id'', JStr ''M1'')]])]]"

definition demo_backfill :: "json list world" where
  "demo_backfill = snd (run_backfill_batch scripted_client 30 ''acc'' 50 demo_backfill_start)"

theorem backfill_all_or_nothing_witness:
  "\<exists>(q :: email_query_response) (es :: email_get_response). stored_position 30 (db demo_backfill) = wrap64 (int (length (eq_ids q))) \<and>
     message_keys (db demo_backfill) = (\<lambda>e. (30, em_id e)) ` set (eg_list es) \<and> (30, ''M1'') \<in> message_keys (db demo_backfill)"
proof -
  have "checkpoints (db demo_backfill) \<noteq> checkpoints demo_mailbox_db" by code_simp
  then have n: "db demo_backfill \<noteq> demo_mailbox_db" by auto
  have z: "stored_position 30 demo_mailbox_db = 0" "message_keys demo_mailbox_db = {}" by code_simp+
  have m: "(30, ''M1'') \<in> message_keys (db demo_backfill)" by code_simp
  have w: "db demo_backfill_start = demo_mailbox_db" by (simp add: demo_backfill_start_def world_with_def)
  obtain q :: email_query_response and es :: email_get_response
    where "stored_position 30 (db demo_backfill) = wrap64 (stored_position 30 demo_mailbox_db + int (length (eq_ids q)))"
      and "message_keys (db demo_backfill) = (\<lambda>e. (30, em_id e)) ` set (eg_list es) \<union> message_keys demo_mailbox_db"
    using backfill_all_or_nothing [OF prod.collapse [symmetric], of scripted_client 30 "''acc''" 50 demo_backfill_start,
        folded demo_backfill_def, unfolded w] n by blast
  with m show ?thesis by (intro exI [of _ q] exI [of _ es]) (simp only: z add_0 Un_empty_right simp_thms)
qed


section \<open>Mailboxes that are no longer synchronised\<close>

lemma scanned_none: "rs = [] \<or> scan_sync_job (hd rs) = None \<Longrightarrow> scan_sync_jobs rs = []"
  by (cases rs) auto

text \<open>
  One mailbox whose row cannot be scanned, say because nobody claimed its address, stops the
  synchronisation of every mailbox behind it: while it is the idle one that was synchronised longest ago,
  the worker asks the server nothing and changes nothing.
\<close>

theorem unscannable_mailbox_blocks_sync:
  assumes "idle_rows (db w) = r # rs" and "scan_sync_job r = None"
  shows "db (snd (sync_outboxes c w)) = db w \<and> remote (snd (sync_outboxes c w)) = remote w"
proof -
  let ?q = "\<lambda>t d. (Inr (idle_rows d) :: goerr + (mailbox \<times> address \<times> sync_state) list, d)"
  obtain x w1 where s: "stmt ?q w = (x, w1)" by force
  then have d: "db w1 = db w" "remote w1 = remote w" using stmt_db [of ?q w] remote_stmt [of ?q w] by auto
  show ?thesis
  proof (cases x)
    case (Inl e)
    with s d show ?thesis by (simp add: sync_outboxes_def)
  next
    case (Inr y)
    with s have "y = r # rs" using assms(1) by (auto elim!: stmt_sndE)
    then have "scan_sync_jobs y = []" using assms(2) by simp
    with s d Inr show ?thesis by (simp add: sync_outboxes_def)
  qed
qed

definition demo_unclaimed_db :: db where
  "demo_unclaimed_db = demo_mailbox_db\<lparr>
     addresses := [\<lparr>a_id = 13, a_domain = 4, a_local = ''ann'', a_status = Claimed, a_reserved_by = None,
        a_reserved_at = None, a_reserved_until = None, a_claimed_by = None, a_claimed_at = None\<rparr>],
     sync_states := [\<lparr>ss_mailbox = 30, ss_state = Some ''s1'', ss_status = ''idle'', ss_synced_at = None, ss_error = None\<rparr>]\<rparr>"

theorem unscannable_mailbox_blocks_sync_witness:
  "remote (snd (sync_outboxes scripted_client (world_with demo_unclaimed_db [JNull]))) = [JNull]"
proof -
  let ?d = demo_unclaimed_db
  have "idle_rows (db (world_with ?d [JNull])) = [(hd (mailboxes ?d), hd (addresses ?d), hd (sync_states ?d))]"
    and "scan_sync_job (hd (mailboxes ?d), hd (addresses ?d), hd (sync_states ?d)) = None"
    by code_simp+
  from unscannable_mailbox_blocks_sync [OF this, of scripted_client] show ?thesis by (simp add: world_with_def)
qed

end
