(* ===== verification/Delivery.thy ===== *)
theory Delivery
  imports MailStore JmapEncode Management "HOL-Library.List_Lexorder" "HOL-Library.Char_ord"
begin

text \<open>
  What becomes of a sent message (\<^verbatim>\<open>internal/db/delivery_status.go\<close>, \<^verbatim>\<open>internal/mail/delivery_worker.go\<close>,
  \<^verbatim>\<open>bounce.go\<close>): one row per submission and recipient, polled until the server reports an end, and a
  notification in the sender's inbox when a delivery failed for good.
\<close>

section \<open>The table\<close>

fun delivery_text :: "delivery_status \<Rightarrow> string" where
  "delivery_text DsSubmitted = ''submitted''"
| "delivery_text DsQueued = ''queued''"
| "delivery_text DsSending = ''sending''"
| "delivery_text DsDelivered = ''delivered''"
| "delivery_text DsFailed = ''failed''"
| "delivery_text DsBounced = ''bounced''"
| "delivery_text DsTemporary = ''temporary_failure''"
| "delivery_text DsUnknown = ''unknown''"

definition delivery_of :: "string \<Rightarrow> string \<Rightarrow> delivery \<Rightarrow> bool" where
  "delivery_of sub rec r \<longleftrightarrow> dv_submission r = sub \<and> dv_recipient r = rec"

definition set_delivery :: "string \<Rightarrow> string \<Rightarrow> (delivery \<Rightarrow> delivery) \<Rightarrow> db \<Rightarrow> db" where
  "set_delivery sub rec f d = d\<lparr>deliveries := update_where (delivery_of sub rec) f (deliveries d)\<rparr>"

definition insert_delivery :: "string \<Rightarrow> string \<Rightarrow> uuid \<Rightarrow> uuid \<Rightarrow> string \<Rightarrow> string \<Rightarrow> unit query" where
  "insert_delivery mid sub u mb rec subj = (\<lambda>t d.
     if \<exists>r \<in> set (deliveries d). delivery_of sub rec r then (Inr (), d)
     else if \<forall>m \<in> set (mailboxes d). m_id m \<noteq> mb
     then (Inl (foreign_key_violation ''message_delivery_status'' ''message_delivery_status_mailbox_id_fkey''), d)
     else (Inr (), d\<lparr>deliveries := deliveries d @ [\<lparr>dv_message = mid, dv_submission = sub, dv_user = u, dv_mailbox = mb,
        dv_recipient = rec, dv_subject = subj, dv_status = DsSubmitted, dv_error = None, dv_error_type = None,
        dv_reply = None, dv_permanent = False, dv_updated = t, dv_delivered_at = None, dv_failed_at = None,
        dv_retries = 0, dv_next_retry = None, dv_bounced = False, dv_bounced_at = None, dv_bounce_email = None\<rparr>]\<rparr>))"

definition create_delivery_status ::
  "string \<Rightarrow> string \<Rightarrow> uuid \<Rightarrow> uuid \<Rightarrow> string \<Rightarrow> string \<Rightarrow> ('s, unit) act" where
  "create_delivery_status mid sub u mb rec subj = stmt (insert_delivery mid sub u mb rec subj)"

definition polled_status :: "delivery_status \<Rightarrow> bool" where
  "polled_status s \<longleftrightarrow> s \<in> {DsSubmitted, DsQueued, DsSending, DsTemporary, DsUnknown}"

definition due_retry :: "time \<Rightarrow> delivery \<Rightarrow> bool" where
  "due_retry t r \<longleftrightarrow> (case dv_next_retry r of None \<Rightarrow> True | Some x \<Rightarrow> x \<le> t)"

definition select_pending :: "nat \<Rightarrow> delivery list query" where
  "select_pending n = (\<lambda>t d.
     (Inr (take n (sort_key dv_updated (filter (\<lambda>r. polled_status (dv_status r) \<and> due_retry t r) (deliveries d)))), d))"

definition get_pending_delivery_status :: "nat \<Rightarrow> ('s, delivery list) act" where
  "get_pending_delivery_status n = stmt (select_pending n)"

text \<open>What a report of the server says of a delivery.\<close>

record report =
  rp_status :: delivery_status
  rp_error :: string
  rp_type :: string
  rp_reply :: string
  rp_permanent :: bool

definition reported :: "time \<Rightarrow> report \<Rightarrow> delivery \<Rightarrow> delivery" where
  "reported t p r = r\<lparr>dv_status := rp_status p, dv_error := Some (rp_error p), dv_error_type := Some (rp_type p),
     dv_reply := Some (rp_reply p), dv_permanent := rp_permanent p, dv_updated := t,
     dv_delivered_at := (if rp_status p = DsDelivered then Some t else dv_delivered_at r),
     dv_failed_at := (if rp_status p = DsFailed \<or> rp_status p = DsBounced then Some t else dv_failed_at r)\<rparr>"

definition write_report :: "string \<Rightarrow> string \<Rightarrow> report \<Rightarrow> unit query" where
  "write_report sub rec p = (\<lambda>t d. (Inr (), set_delivery sub rec (reported t p) d))"

definition update_delivery_status :: "string \<Rightarrow> string \<Rightarrow> report \<Rightarrow> ('s, unit) act" where
  "update_delivery_status sub rec p = stmt (write_report sub rec p)"

definition report_event :: "string \<Rightarrow> string \<Rightarrow> string \<Rightarrow> report \<Rightarrow> json" where
  "report_event sub rec mid p = JObj [(''message_id'', JStr mid), (''submission_id'', JStr sub),
     (''recipient_email'', JStr rec), (''status'', JStr (delivery_text (rp_status p))),
     (''error_message'', JStr (rp_error p)), (''error_type'', JStr (rp_type p)), (''smtp_reply'', JStr (rp_reply p)),
     (''is_permanent'', JBool (rp_permanent p))]"

definition update_with_outbox :: "string \<Rightarrow> string \<Rightarrow> uuid \<Rightarrow> string \<Rightarrow> report \<Rightarrow> ('s, unit) act" where
  "update_with_outbox sub rec u mid p = transaction (
     seq (stmt (write_report sub rec p)) (\<lambda>_.
     seq (stmt (insert_outbox u ''delivery.status.updated'' (report_event sub rec mid p))) (\<lambda>_.
     ret (Commit ()))))"

record delivery_record =
  dr_recipient :: string
  dr_status :: string
  dr_error :: string
  dr_type :: string
  dr_permanent :: bool
  dr_failed_at :: "time option"

definition text_or_empty :: "string option \<Rightarrow> string" where
  "text_or_empty x = (case x of None \<Rightarrow> '''' | Some s \<Rightarrow> s)"

definition delivery_row :: "delivery \<Rightarrow> delivery_record" where
  "delivery_row r = \<lparr>dr_recipient = dv_recipient r, dr_status = delivery_text (dv_status r),
     dr_error = text_or_empty (dv_error r), dr_type = text_or_empty (dv_error_type r),
     dr_permanent = dv_permanent r, dr_failed_at = dv_failed_at r\<rparr>"

definition delivery_statuses :: "string \<Rightarrow> ('s, delivery_record list) act" where
  "delivery_statuses mid = stmt (\<lambda>t d.
     (Inr (map delivery_row (sort_key dv_recipient (filter (\<lambda>r. dv_message r = mid) (deliveries d)))), d))"

definition claim_bounce :: "string \<Rightarrow> string \<Rightarrow> nat query" where
  "claim_bounce sub rec = (\<lambda>t d.
     let P = (\<lambda>r. delivery_of sub rec r \<and> \<not> dv_bounced r) in
     (Inr (count_where P (deliveries d)),
      d\<lparr>deliveries := update_where P (\<lambda>r. r\<lparr>dv_bounced := True, dv_bounced_at := Some t\<rparr>) (deliveries d)\<rparr>))"

definition try_claim_bounce :: "string \<Rightarrow> string \<Rightarrow> ('s, bool) act" where
  "try_claim_bounce sub rec = seq (stmt (claim_bounce sub rec)) (\<lambda>n. ret (n > 0))"

definition save_bounce_email_id :: "string \<Rightarrow> string \<Rightarrow> string \<Rightarrow> ('s, unit) act" where
  "save_bounce_email_id sub rec i = stmt (\<lambda>t d. (Inr (), set_delivery sub rec (\<lambda>r. r\<lparr>dv_bounce_email := Some i\<rparr>) d))"

text \<open>The row is looked for in the messages of every account; a NULL id is refused by the scan.\<close>

definition scan_null_text :: goerr where
  "scan_null_text = Plain ''can't scan into dest[0]: cannot scan NULL into *string''"

definition rfc_message_id :: "string \<Rightarrow> ('s, string) act" where
  "rfc_message_id sid =
     seq (stmt (\<lambda>t d. (first_or_no_rows (map ms_message_id (filter (\<lambda>m. ms_stalwart m = sid) (messages d))), d))) (\<lambda>i.
     case i of None \<Rightarrow> fail scan_null_text | Some s \<Rightarrow> ret s)"


section \<open>Bounce notifications\<close>

text \<open>The sender of notifications. The rendering of the current time depends on the host's time zone.\<close>

record mailer =
  ml_email :: string
  ml_name :: string
  ml_rfc3339 :: "time \<Rightarrow> string"
  ml_date :: "time \<Rightarrow> string"

record failure_info =
  fi_submission :: string
  fi_recipient :: string
  fi_user :: uuid
  fi_message :: string
  fi_subject :: string
  fi_error :: string
  fi_type :: string
  fi_reply :: string
  fi_sender :: string
  fi_to :: string

definition sender_mailbox_info :: "uuid \<Rightarrow> ('s, uuid \<times> string) act" where
  "sender_mailbox_info u =
     seq (stmt (select_user_mailbox u)) (\<lambda>m.
     case m_stalwart m of None \<Rightarrow> fail scan_null_text | Some i \<Rightarrow> ret (m_id m, i))"

definition nl :: string where "nl = [CHR 0x0A]"

definition bounce_subject :: "string \<Rightarrow> string" where
  "bounce_subject ty =
     (if ty = ''mailbox_not_found'' then ''Address not found'' else if ty = ''mailbox_full'' then ''Mailbox full''
      else if ty = ''message_rejected'' then ''Message rejected'' else ''Delivery Status Notification (Failure)'')"

definition text_reason :: "string \<Rightarrow> string" where
  "text_reason ty =
     (if ty = ''mailbox_not_found'' then ''because the recipient's email address doesn't exist.''
      else if ty = ''mailbox_full'' then ''because the recipient's mailbox is full.''
      else if ty = ''message_rejected'' then ''because the message was rejected by the recipient's server.''
      else if ty = ''mailbox_unavailable'' then ''because the recipient's mailbox is temporarily unavailable.''
      else ''due to a delivery error.'') @ nl"

definition diagnostic :: "failure_info \<Rightarrow> string" where
  "diagnostic i = (if fi_reply i \<noteq> '''' then fi_reply i else fi_error i)"

definition create_text_body :: "failure_info \<Rightarrow> string" where
  "create_text_body i =
     ''Delivery Status Notification (Failure)'' @ nl @ nl @
     ''Your message wasn't delivered to '' @ fi_recipient i @ '' '' @ text_reason (fi_type i) @
     nl @ ''The response was:'' @ nl @ diagnostic i @ nl @ nl @
     ''------------------------------'' @ nl @ nl @ ''Original message'' @ nl @ nl @
     ''From: '' @ fi_sender i @ nl @ ''To: '' @ fi_to i @ nl @
     (if fi_subject i \<noteq> '''' then ''Subject: '' @ fi_subject i @ nl else '''')"

definition bounce_head :: string where
  "bounce_head =
     ''<!DOCTYPE html>'' @ nl @
     ''<html>'' @ nl @
     ''<head>'' @ nl @
     ''<meta charset=\"utf-8\">'' @ nl @
     ''<style>'' @ nl @
     ''body { font-family: -apple-system, BlinkMacSystemFont, 'Segoe UI', Roboto, Helvetica, Arial, sans-serif; line-height: 1.6; color: #1a1a1a; margin: 0; padding: 20px; background-color: transparent; }'' @ nl @
     ''.container { max-width: 600px; margin: 0 auto; }'' @ nl @
     ''.header { margin-bottom: 24px; }'' @ nl @
     ''.header h2 { margin: 0; font-size: 20px; font-weight: 600; color: #dc2626; }'' @ nl @
     ''.content { margin-bottom: 32px; font-size: 15px; color: #374151; }'' @ nl @
     ''.details { background-color: #f9fafb; border-radius: 8px; padding: 16px; margin-top: 24px; font-size: 14px; color: #4b5563; border: 1px solid #e5e7eb; }'' @ nl @
     ''.details code { display: block; margin-top: 12px; padding: 12px; background-color: #f3f4f6; border-radius: 6px; font-family: ui-monospace, monospace; font-size: 13px; color: #1f2937; word-break: break-all; border: 1px solid #e5e7eb; }'' @ nl @
     ''.footer { margin-top: 32px; padding-top: 24px; border-top: 1px solid #e5e7eb; font-size: 13px; color: #6b7280; }'' @ nl @
     ''@media (prefers-color-scheme: dark) {'' @ nl @
     ''  body { color: #e5e7eb; }'' @ nl @
     ''  .header h2 { color: #f87171; }'' @ nl @
     ''  .content { color: #d1d5db; }'' @ nl @
     ''  .details { background-color: transparent; color: #9ca3af; border-color: #374151; }'' @ nl @
     ''  .details code { background-color: transparent; color: #e5e7eb; border-color: #374151; }'' @ nl @
     ''  .footer { border-top-color: #374151; color: #9ca3af; }'' @ nl @
     ''}'' @ nl @
     ''</style>'' @ nl @
     ''</head>'' @ nl @
     ''<body>'' @ nl @
     ''<div class=\"container\">'' @ nl @
     ''<div class=\"header\">'' @ nl @
     ''<h2>Delivery Status Notification (Failure)</h2>'' @ nl @
     ''</div>'' @ nl"

definition html_reason :: "string \<Rightarrow> string" where
  "html_reason ty =
     (if ty = ''mailbox_not_found'' then ''The email address you entered couldn't be found. Please check the recipient's email address for typos or unnecessary spaces and try again.''
      else if ty = ''mailbox_full'' then ''The recipient's mailbox is full and can't accept any more messages at this time.''
      else if ty = ''message_rejected'' then ''Your message was rejected by the recipient's email server.''
      else if ty = ''mailbox_unavailable'' then ''The recipient's mailbox is temporarily unavailable. You may want to try sending your message again later.''
      else ''An unexpected delivery error occurred.'')"

text \<open>The values are put into the page as they are, without escaping.\<close>

definition create_html_body :: "failure_info \<Rightarrow> string \<Rightarrow> string" where
  "create_html_body i date =
     bounce_head @
     ''<div class=\"content\">'' @ nl @
     ''<p>We couldn't deliver your message to <strong>'' @ fi_recipient i @ ''</strong>.</p>'' @ nl @
     ''<p>'' @ html_reason (fi_type i) @ ''</p>'' @ nl @
     ''<div class=\"details\">'' @ nl @
     ''<strong>Diagnostic information for administrators:</strong><br/>'' @ nl @
     ''Attempted delivery to: '' @ fi_recipient i @ ''<br/>'' @ nl @
     ''<code>'' @ diagnostic i @ ''</code>'' @ nl @ ''</div>'' @ nl @
     ''<div class=\"footer\">'' @ nl @
     ''<strong>Original Message Details</strong><br/>'' @ nl @
     ''Date: '' @ date @ ''<br/>'' @ nl @
     ''From: '' @ fi_sender i @ ''<br/>'' @ nl @
     ''To: '' @ fi_to i @ ''<br/>'' @ nl @
     (if fi_subject i \<noteq> '''' then ''Subject: '' @ fi_subject i @ ''<br/>'' @ nl else '''') @
     ''</div>'' @ nl @ ''</div>'' @ nl @ ''</div>'' @ nl @ ''</body>'' @ nl @ ''</html>''"

definition create_bounce_email :: "mailer \<Rightarrow> failure_info \<Rightarrow> string \<Rightarrow> time \<Rightarrow> (string \<times> json) list" where
  "create_bounce_email ml i rfc now =
     [(''from'', JArr [JObj [(''name'', JStr (ml_name ml)), (''email'', JStr (ml_email ml))]]),
      (''to'', JArr [JObj [(''email'', JStr (fi_sender i))]]),
      (''subject'', JStr (bounce_subject (fi_type i))),
      (''sentAt'', JStr (ml_rfc3339 ml now)),
      (''bodyValues'', JObj [(''html'', JObj [(''value'', JStr (create_html_body i (ml_date ml now)))])]),
      (''htmlBody'', JArr [JObj [(''partId'', JStr ''html''), (''type'', JStr ''text/html'')]]),
      (''keywords'', JObj [(''$seen'', JBool False), (''$flagged'', JBool False), (''$answered'', JBool False)])] @
     (if rfc \<noteq> '''' then [(''inReplyTo'', json_strs [rfc]), (''references'', json_strs [rfc])] else [])"

definition create_bounce_in_stalwart :: "'s client \<Rightarrow> string \<Rightarrow> string \<Rightarrow> (string \<times> json) list \<Rightarrow> ('s, string) service" where
  "create_bounce_in_stalwart c acc inbox email =
     seq (email_set c acc
            (Some (JObj [(''bounce0'', JObj (email @ [(''mailboxIds'', JObj [(inbox, JBool True)])]))])) None None) (\<lambda>r.
     case map_of (es_created r) ''bounce0'' of
       Some e \<Rightarrow> ret (em_id e)
     | None \<Rightarrow> fail (Plain ''failed to extract created email ID from response''))"

definition generate_bounce :: "'s client \<Rightarrow> mailer \<Rightarrow> failure_info \<Rightarrow> ('s, unit) act" where
  "generate_bounce c ml i =
     seq (wrap_err ''failed to claim bounce generation'' (try_claim_bounce (fi_submission i) (fi_recipient i))) (\<lambda>claimed.
     if \<not> claimed then ret ()
     else
       seq (wrap_err ''failed to get sender mailbox info'' (sender_mailbox_info (fi_user i))) (\<lambda>(mb, acc).
       seq (wrap_err ''failed to get inbox mailbox ID'' (mapping_by_role mb ''inbox'')) (\<lambda>inbox.
       seq (attempt (rfc_message_id (fi_message i))) (\<lambda>r.
       let rfc = (case r of Inl e \<Rightarrow> '''' | Inr s \<Rightarrow> s) in
       seq time_now (\<lambda>now.
       seq (wrap_err ''failed to create bounce email in Stalwart''
              (remote_call (create_bounce_in_stalwart c acc inbox (create_bounce_email ml i rfc now)))) (\<lambda>eid.
       ignore (save_bounce_email_id (fi_submission i) (fi_recipient i) eid)))))))"


section \<open>Reading a report\<close>

definition has_code :: "string \<Rightarrow> string \<Rightarrow> string \<Rightarrow> bool" where
  "has_code reply a b \<longleftrightarrow> str_contains reply a \<or> str_contains reply b"

definition translate_smtp_reply :: "string \<Rightarrow> string" where
  "translate_smtp_reply s =
     (if s = '''' then ''Delivery failed''
      else if has_code s ''550'' ''5.1.1'' then ''The recipient's email address doesn't exist''
      else if has_code s ''552'' ''5.2.2'' then ''The recipient's mailbox is full''
      else if has_code s ''554'' ''5.7.1'' then ''The message was rejected by the recipient's server''
      else if has_code s ''450'' ''4.2.1'' then ''The recipient's mailbox is temporarily unavailable''
      else if has_code s ''451'' ''4.4.0'' then ''Temporary delivery failure - will retry''
      else ''Delivery failed'')"

definition classify_smtp_error :: "string \<Rightarrow> string" where
  "classify_smtp_error s =
     (if s = '''' then ''unknown''
      else if has_code s ''550'' ''5.1.1'' then ''mailbox_not_found''
      else if has_code s ''552'' ''5.2.2'' then ''mailbox_full''
      else if has_code s ''554'' ''5.7.1'' then ''message_rejected''
      else if has_code s ''450'' ''4.2.1'' then ''mailbox_unavailable''
      else if has_code s ''451'' ''4.4.0'' then ''temporary_failure''
      else ''unknown'')"

definition decimal :: "char \<Rightarrow> bool" where
  "decimal c \<longleftrightarrow> 48 \<le> (of_char c :: nat) \<and> (of_char c :: nat) \<le> 57"

fun is_permanent_error :: "string \<Rightarrow> bool" where
  "is_permanent_error [] = False"
| "is_permanent_error (c # s) = (if decimal c then c = CHR ''5'' else is_permanent_error s)"

definition plain_report :: "delivery_status \<Rightarrow> report" where
  "plain_report s = \<lparr>rp_status = s, rp_error = '''', rp_type = '''', rp_reply = '''', rp_permanent = False\<rparr>"

definition parse_delivery_status :: "submission \<Rightarrow> string \<Rightarrow> report" where
  "parse_delivery_status su rec =
     (case map_of (su_status su) rec of
        None \<Rightarrow> plain_report DsSending
      | Some s \<Rightarrow>
          if rs_delivered s = ''yes'' then plain_report DsDelivered
          else if rs_delivered s = ''no'' then
            (let perm = is_permanent_error (rs_reply s) in
             \<lparr>rp_status = (if perm then DsFailed else DsTemporary), rp_error = translate_smtp_reply (rs_reply s),
              rp_type = classify_smtp_error (rs_reply s), rp_reply = rs_reply s, rp_permanent = perm\<rparr>)
          else if rs_delivered s = ''queued'' then plain_report DsQueued
          else plain_report DsSending)"


section \<open>The worker\<close>

definition retry_delays :: "time list" where
  "retry_delays = [minute, 5 * minute, 15 * minute]"

definition postpone :: "string \<Rightarrow> time \<Rightarrow> unit query" where
  "postpone sub at = (\<lambda>t d. (Inr (), d\<lparr>deliveries := update_where (\<lambda>r. dv_submission r = sub)
     (\<lambda>r. r\<lparr>dv_next_retry := Some at, dv_retries := dv_retries r + 1\<rparr>) (deliveries d)\<rparr>))"

definition schedule_retry :: "string \<Rightarrow> nat \<Rightarrow> ('s, unit) act" where
  "schedule_retry sub n =
     (if n \<ge> length retry_delays then ret ()
      else seq time_now (\<lambda>now. ignore (stmt (postpone sub (now + retry_delays ! n)))))"

text \<open>The subject, and the address of the mailbox: NULL, which the scan refuses, where its rows are gone.\<close>

definition select_bounce_info :: "string \<Rightarrow> string \<Rightarrow> (string \<times> string option) query" where
  "select_bounce_info sub rec = (\<lambda>t d.
     (first_or_no_rows (map (\<lambda>r. (dv_subject r,
        first_row [a_local a @ ''@'' @ d_name x. m \<leftarrow> mailboxes d, m_id m = dv_mailbox r, a \<leftarrow> addresses d, a_id a = m_address m,
                                               x \<leftarrow> domains d, d_id x = a_domain a]))
        (filter (delivery_of sub rec) (deliveries d))), d))"

definition generate_bounce_notification ::
  "'s client \<Rightarrow> mailer \<Rightarrow> string \<Rightarrow> string \<Rightarrow> uuid \<Rightarrow> string \<Rightarrow> report \<Rightarrow> ('s, unit) act" where
  "generate_bounce_notification c ml sub rec u mid p =
     ignore (seq (stmt (select_bounce_info sub rec)) (\<lambda>(subj, sender).
       case sender of
         None \<Rightarrow> fail scan_null_text
       | Some s \<Rightarrow> generate_bounce c ml \<lparr>fi_submission = sub, fi_recipient = rec, fi_user = u, fi_message = mid,
                    fi_subject = subj, fi_error = rp_error p, fi_type = rp_type p, fi_reply = rp_reply p,
                    fi_sender = s, fi_to = rec\<rparr>))"

text \<open>One pending delivery against the server's submissions; where two have one id, the last counts.\<close>

definition process_delivery :: "'s client \<Rightarrow> mailer \<Rightarrow> submission list \<Rightarrow> delivery \<Rightarrow> ('s, unit) act" where
  "process_delivery c ml sus r =
     (case find (\<lambda>su. su_id su = dv_submission r) (rev sus) of
        None \<Rightarrow> ret ()
      | Some su \<Rightarrow>
          let sub = dv_submission r; rec = dv_recipient r; p = parse_delivery_status su rec in
          seq (if rp_status p \<noteq> dv_status r then
                 seq (ignore (update_with_outbox sub rec (dv_user r) (dv_message r) p)) (\<lambda>_.
                 if rp_status p = DsFailed \<and> rp_permanent p
                 then generate_bounce_notification c ml sub rec (dv_user r) (dv_message r) p else ret ())
               else ret ()) (\<lambda>_.
          if rp_status p = DsTemporary \<and> dv_retries r < 3 then schedule_retry sub (dv_retries r) else ret ()))"

definition process_account_submissions :: "'s client \<Rightarrow> mailer \<Rightarrow> string \<times> delivery list \<Rightarrow> ('s, unit) act" where
  "process_account_submissions c ml = (\<lambda>(acc, rs).
     ignore (seq (remote_call (submission_get c acc (map dv_submission rs))) (\<lambda>g.
       for_each (process_delivery c ml (ug_list g)) rs)))"

definition select_stalwart_account :: "uuid \<Rightarrow> string query" where
  "select_stalwart_account mb = (\<lambda>t d.
     (case first_row (map m_stalwart (filter (\<lambda>m. m_id m = mb) (mailboxes d))) of
        None \<Rightarrow> Inl (Sentinel ErrNoRows) | Some None \<Rightarrow> Inl scan_null_text | Some (Some i) \<Rightarrow> Inr i, d))"

text \<open>The deliveries of each account; a delivery whose account cannot be read is passed over.\<close>

fun add_to_group :: "string \<Rightarrow> 'a \<Rightarrow> (string \<times> 'a list) list \<Rightarrow> (string \<times> 'a list) list" where
  "add_to_group k x [] = [(k, [x])]"
| "add_to_group k x ((k', xs) # gs) = (if k' = k then (k', xs @ [x]) # gs else (k', xs) # add_to_group k x gs)"

fun group_by_account :: "(string \<times> delivery list) list \<Rightarrow> delivery list \<Rightarrow> ('s, (string \<times> delivery list) list) act" where
  "group_by_account gs [] = ret gs"
| "group_by_account gs (r # rs) =
     seq (attempt (stmt (select_stalwart_account (dv_mailbox r)))) (\<lambda>a.
     group_by_account (case a of Inl e \<Rightarrow> gs | Inr i \<Rightarrow> add_to_group i r gs) rs)"

definition delivery_batch_size :: nat where "delivery_batch_size = 50"

text \<open>One tick of the worker. The accounts are visited in an arbitrary order; here, in that of their first delivery.\<close>

definition process_pending_deliveries :: "'s client \<Rightarrow> mailer \<Rightarrow> ('s, unit) act" where
  "process_pending_deliveries c ml =
     ignore (seq (get_pending_delivery_status delivery_batch_size) (\<lambda>rs.
       seq (group_by_account [] rs) (\<lambda>gs. for_each (process_account_submissions c ml) gs)))"



section \<open>A status changes together with its event\<close>

definition report_announced :: "string \<Rightarrow> string \<Rightarrow> uuid \<Rightarrow> string \<Rightarrow> report \<Rightarrow> db \<Rightarrow> db \<Rightarrow> bool" where
  "report_announced sub rec u mid p d d' \<longleftrightarrow>
     (\<exists>t. deliveries d' = update_where (delivery_of sub rec) (reported t p) (deliveries d)) \<and>
     (\<exists>e. outbox d' = outbox d @ [e] \<and> ob_user e = Some u \<and> ob_type e = ''delivery.status.updated'' \<and>
        ob_payload e = report_event sub rec mid p \<and> ob_status e = ''pending'')"

text \<open>
  C36. A reported status and the event that announces it are written together or not at all, wherever the
  transaction fails; it reports success only where it has written both.
\<close>

theorem status_announced:
  fixes w :: "'s world"
  assumes "update_with_outbox sub rec u mid p w = (r, w')"
  shows "(db w' = db w \<and> (\<exists>e. r = Inl e)) \<or> report_announced sub rec u mid p (db w) (db w')"
proof -
  let ?b = "seq (stmt (write_report sub rec p)) (\<lambda>_.
     seq (stmt (insert_outbox u ''delivery.status.updated'' (report_event sub rec mid p))) (\<lambda>_. ret (Commit ())))"
  from assms have t: "transaction ?b w = (r, w')" by (simp only: update_with_outbox_def)
  have body: "report_announced sub rec u mid p (db v) (db v') \<and> a = Commit ()" if "?b v = (Inr a, v')" for v v' :: "'s world" and a
  proof -
    from that obtain x y v1 where s1: "stmt (write_report sub rec p) v = (Inr x, v1)"
      and s2: "stmt (insert_outbox u ''delivery.status.updated'' (report_event sub rec mid p)) v1 = (Inr y, v')"
      and a: "a = Commit ()"
      by (auto elim!: seq_InrE)
    from s1 obtain t where d1: "db v1 = snd (write_report sub rec p t (db v))" by (rule stmt_sndE)
    from s2 obtain t' where d2: "db v' = snd (insert_outbox u ''delivery.status.updated'' (report_event sub rec mid p) t' (db v1))"
      by (rule stmt_sndE)
    from d1 d2 a show ?thesis
      by (auto simp: report_announced_def write_report_def set_delivery_def insert_outbox_def)
  qed
  from t show ?thesis
  proof (cases rule: transaction_outcome)
    case unchanged
    show ?thesis
    proof (cases r)
      case (Inl e)
      with unchanged show ?thesis by blast
    next
      case (Inr a)
      have "?b v \<noteq> (Inr (Abandon b), v')" for v v' :: "'s world" and b using body [of v "Abandon b" v'] by blast
      with t [unfolded Inr] obtain v v' :: "'s world" where "db v = db w" "?b v = (Inr (Commit a), v')" "db w' = db v'"
        by (rule transaction_committedE)
      with body [of v "Commit a" v'] show ?thesis by metis
    qed
  next
    case (committed v a v')
    with body [of v "Commit a" v'] show ?thesis by metis
  qed
qed


section \<open>One notification for each failed delivery\<close>

datatype delivery_call =
    DCreate string string uuid uuid string string
  | DReport string string report
  | DAnnounce string string uuid string report
  | DClaim string string
  | DSaveId string string string
  | DPostpone string time

fun delivery_op :: "delivery_call \<Rightarrow> ('s, bool) act" where
  "delivery_op (DCreate mid sub u mb rec subj) = seq (create_delivery_status mid sub u mb rec subj) (\<lambda>_. ret False)"
| "delivery_op (DReport sub rec p) = seq (update_delivery_status sub rec p) (\<lambda>_. ret False)"
| "delivery_op (DAnnounce sub rec u mid p) = seq (update_with_outbox sub rec u mid p) (\<lambda>_. ret False)"
| "delivery_op (DClaim sub rec) = try_claim_bounce sub rec"
| "delivery_op (DSaveId sub rec i) = seq (save_bounce_email_id sub rec i) (\<lambda>_. ret False)"
| "delivery_op (DPostpone sub at) = seq (stmt (postpone sub at)) (\<lambda>_. ret False)"

definition bounce_claimed :: "string \<Rightarrow> string \<Rightarrow> db \<Rightarrow> bool" where
  "bounce_claimed sub rec d \<longleftrightarrow>
     (\<exists>r \<in> set (deliveries d). delivery_of sub rec r) \<and> (\<forall>r \<in> set (deliveries d). delivery_of sub rec r \<longrightarrow> dv_bounced r)"

lemma bounce_claimed_update:
  "(\<And>r. delivery_of sub rec (f r) = delivery_of sub rec r) \<Longrightarrow> (\<And>r. dv_bounced r \<Longrightarrow> dv_bounced (f r)) \<Longrightarrow>
   bounce_claimed sub rec d \<Longrightarrow> bounce_claimed sub rec (d\<lparr>deliveries := update_where P f (deliveries d)\<rparr>)"
  by (auto simp: bounce_claimed_def set_update_where) blast

lemma bounce_claimed_queries:
  "query_preserves (bounce_claimed sub rec) (insert_delivery mid' sub' u' mb' rec' subj')"
  "query_preserves (bounce_claimed sub rec) (write_report sub' rec' p')"
  "query_preserves (bounce_claimed sub rec) (insert_outbox u' ty' e')"
  "query_preserves (bounce_claimed sub rec) (claim_bounce sub' rec')"
  "query_preserves (bounce_claimed sub rec) (\<lambda>t d. (Inr (), set_delivery sub' rec' (\<lambda>r. r\<lparr>dv_bounce_email := Some i'\<rparr>) d))"
  "query_preserves (bounce_claimed sub rec) (postpone sub' at')"
proof -
  show "query_preserves (bounce_claimed sub rec) (insert_delivery mid' sub' u' mb' rec' subj')"
    by (auto simp: query_preserves_def insert_delivery_def bounce_claimed_def delivery_of_def)
  show "query_preserves (bounce_claimed sub rec) (insert_outbox u' ty' e')"
    by (simp add: query_preserves_def insert_outbox_def bounce_claimed_def)
qed (auto simp: query_preserves_def write_report_def claim_bounce_def postpone_def set_delivery_def Let_def delivery_of_def
    reported_def intro!: bounce_claimed_update)

lemma delivery_op_keeps: "preserves (bounce_claimed sub rec) (delivery_op c)"
  by (cases c) (auto simp: create_delivery_status_def update_delivery_status_def update_with_outbox_def try_claim_bounce_def
      save_bounce_email_id_def intro!: pres_intro bounce_claimed_queries)

lemma claim_bounce_InrE:
  assumes "try_claim_bounce sub rec w = (Inr True, w')"
  shows "\<not> bounce_claimed sub rec (db w) \<and> bounce_claimed sub rec (db w')"
proof -
  from assms obtain n where s: "stmt (claim_bounce sub rec) w = (Inr n, w')" and n: "n > 0"
    by (auto simp: try_claim_bounce_def elim!: seq_InrE)
  from s obtain t where q: "fst (claim_bounce sub rec t (db w)) = Inr n" "db w' = snd (claim_bounce sub rec t (db w))"
    by (rule stmt_sndE)
  with n have "count_where (\<lambda>r. delivery_of sub rec r \<and> \<not> dv_bounced r) (deliveries (db w)) \<noteq> 0"
    by (auto simp: claim_bounce_def Let_def)
  then obtain r where r: "r \<in> set (deliveries (db w))" "delivery_of sub rec r" "\<not> dv_bounced r"
    by (auto simp: count_where_0_iff)
  let ?r = "r\<lparr>dv_bounced := True, dv_bounced_at := Some t\<rparr>"
  from q(2) r have "?r \<in> set (deliveries (db w'))" by (auto simp: claim_bounce_def Let_def set_update_where image_iff)
  moreover have "delivery_of sub rec ?r" using r(2) by (simp add: delivery_of_def)
  moreover have "\<forall>x \<in> set (deliveries (db w')). delivery_of sub rec x \<longrightarrow> dv_bounced x"
    using q(2) by (auto simp: claim_bounce_def Let_def set_update_where)
  ultimately show ?thesis using r by (auto simp: bounce_claimed_def)
qed

interpretation bounce: exclusive_grant "delivery_op :: delivery_call \<Rightarrow> ('s, bool) act"
  "\<lambda>c claimed. c = DClaim sub rec \<and> claimed" "\<lambda>_. False" "bounce_claimed sub rec" "\<lambda>_. True"
  for sub rec
proof
  fix c a and w w' :: "'s world"
  assume "delivery_op c w = (Inr a, w')" and "c = DClaim sub rec \<and> a"
  then have "try_claim_bounce sub rec w = (Inr True, w')" by simp
  from claim_bounce_InrE [OF this] show "bounce_claimed sub rec (db w')" and "\<not> bounce_claimed sub rec (db w)" by simp_all
qed (rule delivery_op_keeps)

definition demo_delivery_db :: db where
  "demo_delivery_db = demo_db\<lparr>mailboxes := [\<lparr>m_id = 30, m_address = 13, m_stalwart = Some ''acc'', m_status = MbActive,
     m_jmap_state = None, m_checkpoint = None, m_synced_at = None\<rparr>]\<rparr>"

definition demo_sent :: "unit world" where
  "demo_sent = snd (create_delivery_status ''M1'' ''S1'' 10 30 ''bob@x'' ''lunch'' (world_of demo_delivery_db))"

definition demo_failure :: report where
  "demo_failure = parse_delivery_status
     \<lparr>su_id = ''S1'', su_identity = ''I'', su_email = ''M1'', su_thread = '''', su_send_at = None, su_undo = '''',
      su_status = [(''bob@x'', \<lparr>rs_reply = ''550 5.1.1 no such user'', rs_delivered = ''no'', rs_displayed = ''''\<rparr>)]\<rparr> ''bob@x''"

theorem status_announced_witness:
  "\<exists>w'. update_with_outbox ''S1'' ''bob@x'' 10 ''M1'' demo_failure demo_sent = (Inr (), w') \<and>
     report_announced ''S1'' ''bob@x'' 10 ''M1'' demo_failure (db demo_sent) (db w')"
proof -
  have "succeeds (update_with_outbox ''S1'' ''bob@x'' 10 ''M1'' demo_failure demo_sent)" by code_simp
  then obtain w' :: "unit world" where w: "update_with_outbox ''S1'' ''bob@x'' 10 ''M1'' demo_failure demo_sent = (Inr (), w')"
    by (rule succeedsE) simp
  from status_announced [OF w] w show ?thesis by blast
qed

text \<open>
  The notification of a failed delivery is claimed at most once, in any interleaving of the calls on the
  table, reports and retries included: after one worker was told to generate it, no one is told again.
\<close>

theorem bounce_claimed_once:
  assumes "run delivery_op w ((DClaim sub rec, Inr True) # es) w'"
  shows "(DClaim sub rec, Inr True) \<notin> set es"
proof
  assume "(DClaim sub rec, Inr True) \<in> set es"
  then obtain xs ys where "es = xs @ [(DClaim sub rec, Inr True)] @ ys" by (auto dest: split_list)
  with assms obtain v where "run delivery_op w ((DClaim sub rec, Inr True) # xs @ [(DClaim sub rec, Inr True)]) v"
    by (auto simp: run_Cons run_append)
  from bounce.exclusive [OF this] show False by blast
qed


definition demo_delivery_calls :: "delivery_call list" where
  "demo_delivery_calls = [DClaim ''S1'' ''bob@x'', DReport ''S1'' ''bob@x'' demo_failure, DClaim ''S1'' ''bob@x'']"

theorem bounce_claimed_once_witness:
  "\<exists>es w'. run delivery_op demo_sent ((DClaim ''S1'' ''bob@x'', Inr True) # es) w' \<and>
     map fst es = [DReport ''S1'' ''bob@x'' demo_failure, DClaim ''S1'' ''bob@x''] \<and>
     (DClaim ''S1'' ''bob@x'', Inr True) \<notin> set es"
proof -
  let ?r = "run_list delivery_op demo_sent demo_delivery_calls"
  have h: "fst ?r = (DClaim ''S1'' ''bob@x'', Inr True) # tl (fst ?r)" by code_simp
  have m: "map fst (tl (fst ?r)) = [DReport ''S1'' ''bob@x'' demo_failure, DClaim ''S1'' ''bob@x'']" by code_simp
  have r: "run delivery_op demo_sent ((DClaim ''S1'' ''bob@x'', Inr True) # tl (fst ?r)) (snd ?r)"
    using run_list_run [of delivery_op demo_sent demo_delivery_calls] by (simp only: h [symmetric])
  show ?thesis by (intro exI conjI, rule r, rule m, rule bounce_claimed_once [OF r])
qed

end
