(* ===== verification/Realtime.thy ===== *)
theory Realtime
  imports MailStore "HOL-Library.Sublist"
begin

text \<open>
  How an event reaches a browser: the outbox (\<^verbatim>\<open>internal/mail/outbox.go\<close>) publishes the rows that handlers and
  workers wrote on a PostgreSQL channel, the broker of every replica (\<^verbatim>\<open>internal/realtime/broker.go\<close>) copies
  what it hears to the buffers of the user's connections, and each connection's pump
  (\<^verbatim>\<open>internal/realtime/websocket.go\<close>) writes its buffer out.
\<close>

record rt_event =
  ev_user :: uuid
  ev_type :: string
  ev_payload :: json


section \<open>The outbox\<close>

definition next_pending :: "nat \<Rightarrow> outbox_event list \<Rightarrow> outbox_event list" where
  "next_pending n rows = take n (sort_key ob_created (filter (\<lambda>e. ob_status e = ''pending'') rows))"

definition take_pending :: "nat \<Rightarrow> outbox_event list query" where
  "take_pending n = (\<lambda>t d.
     let rows = next_pending n (outbox d) in
     (Inr rows, d\<lparr>outbox := update_where (\<lambda>e. ob_id e \<in> ob_id ` set rows) (ob_status_update (\<lambda>_. ''processing'')) (outbox d)\<rparr>))"

text \<open>A row without a user cannot be scanned, and ends the batch with an error.\<close>

fun scan_events :: "outbox_event list \<Rightarrow> goerr + (uuid \<times> rt_event) list" where
  "scan_events [] = Inr []"
| "scan_events (e # es) =
     (case ob_user e of
        None \<Rightarrow> Inl (Plain ''can't scan into dest[1]: cannot scan NULL into *string'')
      | Some u \<Rightarrow> (case scan_events es of Inl x \<Rightarrow> Inl x
          | Inr rs \<Rightarrow> Inr ((ob_id e, \<lparr>ev_user = u, ev_type = ob_type e, ev_payload = ob_payload e\<rparr>) # rs)))"

text \<open>
  \<^verbatim>\<open>pg_notify\<close> on the channel \<^verbatim>\<open>ws_events\<close>, whose notifications are the remote state. The server refuses a payload of
  8000 bytes or more; \<open>bytes\<close> is the length of the event's JSON text.
\<close>

definition publish :: "(rt_event \<Rightarrow> nat) \<Rightarrow> rt_event \<Rightarrow> (rt_event list, unit) act" where
  "publish bytes ev = round_trip (\<lambda>w.
     if bytes ev \<ge> 8000 then (Inl (pg_error ''payload string too long'' ''22023''), w)
     else (Inr (), w\<lparr>remote := remote w @ [ev]\<rparr>))"

definition mark_published :: "uuid \<Rightarrow> ('s, unit) act" where
  "mark_published i = ignore (stmt (\<lambda>t d.
     (Inr (), d\<lparr>outbox := set_by ob_id i (\<lambda>e. e\<lparr>ob_status := ''published'', ob_published := Some t\<rparr>) (outbox d)\<rparr>)))"

definition mark_failed :: "uuid \<Rightarrow> string \<Rightarrow> ('s, unit) act" where
  "mark_failed i msg = ignore (stmt (\<lambda>t d.
     (Inr (), d\<lparr>outbox := set_by ob_id i (\<lambda>e. e\<lparr>ob_status := ''failed'', ob_error := Some msg\<rparr>) (outbox d)\<rparr>)))"

definition publish_row :: "(rt_event \<Rightarrow> nat) \<Rightarrow> uuid \<times> rt_event \<Rightarrow> (rt_event list, unit) act" where
  "publish_row bytes = (\<lambda>(i, ev).
     seq (attempt (publish bytes ev)) (\<lambda>r. case r of Inl e \<Rightarrow> mark_failed i (err_text e) | Inr u \<Rightarrow> mark_published i))"

definition outbox_batch_size :: nat where "outbox_batch_size = 100"

definition process_batch :: "(rt_event \<Rightarrow> nat) \<Rightarrow> (rt_event list, unit) act" where
  "process_batch bytes =
     seq (stmt (take_pending outbox_batch_size)) (\<lambda>rows.
     seq (lift (scan_events rows)) (\<lambda>evs. for_each (publish_row bytes) evs))"


section \<open>The broker\<close>

text \<open>A connection's channel has a buffer of 256 events. \<open>wc_written\<close> is what the pump has written to the browser.\<close>

record ws_client =
  wc_user :: uuid
  wc_buffer :: "rt_event list"
  wc_open :: bool
  wc_written :: "rt_event list"

definition buffer_size :: nat where "buffer_size = 256"

definition new_client :: "uuid \<Rightarrow> ws_client" where
  "new_client u = \<lparr>wc_user = u, wc_buffer = [], wc_open = True, wc_written = []\<rparr>"

text \<open>The map from users to the sets of their clients, and the clients themselves.\<close>

record broker =
  br_sets :: "uuid \<rightharpoonup> nat list"
  br_conns :: "nat \<rightharpoonup> ws_client"

definition new_broker :: broker where
  "new_broker = \<lparr>br_sets = Map.empty, br_conns = Map.empty\<rparr>"

definition clients_of :: "uuid \<Rightarrow> broker \<Rightarrow> nat list" where
  "clients_of u b = (case br_sets b u of None \<Rightarrow> [] | Some cs \<Rightarrow> cs)"

definition register :: "nat \<Rightarrow> ws_client \<Rightarrow> broker \<Rightarrow> broker" where
  "register c k b = b\<lparr>br_sets := (br_sets b)(wc_user k \<mapsto> List.insert c (clients_of (wc_user k) b)),
     br_conns := (br_conns b)(c \<mapsto> k)\<rparr>"

definition unregister :: "nat \<Rightarrow> ws_client \<Rightarrow> broker \<Rightarrow> broker" where
  "unregister c k b =
     (case br_sets b (wc_user k) of
        None \<Rightarrow> b
      | Some cs \<Rightarrow>
          (let cs' = removeAll c cs in
           b\<lparr>br_sets := (br_sets b)(wc_user k := (if cs' = [] then None else Some cs'))\<rparr>))"

text \<open>Sending on a closed channel, and closing it again, is a panic: \<open>None\<close>.\<close>

definition send_event :: "rt_event \<Rightarrow> nat \<Rightarrow> broker \<Rightarrow> broker option" where
  "send_event ev c b =
     (case br_conns b c of
        None \<Rightarrow> None
      | Some k \<Rightarrow>
          if \<not> wc_open k then None
          else if length (wc_buffer k) < buffer_size
          then Some (b\<lparr>br_conns := (br_conns b)(c \<mapsto> k\<lparr>wc_buffer := wc_buffer k @ [ev]\<rparr>)\<rparr>)
          else Some (b\<lparr>br_conns := (br_conns b)(c \<mapsto> k\<lparr>wc_open := False\<rparr>),
                 br_sets := (br_sets b)(ev_user ev \<mapsto> removeAll c (clients_of (ev_user ev) b))\<rparr>))"

fun send_all :: "rt_event \<Rightarrow> nat list \<Rightarrow> broker \<Rightarrow> broker option" where
  "send_all ev [] b = Some b"
| "send_all ev (c # cs) b = Option.bind (send_event ev c b) (send_all ev cs)"

definition broadcast :: "rt_event \<Rightarrow> broker \<Rightarrow> broker option" where
  "broadcast ev b = send_all ev (clients_of (ev_user ev) b) b"

text \<open>The pump of a connection takes the next event from its channel and writes it.\<close>

definition pumped :: "ws_client \<Rightarrow> ws_client" where
  "pumped k = (case wc_buffer k of [] \<Rightarrow> k | ev # r \<Rightarrow> k\<lparr>wc_buffer := r, wc_written := wc_written k @ [ev]\<rparr>)"

definition pump :: "nat \<Rightarrow> broker \<Rightarrow> broker" where
  "pump c b = b\<lparr>br_conns := (br_conns b)(c := map_option pumped (br_conns b c))\<rparr>"

text \<open>The handler of a connection: its ticket is validated before anything is registered.\<close>

datatype ws_answer = WsRefused int string | WsFailed | WsServed uuid

definition ws_handler :: "(string \<Rightarrow> ('s, uuid) act) \<Rightarrow> ('s, unit) service \<Rightarrow> string \<Rightarrow> ('s, ws_answer) act" where
  "ws_handler validate accept ticket =
     (if ticket = '''' then ret (WsRefused 401 ''ticket required'')
      else
        seq (attempt (validate ticket)) (\<lambda>r.
        case r of
          Inl e \<Rightarrow> ret (WsRefused 401 ''invalid ticket'')
        | Inr u \<Rightarrow>
            seq (attempt (remote_call accept)) (\<lambda>a.
            ret (case a of Inl e \<Rightarrow> WsFailed | Inr x \<Rightarrow> WsServed u))))"

datatype broker_call =
    BRegister nat uuid
  | BUnregister nat
  | BBroadcast rt_event
  | BPump nat

text \<open>
  The steps of the broker, interleaved in any order: a client is registered once, when its connection is
  made; the lock makes each step atomic.
\<close>

inductive broker_run :: "broker_call list \<Rightarrow> broker \<Rightarrow> bool" where
  start: "broker_run [] new_broker"
| reg: "broker_run es b \<Longrightarrow> br_conns b c = None \<Longrightarrow> broker_run (es @ [BRegister c u]) (register c (new_client u) b)"
| unreg: "broker_run es b \<Longrightarrow> br_conns b c = Some k \<Longrightarrow> broker_run (es @ [BUnregister c]) (unregister c k b)"
| cast: "broker_run es b \<Longrightarrow> broadcast ev b = Some b' \<Longrightarrow> broker_run (es @ [BBroadcast ev]) b'"
| pump: "broker_run es b \<Longrightarrow> broker_run (es @ [BPump c]) (pump c b)"



section \<open>The broker never panics, and keeps the order\<close>

definition full :: "ws_client \<Rightarrow> bool" where
  "full k \<longleftrightarrow> buffer_size \<le> length (wc_buffer k)"

definition sent :: "rt_event \<Rightarrow> ws_client \<Rightarrow> ws_client" where
  "sent ev k = (if full k then k\<lparr>wc_open := False\<rparr> else k\<lparr>wc_buffer := wc_buffer k @ [ev]\<rparr>)"

lemma sent_simps [simp]: "wc_user (sent ev k) = wc_user k" "wc_written (sent ev k) = wc_written k"
  by (simp_all add: sent_def)

lemma sent_length: "length (wc_buffer k) \<le> buffer_size \<Longrightarrow> length (wc_buffer (sent ev k)) \<le> buffer_size"
  by (simp add: sent_def full_def)

lemma pumped_simps [simp]:
  "wc_user (pumped k) = wc_user k" "wc_open (pumped k) = wc_open k"
  "wc_written (pumped k) @ wc_buffer (pumped k) = wc_written k @ wc_buffer k" "length (wc_buffer (pumped k)) \<le> length (wc_buffer k)"
  by (simp_all add: pumped_def split: list.splits)

definition slow :: "broker \<Rightarrow> nat \<Rightarrow> bool" where
  "slow b c \<longleftrightarrow> (\<exists>k. br_conns b c = Some k \<and> full k)"

lemma send_event_spec:
  assumes "br_conns b c = Some k" and "wc_open k"
  shows "\<exists>b'. send_event ev c b = Some b' \<and> br_conns b' = (br_conns b)(c \<mapsto> sent ev k) \<and>
    (\<forall>u. clients_of u b' = (if u = ev_user ev \<and> full k then removeAll c (clients_of u b) else clients_of u b))"
  using assms by (auto simp: send_event_def sent_def full_def clients_of_def)

lemma send_all_spec:
  assumes "distinct cs" and "\<And>c. c \<in> set cs \<Longrightarrow> \<exists>k. br_conns b c = Some k \<and> wc_open k"
  shows "\<exists>b'. send_all ev cs b = Some b' \<and>
    (\<forall>c. br_conns b' c = (if c \<in> set cs then map_option (sent ev) (br_conns b c) else br_conns b c)) \<and>
    (\<forall>u. clients_of u b' = filter (\<lambda>c. \<not> (u = ev_user ev \<and> c \<in> set cs \<and> slow b c)) (clients_of u b))"
  using assms
proof (induction cs arbitrary: b)
  case (Cons c cs)
  from Cons.prems(2) [of c] obtain k where k: "br_conns b c = Some k" "wc_open k" by auto
  from send_event_spec [OF k, of ev] obtain b1 where b1: "send_event ev c b = Some b1"
    and conns: "br_conns b1 = (br_conns b)(c \<mapsto> sent ev k)"
    and sets: "\<And>u. clients_of u b1 = (if u = ev_user ev \<and> full k then removeAll c (clients_of u b) else clients_of u b)"
    by auto
  have "\<exists>k. br_conns b1 x = Some k \<and> wc_open k" if "x \<in> set cs" for x
    using that Cons.prems by (auto simp: conns)
  from Cons.IH [OF _ this] Cons.prems(1) obtain b' where b': "send_all ev cs b1 = Some b'"
    and conns': "\<And>x. br_conns b' x = (if x \<in> set cs then map_option (sent ev) (br_conns b1 x) else br_conns b1 x)"
    and sets': "\<And>u. clients_of u b' = filter (\<lambda>x. \<not> (u = ev_user ev \<and> x \<in> set cs \<and> slow b1 x)) (clients_of u b1)"
    by auto
  have "br_conns b' x = (if x \<in> set (c # cs) then map_option (sent ev) (br_conns b x) else br_conns b x)" for x
    using Cons.prems(1) k(1) by (auto simp: conns' conns)
  moreover have "clients_of u b' = filter (\<lambda>x. \<not> (u = ev_user ev \<and> x \<in> set (c # cs) \<and> slow b x)) (clients_of u b)" for u
  proof -
    have s: "x \<in> set cs \<and> slow b1 x \<longleftrightarrow> x \<in> set cs \<and> slow b x" for x
      using Cons.prems(1) by (auto simp: slow_def conns)
    have "slow b c = full k" using k(1) by (simp add: slow_def)
    then show ?thesis by (auto simp: sets' sets s removeAll_filter_not_eq intro!: filter_cong)
  qed
  ultimately show ?case using b1 b' by auto
qed auto

definition broker_ok :: "broker \<Rightarrow> bool" where
  "broker_ok b \<longleftrightarrow>
     (\<forall>u. distinct (clients_of u b) \<and>
        (\<forall>c \<in> set (clients_of u b). \<exists>k. br_conns b c = Some k \<and> wc_user k = u \<and> wc_open k)) \<and>
     (\<forall>c k. br_conns b c = Some k \<longrightarrow> length (wc_buffer k) \<le> buffer_size)"

lemma broker_okD:
  assumes "broker_ok b"
  shows "distinct (clients_of u b)"
    and "c \<in> set (clients_of u b) \<Longrightarrow> \<exists>k. br_conns b c = Some k \<and> wc_user k = u \<and> wc_open k"
    and "br_conns b c = Some k \<Longrightarrow> length (wc_buffer k) \<le> buffer_size"
  using assms unfolding broker_ok_def by blast+

lemma broadcast_spec:
  assumes "broker_ok b"
  shows "\<exists>b'. broadcast ev b = Some b' \<and>
    (\<forall>c. br_conns b' c = (if c \<in> set (clients_of (ev_user ev) b) then map_option (sent ev) (br_conns b c) else br_conns b c)) \<and>
    (\<forall>u. clients_of u b' = filter (\<lambda>c. \<not> (u = ev_user ev \<and> slow b c)) (clients_of u b))"
proof -
  have "distinct (clients_of (ev_user ev) b)"
    and "\<And>c. c \<in> set (clients_of (ev_user ev) b) \<Longrightarrow> \<exists>k. br_conns b c = Some k \<and> wc_open k"
    using broker_okD(1,2) [OF assms] by blast+
  from send_all_spec [OF this, of ev] show ?thesis
    by (auto simp: broadcast_def intro!: filter_cong)
qed

lemma broker_ok_broadcast: "broker_ok b \<Longrightarrow> broadcast ev b = Some b' \<Longrightarrow> broker_ok b'"
proof -
  assume ok: "broker_ok b" and "broadcast ev b = Some b'"
  with broadcast_spec [OF ok, of ev]
  have conns: "\<And>c. br_conns b' c = (if c \<in> set (clients_of (ev_user ev) b) then map_option (sent ev) (br_conns b c) else br_conns b c)"
    and sets: "\<And>u. clients_of u b' = filter (\<lambda>c. \<not> (u = ev_user ev \<and> slow b c)) (clients_of u b)"
    by auto
  have "\<exists>k. br_conns b' c = Some k \<and> wc_user k = u \<and> wc_open k" if "c \<in> set (clients_of u b')" for u c
  proof -
    from that have "c \<in> set (clients_of u b)" and s: "\<not> (u = ev_user ev \<and> slow b c)" by (auto simp: sets)
    with broker_okD(2) [OF ok] obtain k where k: "br_conns b c = Some k" "wc_user k = u" "wc_open k" by blast
    have "u = ev_user ev" if "c \<in> set (clients_of (ev_user ev) b)"
      using broker_okD(2) [OF ok that] k by auto
    with s k show ?thesis by (auto simp: conns slow_def sent_def)
  qed
  moreover have "length (wc_buffer k) \<le> buffer_size" if "br_conns b' c = Some k" for c k
    using that broker_okD(3) [OF ok] by (auto simp: conns intro: sent_length split: if_splits)
  ultimately show "broker_ok b'" using ok by (auto simp: broker_ok_def sets)
qed

lemma clients_of_simps [simp]:
  "clients_of u new_broker = []"
  "clients_of u (register c k b) = (if u = wc_user k then List.insert c (clients_of u b) else clients_of u b)"
  "clients_of u (unregister c k b) = (if u = wc_user k then removeAll c (clients_of u b) else clients_of u b)"
  "clients_of u (pump c b) = clients_of u b"
  by (auto simp: clients_of_def new_broker_def register_def unregister_def pump_def Let_def split: option.splits list.splits)

lemma br_conns_simps [simp]:
  "br_conns new_broker = Map.empty" "br_conns (register c k b) = (br_conns b)(c \<mapsto> k)"
  "br_conns (unregister c k b) = br_conns b" "br_conns (pump c b) = (br_conns b)(c := map_option pumped (br_conns b c))"
  by (auto simp: new_broker_def register_def unregister_def pump_def Let_def split: option.splits)

lemma broker_run_ok: "broker_run es b \<Longrightarrow> broker_ok b"
proof (induction rule: broker_run.induct)
  case (reg es b c u)
  then have "c \<notin> set (clients_of v b)" for v using broker_okD(2) [OF reg.IH, of c v] by auto
  with reg show ?case by (auto simp: broker_ok_def new_client_def)
next
  case (unreg es b c k)
  then show ?case by (auto simp: broker_ok_def removeAll_filter_not_eq)
next
  case (cast es b ev b')
  then show ?case by (blast intro: broker_ok_broadcast)
next
  case (pump es b c)
  note ok = pump.IH
  have "\<exists>k. br_conns (Realtime.pump c b) x = Some k \<and> wc_user k = u \<and> wc_open k" if "x \<in> set (clients_of u b)" for u x
    using broker_okD(2) [OF ok that] by (cases "x = c") auto
  moreover have "length (wc_buffer k) \<le> buffer_size" if "br_conns (Realtime.pump c b) x = Some k" for x k
    using that broker_okD(3) [OF ok] by (auto split: if_splits intro: order_trans [OF pumped_simps(4)])
  ultimately show ?case using broker_okD(1) [OF ok] by (simp add: broker_ok_def)
qed (simp add: broker_ok_def)

text \<open>
  Whatever the order in which connections come and go, read slowly or are closed by the broker, a
  broadcast sends on open channels only and closes each at most once: it never panics.
\<close>

theorem broker_never_panics:
  assumes "broker_run es b"
  shows "\<exists>b'. broadcast ev b = Some b' \<and> broker_run (es @ [BBroadcast ev]) b'"
  using broadcast_spec [OF broker_run_ok [OF assms], of ev] broker_run.cast [OF assms] by blast



text \<open>What the history of calls owes a client: the events of its user between its registration and its end.\<close>

fun watching :: "nat \<Rightarrow> uuid option \<Rightarrow> broker_call list \<Rightarrow> uuid option" where
  "watching c r [] = r"
| "watching c r (BRegister c' u # es) = watching c (if c' = c then Some u else r) es"
| "watching c r (BUnregister c' # es) = watching c (if c' = c then None else r) es"
| "watching c r (BBroadcast ev # es) = watching c r es"
| "watching c r (BPump c' # es) = watching c r es"

fun owed :: "nat \<Rightarrow> uuid option \<Rightarrow> broker_call list \<Rightarrow> rt_event list" where
  "owed c r [] = []"
| "owed c r (BRegister c' u # es) = owed c (if c' = c then Some u else r) es"
| "owed c r (BUnregister c' # es) = owed c (if c' = c then None else r) es"
| "owed c r (BBroadcast ev # es) = (if r = Some (ev_user ev) then [ev] else []) @ owed c r es"
| "owed c r (BPump c' # es) = owed c r es"

lemma watching_append: "watching c r (xs @ ys) = watching c (watching c r xs) ys"
  by (induction c r xs rule: watching.induct) simp_all

lemma owed_append: "owed c r (xs @ ys) = owed c r xs @ owed c (watching c r xs) ys"
  by (induction c r xs rule: watching.induct) simp_all

definition passed :: "ws_client \<Rightarrow> rt_event list" where
  "passed k = wc_written k @ wc_buffer k"

definition client_ok :: "broker_call list \<Rightarrow> broker \<Rightarrow> nat \<Rightarrow> bool" where
  "client_ok es b c \<longleftrightarrow>
     (case br_conns b c of
        None \<Rightarrow> watching c None es = None \<and> owed c None es = []
      | Some k \<Rightarrow> prefix (passed k) (owed c None es) \<and>
          (\<forall>u. watching c None es = Some u \<longrightarrow> u = wc_user k \<and> (wc_open k \<longrightarrow> c \<in> set (clients_of u b))) \<and>
          (\<forall>u. c \<in> set (clients_of u b) \<longrightarrow> watching c None es = Some u) \<and>
          (wc_open k \<longrightarrow> passed k = owed c None es))"

lemma client_okI:
  assumes "br_conns b c = Some k" and "prefix (passed k) (owed c None es)"
    and "\<And>u. watching c None es = Some u \<Longrightarrow> u = wc_user k"
    and "\<And>u. watching c None es = Some u \<Longrightarrow> wc_open k \<Longrightarrow> c \<in> set (clients_of u b)"
    and "\<And>u. c \<in> set (clients_of u b) \<Longrightarrow> watching c None es = Some u"
    and "wc_open k \<Longrightarrow> passed k = owed c None es"
  shows "client_ok es b c"
  unfolding client_ok_def assms(1) option.case using assms(2-6) by blast

lemma client_okD:
  assumes "client_ok es b c" and "br_conns b c = Some k"
  shows "prefix (passed k) (owed c None es)" and "watching c None es = Some u \<Longrightarrow> u = wc_user k"
    and "watching c None es = Some u \<Longrightarrow> wc_open k \<Longrightarrow> c \<in> set (clients_of u b)"
    and "c \<in> set (clients_of u b) \<Longrightarrow> watching c None es = Some u"
    and "wc_open k \<Longrightarrow> passed k = owed c None es"
  using assms(1) unfolding client_ok_def assms(2) option.case by blast+

lemma client_ok_same:
  assumes "client_ok es b x" and "br_conns b' x = br_conns b x"
    and "\<And>u. x \<in> set (clients_of u b') \<longleftrightarrow> x \<in> set (clients_of u b)"
    and "watching x None es' = watching x None es" and "owed x None es' = owed x None es"
  shows "client_ok es' b' x"
  using assms(1) unfolding client_ok_def assms(2-5) .

lemma sent_open [simp]: "wc_open (sent ev k) \<longleftrightarrow> wc_open k \<and> \<not> full k"
  by (simp add: sent_def)

lemma passed_sent: "passed (sent ev k) = (if full k then passed k else passed k @ [ev])"
  by (simp add: passed_def sent_def)

lemma passed_pumped [simp]: "passed (pumped k) = passed k"
  by (simp add: passed_def)

lemma client_ok_broadcast:
  assumes "broker_ok b" and "client_ok es b c" and "broadcast ev b = Some b'"
  shows "client_ok (es @ [BBroadcast ev]) b' c"
proof -
  from broadcast_spec [OF assms(1), of ev] assms(3)
  have conns: "br_conns b' c = (if c \<in> set (clients_of (ev_user ev) b) then map_option (sent ev) (br_conns b c) else br_conns b c)"
    and sets: "\<And>u. clients_of u b' = filter (\<lambda>c. \<not> (u = ev_user ev \<and> slow b c)) (clients_of u b)"
    by auto
  show ?thesis
  proof (cases "br_conns b c")
    case None
    with assms(2) show ?thesis by (simp add: client_ok_def conns watching_append owed_append)
  next
    case (Some k)
    note k = client_okD [OF assms(2) Some]
    have s: "slow b c = full k" using Some by (simp add: slow_def)
    have w: "watching c None (es @ [BBroadcast ev]) = watching c None es"
      and o: "owed c None (es @ [BBroadcast ev]) =
        owed c None es @ (if watching c None es = Some (ev_user ev) then [ev] else [])"
      by (simp_all add: watching_append owed_append)
    show ?thesis
    proof (cases "c \<in> set (clients_of (ev_user ev) b)")
      case True
      with broker_okD(2) [OF assms(1) True] Some have open': "wc_open k" by auto
      have conns': "br_conns b' c = Some (sent ev k)" using True Some by (simp add: conns)
      show ?thesis
      proof (rule client_okI [OF conns'])
        show "prefix (passed (sent ev k)) (owed c None (es @ [BBroadcast ev]))"
          using k(4) [OF True] k(5) [OF open'] by (simp add: o passed_sent)
        show "u = wc_user (sent ev k)" if "watching c None (es @ [BBroadcast ev]) = Some u" for u
          using k(2) that by (simp add: w)
        show "c \<in> set (clients_of u b')" if "watching c None (es @ [BBroadcast ev]) = Some u" "wc_open (sent ev k)" for u
          using k(3) that s by (simp add: w sets)
        show "watching c None (es @ [BBroadcast ev]) = Some u" if "c \<in> set (clients_of u b')" for u
          using k(4) that by (simp add: w sets)
        show "passed (sent ev k) = owed c None (es @ [BBroadcast ev])" if "wc_open (sent ev k)"
          using that k(4) [OF True] k(5) [OF open'] by (simp add: o passed_sent)
      qed
    next
      case False
      have dead: "watching c None es = Some (ev_user ev) \<Longrightarrow> \<not> wc_open k" using k(3) False by blast
      from False have "br_conns b' c = Some k" using Some by (simp add: conns)
      then show ?thesis
      proof (rule client_okI)
        show "prefix (passed k) (owed c None (es @ [BBroadcast ev]))" using k(1) by (simp add: o prefix_prefix)
        show "u = wc_user k" if "watching c None (es @ [BBroadcast ev]) = Some u" for u
          using k(2) that by (simp add: w)
        show "c \<in> set (clients_of u b')" if "watching c None (es @ [BBroadcast ev]) = Some u" "wc_open k" for u
          using k(3) [of u] that dead by (auto simp: w sets)
        show "watching c None (es @ [BBroadcast ev]) = Some u" if "c \<in> set (clients_of u b')" for u
          using k(4) that by (simp add: w sets)
        show "passed k = owed c None (es @ [BBroadcast ev])" if "wc_open k"
          using that k(5) dead by (auto simp: o)
      qed
    qed
  qed
qed

lemma broker_run_clients: "broker_run es b \<Longrightarrow> \<forall>c. client_ok es b c"
proof (induction rule: broker_run.induct)
  case start
  show ?case by (simp add: client_ok_def)
next
  case (reg es b c u)
  have new: "c \<notin> set (clients_of v b)" for v
    using broker_okD(2) [OF broker_run_ok [OF reg.hyps(1)], of c v] reg.hyps(2) by auto
  show ?case
  proof
    fix x
    show "client_ok (es @ [BRegister c u]) (register c (new_client u) b) x"
    proof (cases "x = c")
      case True
      from reg.IH [rule_format, of c] reg.hyps(2) have "owed c None es = []" by (simp add: client_ok_def)
      with new True show ?thesis
        by (simp add: client_ok_def watching_append owed_append new_client_def passed_def)
    next
      case False
      show ?thesis
        by (rule client_ok_same [OF reg.IH [rule_format, of x]])
          (use False in \<open>simp_all add: watching_append owed_append\<close>)
    qed
  qed
next
  case (unreg es b c k)
  show ?case
  proof
    fix x
    show "client_ok (es @ [BUnregister c]) (unregister c k b) x"
    proof (cases "br_conns b x")
      case None
      with unreg.IH [rule_format, of x] show ?thesis by (simp add: client_ok_def watching_append owed_append)
    next
      case (Some kx)
      note kx = client_okD [OF unreg.IH [rule_format, of x] Some]
      from Some have "br_conns (unregister c k b) x = Some kx" by simp
      then show ?thesis
      proof (rule client_okI)
        show "prefix (passed kx) (owed x None (es @ [BUnregister c]))" using kx(1) by (simp add: owed_append)
        show "u = wc_user kx" if "watching x None (es @ [BUnregister c]) = Some u" for u
          using kx(2) that by (auto simp: watching_append split: if_splits)
        show "x \<in> set (clients_of u (unregister c k b))"
          if "watching x None (es @ [BUnregister c]) = Some u" "wc_open kx" for u
          using kx(3) [of u] that by (auto simp: watching_append split: if_splits)
        show "watching x None (es @ [BUnregister c]) = Some u" if "x \<in> set (clients_of u (unregister c k b))" for u
        proof -
          from that have x: "x \<in> set (clients_of u b)" by (auto split: if_splits)
          have "x \<noteq> c"
          proof
            assume "x = c"
            with broker_okD(2) [OF broker_run_ok [OF unreg.hyps(1)] x] unreg.hyps(2) have "u = wc_user k" by auto
            with that \<open>x = c\<close> show False by simp
          qed
          with kx(4) [OF x] show ?thesis by (simp add: watching_append)
        qed
        show "passed kx = owed x None (es @ [BUnregister c])" if "wc_open kx" using kx(5) [OF that] by (simp add: owed_append)
      qed
    qed
  qed
next
  case (cast es b ev b')
  then show ?case using client_ok_broadcast [OF broker_run_ok] by blast
next
  case (pump es b c)
  show ?case
  proof
    fix x
    show "client_ok (es @ [BPump c]) (Realtime.pump c b) x"
    proof (cases "br_conns b x")
      case None
      show ?thesis
        by (rule client_ok_same [OF pump.IH [rule_format, of x]])
          (use None in \<open>auto simp: watching_append owed_append\<close>)
    next
      case (Some k)
      note k = client_okD [OF pump.IH [rule_format, of x] Some]
      have w: "watching x None (es @ [BPump c]) = watching x None es" "owed x None (es @ [BPump c]) = owed x None es"
        by (simp_all add: watching_append owed_append)
      define k' where "k' = (if x = c then pumped k else k)"
      have p: "passed k' = passed k" "wc_user k' = wc_user k" "wc_open k' = wc_open k" by (simp_all add: k'_def)
      have c: "br_conns (Realtime.pump c b) x = Some k'" using Some by (auto simp: k'_def)
      show ?thesis
      proof (rule client_okI [OF c])
        show "prefix (passed k') (owed x None (es @ [BPump c]))" using k(1) by (simp only: p w)
        show "u = wc_user k'" if "watching x None (es @ [BPump c]) = Some u" for u using k(2) that by (simp only: p w)
        show "x \<in> set (clients_of u (Realtime.pump c b))" if "watching x None (es @ [BPump c]) = Some u" "wc_open k'" for u
          using k(3) that by (simp only: p w clients_of_simps)
        show "watching x None (es @ [BPump c]) = Some u" if "x \<in> set (clients_of u (Realtime.pump c b))" for u
          using k(4) that by (simp only: w clients_of_simps)
        show "passed k' = owed x None (es @ [BPump c])" if "wc_open k'" using k(5) that by (simp only: p w)
      qed
    qed
  qed
qed

text \<open>
  C34. What a connection has been written, followed by what waits in its buffer, is what was broadcast for its
  user since it was registered, in that order, without gaps and without doubles; for a connection the broker
  closed because it read too slowly it is a first part of that. No buffer exceeds its 256 places.
\<close>

theorem connection_gets_events_in_order:
  assumes "broker_run es b" and "br_conns b c = Some k"
  shows "prefix (wc_written k @ wc_buffer k) (owed c None es) \<and>
    (wc_open k \<longrightarrow> wc_written k @ wc_buffer k = owed c None es) \<and> length (wc_buffer k) \<le> 256"
  using broker_run_clients [OF assms(1), rule_format, of c] broker_okD(3) [OF broker_run_ok [OF assms(1)] assms(2)] assms(2)
  by (simp add: client_ok_def passed_def buffer_size_def)


text \<open>Calls carried out one after the other; \<open>None\<close> where one of them panics or is not possible.\<close>

fun run_broker :: "broker_call list \<Rightarrow> broker \<Rightarrow> broker option" where
  "run_broker [] b = Some b"
| "run_broker (BRegister c u # es) b = (if br_conns b c = None then run_broker es (register c (new_client u) b) else None)"
| "run_broker (BUnregister c # es) b = (case br_conns b c of None \<Rightarrow> None | Some k \<Rightarrow> run_broker es (unregister c k b))"
| "run_broker (BBroadcast ev # es) b = (case broadcast ev b of None \<Rightarrow> None | Some b' \<Rightarrow> run_broker es b')"
| "run_broker (BPump c # es) b = run_broker es (pump c b)"

lemma broker_calls_run: "broker_run xs b \<Longrightarrow> run_broker es b = Some b' \<Longrightarrow> broker_run (xs @ es) b'"
proof (induction es b arbitrary: xs rule: run_broker.induct)
  case (2 c u es b)
  then show ?case using 2(1) [OF _ broker_run.reg, of xs] by (simp split: if_splits)
next
  case (3 c es b)
  then show ?case using 3(1) [OF _ broker_run.unreg, of _ xs] by (simp split: option.splits)
next
  case (4 ev es b)
  then show ?case using 4(1) [OF _ broker_run.cast, of _ xs] by (simp split: option.splits)
next
  case (5 c es b)
  then show ?case using 5(1) [OF broker_run.pump, of xs] by simp
qed simp

definition demo_event :: "uuid \<Rightarrow> string \<Rightarrow> rt_event" where
  "demo_event u ty = \<lparr>ev_user = u, ev_type = ty, ev_payload = JNull\<rparr>"

definition demo_broker_calls :: "broker_call list" where
  "demo_broker_calls = [BBroadcast (demo_event 10 ''a''), BRegister 1 10, BBroadcast (demo_event 10 ''b''),
     BBroadcast (demo_event 11 ''c''), BRegister 2 11, BPump 1, BBroadcast (demo_event 10 ''d''), BUnregister 2]"

definition demo_broker :: broker where
  "demo_broker = the (run_broker demo_broker_calls new_broker)"

lemma demo_broker_run: "broker_run demo_broker_calls demo_broker"
proof -
  have "run_broker demo_broker_calls new_broker \<noteq> None" by code_simp
  then have "run_broker demo_broker_calls new_broker = Some demo_broker" by (auto simp: demo_broker_def)
  from broker_calls_run [OF broker_run.start this] show ?thesis by simp
qed

theorem connection_gets_events_in_order_witness:
  "\<exists>k. br_conns demo_broker 1 = Some k \<and> wc_written k @ wc_buffer k = [demo_event 10 ''b'', demo_event 10 ''d'']"
proof -
  have "map_option wc_open (br_conns demo_broker 1) = Some True" by code_simp
  then obtain k where k: "br_conns demo_broker 1 = Some k" "wc_open k" by auto
  have "owed 1 None demo_broker_calls = [demo_event 10 ''b'', demo_event 10 ''d'']" by code_simp
  with connection_gets_events_in_order [OF demo_broker_run k(1)] k show ?thesis by auto
qed

theorem broker_never_panics_witness: "\<exists>b'. broadcast (demo_event 10 ''e'') demo_broker = Some b'"
  using broker_never_panics [OF demo_broker_run] by blast


section \<open>A quiet tick publishes what is due\<close>

definition published :: "time \<Rightarrow> outbox_event \<Rightarrow> outbox_event" where
  "published t e = e\<lparr>ob_status := ''published'', ob_published := Some t\<rparr>"

definition event_of :: "outbox_event \<Rightarrow> rt_event" where
  "event_of e = \<lparr>ev_user = the (ob_user e), ev_type = ob_type e, ev_payload = ob_payload e\<rparr>"

lemma scan_events_all:
  "\<forall>e \<in> set es. ob_user e \<noteq> None \<Longrightarrow> scan_events es = Inr (map (\<lambda>e. (ob_id e, event_of e)) es)"
  by (induction es) (auto simp: event_of_def)

lemma publish_rows_quiet:
  assumes "faults w = []" and "\<forall>(i, ev) \<in> set evs. bytes ev < 8000"
  shows "for_each (publish_row bytes) evs w =
    (Inr (), w\<lparr>db := (db w)\<lparr>outbox := fold (\<lambda>(i, ev). set_by ob_id i (published (sql_now w))) evs (outbox (db w))\<rparr>,
       remote := remote w @ map snd evs\<rparr>)"
  using assms
proof (induction evs arbitrary: w)
  case (Cons x evs)
  obtain i ev where x: "x = (i, ev)" by force
  let ?w = "w\<lparr>db := (db w)\<lparr>outbox := set_by ob_id i (published (sql_now w)) (outbox (db w))\<rparr>, remote := remote w @ [ev]\<rparr>"
  have "publish_row bytes x w = (Inr (), ?w)"
    using Cons.prems by (simp add: x publish_row_def attempt_apply publish_def mark_published_def run_query_def
        published_def [abs_def] sql_now_def split: option.split)
  moreover have "sql_now ?w = sql_now w" by (simp add: sql_now_def split: option.split)
  ultimately show ?case using Cons.IH [of ?w] Cons.prems by (simp add: x)
qed simp

lemma fold_published:
  "\<forall>e \<in> set (fold (\<lambda>(i, ev). set_by ob_id i (published t)) evs rows). ob_id e \<in> fst ` set evs \<longrightarrow> ob_status e = ''published''"
proof (induction evs rule: rev_induct)
  case (snoc x evs)
  obtain i ev where x: "x = (i, ev)" by force
  from snoc show ?case by (auto simp: x set_set_by published_def)
qed simp

lemma fold_other_status:
  "map ob_id (fold (\<lambda>(i, ev). set_by ob_id i (published t)) evs rows) = map ob_id rows"
  by (induction evs arbitrary: rows) (auto simp: map_set_by published_def split: prod.splits)


definition demo_outbox_db :: db where
  "demo_outbox_db = demo_db\<lparr>outbox :=
     [\<lparr>ob_id = 41, ob_user = Some 10, ob_type = ''late'', ob_payload = JNull, ob_status = ''pending'', ob_created = 9,
        ob_published = None, ob_error = None\<rparr>,
      \<lparr>ob_id = 40, ob_user = Some 10, ob_type = ''early'', ob_payload = JNull, ob_status = ''pending'', ob_created = 7,
        ob_published = None, ob_error = None\<rparr>]\<rparr>"


end
