(* ===== verification/Texts.thy ===== *)
theory Texts
  imports Encoding
begin

text \<open>
  Texts the program writes and reads back. A key is written in the canonical form of a UUID, 128 bits as five
  groups of lower-case hexadecimal digits; a page cursor is text in standard base64. Both are recovered by their
  readers.
\<close>

section \<open>Keys as text\<close>

definition hex_char :: "nat \<Rightarrow> char" where
  "hex_char n = (if n < 10 then char_of (48 + n) else char_of (87 + n))"

fun hex_text :: "nat \<Rightarrow> nat \<Rightarrow> string" where
  "hex_text 0 n = ''''"
| "hex_text (Suc k) n = hex_text k (n div 16) @ [hex_char (n mod 16)]"

definition uuid_text :: "uuid \<Rightarrow> string" where
  "uuid_text n = (let h = hex_text 32 n in
     take 8 h @ ''-'' @ take 4 (drop 8 h) @ ''-'' @ take 4 (drop 12 h) @ ''-'' @ take 4 (drop 16 h) @ ''-'' @ drop 20 h)"

definition hex_value :: "char \<Rightarrow> nat option" where
  "hex_value c = (let n = of_char c :: nat in
     if 48 \<le> n \<and> n \<le> 57 then Some (n - 48) else if 97 \<le> n \<and> n \<le> 102 then Some (n - 87)
     else if 65 \<le> n \<and> n \<le> 70 then Some (n - 55) else None)"

fun hex_number :: "string \<Rightarrow> nat \<Rightarrow> nat option" where
  "hex_number [] acc = Some acc"
| "hex_number (c # cs) acc = (case hex_value c of None \<Rightarrow> None | Some d \<Rightarrow> hex_number cs (acc * 16 + d))"

text \<open>The canonical form, with digits of either case; the other forms PostgreSQL and \<^verbatim>\<open>uuid.Parse\<close> know are left out.\<close>

definition parse_uuid :: "string \<Rightarrow> uuid option" where
  "parse_uuid s =
     (if length s = 36 \<and> s ! 8 = CHR ''-'' \<and> s ! 13 = CHR ''-'' \<and> s ! 18 = CHR ''-'' \<and> s ! 23 = CHR ''-''
      then hex_number (take 8 s @ take 4 (drop 9 s) @ take 4 (drop 14 s) @ take 4 (drop 19 s) @ drop 24 s) 0
      else None)"

lemma length_hex_text [simp]: "length (hex_text k n) = k"
  by (induction k arbitrary: n) simp_all

lemma hex_value_char: "d < 16 \<Longrightarrow> hex_value (hex_char d) = Some d"
  by (auto simp: hex_char_def hex_value_def Let_def of_char_of)

lemma hex_number_append:
  "hex_number (xs @ ys) acc = (case hex_number xs acc of None \<Rightarrow> None | Some a \<Rightarrow> hex_number ys a)"
  by (induction xs arbitrary: acc) (auto split: option.splits)

lemma hex_number_text: "n < 16 ^ k \<Longrightarrow> hex_number (hex_text k n) acc = Some (acc * 16 ^ k + n)"
proof (induction k arbitrary: n acc)
  case (Suc k)
  then have "n div 16 < 16 ^ k" by (simp add: less_mult_imp_div_less mult.commute)
  with Suc.IH [of "n div 16" acc] show ?case
    by (simp add: hex_number_append hex_value_char)
qed simp

lemma parse_uuid_text: "n < 2 ^ 128 \<Longrightarrow> parse_uuid (uuid_text n) = Some n"
proof -
  assume n: "n < 2 ^ 128"
  define h where "h = hex_text 32 n"
  have l: "length h = 32" by (simp add: h_def)
  have t: "take 8 h @ take 4 (drop 8 h) @ take 4 (drop 12 h) @ take 4 (drop 16 h) @ drop 20 h = h"
    using append_take_drop_id [of 8 h] append_take_drop_id [of 4 "drop 8 h"] append_take_drop_id [of 4 "drop 12 h"]
      append_take_drop_id [of 4 "drop 16 h"] by simp
  have "uuid_text n = take 8 h @ ''-'' @ take 4 (drop 8 h) @ ''-'' @ take 4 (drop 12 h) @ ''-'' @ take 4 (drop 16 h) @
      ''-'' @ drop 20 h"
    by (simp add: uuid_text_def h_def Let_def)
  then have "parse_uuid (uuid_text n) = hex_number h 0"
    using l t by (simp add: parse_uuid_def nth_append)
  also have "\<dots> = Some n"
    using hex_number_text [of n 32 0] n by (simp add: h_def power_mult [symmetric])
  finally show ?thesis .
qed


section \<open>Standard base64\<close>

text \<open>\<^verbatim>\<open>base64.StdEncoding\<close>, with padding. The decoder skips line breaks and refuses any other character.\<close>

definition std_char :: "nat \<Rightarrow> char" where
  "std_char n = (if n = 62 then CHR ''+'' else if n = 63 then CHR ''/'' else base64_char n)"

definition std_digit :: "char \<Rightarrow> nat option" where
  "std_digit c =
     (if c = CHR ''+'' then Some 62 else if c = CHR ''/'' then Some 63
      else if c = CHR ''-'' \<or> c = CHR ''_'' then None
      else if base64_char (base64_digit c) = c then Some (base64_digit c) else None)"

fun std_encode :: "nat list \<Rightarrow> string" where
  "std_encode [] = ''''"
| "std_encode [a] = map std_char (sextets [a]) @ ''==''"
| "std_encode [a, b] = map std_char (sextets [a, b]) @ ''=''"
| "std_encode (a # b # c # r) = map std_char (sextets [a, b, c]) @ std_encode r"

fun all_some :: "'a option list \<Rightarrow> 'a list option" where
  "all_some [] = Some []"
| "all_some (None # xs) = None"
| "all_some (Some x # xs) = map_option ((#) x) (all_some xs)"

fun std_quads :: "string \<Rightarrow> nat list option" where
  "std_quads [] = Some []"
| "std_quads (p # q # r # s # t) =
     (if s = CHR ''='' then
        (if t \<noteq> [] then None
         else map_option from_sextets (all_some (map std_digit (if r = CHR ''='' then [p, q] else [p, q, r]))))
      else (case (all_some (map std_digit [p, q, r, s]), std_quads t) of
              (Some ds, Some bs) \<Rightarrow> Some (from_sextets ds @ bs) | _ \<Rightarrow> None))"
| "std_quads _ = None"

definition std_decode :: "string \<Rightarrow> nat list option" where
  "std_decode s = std_quads (filter (\<lambda>c. c \<noteq> CHR 0x0A \<and> c \<noteq> CHR 0x0D) s)"

lemma base64_char_not:
  assumes "n < 62" and "base64_digit c \<ge> 62"
  shows "base64_char n \<noteq> c"
  using base64_digit_char [of n] assms by auto

lemma std_char_ok:
  assumes "n < 64"
  shows "std_digit (std_char n) = Some n" "std_char n \<noteq> CHR ''=''" "std_char n \<noteq> CHR 0x0A" "std_char n \<noteq> CHR 0x0D"
proof -
  have d: "base64_digit CHR ''+'' = 63" "base64_digit CHR ''/'' = 63" "base64_digit CHR ''-'' = 62" "base64_digit CHR ''_'' = 63"
    "base64_digit CHR ''='' = 63" "base64_digit CHR 0x0A = 63" "base64_digit CHR 0x0D = 63"
    by (simp_all add: base64_digit_def Let_def)
  note n = base64_char_not [of n]
  consider "n < 62" | "n = 62" | "n = 63" using assms by linarith
  then show "std_digit (std_char n) = Some n" "std_char n \<noteq> CHR ''=''" "std_char n \<noteq> CHR 0x0A" "std_char n \<noteq> CHR 0x0D"
    by (cases; simp add: std_char_def std_digit_def n d base64_digit_char)+
qed

lemma sextet_bounds: "(a :: nat) < 256 \<Longrightarrow> a div 4 < 64" "a mod 4 * 16 < 64" "b < 256 \<Longrightarrow> a mod 4 * 16 + b div 16 < 64"
  "b mod 16 * 4 < 64" "c < 256 \<Longrightarrow> b mod 16 * 4 + c div 64 < 64" "c mod 64 < 64"
proof -
  have m: "a mod 4 < 4" "b mod 16 < 16" by simp_all
  then show "a mod 4 * 16 < 64" "b mod 16 * 4 < 64" by linarith+
  show "a < 256 \<Longrightarrow> a div 4 < 64" by auto
  show "a mod 4 * 16 + b div 16 < 64" if "b < 256" using m(1) div_lt_256(1) [OF that] by linarith
  show "b mod 16 * 4 + c div 64 < 64" if "c < 256" using m(2) div_lt_256(2) [OF that] by linarith
qed simp

lemma std_encode_lines: "\<forall>b \<in> set bs. b < 256 \<Longrightarrow> c \<in> set (std_encode bs) \<Longrightarrow> c \<noteq> CHR 0x0A \<and> c \<noteq> CHR 0x0D"
  by (induction bs rule: std_encode.induct) (auto simp: std_char_ok sextet_bounds)

lemma std_quads_encode: "\<forall>b \<in> set bs. b < 256 \<Longrightarrow> std_quads (std_encode bs) = Some bs"
proof (induction bs rule: std_encode.induct)
  case (2 a)
  with from_sextets_sextets [of "[a]"] show ?case by (simp add: std_char_ok sextet_bounds)
next
  case (3 a b)
  with from_sextets_sextets [of "[a, b]"] show ?case by (simp add: std_char_ok sextet_bounds)
next
  case (4 a b c r)
  with from_sextets_sextets [of "[a, b, c]"] show ?case by (simp add: std_char_ok sextet_bounds)
qed simp

lemma std_roundtrip: "\<forall>b \<in> set bs. b < 256 \<Longrightarrow> std_decode (std_encode bs) = Some bs"
  using std_encode_lines [of bs] by (simp add: std_decode_def std_quads_encode filter_True)

text \<open>The bytes of a string.\<close>

definition bytes_of :: "string \<Rightarrow> nat list" where
  "bytes_of s = map of_char s"

definition string_of :: "nat list \<Rightarrow> string" where
  "string_of bs = map char_of bs"

lemma bytes_roundtrip [simp]: "string_of (bytes_of s) = s" "\<forall>b \<in> set (bytes_of s). b < 256"
  by (simp_all add: bytes_of_def string_of_def comp_def)


section \<open>Splitting\<close>

lemma split_on_free: "c \<notin> set s \<Longrightarrow> split_on c s = [s]"
  by (induction s) auto

lemma split_on_once: "c \<notin> set s \<Longrightarrow> split_on c (s @ c # t) = s # split_on c t"
  by (induction s) auto

end
