(* ===== verification/MailModels.thy ===== *)
theory MailModels
  imports ThreadSync Delivery Texts
begin

text \<open>
  The objects the mail API exchanges with its clients (\<^verbatim>\<open>internal/mail/models.go\<close>) and their conversion from
  and to the objects of the mail server.
\<close>

section \<open>Requests and responses\<close>

record folder_response =
  fr_id :: string
  fr_name :: string
  fr_role :: string
  fr_parent :: string
  fr_total_emails :: int
  fr_unread_emails :: int
  fr_total_threads :: int
  fr_unread_threads :: int

record address_dto =
  ad_name :: string
  ad_email :: string

record attachment_dto =
  at_blob :: string
  at_type :: string
  at_name :: string
  at_size :: int

record message_response =
  mg_id :: string
  mg_thread :: string
  mg_mailboxes :: "string list"
  mg_from :: "address_dto list"
  mg_to :: "address_dto list"
  mg_cc :: "address_dto list"
  mg_bcc :: "address_dto list"
  mg_reply_to :: "address_dto list"
  mg_subject :: string
  mg_preview :: string
  mg_received :: string
  mg_sent :: string
  mg_size :: int
  mg_has_attachment :: bool
  mg_reactions :: "reaction list"
  mg_attachments :: "attachment_dto list"
  mg_read :: bool
  mg_starred :: bool
  mg_draft :: bool
  mg_text :: string
  mg_html :: string
  mg_message_id :: string
  mg_in_reply_to :: "string list"
  mg_references :: "string list"
  mg_deliveries :: "delivery_record list"

record message_list =
  pg_messages :: "message_response list"
  pg_total :: int
  pg_position :: int

record list_options =
  lo_mailbox :: string
  lo_limit :: int
  lo_position :: int
  lo_cursor :: string
  lo_from :: string
  lo_to :: string
  lo_cc :: string
  lo_subject :: string
  lo_text :: string
  lo_before :: string
  lo_after :: string
  lo_has_keyword :: string
  lo_not_keyword :: string
  lo_thread :: string
  lo_has_attachment :: bool

record thread_response =
  tr_id :: uuid
  tr_subject :: string
  tr_participants :: json
  tr_count :: nat
  tr_unread :: nat
  tr_snippet :: "string option"
  tr_last :: time

record thread_page =
  tp_threads :: "thread_response list"
  tp_next :: string

record draft_request =
  rd_to :: "address_dto list"
  rd_cc :: "address_dto list"
  rd_bcc :: "address_dto list"
  rd_subject :: string
  rd_text :: string
  rd_html :: string
  rd_attachment_ids :: "string list"
  rd_in_reply_to :: "string list"
  rd_references :: "string list"
  rd_attachments :: "attachment_dto list"

record draft_response =
  do_id :: string
  do_blob :: string
  do_message :: string
  do_to :: "address_dto list"
  do_cc :: "address_dto list"
  do_bcc :: "address_dto list"
  do_subject :: string
  do_text :: string
  do_html :: string
  do_attachment_ids :: "string list"
  do_created :: string
  do_updated :: string

record send_request =
  sq_draft :: string
  sq_to :: "address_dto list"
  sq_cc :: "address_dto list"
  sq_bcc :: "address_dto list"
  sq_subject :: string
  sq_text :: string
  sq_html :: string
  sq_in_reply_to :: "string list"
  sq_references :: "string list"
  sq_attachments :: "attachment_dto list"
  sq_key :: string

record send_response =
  sr_message :: string
  sr_submission :: string
  sr_status :: string

record action_response =
  ar_id :: string
  ar_action :: string
  ar_status :: string


section \<open>Conversions\<close>

definition to_dto :: "email_address \<Rightarrow> address_dto" where
  "to_dto a = \<lparr>ad_name = ea_name a, ad_email = ea_email a\<rparr>"

definition to_dtos :: "email_address list \<Rightarrow> address_dto list" where
  "to_dtos xs = map to_dto xs"

definition of_dto :: "address_dto \<Rightarrow> email_address" where
  "of_dto a = \<lparr>ea_name = ad_name a, ea_email = ad_email a\<rparr>"

definition of_dtos :: "address_dto list \<Rightarrow> email_address list" where
  "of_dtos xs = map of_dto xs"

lemma dto_roundtrip [simp]: "to_dtos (of_dtos xs) = xs" "of_dtos (to_dtos ys) = ys"
  by (simp_all add: to_dtos_def of_dtos_def to_dto_def of_dto_def comp_def map_idI)

definition mailbox_ids :: "(string \<times> bool) list \<Rightarrow> string list" where
  "mailbox_ids ids = map fst (filter snd ids)"

text \<open>The value of the first part that has one.\<close>

definition body_text :: "body_part list \<Rightarrow> (string \<times> body_value) list \<Rightarrow> string" where
  "body_text parts values =
     (case List.map_filter (\<lambda>p. map_of values (bp_part p)) parts of [] \<Rightarrow> '''' | v # _ \<Rightarrow> bv_value v)"

definition to_attachment :: "body_part \<Rightarrow> attachment_dto" where
  "to_attachment p = \<lparr>at_blob = bp_blob p, at_type = bp_type p, at_name = bp_name p, at_size = bp_size p\<rparr>"

definition to_message_response :: "email \<Rightarrow> message_response" where
  "to_message_response e = \<lparr>mg_id = em_id e, mg_thread = em_thread e, mg_mailboxes = mailbox_ids (em_mailboxes e),
     mg_from = to_dtos (em_from e), mg_to = to_dtos (em_to e), mg_cc = to_dtos (em_cc e), mg_bcc = to_dtos (em_bcc e),
     mg_reply_to = to_dtos (em_reply_to e), mg_subject = em_subject e, mg_preview = em_preview e,
     mg_received = em_received e, mg_sent = em_sent e, mg_size = em_size e, mg_has_attachment = em_has_attachment e,
     mg_reactions = [], mg_attachments = map to_attachment (em_attachments e),
     mg_read = keyword_set ''$seen'' e, mg_starred = keyword_set ''$flagged'' e, mg_draft = keyword_set ''$draft'' e,
     mg_text = body_text (em_text_body e) (em_values e), mg_html = body_text (em_html_body e) (em_values e),
     mg_message_id = first_message_id e, mg_in_reply_to = em_in_reply_to e,
     mg_references = em_references e, mg_deliveries = []\<rparr>"

definition to_folder_response :: "folder \<Rightarrow> folder_response" where
  "to_folder_response m = \<lparr>fr_id = fo_id m, fr_name = fo_name m, fr_role = fo_role m, fr_parent = fo_parent m,
     fr_total_emails = fo_total_emails m, fr_unread_emails = fo_unread_emails m,
     fr_total_threads = fo_total_threads m, fr_unread_threads = fo_unread_threads m\<rparr>"

definition to_thread_response :: "thread \<Rightarrow> thread_response" where
  "to_thread_response h = \<lparr>tr_id = th_id h, tr_subject = th_subject h, tr_participants = th_participants h,
     tr_count = th_count h, tr_unread = th_unread h, tr_snippet = th_snippet h, tr_last = th_last h\<rparr>"

end
