(* ===== verification/MailAccess.thy ===== *)
theory MailAccess
  imports MailModels Management
begin

text \<open>
  The mail service (\<^verbatim>\<open>internal/mail/service.go\<close>, \<^verbatim>\<open>search.go\<close>), the part that reads: every operation first resolves the
  user to the account of the mail server that belongs to the user's mailbox, and asks the server only for that
  account.
\<close>

section \<open>The account of a user\<close>

record resolved_account =
  rc_user :: uuid
  rc_mailbox :: uuid
  rc_stalwart :: string

definition resolve_user_account :: "uuid \<Rightarrow> ('s, resolved_account) act" where
  "resolve_user_account u =
     seq (tag_err ErrMailboxNotFound (get_mailbox_by_user u)) (\<lambda>m.
     if m_status m \<noteq> MbActive
     then fail (Tagged ErrAccountNotActive (''status is '' @ mailbox_status_text (m_status m)))
     else
       (case m_stalwart m of
          None \<Rightarrow> fail (Sentinel ErrMailboxNotReady)
        | Some a \<Rightarrow>
            if a = '''' then fail (Sentinel ErrMailboxNotReady)
            else ret \<lparr>rc_user = u, rc_mailbox = m_id m, rc_stalwart = a\<rparr>))"

definition resolve_folder :: "uuid \<Rightarrow> string \<Rightarrow> ('s, string) act" where
  "resolve_folder mb role = tag_err ErrMailboxNotFound (mapping_by_role mb role)"

definition unavailable :: "('s, 'a) act \<Rightarrow> ('s, 'a) act" where
  "unavailable = tag_err ErrStalwartUnavailable"

definition resolve_user_address :: "'s client \<Rightarrow> resolved_account \<Rightarrow> ('s, string) act" where
  "resolve_user_address c a =
     seq (attempt (remote_call (find_primary_identity c (rc_stalwart a)))) (\<lambda>r.
     let fallback =
       seq (wrap_err ''resolving user address'' (get_mailbox_by_user (rc_user a))) (\<lambda>m.
       seq (wrap_err ''resolving address'' (mail_address_by_id (m_address m))) (\<lambda>x.
       ret (a_local x)))
     in (case r of
           Inl e \<Rightarrow> fallback
         | Inr i \<Rightarrow> if in_email i \<noteq> '''' then ret (in_email i) else fallback))"


section \<open>Sessions\<close>

record mail_session =
  mn_provider :: string
  mn_url :: string
  mn_token :: string
  mn_account :: string

record provisioning_status =
  ps_mailbox :: uuid
  ps_address :: uuid
  ps_status :: string
  ps_stalwart :: "string option"
  ps_ready :: bool

definition create_mail_session :: "'s client \<Rightarrow> string \<Rightarrow> uuid \<Rightarrow> ('s, mail_session) act" where
  "create_mail_session c host u =
     seq (wrap_err ''getting mailbox'' (get_mailbox_by_user u)) (\<lambda>m.
     if m_status m \<noteq> MbActive then fail (Plain ''mailbox is not active'')
     else if m_stalwart m = None \<or> m_stalwart m = Some '''' then fail (Plain ''mailbox not fully provisioned in stalwart'')
     else
       seq (wrap_err ''provisioning mail token'' (remote_call
              (create_app_password c (the (m_stalwart m)) (''Norest Session Token - '' @ uuid_text u)))) (\<lambda>secret.
       ret \<lparr>mn_provider = ''stalwart'', mn_url = host @ ''/.well-known/jmap'', mn_token = secret,
            mn_account = the (m_stalwart m)\<rparr>))"

definition get_provisioning_status :: "uuid \<Rightarrow> ('s, provisioning_status) act" where
  "get_provisioning_status u =
     seq (wrap_err ''getting mailbox'' (get_mailbox_by_user u)) (\<lambda>m.
     ret \<lparr>ps_mailbox = m_id m, ps_address = m_address m, ps_status = mailbox_status_text (m_status m),
          ps_stalwart = m_stalwart m,
          ps_ready = (m_status m = MbActive \<and> m_stalwart m \<noteq> None \<and> m_stalwart m \<noteq> Some '''')\<rparr>)"


section \<open>Folders and messages\<close>

definition list_folders :: "'s client \<Rightarrow> uuid \<Rightarrow> ('s, folder_response list) act" where
  "list_folders c u =
     seq (resolve_user_account u) (\<lambda>a.
     seq (unavailable (remote_call (folder_get c (rc_stalwart a) None))) (\<lambda>r.
     ret (map to_folder_response (fg_list r))))"

definition get_folder :: "'s client \<Rightarrow> uuid \<Rightarrow> string \<Rightarrow> ('s, folder_response) act" where
  "get_folder c u i =
     seq (resolve_user_account u) (\<lambda>a.
     seq (unavailable (remote_call (folder_get c (rc_stalwart a) (Some [i])))) (\<lambda>r.
     case fg_list r of [] \<Rightarrow> fail (Sentinel ErrMailboxNotFound) | m # _ \<Rightarrow> ret (to_folder_response m)))"

definition str_arg :: "string \<Rightarrow> string \<Rightarrow> (string \<times> json) list" where
  "str_arg k s = (if s = '''' then [] else [(k, JStr s)])"

definition list_filter :: "list_options \<Rightarrow> json" where
  "list_filter q = JObj (str_arg ''inMailbox'' (lo_mailbox q) @ str_arg ''from'' (lo_from q) @ str_arg ''to'' (lo_to q) @
     str_arg ''subject'' (lo_subject q) @ str_arg ''text'' (lo_text q) @ str_arg ''before'' (lo_before q) @
     str_arg ''after'' (lo_after q) @ str_arg ''hasKeyword'' (lo_has_keyword q) @ str_arg ''notKeyword'' (lo_not_keyword q) @
     str_arg ''cc'' (lo_cc q) @ str_arg ''threadId'' (lo_thread q) @
     (if lo_has_attachment q then [(''hasAttachment'', JBool True)] else []))"

definition newest_first :: json where
  "newest_first = JArr [JObj [(''property'', JStr ''receivedAt''), (''isAscending'', JBool False)]]"

definition message_limit :: "int \<Rightarrow> int" where
  "message_limit n = (let l = (if n \<le> 0 then 50 else n) in if l > 200 then 200 else l)"

definition summary_properties :: "string list" where
  "summary_properties = [''id'', ''threadId'', ''mailboxIds'', ''keywords'', ''size'', ''receivedAt'', ''from'', ''to'',
     ''cc'', ''subject'', ''preview'', ''hasAttachment'', ''sentAt'']"

definition list_messages :: "'s client \<Rightarrow> uuid \<Rightarrow> list_options \<Rightarrow> ('s, message_list) act" where
  "list_messages c u opts =
     seq (resolve_user_account u) (\<lambda>a.
     seq (unavailable (remote_call (email_query_at c (rc_stalwart a) (Some (list_filter opts)) (Some newest_first)
            (lo_position opts) (message_limit (lo_limit opts))))) (\<lambda>q.
     if eq_ids q = [] then ret \<lparr>pg_messages = [], pg_total = eq_total q, pg_position = eq_position q\<rparr>
     else
       seq (unavailable (remote_call (email_get c (rc_stalwart a) (Some (eq_ids q)) (Some summary_properties)))) (\<lambda>g.
       ret \<lparr>pg_messages = map to_message_response (eg_list g), pg_total = eq_total q, pg_position = eq_position q\<rparr>)))"

text \<open>What an optional look-up adds to a message; its error is logged.\<close>

definition enrich :: "('s, 'a) act \<Rightarrow> ('a \<Rightarrow> 'm \<Rightarrow> 'm) \<Rightarrow> 'm \<Rightarrow> ('s, 'm) act" where
  "enrich look f m = seq (attempt look) (\<lambda>r. ret (case r of Inl e \<Rightarrow> m | Inr a \<Rightarrow> f a m))"

definition with_thread :: "uuid \<Rightarrow> message_response \<Rightarrow> message_response" where
  "with_thread i m = m\<lparr>mg_thread := uuid_text i\<rparr>"

definition with_deliveries :: "delivery_record list \<Rightarrow> message_response \<Rightarrow> message_response" where
  "with_deliveries xs m = (if xs = [] then m else m\<lparr>mg_deliveries := xs\<rparr>)"

definition with_reactions :: "reaction list \<Rightarrow> message_response \<Rightarrow> message_response" where
  "with_reactions xs m = (if xs = [] then m else m\<lparr>mg_reactions := xs\<rparr>)"

definition get_message :: "'s client \<Rightarrow> uuid \<Rightarrow> string \<Rightarrow> ('s, message_response) act" where
  "get_message c u i =
     seq (resolve_user_account u) (\<lambda>a.
     seq (unavailable (remote_call (email_get_with_body c (rc_stalwart a) [i]))) (\<lambda>r.
     case eg_list r of
       [] \<Rightarrow> fail (Sentinel ErrMessageNotFound)
     | e # _ \<Rightarrow>
         seq (enrich (thread_id_by_stalwart_id (rc_mailbox a) (em_id e)) with_thread (to_message_response e)) (\<lambda>m.
         seq (enrich (delivery_statuses (em_id e)) with_deliveries m) (\<lambda>m.
         enrich (reactions_for_message (em_id e)) with_reactions m))))"

definition search_messages :: "'s client \<Rightarrow> uuid \<Rightarrow> json \<Rightarrow> ('s, string list) act" where
  "search_messages c u flt =
     seq (resolve_user_account u) (\<lambda>a.
     seq (remote_call (email_query c (rc_stalwart a) (Some flt) None 100)) (\<lambda>r.
     ret (eq_ids r)))"


section \<open>Conversations\<close>

text \<open>The rendering of a time depends on the zone of the host, so the codec of times is a parameter.\<close>

record time_codec =
  tc_text :: "time \<Rightarrow> string"
  tc_parse :: "string \<Rightarrow> time option"

definition cursor_text :: "time_codec \<Rightarrow> time \<Rightarrow> uuid \<Rightarrow> string" where
  "cursor_text tc t i = std_encode (bytes_of (tc_text tc t @ ''|'' @ uuid_text i))"

text \<open>A cursor that cannot be read is ignored.\<close>

definition read_cursor :: "time_codec \<Rightarrow> string \<Rightarrow> (time \<times> string) option" where
  "read_cursor tc s =
     (if s = '''' then None
      else case std_decode s of
             None \<Rightarrow> None
           | Some bs \<Rightarrow>
               (case split_on (CHR ''|'') (string_of bs) of
                  [t, i] \<Rightarrow> map_option (\<lambda>x. (x, i)) (tc_parse tc t)
                | _ \<Rightarrow> None))"

definition thread_limit :: "int \<Rightarrow> nat" where
  "thread_limit n = (if n \<le> 0 \<or> n > 100 then 50 else nat n)"

text \<open>A key the client sent that is no UUID is refused when it is used in a query.\<close>

definition with_key :: "string \<Rightarrow> (uuid \<Rightarrow> ('s, 'a) act) \<Rightarrow> ('s, 'a) act" where
  "with_key i m =
     (case parse_uuid i of
        None \<Rightarrow> stmt (\<lambda>_ d. (Inl (pg_error ''invalid input syntax for type uuid'' ''22P02''), d))
      | Some k \<Rightarrow> m k)"

definition list_threads_from :: "uuid \<Rightarrow> string \<Rightarrow> nat \<Rightarrow> (time \<times> string) option \<Rightarrow> ('s, thread list) act" where
  "list_threads_from acc mb limit cursor =
     (case cursor of
        None \<Rightarrow> list_threads acc mb limit None
      | Some (t, i) \<Rightarrow>
          if i = '''' then list_threads acc mb limit None
          else wrap_err ''listing threads'' (with_key i (\<lambda>k. stmt (\<lambda>_ d.
                 (Inr (take limit (listed_threads acc mb (Some (Page t k)) d)), d)))))"

definition next_cursor :: "time_codec \<Rightarrow> thread list \<Rightarrow> string" where
  "next_cursor tc hs = (if hs = [] then '''' else cursor_text tc (th_last (last hs)) (th_id (last hs)))"

definition list_user_threads :: "time_codec \<Rightarrow> uuid \<Rightarrow> list_options \<Rightarrow> ('s, thread_page) act" where
  "list_user_threads tc u opts =
     seq (resolve_user_account u) (\<lambda>a.
     seq (if lo_mailbox opts = '''' then ret ''''
          else if length (lo_mailbox opts) \<le> 2 then ret (lo_mailbox opts)
          else resolve_folder (rc_mailbox a) (lo_mailbox opts)) (\<lambda>mb.
     seq (wrap_err ''listing threads from db''
            (list_threads_from (rc_mailbox a) mb (thread_limit (lo_limit opts)) (read_cursor tc (lo_cursor opts)))) (\<lambda>hs.
     ret \<lparr>tp_threads = map to_thread_response hs, tp_next = next_cursor tc hs\<rparr>)))"

text \<open>A thread of another account, like any other failure of the query, is reported as not found.\<close>

definition own_thread :: "uuid \<Rightarrow> string \<Rightarrow> ('s, thread) act" where
  "own_thread mb i = map_err (\<lambda>_. Sentinel ErrMessageNotFound) (with_key i (thread_account_scoped mb))"

definition get_user_thread :: "uuid \<Rightarrow> string \<Rightarrow> ('s, thread_response) act" where
  "get_user_thread u i =
     seq (resolve_user_account u) (\<lambda>a.
     seq (own_thread (rc_mailbox a) i) (\<lambda>h. ret (to_thread_response h)))"

text \<open>The messages of a thread in its order; one the server does not return is skipped.\<close>

fun thread_messages_of :: "email list \<Rightarrow> message list \<Rightarrow> ('s, message_response list) act" where
  "thread_messages_of es [] = ret []"
| "thread_messages_of es (m # ms) =
     (case find (\<lambda>e. em_id e = ms_stalwart m) (rev es) of
        None \<Rightarrow> thread_messages_of es ms
      | Some e \<Rightarrow>
          seq (enrich (reactions_for_message (em_id e)) with_reactions
                 (with_thread (ms_thread m) (to_message_response e))) (\<lambda>x.
          seq (thread_messages_of es ms) (\<lambda>xs. ret (x # xs))))"

definition get_thread_messages :: "'s client \<Rightarrow> uuid \<Rightarrow> string \<Rightarrow> ('s, message_response list) act" where
  "get_thread_messages c u i =
     seq (resolve_user_account u) (\<lambda>a.
     seq (own_thread (rc_mailbox a) i) (\<lambda>h.
     seq (wrap_err ''fetching thread messages from db'' (messages_by_thread (rc_mailbox a) (th_id h))) (\<lambda>ms.
     if ms = [] then ret []
     else
       seq (unavailable (remote_call (email_get_with_body c (rc_stalwart a) (map ms_stalwart ms)))) (\<lambda>r.
       thread_messages_of (eg_list r) ms))))"


section \<open>Attachments\<close>

definition upload_attachment :: "'s client \<Rightarrow> uuid \<Rightarrow> string \<Rightarrow> string \<Rightarrow> ('s, attachment_dto) act" where
  "upload_attachment c u ctype body =
     seq (resolve_user_account u) (\<lambda>a.
     seq (wrap_err ''uploading blob'' (remote_call (upload_blob c (rc_stalwart a) ctype body))) (\<lambda>b.
     ret \<lparr>at_blob = ub_id b, at_type = ub_type b, at_name = '''', at_size = ub_size b\<rparr>))"

definition download_attachment :: "'s client \<Rightarrow> uuid \<Rightarrow> string \<Rightarrow> string \<Rightarrow> string \<Rightarrow> ('s, string \<times> string) act" where
  "download_attachment c u blob ty name =
     seq (resolve_user_account u) (\<lambda>a. remote_call (download_blob c (rc_stalwart a) blob ty name))"


section \<open>Synchronisation on request\<close>

record sync_response =
  sp_folders :: "changes option"
  sp_emails :: "changes option"
  sp_threads :: "changes option"
  sp_state :: string

text \<open>One of the three requests for changes, whose failure is written to the state row and ends the call.\<close>

definition fetch_changes :: "'s client \<Rightarrow> resolved_account \<Rightarrow> string \<Rightarrow> string \<Rightarrow> ('s, changes) act" where
  "fetch_changes c a entity since =
     seq (attempt (remote_call (get_changes c (rc_stalwart a) entity since))) (\<lambda>r.
     case r of
       Inr x \<Rightarrow> ret x
     | Inl e \<Rightarrow>
         if err_text e = ''cannotCalculateChanges'' then
           seq (ignore (update_sync_state (rc_mailbox a) '''' ''error'' ''cannotCalculateChanges'')) (\<lambda>_.
           fail (Plain ''resync_required''))
         else
           seq (ignore (update_sync_state (rc_mailbox a) since ''error'' (err_text e))) (\<lambda>_. fail e))"

definition sync_mail :: "'s client \<Rightarrow> uuid \<Rightarrow> ('s, sync_response) act" where
  "sync_mail c u =
     seq (resolve_user_account u) (\<lambda>a.
     seq (get_sync_state (rc_mailbox a)) (\<lambda>st.
     let since = (case st of None \<Rightarrow> '''' | Some s \<Rightarrow> text_or_empty (ss_state s)) in
     seq (ignore (update_sync_state (rc_mailbox a) since ''syncing'' '''')) (\<lambda>_.
     seq (if since \<noteq> '''' then
            seq (fetch_changes c a ''Mailbox'' since) (\<lambda>mc.
            seq (fetch_changes c a ''Thread'' since) (\<lambda>tc.
            seq (fetch_changes c a ''Email'' since) (\<lambda>ec.
            ret \<lparr>sp_folders = Some mc, sp_emails = Some ec, sp_threads = Some tc, sp_state = ch_new ec\<rparr>)))
          else
            seq (attempt (remote_call (email_get c (rc_stalwart a) (Some []) (Some [''id''])))) (\<lambda>r.
            case r of
              Inl e \<Rightarrow> seq (ignore (update_sync_state (rc_mailbox a) '''' ''error'' (err_text e))) (\<lambda>_. fail e)
            | Inr g \<Rightarrow> ret \<lparr>sp_folders = None, sp_emails = None, sp_threads = None, sp_state = eg_state g\<rparr>)) (\<lambda>x.
     seq (ignore (update_sync_state (rc_mailbox a) (sp_state x) ''idle'' '''')) (\<lambda>_.
     ret x)))))"


section \<open>Reactions\<close>

definition toggle_reaction :: "'s client \<Rightarrow> string \<Rightarrow> uuid \<Rightarrow> string \<Rightarrow> ('s, bool) act" where
  "toggle_reaction c i u emoji =
     seq (resolve_user_account u) (\<lambda>a.
     seq (resolve_user_address c a) (\<lambda>who.
     seq (unavailable (remote_call (email_get c (rc_stalwart a) (Some [i]) (Some [''id''])))) (\<lambda>r.
     if eg_list r = [] then fail (Sentinel ErrMessageNotFound)
     else toggle_reaction_row i who emoji)))"

end
