(* ===== verification/MailSend.thy ===== *)
theory MailSend
  imports MailAccess
begin

text \<open>
  The mail service (\<^verbatim>\<open>internal/mail/service.go\<close>), the part that writes: drafts, sending, replies and the actions on a
  message. Every change but a move to a chosen folder is logged as an intent before the server is asked for it, and
  marked afterwards. A panic ends the request; here it is the error \<open>index_panic\<close>, so that its occurrence can be
  stated.
\<close>

definition index_panic :: goerr where
  "index_panic = Plain ''panic: runtime error: index out of range [0] with length 0''"

section \<open>The objects sent to the server\<close>

definition list_arg :: "string \<Rightarrow> ('a \<Rightarrow> json) \<Rightarrow> 'a list \<Rightarrow> (string \<times> json) list" where
  "list_arg k f xs = (if xs = [] then [] else [(k, JArr (map f xs))])"

definition addresses_arg :: "string \<Rightarrow> address_dto list \<Rightarrow> (string \<times> json) list" where
  "addresses_arg k xs = list_arg k enc_email_address (of_dtos xs)"

definition build_attachment :: "attachment_dto \<Rightarrow> json" where
  "build_attachment a = JObj [(''blobId'', JStr (at_blob a)), (''type'', JStr (at_type a)), (''name'', JStr (at_name a)),
     (''disposition'', JStr ''attachment'')]"

definition blob_attachment :: "string \<Rightarrow> json" where
  "blob_attachment i = JObj [(''blobId'', JStr i)]"

definition body_args :: "string \<Rightarrow> string \<Rightarrow> (string \<times> json) list" where
  "body_args html txt =
     (let part = (\<lambda>ty. JArr [JObj [(''partId'', JStr ''body''), (''type'', JStr ty)]]) in
      (if html \<noteq> '''' then [(''htmlBody'', part ''text/html'')] else [(''textBody'', part ''text/plain'')]) @
      [(''bodyValues'', JObj [(''body'', JObj [(''value'', JStr (if html \<noteq> '''' then html else txt))])])])"

definition in_folder :: "string \<Rightarrow> json" where
  "in_folder i = JObj [(i, JBool True)]"

definition draft_head :: "string \<Rightarrow> json \<Rightarrow> (string \<times> json) list" where
  "draft_head drafts sender = [(''mailboxIds'', in_folder drafts),
     (''keywords'', JObj [(''$draft'', JBool True), (''$seen'', JBool True)]), (''from'', sender)]"

definition plain_sender :: "string \<Rightarrow> json" where
  "plain_sender a = enc_list enc_email_address [\<lparr>ea_name = '''', ea_email = a\<rparr>]"

definition new_draft :: "string \<Rightarrow> string \<Rightarrow> draft_request \<Rightarrow> json" where
  "new_draft drafts sender q = JObj (draft_head drafts (plain_sender sender) @
     addresses_arg ''to'' (rd_to q) @ addresses_arg ''cc'' (rd_cc q) @ addresses_arg ''bcc'' (rd_bcc q) @
     str_arg ''subject'' (rd_subject q) @ list_arg ''inReplyTo'' JStr (rd_in_reply_to q) @
     list_arg ''references'' JStr (rd_references q) @
     (if rd_attachment_ids q \<noteq> [] then list_arg ''attachments'' blob_attachment (rd_attachment_ids q)
      else list_arg ''attachments'' build_attachment (rd_attachments q)) @
     body_args (rd_html q) (rd_text q))"

text \<open>The replacement of a draft: a new value where the request has one, the old one elsewhere.\<close>

definition keep_or :: "(string \<times> json) list \<Rightarrow> (string \<times> json) list \<Rightarrow> (string \<times> json) list" where
  "keep_or new old = (if new = [] then old else new)"

definition changed_draft :: "string \<Rightarrow> email \<Rightarrow> draft_request \<Rightarrow> json" where
  "changed_draft drafts old q = JObj (draft_head drafts (enc_list enc_email_address (em_from old)) @
     keep_or (addresses_arg ''to'' (rd_to q)) (list_arg ''to'' enc_email_address (em_to old)) @
     keep_or (addresses_arg ''cc'' (rd_cc q)) (list_arg ''cc'' enc_email_address (em_cc old)) @
     keep_or (addresses_arg ''bcc'' (rd_bcc q)) (list_arg ''bcc'' enc_email_address (em_bcc old)) @
     [(''subject'', JStr (if rd_subject q \<noteq> '''' then rd_subject q else em_subject old))] @
     keep_or (list_arg ''inReplyTo'' JStr (rd_in_reply_to q)) (list_arg ''inReplyTo'' JStr (em_in_reply_to old)) @
     keep_or (list_arg ''references'' JStr (rd_references q)) (list_arg ''references'' JStr (em_references old)) @
     keep_or (list_arg ''attachments'' build_attachment (rd_attachments q))
       (keep_or (list_arg ''attachments'' blob_attachment (rd_attachment_ids q))
         (list_arg ''attachments'' enc_body_part (em_attachments old))) @
     body_args (rd_html q) (if rd_text q \<noteq> '''' then rd_text q else body_text (em_text_body old) (em_values old)))"

definition new_message :: "string \<Rightarrow> string \<Rightarrow> send_request \<Rightarrow> json" where
  "new_message drafts sender q = JObj (draft_head drafts (plain_sender sender) @
     [(''to'', enc_list enc_email_address (of_dtos (sq_to q)))] @
     addresses_arg ''cc'' (sq_cc q) @ addresses_arg ''bcc'' (sq_bcc q) @ str_arg ''subject'' (sq_subject q) @
     list_arg ''inReplyTo'' JStr (sq_in_reply_to q) @ list_arg ''references'' JStr (sq_references q) @
     list_arg ''attachments'' build_attachment (sq_attachments q) @ body_args (sq_html q) (sq_text q))"


section \<open>Drafts\<close>

definition drafts_folder :: "resolved_account \<Rightarrow> ('s, string) act" where
  "drafts_folder a = wrap_err ''cannot resolve drafts mailbox'' (resolve_folder (rc_mailbox a) ''drafts'')"

definition log_change :: "uuid \<Rightarrow> string \<Rightarrow> string \<Rightarrow> json \<Rightarrow> ('s, uuid) act" where
  "log_change u key ty payload = wrap_err ''failed to log intent'' (log_intent u key ty payload)"

text \<open>Ask the server for a change; whether it was made is unknown when the call fails.\<close>

definition or_unknown :: "uuid \<Rightarrow> string \<Rightarrow> ('s, 'a) act \<Rightarrow> ('s, 'a) act" where
  "or_unknown i what m =
     seq (attempt m) (\<lambda>r.
     case r of
       Inr a \<Rightarrow> ret a
     | Inl e \<Rightarrow> seq (mark_intent_unknown i e) (\<lambda>_. fail (Wrapped what e)))"

definition draft_of :: "string \<Rightarrow> string \<Rightarrow> string \<Rightarrow> message_response \<Rightarrow> string \<Rightarrow> draft_response" where
  "draft_of i blob note m updated = \<lparr>do_id = i, do_blob = blob, do_message = note, do_to = mg_to m, do_cc = mg_cc m,
     do_bcc = mg_bcc m, do_subject = mg_subject m, do_text = mg_text m, do_html = mg_html m,
     do_attachment_ids = map at_blob (mg_attachments m), do_created = mg_sent m, do_updated = updated\<rparr>"

definition bare_draft :: "email \<Rightarrow> string \<Rightarrow> draft_response" where
  "bare_draft e note = \<lparr>do_id = em_id e, do_blob = em_blob e, do_message = note, do_to = [], do_cc = [], do_bcc = [],
     do_subject = '''', do_text = '''', do_html = '''', do_attachment_ids = [], do_created = '''', do_updated = ''''\<rparr>"

text \<open>The stored draft is fetched again for the answer; the code takes the first of the list without a test.\<close>

definition stored_draft :: "'s client \<Rightarrow> resolved_account \<Rightarrow> email \<Rightarrow> string \<Rightarrow> ('s, draft_response) act" where
  "stored_draft c a made note =
     seq (attempt (remote_call (email_get_with_body c (rc_stalwart a) [em_id made]))) (\<lambda>r.
     case r of
       Inl e \<Rightarrow> ret (bare_draft made note)
     | Inr g \<Rightarrow>
         (case eg_list g of
            [] \<Rightarrow> fail index_panic
          | e # _ \<Rightarrow>
              let m = to_message_response e in ret (draft_of (em_id made) (em_blob made) note m (mg_sent m))))"

definition create_draft :: "'s client \<Rightarrow> uuid \<Rightarrow> draft_request \<Rightarrow> ('s, draft_response) act" where
  "create_draft c u q =
     seq (resolve_user_account u) (\<lambda>a.
     seq (drafts_folder a) (\<lambda>drafts.
     seq (resolve_user_address c a) (\<lambda>sender.
     seq (log_change u '''' ''draft.create'' (JObj [(''action'', JStr ''create_draft'')])) (\<lambda>i.
     seq (or_unknown i ''creating draft''
            (remote_call (email_set c (rc_stalwart a) (Some (JObj [(''draft0'', new_draft drafts sender q)])) None None))) (\<lambda>r.
     case map_of (es_created r) ''draft0'' of
       None \<Rightarrow> seq (mark_intent_failed i (Plain ''no created object'')) (\<lambda>_.
               fail (Plain ''draft creation did not return created object''))
     | Some made \<Rightarrow>
         seq (ignore (mark_success i u ''message.created'' (JObj [(''message_id'', JStr (em_id made))])
                (enc_email_set_response r))) (\<lambda>_.
         stored_draft c a made ''draft created''))))))"

definition get_draft :: "'s client \<Rightarrow> uuid \<Rightarrow> string \<Rightarrow> ('s, draft_response) act" where
  "get_draft c u i =
     seq (map_err (\<lambda>_. Sentinel ErrDraftNotFound) (get_message c u i)) (\<lambda>m.
     if \<not> mg_draft m then fail (Sentinel ErrDraftNotFound)
     else ret (draft_of (mg_id m) '''' ''draft retrieved'' m (mg_received m)))"

text \<open>The draft with an id, where it is in the user's account and has the keyword of drafts.\<close>

definition existing_draft :: "email_get_response \<Rightarrow> ('s, email) act" where
  "existing_draft g =
     (case eg_list g of
        [] \<Rightarrow> fail (Sentinel ErrDraftNotFound)
      | e # _ \<Rightarrow> if keyword_set ''$draft'' e then ret e else fail (Sentinel ErrDraftNotFound))"

definition update_draft :: "'s client \<Rightarrow> uuid \<Rightarrow> string \<Rightarrow> draft_request \<Rightarrow> ('s, draft_response) act" where
  "update_draft c u i q =
     seq (resolve_user_account u) (\<lambda>a.
     seq (unavailable (remote_call (email_get_with_body c (rc_stalwart a) [i]))) (\<lambda>g.
     seq (existing_draft g) (\<lambda>old.
     seq (drafts_folder a) (\<lambda>drafts.
     seq (log_change u '''' ''draft.update'' (JObj [(''action'', JStr ''update_draft''), (''old_draft_id'', JStr i)])) (\<lambda>n.
     seq (or_unknown n ''updating draft'' (remote_call (email_set c (rc_stalwart a)
            (Some (JObj [(''draft_update0'', changed_draft drafts old q)])) None (Some [i])))) (\<lambda>r.
     case map_of (es_created r) ''draft_update0'' of
       None \<Rightarrow> seq (mark_intent_failed n (Plain ''no created object'')) (\<lambda>_.
               fail (Plain ''draft update did not return created object''))
     | Some made \<Rightarrow>
         seq (ignore (mark_success n u ''message.updated''
                (JObj [(''message_id'', JStr (em_id made)), (''old_message_id'', JStr i)]) (enc_email_set_response r))) (\<lambda>_.
         stored_draft c a made ''draft updated'')))))))"

definition delete_draft :: "'s client \<Rightarrow> uuid \<Rightarrow> string \<Rightarrow> ('s, unit) act" where
  "delete_draft c u i =
     seq (resolve_user_account u) (\<lambda>a.
     seq (unavailable (remote_call (email_get c (rc_stalwart a) (Some [i]) (Some [''id'', ''keywords''])))) (\<lambda>g.
     seq (existing_draft g) (\<lambda>_.
     seq (log_change u '''' ''draft.delete'' (JObj [(''action'', JStr ''delete_draft''), (''draft_id'', JStr i)])) (\<lambda>n.
     seq (or_unknown n ''deleting draft'' (remote_call (email_set c (rc_stalwart a) None None (Some [i])))) (\<lambda>_.
     ignore (mark_success n u ''message.deleted'' (JObj [(''message_id'', JStr i)]) JNull))))))"


section \<open>Sending\<close>

text \<open>The search for a substring, as the code writes it out.\<close>

definition search_string :: "string \<Rightarrow> string \<Rightarrow> bool" where
  "search_string s sub = list_ex (\<lambda>i. take (length sub) (drop i s) = sub) [0..<length s - length sub + 1]"

definition contains_text :: "string \<Rightarrow> string \<Rightarrow> bool" where
  "contains_text s sub \<longleftrightarrow> length sub \<le> length s \<and> search_string s sub"

definition is_timeout :: "goerr \<Rightarrow> bool" where
  "is_timeout e = list_ex (contains_text (err_text e))
     [''timeout'', ''deadline exceeded'', ''connection refused'', ''connection reset'', ''EOF'']"

text \<open>\<open>Ambiguous\<close> is the answer together with the error \<^verbatim>\<open>ErrDeliveryAmbiguous\<close>.\<close>

datatype send_outcome = Sent send_response | Ambiguous send_response

text \<open>What is to be submitted: the id of the email, its subject and the recipients, in the order they are added.\<close>

record outgoing =
  og_email :: string
  og_subject :: string
  og_recipients :: "string list"

definition recipient_set :: "string list \<Rightarrow> string list" where
  "recipient_set xs = remdups (filter (\<lambda>x. x \<noteq> '''') xs)"

definition draft_to_send :: "'s client \<Rightarrow> resolved_account \<Rightarrow> string \<Rightarrow> ('s, outgoing) act" where
  "draft_to_send c a i =
     seq (unavailable (remote_call (email_get c (rc_stalwart a) (Some [i])
            (Some [''id'', ''keywords'', ''to'', ''cc'', ''bcc'', ''subject''])))) (\<lambda>g.
     case eg_list g of
       [] \<Rightarrow> fail (Sentinel ErrDraftNotFound)
     | e # _ \<Rightarrow>
         if em_to e = [] \<and> em_cc e = [] \<and> em_bcc e = [] then fail (Sentinel ErrMissingRecipient)
         else ret \<lparr>og_email = i, og_subject = em_subject e,
                   og_recipients = recipient_set (map ea_email (em_to e @ em_cc e @ em_bcc e))\<rparr>)"

definition message_to_send :: "'s client \<Rightarrow> resolved_account \<Rightarrow> send_request \<Rightarrow> ('s, outgoing) act" where
  "message_to_send c a q =
     seq (drafts_folder a) (\<lambda>drafts.
     seq (resolve_user_address c a) (\<lambda>sender.
     seq (wrap_err ''creating email for send'' (remote_call (email_set c (rc_stalwart a)
            (Some (JObj [(''send_email0'', new_message drafts sender q)])) None None))) (\<lambda>r.
     case map_of (es_created r) ''send_email0'' of
       None \<Rightarrow> fail (Plain ''email creation for send did not return created object'')
     | Some e \<Rightarrow> ret \<lparr>og_email = em_id e, og_subject = sq_subject q,
                      og_recipients = recipient_set (map ad_email (sq_to q @ sq_cc q @ sq_bcc q))\<rparr>)))"

text \<open>The patch that moves a submitted email from Drafts to Sent; where both are one folder, the later entry of the map counts.\<close>

definition sent_patch :: "string \<Rightarrow> string \<Rightarrow> json" where
  "sent_patch sent drafts = JObj ([(''keywords/$draft'', JNull)] @
     (if drafts = sent then [] else [(''mailboxIds/'' @ sent, JBool True)]) @
     (if drafts = '''' then [] else [(''mailboxIds/'' @ drafts, JNull)]))"

definition folder_or_empty :: "uuid \<Rightarrow> string \<Rightarrow> ('s, string) act" where
  "folder_or_empty mb role =
     seq (attempt (resolve_folder mb role)) (\<lambda>r. ret (case r of Inl e \<Rightarrow> '''' | Inr i \<Rightarrow> i))"

definition after_sending :: "resolved_account \<Rightarrow> string \<Rightarrow> ('s, json option) act" where
  "after_sending a sent =
     (if sent = '''' then ret None
      else seq (folder_or_empty (rc_mailbox a) ''drafts'') (\<lambda>drafts. ret (Some (sent_patch sent drafts))))"

definition sending_identity :: "'s client \<Rightarrow> resolved_account \<Rightarrow> ('s, string) act" where
  "sending_identity c a =
     seq (attempt (remote_call (find_primary_identity c (rc_stalwart a)))) (\<lambda>r.
     ret (case r of Inl e \<Rightarrow> '''' | Inr i \<Rightarrow> in_id i))"

definition submit :: "'s client \<Rightarrow> resolved_account \<Rightarrow> uuid \<Rightarrow> string \<Rightarrow> outgoing \<Rightarrow> string \<Rightarrow> json option \<Rightarrow>
    (string list \<Rightarrow> string list) \<Rightarrow> ('s, send_outcome) act" where
  "submit c a u key og ident patch visit =
     seq (log_change u key ''message.send''
            (JObj [(''email_id'', JStr (og_email og)), (''identity_id'', JStr ident)])) (\<lambda>n.
     seq (attempt (remote_call (submission_set c (rc_stalwart a) (og_email og) ident patch))) (\<lambda>r.
     case r of
       Inl e \<Rightarrow>
         if is_timeout e then
           seq (mark_intent_unknown n e) (\<lambda>_.
           ret (Ambiguous \<lparr>sr_message = og_email og, sr_submission = '''', sr_status = ''unknown''\<rparr>))
         else seq (mark_intent_failed n e) (\<lambda>_. fail (Wrapped ''submitting email'' e))
     | Inr x \<Rightarrow>
         seq (ignore (mark_success n u ''message.sent'' (JObj [(''message_id'', JStr (og_email og))])
                (enc_submission_set_response x))) (\<lambda>_.
         let sub = (case us_created x of [] \<Rightarrow> '''' | (k, y) # _ \<Rightarrow> su_id y) in
         seq (for_each (\<lambda>rec. ignore (create_delivery_status (og_email og) sub u (rc_mailbox a) rec (og_subject og)))
                (visit (og_recipients og))) (\<lambda>_.
         ret (Sent \<lparr>sr_message = og_email og, sr_submission = sub, sr_status = ''submitted''\<rparr>)))))"

text \<open>The recipients are the keys of a map; \<open>visit\<close> is the order in which the range over it visits them.\<close>

definition send_message ::
  "'s client \<Rightarrow> (string list \<Rightarrow> string list) \<Rightarrow> uuid \<Rightarrow> send_request \<Rightarrow> ('s, send_outcome) act" where
  "send_message c visit u q =
     seq (resolve_user_account u) (\<lambda>a.
     if sq_draft q = '''' \<and> sq_to q = [] \<and> sq_cc q = [] \<and> sq_bcc q = [] then fail (Sentinel ErrMissingRecipient)
     else
       seq (sending_identity c a) (\<lambda>ident.
       seq (folder_or_empty (rc_mailbox a) ''sent'') (\<lambda>sent.
       seq (if sq_draft q \<noteq> '''' then draft_to_send c a (sq_draft q) else message_to_send c a q) (\<lambda>og.
       seq (after_sending a sent) (\<lambda>patch.
       submit c a u (sq_key q) og ident patch visit)))))"

end
