(* ===== verification/MailActions.thy ===== *)
theory MailActions
  imports MailSend
begin

text \<open>
  The actions on a message that exists (\<^verbatim>\<open>internal/mail/service.go\<close>): keywords, moves, replies and forwards. A
  message of another account is not found, because the server is asked for the user's account only.
\<close>

section \<open>Keywords and folders\<close>

definition applied :: "string \<Rightarrow> string \<Rightarrow> action_response" where
  "applied i action = \<lparr>ar_id = i, ar_action = action, ar_status = ''applied''\<rparr>"

definition verify_own :: "'s client \<Rightarrow> resolved_account \<Rightarrow> string \<Rightarrow> string \<Rightarrow> ('s, unit) act" where
  "verify_own c a i prop =
     seq (unavailable (remote_call (email_get c (rc_stalwart a) (Some [i]) (Some [''id'', prop])))) (\<lambda>g.
     if eg_list g = [] then fail (Sentinel ErrMessageNotFound) else ret ())"

definition patch_email :: "'s client \<Rightarrow> resolved_account \<Rightarrow> string \<Rightarrow> (string \<times> json) list \<Rightarrow> ('s, email_set_response) act" where
  "patch_email c a i patch = remote_call (email_set c (rc_stalwart a) None (Some (JObj [(i, JObj patch)])) None)"

definition update_keyword ::
  "'s client \<Rightarrow> uuid \<Rightarrow> string \<Rightarrow> string \<Rightarrow> bool \<Rightarrow> string \<Rightarrow> ('s, action_response) act" where
  "update_keyword c u i keyword add action =
     seq (resolve_user_account u) (\<lambda>a.
     seq (verify_own c a i ''keywords'') (\<lambda>_.
     let event = JObj [(''message_id'', JStr i), (''keyword'', JStr keyword), (''add'', JBool add)] in
     seq (log_change u '''' ''message.update'' event) (\<lambda>n.
     seq (or_unknown n ''updating keyword''
            (patch_email c a i [(''keywords/'' @ keyword, if add then JBool True else JNull)])) (\<lambda>_.
     seq (ignore (mark_success n u ''message.updated'' event JNull)) (\<lambda>_.
     ret (applied i action))))))"

definition move_to_role :: "'s client \<Rightarrow> uuid \<Rightarrow> string \<Rightarrow> string \<Rightarrow> string \<Rightarrow> ('s, action_response) act" where
  "move_to_role c u i role action =
     seq (resolve_user_account u) (\<lambda>a.
     seq (wrap_err (''cannot resolve '' @ role @ '' mailbox'') (resolve_folder (rc_mailbox a) role)) (\<lambda>target.
     seq (verify_own c a i ''mailboxIds'') (\<lambda>_.
     seq (log_change u '''' ''message.move''
            (JObj [(''message_id'', JStr i), (''role'', JStr role), (''action'', JStr action)])) (\<lambda>n.
     seq (or_unknown n (''moving message to '' @ role) (patch_email c a i [(''mailboxIds'', in_folder target)])) (\<lambda>_.
     seq (ignore (mark_success n u ''message.moved'' (JObj [(''message_id'', JStr i), (''role'', JStr role)]) JNull)) (\<lambda>_.
     ret (applied i action)))))))"

definition mark_read :: "'s client \<Rightarrow> uuid \<Rightarrow> string \<Rightarrow> ('s, action_response) act" where
  "mark_read c u i = update_keyword c u i ''$seen'' True ''mark_read''"

definition mark_unread :: "'s client \<Rightarrow> uuid \<Rightarrow> string \<Rightarrow> ('s, action_response) act" where
  "mark_unread c u i = update_keyword c u i ''$seen'' False ''mark_unread''"

definition star_message :: "'s client \<Rightarrow> uuid \<Rightarrow> string \<Rightarrow> ('s, action_response) act" where
  "star_message c u i = update_keyword c u i ''$flagged'' True ''star''"

definition unstar_message :: "'s client \<Rightarrow> uuid \<Rightarrow> string \<Rightarrow> ('s, action_response) act" where
  "unstar_message c u i = update_keyword c u i ''$flagged'' False ''unstar''"

definition archive_message :: "'s client \<Rightarrow> uuid \<Rightarrow> string \<Rightarrow> ('s, action_response) act" where
  "archive_message c u i = move_to_role c u i ''archive'' ''archive''"

definition trash_message :: "'s client \<Rightarrow> uuid \<Rightarrow> string \<Rightarrow> ('s, action_response) act" where
  "trash_message c u i = move_to_role c u i ''trash'' ''trash''"

definition restore_message :: "'s client \<Rightarrow> uuid \<Rightarrow> string \<Rightarrow> ('s, action_response) act" where
  "restore_message c u i = move_to_role c u i ''inbox'' ''restore''"

definition spam_message :: "'s client \<Rightarrow> uuid \<Rightarrow> string \<Rightarrow> ('s, action_response) act" where
  "spam_message c u i = move_to_role c u i ''junk'' ''spam''"

definition move_message :: "'s client \<Rightarrow> uuid \<Rightarrow> string \<Rightarrow> string \<Rightarrow> ('s, action_response) act" where
  "move_message c u i target =
     seq (resolve_user_account u) (\<lambda>a.
     seq (verify_own c a i ''mailboxIds'') (\<lambda>_.
     seq (wrap_err ''moving message'' (patch_email c a i [(''mailboxIds'', in_folder target)])) (\<lambda>_.
     ret (applied i ''move''))))"


section \<open>Replies and forwards\<close>

definition with_prefix :: "string \<Rightarrow> string \<Rightarrow> string \<Rightarrow> string" where
  "with_prefix lower prefix subj = (if has_prefix (to_lower subj) lower then subj else prefix @ subj)"

definition answer_to :: "message_response \<Rightarrow> address_dto list \<Rightarrow> address_dto list" where
  "answer_to orig given =
     (if given \<noteq> [] then given else if mg_reply_to orig \<noteq> [] then mg_reply_to orig
      else if mg_from orig \<noteq> [] then mg_from orig else given)"

definition threading_id :: "message_response \<Rightarrow> string" where
  "threading_id orig = (if mg_message_id orig \<noteq> '''' then mg_message_id orig else mg_id orig)"

text \<open>The fields a reply sets: recipient, subject and the headers that keep it in the conversation.\<close>

definition reply_headers :: "message_response \<Rightarrow> send_request \<Rightarrow> send_request" where
  "reply_headers orig q = q\<lparr>
     sq_subject := (if sq_subject q = '''' then with_prefix ''re: '' ''Re: '' (mg_subject orig) else sq_subject q),
     sq_in_reply_to := [threading_id orig],
     sq_references := mg_references orig @ [threading_id orig]\<rparr>"

definition reply_request :: "message_response \<Rightarrow> send_request \<Rightarrow> send_request" where
  "reply_request orig q = reply_headers orig (q\<lparr>sq_to := answer_to orig (sq_to q)\<rparr>)"

text \<open>
  The copies of a reply to all: those the original went to, other than the user and the recipients, one for
  each address without regard to its case. A later entry replaces an earlier one; \<open>visit\<close> is the order in which the range
  over the map visits its keys.
\<close>

definition copied :: "string \<Rightarrow> address_dto list \<Rightarrow> address_dto \<Rightarrow> bool" where
  "copied self to_list x \<longleftrightarrow>
     \<not> equal_fold (ad_email x) self \<and> \<not> (\<exists>t \<in> set to_list. equal_fold (ad_email t) (ad_email x))"

definition copy_map :: "string \<Rightarrow> address_dto list \<Rightarrow> address_dto list \<Rightarrow> (string \<times> address_dto) list" where
  "copy_map self to_list xs =
     fold (\<lambda>x m. if copied self to_list x then map_put (to_lower (ad_email x)) x m else m) xs []"

definition copies_of ::
  "(string list \<Rightarrow> string list) \<Rightarrow> string \<Rightarrow> address_dto list \<Rightarrow> message_response \<Rightarrow> address_dto list" where
  "copies_of visit self to_list orig =
     (let m = copy_map self to_list (mg_to orig @ mg_cc orig) in
      List.map_filter (map_of m) (visit (map fst m)))"

definition reply_all_request ::
  "(string list \<Rightarrow> string list) \<Rightarrow> string \<Rightarrow> message_response \<Rightarrow> send_request \<Rightarrow> send_request" where
  "reply_all_request visit self orig q =
     (let to_list = answer_to orig (sq_to q);
          cc_list = (if sq_cc q = [] then copies_of visit self to_list orig else sq_cc q) in
      reply_headers orig (q\<lparr>sq_to := to_list, sq_cc := cc_list\<rparr>))"

definition forward_request :: "message_response \<Rightarrow> send_request \<Rightarrow> send_request" where
  "forward_request orig q = q\<lparr>
     sq_subject := (if sq_subject q = '''' then with_prefix ''fwd: '' ''Fwd: '' (mg_subject orig) else sq_subject q),
     sq_attachments := sq_attachments q @ mg_attachments orig\<rparr>"

definition reply_message ::
  "'s client \<Rightarrow> (string list \<Rightarrow> string list) \<Rightarrow> uuid \<Rightarrow> string \<Rightarrow> send_request \<Rightarrow> ('s, send_outcome) act" where
  "reply_message c visit u i q =
     seq (resolve_user_account u) (\<lambda>_.
     seq (get_message c u i) (\<lambda>orig.
     send_message c visit u (reply_request orig q)))"

definition reply_all_message ::
  "'s client \<Rightarrow> (string list \<Rightarrow> string list) \<Rightarrow> uuid \<Rightarrow> string \<Rightarrow> send_request \<Rightarrow> ('s, send_outcome) act" where
  "reply_all_message c visit u i q =
     seq (resolve_user_account u) (\<lambda>a.
     seq (get_message c u i) (\<lambda>orig.
     seq (resolve_user_address c a) (\<lambda>self.
     send_message c visit u (reply_all_request visit self orig q))))"

definition forward_message ::
  "'s client \<Rightarrow> (string list \<Rightarrow> string list) \<Rightarrow> uuid \<Rightarrow> string \<Rightarrow> send_request \<Rightarrow> ('s, send_outcome) act" where
  "forward_message c visit u i q =
     seq (resolve_user_account u) (\<lambda>_.
     seq (get_message c u i) (\<lambda>orig.
     send_message c visit u (forward_request orig q)))"

end
