(* ===== verification/MailFrame.thy ===== *)
theory MailFrame
  imports MailActions
begin

text \<open>
  What the operations of the mail service write. They are put together in one type of calls. The locale
  \<open>mail_invariant\<close> is a property of the tables that the statements of the service keep, the locale \<open>mail_frame\<close> one
  that does not depend on the tables they write: the log of intents, the outbox, the delivery statuses, the
  synchronisation state and the reactions. Either is kept by every call, whatever fails.
\<close>

section \<open>The calls of the service\<close>

datatype mail_call =
    ListFolders | GetFolder string | ListMessages list_options | GetMessage string | SearchMessages json
  | ListThreads time_codec list_options | GetThread string | GetThreadMessages string | SyncMail | ToggleReaction string string
  | CreateDraft draft_request | GetDraft string | UpdateDraft string draft_request | DeleteDraft string
  | SendMessage send_request | ReplyMessage string send_request | ReplyAllMessage string send_request
  | ForwardMessage string send_request
  | UpdateKeyword string string bool string | MoveToRole string string string | MoveMessage string string

datatype mail_result =
    Folders "folder_response list" | Folder folder_response | MessageList message_list | Message message_response
  | Ids "string list" | Threads thread_page | Thread thread_response | Messages "message_response list"
  | Synced sync_response | Reacted bool | Draft draft_response | Deleted | Outcome send_outcome | Acted action_response

fun mail_op :: "'s client \<Rightarrow> (string list \<Rightarrow> string list) \<Rightarrow> uuid \<Rightarrow> mail_call \<Rightarrow> ('s, mail_result) act" where
  "mail_op c visit u ListFolders = seq (list_folders c u) (\<lambda>x. ret (Folders x))"
| "mail_op c visit u (GetFolder i) = seq (get_folder c u i) (\<lambda>x. ret (Folder x))"
| "mail_op c visit u (ListMessages q) = seq (list_messages c u q) (\<lambda>x. ret (MessageList x))"
| "mail_op c visit u (GetMessage i) = seq (get_message c u i) (\<lambda>x. ret (Message x))"
| "mail_op c visit u (SearchMessages flt) = seq (search_messages c u flt) (\<lambda>x. ret (Ids x))"
| "mail_op c visit u (ListThreads tc q) = seq (list_user_threads tc u q) (\<lambda>x. ret (Threads x))"
| "mail_op c visit u (GetThread i) = seq (get_user_thread u i) (\<lambda>x. ret (Thread x))"
| "mail_op c visit u (GetThreadMessages i) = seq (get_thread_messages c u i) (\<lambda>x. ret (Messages x))"
| "mail_op c visit u SyncMail = seq (sync_mail c u) (\<lambda>x. ret (Synced x))"
| "mail_op c visit u (ToggleReaction i e) = seq (toggle_reaction c i u e) (\<lambda>x. ret (Reacted x))"
| "mail_op c visit u (CreateDraft q) = seq (create_draft c u q) (\<lambda>x. ret (Draft x))"
| "mail_op c visit u (GetDraft i) = seq (get_draft c u i) (\<lambda>x. ret (Draft x))"
| "mail_op c visit u (UpdateDraft i q) = seq (update_draft c u i q) (\<lambda>x. ret (Draft x))"
| "mail_op c visit u (DeleteDraft i) = seq (delete_draft c u i) (\<lambda>x. ret Deleted)"
| "mail_op c visit u (SendMessage q) = seq (send_message c visit u q) (\<lambda>x. ret (Outcome x))"
| "mail_op c visit u (ReplyMessage i q) = seq (reply_message c visit u i q) (\<lambda>x. ret (Outcome x))"
| "mail_op c visit u (ReplyAllMessage i q) = seq (reply_all_message c visit u i q) (\<lambda>x. ret (Outcome x))"
| "mail_op c visit u (ForwardMessage i q) = seq (forward_message c visit u i q) (\<lambda>x. ret (Outcome x))"
| "mail_op c visit u (UpdateKeyword i k b t) = seq (update_keyword c u i k b t) (\<lambda>x. ret (Acted x))"
| "mail_op c visit u (MoveToRole i r t) = seq (move_to_role c u i r t) (\<lambda>x. ret (Acted x))"
| "mail_op c visit u (MoveMessage i t) = seq (move_message c u i t) (\<lambda>x. ret (Acted x))"


section \<open>Properties the statements keep\<close>

definition executing :: "time \<Rightarrow> recon_log \<Rightarrow> recon_log" where
  "executing t r = r\<lparr>rl_status := ''EXECUTING'', rl_updated := t\<rparr>"

definition succeeded_with :: "json \<Rightarrow> time \<Rightarrow> recon_log \<Rightarrow> recon_log" where
  "succeeded_with x t r = r\<lparr>rl_status := ''SUCCESS'', rl_response := Some x, rl_updated := t\<rparr>"

definition sync_statuses :: "string set" where "sync_statuses = {''idle'', ''syncing'', ''error''}"

locale mail_invariant =
  fixes I :: "db \<Rightarrow> bool"
  assumes intent_new: "query_preserves I (insert_intent u k ty p)"
    and intent_again: "query_preserves I (set_intent i executing)"
    and intent_done: "query_preserves I (set_intent i (succeeded_with x))"
    and intent_error: "st \<in> {''FAILED'', ''UNKNOWN''} \<Longrightarrow> query_preserves I (set_intent_error i st e)"
    and event_new: "query_preserves I (insert_outbox u ty p)"
    and delivery_new: "query_preserves I (insert_delivery m sub u mb rec subj)"
    and sync_written: "st \<in> sync_statuses \<Longrightarrow> query_preserves I (write_sync_state i s1 st msg)"
    and reaction_added: "query_preserves I (insert_reaction m1 u1 e1)"
    and reaction_removed: "query_preserves I (delete_reaction m1 u1 e1)"
begin

lemma sync_kept:
  "query_preserves I (write_sync_state i s1 ''idle'' msg)" "query_preserves I (write_sync_state i s1 ''syncing'' msg)"
  "query_preserves I (write_sync_state i s1 ''error'' msg)"
  by (rule sync_written; simp add: sync_statuses_def)+

lemma intent_kept:
  "query_preserves I (set_intent i (\<lambda>t r. r\<lparr>rl_status := ''EXECUTING'', rl_updated := t\<rparr>))"
  "query_preserves I (set_intent i (\<lambda>t r. r\<lparr>rl_status := ''SUCCESS'', rl_response := Some x, rl_updated := t\<rparr>))"
  "query_preserves I (set_intent_error i ''FAILED'' e)" "query_preserves I (set_intent_error i ''UNKNOWN'' e)"
  using intent_again [of i] intent_done [of i x] intent_error [of _ i e]
  by (simp_all add: executing_def [abs_def] succeeded_with_def [abs_def])

lemma select_kept:
  "query_preserves I (select_user_mailbox u)" "query_preserves I (select_address_row i)"
  "query_preserves I (select_mapping i role)" "query_preserves I (select_intent u k)"
  "query_preserves I (select_sync_state i)" "query_preserves I (select_thread_of acc j)"
  by (simp_all add: query_preserves_def select_user_mailbox_def select_address_row_def select_mapping_def select_intent_def
      select_sync_state_def select_thread_of_def)

lemmas statement_kept = intent_new intent_kept event_new delivery_new sync_kept reaction_added reaction_removed select_kept

lemma store_keeps:
  "preserves I (get_mailbox_by_user u)" "preserves I (mail_address_by_id i)" "preserves I (mapping_by_role i role)"
  "preserves I (log_intent u k ty p)" "preserves I (mark_success n u ty e x)"
  "preserves I (mark_intent_failed n y)" "preserves I (mark_intent_unknown n y)" "preserves I (get_sync_state i)"
  "preserves I (update_sync_state i s1 ''idle'' s3)" "preserves I (update_sync_state i s1 ''syncing'' s3)"
  "preserves I (update_sync_state i s1 ''error'' s3)"
  "preserves I (toggle_reaction_row m1 u1 e1)" "preserves I (create_delivery_status m sub u mb rec subj)"
  "preserves I (thread_id_by_stalwart_id mb sid)"
  unfolding get_mailbox_by_user_def mail_address_by_id_def mapping_by_role_def log_intent_def mark_success_def
    mark_intent_failed_def mark_intent_unknown_def get_sync_state_def update_sync_state_def toggle_reaction_row_def
    create_delivery_status_def thread_id_by_stalwart_id_def
  by (intro pres_intro statement_kept)+

lemma reads_keep:
  "preserves I (delivery_statuses i)" "preserves I (reactions_for_message i)" "preserves I (list_threads a mb n k)"
  "preserves I (thread_account_scoped a j)" "preserves I (messages_by_thread a j)"
  by (simp_all add: delivery_statuses_def reactions_for_message_def list_threads_def thread_account_scoped_def
      messages_by_thread_def preserves_wrap_err preserves_map_err preserves_stmt query_preserves_def)

lemma key_keeps: "(\<And>k. preserves I (m k)) \<Longrightarrow> preserves I (with_key i m)"
  by (auto simp: with_key_def query_preserves_def intro!: preserves_stmt split: option.split)

lemma page_keeps: "preserves I (list_threads_from a mb n k)"
  by (auto simp: list_threads_from_def query_preserves_def reads_keep intro!: key_keeps preserves_stmt preserves_wrap_err
      split: option.split)

lemma list_keeps:
  "preserves I m \<Longrightarrow> (\<And>y ys. preserves I (f y ys)) \<Longrightarrow> preserves I (case x of [] \<Rightarrow> m | y # ys \<Rightarrow> f y ys)"
  by (cases x) simp_all

lemma enrich_keeps: "preserves I look \<Longrightarrow> preserves I (enrich look f m)"
  unfolding enrich_def by (intro pres_intro)

lemma thread_messages_keeps: "preserves I (thread_messages_of es ms)"
  by (induction ms) (simp_all only: thread_messages_of.simps, (intro pres_intro enrich_keeps reads_keep | assumption)+)

lemma resolve_keeps:
  "preserves I (resolve_user_account u)" "preserves I (resolve_folder mb role)" "preserves I (resolve_user_address c a)"
  "preserves I (drafts_folder a)" "preserves I (log_change u k ty p)" "preserves I (folder_or_empty mb role)"
  "preserves I (after_sending a sent)" "preserves I (sending_identity c a)" "preserves I (own_thread mb i)"
  unfolding resolve_user_account_def resolve_folder_def resolve_user_address_def drafts_folder_def log_change_def
    folder_or_empty_def after_sending_def sending_identity_def own_thread_def
  by (intro pres_intro store_keeps key_keeps reads_keep)+

lemma unavailable_keeps: "preserves I m \<Longrightarrow> preserves I (unavailable m)"
  unfolding unavailable_def by (rule preserves_tag_err)

lemma unknown_keeps: "preserves I m \<Longrightarrow> preserves I (or_unknown i what m)"
  unfolding or_unknown_def by (intro pres_intro store_keeps)

lemmas keeps = pres_intro store_keeps reads_keep resolve_keeps enrich_keeps unavailable_keeps unknown_keeps list_keeps
  thread_messages_keeps page_keeps

lemma part_keeps:
  "preserves I (get_message c u i)" "preserves I (stored_draft c a made note)" "preserves I (existing_draft g)"
  "preserves I (submit c a u key og ident patch visit)" "preserves I (verify_own c a i prop)"
  "preserves I (patch_email c a i kv)" "preserves I (fetch_changes c a en since)"
  "preserves I (draft_to_send c a i)" "preserves I (message_to_send c a q)"
  unfolding get_message_def stored_draft_def existing_draft_def submit_def verify_own_def patch_email_def fetch_changes_def
    draft_to_send_def message_to_send_def
  by (intro keeps)+

lemma send_message_keeps: "preserves I (send_message c visit u q)"
  unfolding send_message_def by (intro keeps part_keeps)

lemma op_keeps: "preserves I (mail_op c visit u call)"
  by (cases call; simp only: mail_op.simps list_folders_def get_folder_def list_messages_def search_messages_def
      list_user_threads_def get_user_thread_def get_thread_messages_def sync_mail_def toggle_reaction_def create_draft_def
      get_draft_def update_draft_def delete_draft_def reply_message_def reply_all_message_def forward_message_def
      update_keyword_def move_to_role_def move_message_def; intro keeps part_keeps send_message_keeps)

end

locale mail_frame =
  fixes I :: "db \<Rightarrow> bool"
  assumes frame: "I (d\<lparr>recon_logs := l, outbox := b, deliveries := v, sync_states := s, reactions := r, next_id := n\<rparr>) = I d"
begin

lemma frame_parts [simp]:
  "I (d\<lparr>recon_logs := l\<rparr>) = I d" "I (d\<lparr>recon_logs := l, next_id := n\<rparr>) = I d" "I (d\<lparr>outbox := b, next_id := n\<rparr>) = I d"
  "I (d\<lparr>deliveries := v\<rparr>) = I d" "I (d\<lparr>sync_states := s\<rparr>) = I d" "I (d\<lparr>reactions := r\<rparr>) = I d"
  "I (d\<lparr>reactions := r, next_id := n\<rparr>) = I d"
  using frame [where d = d and l = l and b = "outbox d" and v = "deliveries d" and s = "sync_states d" and r = "reactions d" and n = "next_id d"]
    frame [where d = d and l = l and b = "outbox d" and v = "deliveries d" and s = "sync_states d" and r = "reactions d" and n = n]
    frame [where d = d and l = "recon_logs d" and b = b and v = "deliveries d" and s = "sync_states d" and r = "reactions d" and n = n]
    frame [where d = d and l = "recon_logs d" and b = "outbox d" and v = v and s = "sync_states d" and r = "reactions d" and n = "next_id d"]
    frame [where d = d and l = "recon_logs d" and b = "outbox d" and v = "deliveries d" and s = s and r = "reactions d" and n = "next_id d"]
    frame [where d = d and l = "recon_logs d" and b = "outbox d" and v = "deliveries d" and s = "sync_states d" and r = r and n = "next_id d"]
    frame [where d = d and l = "recon_logs d" and b = "outbox d" and v = "deliveries d" and s = "sync_states d" and r = r and n = n]
  by (cases d; simp)+

end

sublocale mail_frame \<subseteq> mail_invariant I
  by unfold_locales
    (auto simp: query_preserves_def insert_intent_def set_intent_def set_intent_error_def insert_outbox_def insert_delivery_def
      write_sync_state_def insert_reaction_def delete_reaction_def split: option.splits)

end
