(* ===== verification/MailIsolation.thy ===== *)
theory MailIsolation
  imports MailFrame
begin

text \<open>
  The boundary between accounts. The service reaches the mail server with administrator rights, so nothing but its
  own code keeps one user's requests away from another user's mail. What the server does with JMAP requests for other
  accounts is shown to have no influence on a call of the service. Uploads and downloads, whose URL carries the
  account instead of the body, are not among the calls.
\<close>

section \<open>Requests for one account\<close>

definition call_for :: "string \<Rightarrow> json \<Rightarrow> bool" where
  "call_for acc call =
     (case call of
        JArr [JStr name, JObj args, JStr tag] \<Rightarrow> field_str ''accountId'' args = Some acc
      | _ \<Rightarrow> False)"

definition for_account :: "string \<Rightarrow> http_request \<Rightarrow> bool" where
  "for_account acc rq =
     (case rq_body rq of
        JsonBody (JObj fs) \<Rightarrow>
          (case field_arr ''methodCalls'' fs of None \<Rightarrow> False | Some calls \<Rightarrow> list_all (call_for acc) calls)
      | _ \<Rightarrow> False)"

definition agree_on :: "string \<Rightarrow> 's client \<Rightarrow> 's client \<Rightarrow> bool" where
  "agree_on acc c c' \<longleftrightarrow> cl_base c = cl_base c' \<and> (\<forall>rq. for_account acc rq \<longrightarrow> cl_do c rq = cl_do c' rq)"

lemma obj_get_first: "k \<notin> fst ` set fs \<Longrightarrow> obj_get k ((k, v) # fs) = Some v"
proof -
  assume "k \<notin> fst ` set fs"
  then have "map_of (rev fs) k = None" by (simp add: map_of_eq_None_iff)
  then show ?thesis by (simp add: obj_get_def map_add_def)
qed

lemma call_for_method: "''accountId'' \<notin> fst ` set args \<Longrightarrow> call_for acc (method_call name ((''accountId'', JStr acc) # args) tag)"
  by (simp add: call_for_def method_call_def field_str_def obj_get_first)

lemma in_opt_arg [simp]:
  "(x, b) \<in> set (opt_arg k v) \<longleftrightarrow> x = k \<and> v = Some b"
  "(x, b) \<in> set (pos_arg k n) \<longleftrightarrow> x = k \<and> n > 0 \<and> b = JNum n"
  by (auto simp: opt_arg_def pos_arg_def split: option.splits)

lemma call_jmap_agree:
  assumes "agree_on acc c c'" and "list_all (call_for acc) calls"
  shows "call_jmap c us calls = call_jmap c' us calls"
proof -
  have "for_account acc \<lparr>rq_method = ''POST'', rq_url = url, rq_type = ty, rq_body = JsonBody (jmap_request us calls)\<rparr>" for url ty
    using assms(2) by (simp add: for_account_def jmap_request_def field_arr_def obj_get_def)
  with assms(1) show ?thesis by (simp add: call_jmap_def do_request_def agree_on_def)
qed

lemma call_jmap_first_agree:
  "agree_on acc c c' \<Longrightarrow> list_all (call_for acc) calls \<Longrightarrow> call_jmap_first c us calls d = call_jmap_first c' us calls d"
  by (simp add: call_jmap_first_def call_jmap_agree)

lemma first_response_agree:
  "agree_on acc c c' \<Longrightarrow> list_all (call_for acc) calls \<Longrightarrow> first_response c calls f what d = first_response c' calls f what d"
  by (simp add: first_response_def call_jmap_agree)

lemma client_agree:
  assumes "agree_on acc c c'"
  shows "folder_get c acc ids = folder_get c' acc ids"
    "find_primary_identity c acc = find_primary_identity c' acc"
    "email_query_at c acc flt srt pos lim = email_query_at c' acc flt srt pos lim"
    "email_query c acc flt srt lim = email_query c' acc flt srt lim"
    "email_get c acc ids props = email_get c' acc ids props"
    "email_get_with_body c acc is = email_get_with_body c' acc is"
    "email_set c acc cr up de = email_set c' acc cr up de"
    "submission_set c acc em idn pt = submission_set c' acc em idn pt"
    "get_changes c acc entity since = get_changes c' acc entity since"
  using assms
  by (auto simp: folder_get_def find_primary_identity_def identity_get_def email_query_at_def email_query_def email_get_def
      email_get_with_body_def email_set_def submission_set_def submission_args_def get_changes_def
      intro!: arg_cong2 [where f = seq] arg_cong2 [where f = wrap_err] call_jmap_first_agree first_response_agree
        call_for_method)


section \<open>Actions that are equal on some databases\<close>

definition same_on :: "(db \<Rightarrow> bool) \<Rightarrow> ('s, 'a) act \<Rightarrow> ('s, 'a) act \<Rightarrow> bool" where
  "same_on P m m' \<longleftrightarrow> (\<forall>w. P (db w) \<longrightarrow> m w = m' w)"

lemma same_onD: "same_on P m m' \<Longrightarrow> P (db w) \<Longrightarrow> m w = m' w"
  by (simp add: same_on_def)

lemma same_refl: "same_on P m m"
  by (simp add: same_on_def)

lemma same_seq:
  assumes "same_on P m m'" and "preserves P m" and "\<And>a. same_on P (k a) (k' a)"
  shows "same_on P (seq m k) (seq m' k')"
  unfolding same_on_def
proof (intro allI impI)
  fix w :: "'a world"
  assume w: "P (db w)"
  with assms(1) have "m w = m' w" by (rule same_onD)
  moreover have "P (db (snd (m w)))" using assms(2) w by (rule preservesD)
  ultimately show "seq m k w = seq m' k' w"
    using assms(3) by (auto simp: seq_def same_on_def split: prod.splits sum.splits)
qed

lemma same_seq_ret: "same_on P m m' \<Longrightarrow> same_on P (seq m (\<lambda>a. ret (f a))) (seq m' (\<lambda>a. ret (f a)))"
  by (simp add: same_on_def seq_def)

lemma same_map_err: "same_on P m m' \<Longrightarrow> same_on P (map_err f m) (map_err f m')"
  by (simp add: same_on_def map_err_def)


section \<open>What the service keeps\<close>

text \<open>No operation of the service writes the tables that say whose mailbox is whose.\<close>

definition user_account :: "uuid \<Rightarrow> db \<Rightarrow> string option" where
  "user_account u d = (case claimed_mailboxes u d of [] \<Rightarrow> None | m # _ \<Rightarrow> m_stalwart m)"

definition only_account :: "uuid \<Rightarrow> string \<Rightarrow> db \<Rightarrow> bool" where
  "only_account u acc d \<longleftrightarrow> (\<forall>a. user_account u d = Some a \<longrightarrow> a = acc)"

interpretation owner: mail_frame "only_account u acc" for u acc
  by unfold_locales (simp add: only_account_def user_account_def claimed_mailboxes_def)

text \<open>After the user is resolved, the account is the user's.\<close>

lemma resolved_account_is:
  assumes "resolve_user_account u w = (Inr a, w')" and "only_account u acc (db w)"
  shows "rc_stalwart a = acc"
proof -
  from assms(1) obtain m where "get_mailbox_by_user u w = (Inr m, w')" and a: "m_stalwart m = Some (rc_stalwart a)"
    by (auto simp: resolve_user_account_def elim!: seq_InrE split: if_splits option.splits)
  then have "stmt (select_user_mailbox u) w = (Inr m, w')"
    by (auto simp: get_mailbox_by_user_def map_err_def split: sum.splits prod.splits)
  then obtain t where "select_user_mailbox u t (db w) = (Inr m, db w')" by (rule stmt_InrE)
  with assms(2) a show ?thesis
    by (auto simp: select_user_mailbox_def first_or_no_rows_def only_account_def user_account_def split: list.splits)
qed

lemma same_resolve:
  assumes "\<And>a. rc_stalwart a = acc \<Longrightarrow> same_on (only_account u acc) (k a) (k' a)"
  shows "same_on (only_account u acc) (seq (resolve_user_account u) k) (seq (resolve_user_account u) k')"
  unfolding same_on_def
proof (intro allI impI)
  fix w :: "'a world"
  assume w: "only_account u acc (db w)"
  obtain r w1 where r: "resolve_user_account u w = (r, w1)" by force
  then have w1: "only_account u acc (db w1)"
    using preservesD [OF owner.resolve_keeps(1) w] by (metis snd_conv)
  show "seq (resolve_user_account u) k w = seq (resolve_user_account u) k' w"
  proof (cases r)
    case (Inr a)
    with r w have "rc_stalwart a = acc" using resolved_account_is by metis
    with assms w1 r Inr show ?thesis by (simp add: same_on_def)
  qed (simp add: r)
qed


section \<open>Calls of a user\<close>

lemma helpers_agree:
  assumes "agree_on acc c c'" and "rc_stalwart a = acc"
  shows "resolve_user_address c a = resolve_user_address c' a" "fetch_changes c a en since = fetch_changes c' a en since"
    "stored_draft c a made note = stored_draft c' a made note" "draft_to_send c a i = draft_to_send c' a i"
    "sending_identity c a = sending_identity c' a"
    "submit c a u key og idn patch visit = submit c' a u key og idn patch visit"
    "verify_own c a i prop = verify_own c' a i prop" "patch_email c a i kv = patch_email c' a i kv"
  by (simp_all add: resolve_user_address_def fetch_changes_def stored_draft_def draft_to_send_def sending_identity_def
      submit_def verify_own_def patch_email_def assms(2) client_agree [OF assms(1)])

lemma message_to_send_agree:
  "agree_on acc c c' \<Longrightarrow> rc_stalwart a = acc \<Longrightarrow> message_to_send c a q = message_to_send c' a q"
  by (simp add: message_to_send_def helpers_agree client_agree)

lemma own_calls:
  assumes ag: "agree_on acc c c'"
  shows "same_on (only_account u acc) (list_folders c u) (list_folders c' u)"
  "same_on (only_account u acc) (get_folder c u i) (get_folder c' u i)"
  "same_on (only_account u acc) (list_messages c u opts) (list_messages c' u opts)"
  "same_on (only_account u acc) (get_message c u i) (get_message c' u i)"
  "same_on (only_account u acc) (search_messages c u flt) (search_messages c' u flt)"
  "same_on (only_account u acc) (get_thread_messages c u n) (get_thread_messages c' u n)"
  "same_on (only_account u acc) (sync_mail c u) (sync_mail c' u)"
  "same_on (only_account u acc) (toggle_reaction c i u e) (toggle_reaction c' i u e)"
  "same_on (only_account u acc) (create_draft c u q) (create_draft c' u q)"
  "same_on (only_account u acc) (update_draft c u i q) (update_draft c' u i q)"
  "same_on (only_account u acc) (delete_draft c u i) (delete_draft c' u i)"
  "same_on (only_account u acc) (send_message c visit u sq) (send_message c' visit u sq)"
  "same_on (only_account u acc) (update_keyword c u i k b t) (update_keyword c' u i k b t)"
  "same_on (only_account u acc) (move_to_role c u i r t) (move_to_role c' u i r t)"
  "same_on (only_account u acc) (move_message c u i t) (move_message c' u i t)"
proof -
  note same = client_agree [OF ag] helpers_agree [OF ag] message_to_send_agree [OF ag] same_refl
  show "same_on (only_account u acc) (list_folders c u) (list_folders c' u)"
    unfolding list_folders_def by (rule same_resolve, simp add: same cong: if_cong option.case_cong sum.case_cong list.case_cong)
  show "same_on (only_account u acc) (get_folder c u i) (get_folder c' u i)"
    unfolding get_folder_def by (rule same_resolve, simp add: same cong: if_cong option.case_cong sum.case_cong list.case_cong)
  show "same_on (only_account u acc) (list_messages c u opts) (list_messages c' u opts)"
    unfolding list_messages_def by (rule same_resolve, simp add: same cong: if_cong option.case_cong sum.case_cong list.case_cong)
  show "same_on (only_account u acc) (get_message c u i) (get_message c' u i)"
    unfolding get_message_def by (rule same_resolve, simp add: same cong: if_cong option.case_cong sum.case_cong list.case_cong)
  show "same_on (only_account u acc) (search_messages c u flt) (search_messages c' u flt)"
    unfolding search_messages_def by (rule same_resolve, simp add: same cong: if_cong option.case_cong sum.case_cong list.case_cong)
  show "same_on (only_account u acc) (get_thread_messages c u n) (get_thread_messages c' u n)"
    unfolding get_thread_messages_def by (rule same_resolve, simp add: same cong: if_cong option.case_cong sum.case_cong list.case_cong)
  show "same_on (only_account u acc) (sync_mail c u) (sync_mail c' u)"
    unfolding sync_mail_def by (rule same_resolve, simp add: same cong: if_cong option.case_cong sum.case_cong list.case_cong)
  show "same_on (only_account u acc) (toggle_reaction c i u e) (toggle_reaction c' i u e)"
    unfolding toggle_reaction_def by (rule same_resolve, simp add: same cong: if_cong option.case_cong sum.case_cong list.case_cong)
  show "same_on (only_account u acc) (create_draft c u q) (create_draft c' u q)"
    unfolding create_draft_def by (rule same_resolve, simp add: same cong: if_cong option.case_cong sum.case_cong list.case_cong)
  show "same_on (only_account u acc) (update_draft c u i q) (update_draft c' u i q)"
    unfolding update_draft_def by (rule same_resolve, simp add: same cong: if_cong option.case_cong sum.case_cong list.case_cong)
  show "same_on (only_account u acc) (delete_draft c u i) (delete_draft c' u i)"
    unfolding delete_draft_def by (rule same_resolve, simp add: same cong: if_cong option.case_cong sum.case_cong list.case_cong)
  show "same_on (only_account u acc) (send_message c visit u sq) (send_message c' visit u sq)"
    unfolding send_message_def by (rule same_resolve, simp add: same cong: if_cong option.case_cong sum.case_cong list.case_cong)
  show "same_on (only_account u acc) (update_keyword c u i k b t) (update_keyword c' u i k b t)"
    unfolding update_keyword_def by (rule same_resolve, simp add: same cong: if_cong option.case_cong sum.case_cong list.case_cong)
  show "same_on (only_account u acc) (move_to_role c u i r t) (move_to_role c' u i r t)"
    unfolding move_to_role_def by (rule same_resolve, simp add: same cong: if_cong option.case_cong sum.case_cong list.case_cong)
  show "same_on (only_account u acc) (move_message c u i t) (move_message c' u i t)"
    unfolding move_message_def by (rule same_resolve, simp add: same cong: if_cong option.case_cong sum.case_cong list.case_cong)
qed

lemma mail_op_own: "agree_on acc c c' \<Longrightarrow> same_on (only_account u acc) (mail_op c visit u call) (mail_op c' visit u call)"
proof (induction call)
  case (GetDraft i)
  then show ?case
    unfolding mail_op.simps get_draft_def
    by (intro same_seq_ret same_seq same_map_err own_calls owner.part_keeps preserves_map_err same_refl preserves_ret preserves_fail preserves_if)
next
  case (ReplyMessage i q)
  then show ?case
    unfolding mail_op.simps reply_message_def by (intro same_seq_ret same_seq own_calls owner.resolve_keeps owner.part_keeps same_refl)
next
  case (ReplyAllMessage i q)
  then show ?case
    unfolding mail_op.simps reply_all_message_def
    by (intro same_seq_ret same_resolve same_seq own_calls owner.resolve_keeps owner.part_keeps) (simp_all add: helpers_agree(1) [OF ReplyAllMessage] same_refl)
next
  case (ForwardMessage i q)
  then show ?case
    unfolding mail_op.simps forward_message_def by (intro same_seq_ret same_seq own_calls owner.resolve_keeps owner.part_keeps same_refl)
qed (auto intro!: same_seq_ret own_calls same_refl)


text \<open>A server that answers for the account s1 only, and the mailbox of a user who has it.\<close>

definition guarded :: "string \<Rightarrow> 's client \<Rightarrow> 's client" where
  "guarded acc c = c\<lparr>cl_do := (\<lambda>rq. if for_account acc rq then cl_do c rq else fail (Plain ''forbidden''))\<rparr>"

definition own_mailbox_db :: db where
  "own_mailbox_db = demo_db\<lparr>
     addresses := [\<lparr>a_id = 21, a_domain = 4, a_local = ''ann'', a_status = Claimed, a_reserved_by = None,
       a_reserved_at = None, a_reserved_until = None, a_claimed_by = Some 10, a_claimed_at = Some 0\<rparr>],
     mailboxes := [\<lparr>m_id = 30, m_address = 21, m_stalwart = Some ''s1'', m_status = MbActive, m_jmap_state = None,
       m_checkpoint = None, m_synced_at = None\<rparr>],
     mappings := [\<lparr>mp_mailbox = 30, mp_role = ''drafts'', mp_stalwart = ''d''\<rparr>,
       \<lparr>mp_mailbox = 30, mp_role = ''sent'', mp_stalwart = ''e''\<rparr>],
     threads := [demo_thread 40 7], next_id := 50\<rparr>"

definition identity_answer :: json where
  "identity_answer = one_response ''Identity/get'' [(''list'', JArr [JObj [(''id'', JStr ''i1''),
     (''email'', JStr ''ann@norestmail.com'')]])]"

definition emails_answer :: "email list \<Rightarrow> json" where
  "emails_answer es = one_response ''Email/get'' [(''list'', JArr (map enc_email es))]"

definition created_answer :: "string \<Rightarrow> string \<Rightarrow> string \<Rightarrow> json" where
  "created_answer name key i = one_response name [(''created'', JObj [(key, JObj [(''id'', JStr i)])])]"


end
