(* ===== verification/MailApi.thy ===== *)
theory MailApi
  imports MailActions MailSync Http
begin

text \<open>
  The handlers of the mail API (\<^verbatim>\<open>internal/mail/handler.go\<close>, \<^verbatim>\<open>search.go\<close>). A handler is given the user of the
  context, the id in the path (empty where there is none), the parameters of the query and the body as
  \<^verbatim>\<open>encoding/json\<close> parses it (\<open>None\<close> where it is no JSON). The handler of send requests works under an idempotency key.
\<close>

section \<open>Bodies of answers\<close>

text \<open>
  A value of the service, an error object with a code, the answer to an ambiguous delivery, or what was stored
  with an idempotency key.
\<close>

datatype 'a mail_body = Value 'a | ErrorCode string | DeliveryUnknown | Replayed "json option"

type_synonym 'a mail_reply = "'a mail_body response"

text \<open>The order of the tests is the code's.\<close>

definition mail_error_table :: "(sentinel \<times> int \<times> string) list" where
  "mail_error_table =
     [(ErrMessageNotFound, 404, ''message_not_found''), (ErrMailboxNotFound, 404, ''mailbox_not_found''),
      (ErrDraftNotFound, 404, ''draft_not_found''), (ErrIdentityNotFound, 404, ''identity_not_found''),
      (ErrUnauthorizedResource, 403, ''unauthorized_resource''), (MailErrAccountSuspended, 403, ''account_suspended''),
      (ErrAccountNotActive, 403, ''account_not_active''), (ErrMailboxNotReady, 503, ''mailbox_not_ready''),
      (ErrInvalidRecipient, 422, ''invalid_recipient''), (ErrMissingRecipient, 422, ''missing_recipient''),
      (ErrMissingSubject, 422, ''missing_subject''), (ErrMessageRejected, 422, ''message_rejected''),
      (MailErrQuotaExceeded, 429, ''quota_exceeded''), (ErrRateLimitExceeded, 429, ''rate_limit_exceeded''),
      (ErrAttachmentTooLarge, 413, ''attachment_too_large''),
      (ErrStalwartUnavailable, 502, ''mail_service_unavailable''), (ErrJMAPTimeout, 504, ''mail_service_timeout'')]"

definition mail_error :: "goerr \<Rightarrow> 'a mail_reply" where
  "mail_error e =
     (case find (\<lambda>(s, _). err_is e s) mail_error_table of
        Some (_, code, text) \<Rightarrow> ErrorJson code text
      | None \<Rightarrow>
          if err_is e ErrDeliveryAmbiguous then Json 202 DeliveryUnknown
          else if err_is e ErrDuplicateSend then ErrorJson 409 ''duplicate_send_request''
          else ErrorJson 500 ''internal_error'')"

definition ok_json :: "int \<Rightarrow> 'a \<Rightarrow> 'a mail_reply" where
  "ok_json code x = Json code (Value x)"


section \<open>What a request carries\<close>

definition as_user :: "uuid option \<Rightarrow> (uuid \<Rightarrow> ('s, 'a response) act) \<Rightarrow> ('s, 'a response) act" where
  "as_user user k = (case user of None \<Rightarrow> ret (ErrorJson 401 ''unauthorized'') | Some u \<Rightarrow> k u)"

definition with_id :: "string \<Rightarrow> string \<Rightarrow> ('s, 'a response) act \<Rightarrow> ('s, 'a response) act" where
  "with_id i missing m = (if i = '''' then ret (ErrorJson 400 missing) else m)"

definition with_body :: "string \<Rightarrow> goerr + 'b \<Rightarrow> ('b \<Rightarrow> ('s, 'a response) act) \<Rightarrow> ('s, 'a response) act" where
  "with_body bad b k = (case b of Inl e \<Rightarrow> ret (ErrorJson 400 bad) | Inr x \<Rightarrow> k x)"

definition parsed :: "(json option \<Rightarrow> goerr + 'a) \<Rightarrow> json option \<Rightarrow> goerr + 'a" where
  "parsed d body = (case body of None \<Rightarrow> Inl invalid_json | Some j \<Rightarrow> d (Some j))"

definition dec_address_dto :: "json option \<Rightarrow> goerr + address_dto" where
  "dec_address_dto = dec_struct (\<lambda>f.
     bind_sum (dec_str (f ''name'')) (\<lambda>x0.
     bind_sum (dec_str (f ''email'')) (\<lambda>x1.
     Inr \<lparr>ad_name = x0, ad_email = x1\<rparr>)))"

definition dec_attachment_dto :: "json option \<Rightarrow> goerr + attachment_dto" where
  "dec_attachment_dto = dec_struct (\<lambda>f.
     bind_sum (dec_str (f ''blob_id'')) (\<lambda>x0.
     bind_sum (dec_str (f ''type'')) (\<lambda>x1.
     bind_sum (dec_str (f ''name'')) (\<lambda>x2.
     bind_sum (dec_int (f ''size'')) (\<lambda>x3.
     Inr \<lparr>at_blob = x0, at_type = x1, at_name = x2, at_size = x3\<rparr>)))))"

definition dec_draft_request :: "json option \<Rightarrow> goerr + draft_request" where
  "dec_draft_request = dec_struct (\<lambda>f.
     bind_sum (dec_list dec_address_dto (f ''to'')) (\<lambda>x0.
     bind_sum (dec_list dec_address_dto (f ''cc'')) (\<lambda>x1.
     bind_sum (dec_list dec_address_dto (f ''bcc'')) (\<lambda>x2.
     bind_sum (dec_str (f ''subject'')) (\<lambda>x3.
     bind_sum (dec_str (f ''text_body'')) (\<lambda>x4.
     bind_sum (dec_str (f ''html_body'')) (\<lambda>x5.
     bind_sum (dec_list dec_str (f ''attachment_ids'')) (\<lambda>x6.
     bind_sum (dec_list dec_str (f ''in_reply_to'')) (\<lambda>x7.
     bind_sum (dec_list dec_str (f ''references'')) (\<lambda>x8.
     bind_sum (dec_list dec_attachment_dto (f ''attachments'')) (\<lambda>x9.
     Inr \<lparr>rd_to = x0, rd_cc = x1, rd_bcc = x2, rd_subject = x3, rd_text = x4, rd_html = x5, rd_attachment_ids = x6,
         rd_in_reply_to = x7, rd_references = x8, rd_attachments = x9\<rparr>)))))))))))"

definition dec_send_request :: "json option \<Rightarrow> goerr + send_request" where
  "dec_send_request = dec_struct (\<lambda>f.
     bind_sum (dec_str (f ''draft_id'')) (\<lambda>x0.
     bind_sum (dec_list dec_address_dto (f ''to'')) (\<lambda>x1.
     bind_sum (dec_list dec_address_dto (f ''cc'')) (\<lambda>x2.
     bind_sum (dec_list dec_address_dto (f ''bcc'')) (\<lambda>x3.
     bind_sum (dec_str (f ''subject'')) (\<lambda>x4.
     bind_sum (dec_str (f ''text_body'')) (\<lambda>x5.
     bind_sum (dec_str (f ''html_body'')) (\<lambda>x6.
     bind_sum (dec_list dec_str (f ''in_reply_to'')) (\<lambda>x7.
     bind_sum (dec_list dec_str (f ''references'')) (\<lambda>x8.
     bind_sum (dec_list dec_attachment_dto (f ''attachments'')) (\<lambda>x9.
     bind_sum (dec_str (f ''idempotency_key'')) (\<lambda>x10.
     Inr \<lparr>sq_draft = x0, sq_to = x1, sq_cc = x2, sq_bcc = x3, sq_subject = x4, sq_text = x5, sq_html = x6,
         sq_in_reply_to = x7, sq_references = x8, sq_attachments = x9, sq_key = x10\<rparr>))))))))))))"

definition enc_send_response :: "send_response \<Rightarrow> json" where
  "enc_send_response r = enc_struct
     [(''message_id'', sr_message r = '''', JStr (sr_message r)),
      (''submission_id'', sr_submission r = '''', JStr (sr_submission r)),
      (''status'', False, JStr (sr_status r))]"

text \<open>The parameters of the query; \<open>get\<close> is empty where there is none.\<close>

type_synonym params = "string \<Rightarrow> string"

definition int_param :: "params \<Rightarrow> string \<Rightarrow> int" where
  "int_param get k = (if get k = '''' then 0 else (case scan_int (get k) of None \<Rightarrow> 0 | Some n \<Rightarrow> n))"

definition message_options :: "params \<Rightarrow> list_options" where
  "message_options get = \<lparr>lo_mailbox = get ''mailbox_id'', lo_limit = int_param get ''limit'',
     lo_position = int_param get ''position'', lo_cursor = '''', lo_from = get ''from'', lo_to = get ''to'', lo_cc = get ''cc'',
     lo_subject = get ''subject'', lo_text = get ''text'', lo_before = get ''before'', lo_after = get ''after'',
     lo_has_keyword = get ''has_keyword'', lo_not_keyword = get ''not_has_keyword'', lo_thread = get ''thread_id'',
     lo_has_attachment = (get ''has_attachment'' = ''true'')\<rparr>"

definition thread_options :: "params \<Rightarrow> list_options" where
  "thread_options get = \<lparr>lo_mailbox = get ''mailbox_id'', lo_limit = int_param get ''limit'', lo_position = 0,
     lo_cursor = get ''cursor'', lo_from = '''', lo_to = '''', lo_cc = '''', lo_subject = '''', lo_text = '''', lo_before = '''',
     lo_after = '''', lo_has_keyword = '''', lo_not_keyword = '''', lo_thread = '''', lo_has_attachment = False\<rparr>"


section \<open>Reading\<close>

definition mail_answer :: "('s, 'a) act \<Rightarrow> int \<Rightarrow> ('s, 'a mail_reply) act" where
  "mail_answer m code = answer m mail_error (ok_json code)"

definition create_session_handler :: "'s client \<Rightarrow> string \<Rightarrow> uuid option \<Rightarrow> ('s, mail_session response) act" where
  "create_session_handler c host user = as_user user (\<lambda>u.
     answer (create_mail_session c host u)
       (\<lambda>e. if err_text e = ''mailbox is not active'' \<or> err_text e = ''mailbox not fully provisioned in stalwart''
            then ErrorJson 503 ''mailbox not ready - please wait for provisioning to complete''
            else ErrorJson 500 ''failed to create mail session'')
       (Json 200))"

record account_view =
  av_id :: uuid
  av_address :: uuid
  av_status :: string
  av_stalwart :: "string option"

definition get_account_handler :: "uuid option \<Rightarrow> ('s, account_view response) act" where
  "get_account_handler user = as_user user (\<lambda>u.
     answer (get_mailbox_by_user u) (\<lambda>_. ErrorJson 500 ''failed to get mailbox'')
       (\<lambda>m. Json 200 \<lparr>av_id = m_id m, av_address = m_address m, av_status = mailbox_status_text (m_status m),
          av_stalwart = m_stalwart m\<rparr>))"

definition provisioning_status_handler :: "uuid option \<Rightarrow> ('s, provisioning_status response) act" where
  "provisioning_status_handler user = as_user user (\<lambda>u.
     answer (get_provisioning_status u) (\<lambda>_. ErrorJson 500 ''failed to get provisioning status'') (Json 200))"

definition list_folders_handler :: "'s client \<Rightarrow> uuid option \<Rightarrow> ('s, folder_response list mail_reply) act" where
  "list_folders_handler c user = as_user user (\<lambda>u. mail_answer (list_folders c u) 200)"

definition get_folder_handler :: "'s client \<Rightarrow> uuid option \<Rightarrow> string \<Rightarrow> ('s, folder_response mail_reply) act" where
  "get_folder_handler c user i = as_user user (\<lambda>u.
     with_id i ''mailbox_id_required'' (mail_answer (get_folder c u i) 200))"

definition list_messages_handler :: "'s client \<Rightarrow> uuid option \<Rightarrow> params \<Rightarrow> ('s, message_list mail_reply) act" where
  "list_messages_handler c user get = as_user user (\<lambda>u. mail_answer (list_messages c u (message_options get)) 200)"

definition get_message_handler :: "'s client \<Rightarrow> uuid option \<Rightarrow> string \<Rightarrow> ('s, message_response mail_reply) act" where
  "get_message_handler c user i = as_user user (\<lambda>u.
     with_id i ''message_id_required'' (mail_answer (get_message c u i) 200))"

definition search_filter :: "params \<Rightarrow> (string \<times> json) list" where
  "search_filter get = str_arg ''text'' (get ''query'') @ str_arg ''from'' (get ''from'') @ str_arg ''to'' (get ''to'') @
     str_arg ''subject'' (get ''subject'') @ str_arg ''inMailbox'' (get ''mailbox'') @
     (if get ''has_attachment'' = ''true'' then [(''hasAttachment'', JBool True)] else [])"

definition search_handler :: "'s client \<Rightarrow> uuid option \<Rightarrow> params \<Rightarrow> ('s, string list response) act" where
  "search_handler c user get = as_user user (\<lambda>u.
     if search_filter get = [] then ret (Json 200 [])
     else answer (search_messages c u (JObj (search_filter get))) (\<lambda>_. ErrorJson 500 ''failed to search messages'') (Json 200))"

definition list_threads_handler :: "time_codec \<Rightarrow> uuid option \<Rightarrow> params \<Rightarrow> ('s, thread_page mail_reply) act" where
  "list_threads_handler tc user get = as_user user (\<lambda>u. mail_answer (list_user_threads tc u (thread_options get)) 200)"

definition get_thread_handler :: "uuid option \<Rightarrow> string \<Rightarrow> ('s, thread_response mail_reply) act" where
  "get_thread_handler user i = as_user user (\<lambda>u.
     with_id i ''thread_id_required'' (mail_answer (get_user_thread u i) 200))"

definition thread_messages_handler :: "'s client \<Rightarrow> uuid option \<Rightarrow> string \<Rightarrow> ('s, message_response list mail_reply) act" where
  "thread_messages_handler c user i = as_user user (\<lambda>u.
     with_id i ''thread_id_required'' (mail_answer (get_thread_messages c u i) 200))"

definition upload_handler :: "'s client \<Rightarrow> uuid option \<Rightarrow> string \<Rightarrow> string \<Rightarrow> ('s, attachment_dto mail_reply) act" where
  "upload_handler c user ctype body = as_user user (\<lambda>u.
     mail_answer (upload_attachment c u (if ctype = '''' then ''application/octet-stream'' else ctype) body) 201)"

definition download_handler :: "'s client \<Rightarrow> uuid option \<Rightarrow> string \<Rightarrow> ('s, (string \<times> string) mail_reply) act" where
  "download_handler c user i = as_user user (\<lambda>u. with_id i ''blob_id_required''
     (mail_answer (download_attachment c u i ''application/octet-stream'' ''attachment'') 200))"

definition sync_handler :: "'s client \<Rightarrow> uuid option \<Rightarrow> ('s, sync_response mail_reply) act" where
  "sync_handler c user = as_user user (\<lambda>u.
     answer (sync_mail c u)
       (\<lambda>e. if err_text e = ''resync_required'' then ErrorJson 409 ''resync_required'' else mail_error e) (ok_json 200))"


section \<open>Changing\<close>

definition create_draft_handler :: "'s client \<Rightarrow> uuid option \<Rightarrow> json option \<Rightarrow> ('s, draft_response mail_reply) act" where
  "create_draft_handler c user body = as_user user (\<lambda>u.
     with_body ''invalid_request_body'' (parsed dec_draft_request body) (\<lambda>q. mail_answer (create_draft c u q) 201))"

definition get_draft_handler :: "'s client \<Rightarrow> uuid option \<Rightarrow> string \<Rightarrow> ('s, draft_response mail_reply) act" where
  "get_draft_handler c user i = as_user user (\<lambda>u.
     with_id i ''draft_id_required'' (mail_answer (get_draft c u i) 200))"

definition update_draft_handler ::
  "'s client \<Rightarrow> uuid option \<Rightarrow> string \<Rightarrow> json option \<Rightarrow> ('s, draft_response mail_reply) act" where
  "update_draft_handler c user i body = as_user user (\<lambda>u.
     with_id i ''draft_id_required'' (with_body ''invalid_request_body'' (parsed dec_draft_request body) (\<lambda>q.
       mail_answer (update_draft c u i q) 200)))"

text \<open>The answer names the deleted draft.\<close>

definition delete_draft_handler :: "'s client \<Rightarrow> uuid option \<Rightarrow> string \<Rightarrow> ('s, string mail_reply) act" where
  "delete_draft_handler c user i = as_user user (\<lambda>u.
     with_id i ''draft_id_required'' (mail_answer (seq (delete_draft c u i) (\<lambda>_. ret i)) 200))"

definition action_handler ::
  "uuid option \<Rightarrow> string \<Rightarrow> (uuid \<Rightarrow> string \<Rightarrow> ('s, action_response) act) \<Rightarrow> ('s, action_response mail_reply) act" where
  "action_handler user i action = as_user user (\<lambda>u.
     with_id i ''message_id_required'' (mail_answer (action u i) 200))"

definition mark_read_handler :: "'s client \<Rightarrow> uuid option \<Rightarrow> string \<Rightarrow> ('s, action_response mail_reply) act" where
  "mark_read_handler c user i = action_handler user i (mark_read c)"

definition mark_unread_handler :: "'s client \<Rightarrow> uuid option \<Rightarrow> string \<Rightarrow> ('s, action_response mail_reply) act" where
  "mark_unread_handler c user i = action_handler user i (mark_unread c)"

definition star_handler :: "'s client \<Rightarrow> uuid option \<Rightarrow> string \<Rightarrow> ('s, action_response mail_reply) act" where
  "star_handler c user i = action_handler user i (star_message c)"

definition unstar_handler :: "'s client \<Rightarrow> uuid option \<Rightarrow> string \<Rightarrow> ('s, action_response mail_reply) act" where
  "unstar_handler c user i = action_handler user i (unstar_message c)"

definition archive_handler :: "'s client \<Rightarrow> uuid option \<Rightarrow> string \<Rightarrow> ('s, action_response mail_reply) act" where
  "archive_handler c user i = action_handler user i (archive_message c)"

definition trash_handler :: "'s client \<Rightarrow> uuid option \<Rightarrow> string \<Rightarrow> ('s, action_response mail_reply) act" where
  "trash_handler c user i = action_handler user i (trash_message c)"

definition restore_handler :: "'s client \<Rightarrow> uuid option \<Rightarrow> string \<Rightarrow> ('s, action_response mail_reply) act" where
  "restore_handler c user i = action_handler user i (restore_message c)"

definition spam_handler :: "'s client \<Rightarrow> uuid option \<Rightarrow> string \<Rightarrow> ('s, action_response mail_reply) act" where
  "spam_handler c user i = action_handler user i (spam_message c)"

text \<open>A body of one string field.\<close>

definition dec_one :: "string \<Rightarrow> json option \<Rightarrow> goerr + string" where
  "dec_one k = dec_struct (\<lambda>f. dec_str (f k))"

definition move_handler :: "'s client \<Rightarrow> uuid option \<Rightarrow> string \<Rightarrow> json option \<Rightarrow> ('s, action_response mail_reply) act" where
  "move_handler c user i body = as_user user (\<lambda>u.
     with_id i ''message_id_required'' (with_body ''invalid_request_body'' (parsed (dec_one ''mailbox_id'') body) (\<lambda>mb.
       with_id mb ''mailbox_id_required'' (mail_answer (move_message c u i mb) 200))))"

definition reaction_handler :: "'s client \<Rightarrow> uuid option \<Rightarrow> string \<Rightarrow> json option \<Rightarrow> ('s, bool mail_reply) act" where
  "reaction_handler c user i body = as_user user (\<lambda>u.
     with_id i ''missing_message_id'' (with_body ''invalid_request'' (parsed (dec_one ''emoji'') body) (\<lambda>emoji.
       with_id emoji ''invalid_request'' (mail_answer (toggle_reaction c i u emoji) 200))))"

text \<open>An ambiguous outcome of the service is an error to the handlers of replies.\<close>

definition sent_or_error :: "send_outcome \<Rightarrow> send_response mail_reply" where
  "sent_or_error x =
     (case x of Sent r \<Rightarrow> ok_json 200 r | Ambiguous r \<Rightarrow> mail_error (Sentinel ErrDeliveryAmbiguous))"

definition answering_handler ::
  "uuid option \<Rightarrow> string \<Rightarrow> json option \<Rightarrow> (uuid \<Rightarrow> send_request \<Rightarrow> ('s, send_outcome) act) \<Rightarrow>
    ('s, send_response mail_reply) act" where
  "answering_handler user i body m = as_user user (\<lambda>u.
     with_id i ''message_id_required'' (with_body ''invalid_request'' (parsed dec_send_request body) (\<lambda>q.
       answer (m u q) mail_error sent_or_error)))"

definition reply_handler ::
  "'s client \<Rightarrow> (string list \<Rightarrow> string list) \<Rightarrow> uuid option \<Rightarrow> string \<Rightarrow> json option \<Rightarrow> ('s, send_response mail_reply) act" where
  "reply_handler c visit user i body = answering_handler user i body (\<lambda>u. reply_message c visit u i)"

definition reply_all_handler ::
  "'s client \<Rightarrow> (string list \<Rightarrow> string list) \<Rightarrow> uuid option \<Rightarrow> string \<Rightarrow> json option \<Rightarrow> ('s, send_response mail_reply) act" where
  "reply_all_handler c visit user i body = answering_handler user i body (\<lambda>u. reply_all_message c visit u i)"

definition forward_handler ::
  "'s client \<Rightarrow> (string list \<Rightarrow> string list) \<Rightarrow> uuid option \<Rightarrow> string \<Rightarrow> json option \<Rightarrow> ('s, send_response mail_reply) act" where
  "forward_handler c visit user i body = answering_handler user i body (\<lambda>u. forward_message c visit u i)"


section \<open>Sending under a key\<close>

text \<open>
  A send request: the header with the key, the text of the body (\<open>None\<close> where it cannot be read) and what it parses
  to. \<open>sha\<close> is the hexadecimal SHA-256 of a text.
\<close>

record send_http =
  sh_key :: string
  sh_text :: "string option"
  sh_json :: "json option"

definition replayed_answer :: "idempotent_state \<Rightarrow> send_response mail_reply" where
  "replayed_answer s = Json (is_code s) (Replayed (is_body s))"

definition key_refused :: "goerr \<Rightarrow> send_response mail_reply" where
  "key_refused e =
     (if err_is e ErrIdempotencyMismatch then ErrorJson 400 ''idempotency_mismatch''
      else if err_is e ErrIdempotencyInProgress then Json 409 (ErrorCode ''idempotency_in_progress'')
      else mail_error e)"

definition send_under_key ::
  "'s client \<Rightarrow> (string list \<Rightarrow> string list) \<Rightarrow> uuid \<Rightarrow> string \<Rightarrow> send_request \<Rightarrow> ('s, send_response mail_reply) act" where
  "send_under_key c visit u key q =
     seq (attempt (send_message c visit u q)) (\<lambda>r.
     case r of
       Inl e \<Rightarrow> seq (ignore (clear_idempotent u key)) (\<lambda>_. ret (mail_error e))
     | Inr (Ambiguous x) \<Rightarrow>
         seq (ignore (complete_idempotent u key ''AMBIGUOUS'' 202 (Some (enc_send_response x)))) (\<lambda>_. ret (ok_json 202 x))
     | Inr (Sent x) \<Rightarrow>
         seq (ignore (complete_idempotent u key ''COMPLETED'' 200 (Some (enc_send_response x)))) (\<lambda>_. ret (ok_json 200 x)))"

definition send_handler ::
  "(string \<Rightarrow> string) \<Rightarrow> 's client \<Rightarrow> (string list \<Rightarrow> string list) \<Rightarrow> uuid option \<Rightarrow> send_http \<Rightarrow>
    ('s, send_response mail_reply) act" where
  "send_handler sha c visit user rq = as_user user (\<lambda>u.
     if sh_key rq = '''' then ret (Json 400 (ErrorCode ''idempotency_key_required''))
     else
       (case sh_text rq of
          None \<Rightarrow> ret (ErrorJson 400 ''invalid_request_body'')
        | Some text \<Rightarrow>
            with_body ''invalid_request_body'' (parsed dec_send_request (sh_json rq)) (\<lambda>q.
            seq (attempt (start_idempotent u (sh_key rq) (sha text))) (\<lambda>r.
            case r of
              Inl e \<Rightarrow> ret (key_refused e)
            | Inr (Some s) \<Rightarrow> ret (replayed_answer s)
            | Inr None \<Rightarrow> send_under_key c visit u (sh_key rq) (q\<lparr>sq_key := sh_key rq\<rparr>)))))"

end
