(* ===== verification/SendOnce.thy ===== *)
theory SendOnce
  imports MailIsolation MailApi
begin

text \<open>
  Runs of the mail API: any sequence of service calls and send requests of any users. The columns that hold a
  status as text keep to the values the migrations list in their comments (the schema does not check them), and a
  send request that was answered is not carried out again under its key.
\<close>

datatype api_call = Call uuid mail_call | SendRequest uuid send_http

datatype api_result = Served mail_result | Answered "send_response mail_reply"

fun api_op ::
  "(string \<Rightarrow> string) \<Rightarrow> 's client \<Rightarrow> (string list \<Rightarrow> string list) \<Rightarrow> api_call \<Rightarrow> ('s, api_result) act" where
  "api_op sha c visit (Call u x) = seq (mail_op c visit u x) (\<lambda>r. ret (Served r))"
| "api_op sha c visit (SendRequest u rq) = seq (send_handler sha c visit (Some u) rq) (\<lambda>a. ret (Answered a))"


section \<open>Statuses\<close>

definition intent_typed :: "recon_log \<Rightarrow> bool" where
  "intent_typed r \<longleftrightarrow> rl_status r \<in> {''PENDING'', ''EXECUTING'', ''SUCCESS'', ''FAILED'', ''UNKNOWN''}"

definition event_typed :: "outbox_event \<Rightarrow> bool" where
  "event_typed e \<longleftrightarrow> ob_status e \<in> {''pending'', ''processing'', ''published'', ''failed''}"

definition sync_typed :: "sync_state \<Rightarrow> bool" where
  "sync_typed s \<longleftrightarrow> ss_status s \<in> sync_statuses"

text \<open>What is stored with a key is what is replayed: a code and the text of a send response.\<close>

definition send_body :: "json option \<Rightarrow> bool" where
  "send_body b \<longleftrightarrow> (case b of Some (JObj fs) \<Rightarrow> field_str ''status'' fs \<noteq> None | _ \<Rightarrow> False)"

lemma send_body_enc: "send_body (Some (enc_send_response x))"
  by (simp add: send_body_def enc_send_response_def enc_struct_def field_str_def obj_get_def)

definition key_typed :: "send_key \<Rightarrow> bool" where
  "key_typed r \<longleftrightarrow>
     sk_status r = ''IN_PROGRESS'' \<and> sk_code r = None \<and> sk_body r = None \<or>
     sk_status r = ''COMPLETED'' \<and> sk_code r = Some 200 \<and> send_body (sk_body r) \<or>
     sk_status r = ''AMBIGUOUS'' \<and> sk_code r = Some 202 \<and> send_body (sk_body r)"

definition columns_typed :: "db \<Rightarrow> bool" where
  "columns_typed d \<longleftrightarrow> list_all intent_typed (recon_logs d) \<and> list_all event_typed (outbox d) \<and>
     list_all sync_typed (sync_states d) \<and> list_all key_typed (send_keys d)"

lemma list_all_set_by: "list_all P rows \<Longrightarrow> (\<And>r. P r \<Longrightarrow> P (f r)) \<Longrightarrow> list_all P (set_by key k f rows)"
  by (auto simp: list_all_iff table_simps)

lemma list_all_update: "list_all P rows \<Longrightarrow> (\<And>r. P (f r)) \<Longrightarrow> list_all P (update_where Q f rows)"
  by (auto simp: list_all_iff table_simps)

lemma list_all_delete: "list_all P rows \<Longrightarrow> list_all P (delete_where Q rows)"
  by (auto simp: list_all_iff table_simps)

interpretation columns: mail_invariant columns_typed
  by unfold_locales
    (auto simp: query_preserves_def columns_typed_def insert_intent_def set_intent_def set_intent_error_def
      insert_outbox_def insert_delivery_def write_sync_state_def insert_reaction_def delete_reaction_def
      executing_def succeeded_with_def intent_typed_def event_typed_def sync_typed_def
      intro!: list_all_set_by split: option.splits)

lemma start_typed: "preserves columns_typed (start_idempotent u k h)"
  unfolding start_idempotent_def start_key_body_def
  by (intro pres_intro; simp add: query_preserves_def select_key_def insert_key_def columns_typed_def key_typed_def)

lemma complete_typed:
  "preserves columns_typed (complete_idempotent u k ''COMPLETED'' 200 (Some (enc_send_response x)))"
  "preserves columns_typed (complete_idempotent u k ''AMBIGUOUS'' 202 (Some (enc_send_response x)))"
  "preserves columns_typed (clear_idempotent u k)"
  by (auto simp: complete_idempotent_def clear_idempotent_def query_preserves_def complete_key_def delete_key_def
      columns_typed_def completed_key_def key_typed_def send_body_enc intro!: preserves_stmt list_all_update list_all_delete)

lemma outcome_keeps:
  "(\<And>x. preserves I (f x)) \<Longrightarrow> (\<And>x. preserves I (g x)) \<Longrightarrow> preserves I (case y of Sent x \<Rightarrow> f x | Ambiguous x \<Rightarrow> g x)"
  by (cases y) simp_all

lemma send_handler_keeps:
  fixes c :: "'s client"
  assumes "preserves I (start_idempotent u (sh_key rq) (sha (the (sh_text rq))) :: ('s, idempotent_state option) act)"
    and "\<And>q. preserves I (send_under_key c visit u (sh_key rq) q)"
  shows "preserves I (send_handler sha c visit (Some u) rq)"
  using assms unfolding send_handler_def as_user_def with_body_def
  by (cases "sh_text rq") (auto intro!: pres_intro)

lemma api_op_typed: "preserves columns_typed (api_op sha c visit x)"
proof (cases x)
  case (SendRequest u rq)
  have "preserves columns_typed (send_under_key c visit u k q)" for k q
    unfolding send_under_key_def
    by (intro pres_intro outcome_keeps columns.send_message_keeps complete_typed)
  with SendRequest show ?thesis by (auto intro!: preserves_seq preserves_ret send_handler_keeps start_typed)
qed (auto intro!: preserves_seq preserves_ret columns.op_keeps)

text \<open>
  C30. The status columns are well typed: however a sequence of requests to the mail API goes, with any users, bodies
  and failures, every intent, event, synchronisation state and send key has one of the statuses the migrations
  list (and the outbox worker's own \<^verbatim>\<open>processing\<close>), and a completed key holds a code and a body that can be replayed.
\<close>

theorem api_keeps_columns_typed:
  assumes "run (api_op sha c visit) w es w'" and "columns_typed (db w)"
  shows "columns_typed (db w')"
  using assms by (rule run_preserves) (rule api_op_typed)

definition demo_send :: send_http where
  "demo_send = \<lparr>sh_key = ''k'', sh_text = Some ''body'', sh_json = Some (JObj
     [(''to'', JArr [JObj [(''email'', JStr ''bob@x'')]]), (''text_body'', JStr ''hi'')])\<rparr>"

definition send_answers :: "json list" where
  "send_answers = [identity_answer, identity_answer, created_answer ''Email/set'' ''send_email0'' ''e7'',
     created_answer ''EmailSubmission/set'' ''sub0'' ''s9'']"

definition send_world :: "json list world" where
  "send_world = world_with own_mailbox_db send_answers"

abbreviation demo_api :: "api_call \<Rightarrow> (json list, api_result) act" where
  "demo_api \<equiv> api_op (\<lambda>s. s) scripted_client id"

theorem api_keeps_columns_typed_witness:
  "columns_typed (db (snd (run_list demo_api send_world [SendRequest 10 demo_send, Call 10 SyncMail]))) \<and>
   map sk_status (send_keys (db (snd (run_list demo_api send_world [SendRequest 10 demo_send, Call 10 SyncMail])))) =
     [''COMPLETED'']"
proof
  have "columns_typed (db send_world)" by code_simp
  from api_keeps_columns_typed [OF run_list_run this]
  show "columns_typed (db (snd (run_list demo_api send_world [SendRequest 10 demo_send, Call 10 SyncMail])))" .
  show "map sk_status (send_keys (db (snd (run_list demo_api send_world [SendRequest 10 demo_send, Call 10 SyncMail])))) =
     [''COMPLETED'']"
    by code_simp
qed


section \<open>An answered request is not repeated\<close>

text \<open>Actions on the database alone.\<close>

definition local_act :: "('s, 'a) act \<Rightarrow> bool" where
  "local_act m \<longleftrightarrow> (\<forall>w. remote (snd (m w)) = remote w)"

lemma local_seq:
  fixes m :: "('s, 'a) act"
  assumes "local_act m" and "\<And>a. local_act (k a)"
  shows "local_act (seq m k)"
  unfolding local_act_def
proof
  fix w :: "'s world"
  obtain r w1 where m: "m w = (r, w1)" by force
  with assms show "remote (snd (seq m k w)) = remote w"
    by (cases r) (auto simp: local_act_def dest: spec [of _ w])
qed

lemma local_simple:
  "local_act (ret a)" "local_act (fail e)" "local_act (stmt q)" "local_act m \<Longrightarrow> local_act (attempt m)"
  "local_act m \<Longrightarrow> local_act (wrap_err p m)"
  by (simp_all add: local_act_def attempt_apply wrap_err_def map_err_apply)

lemma remote_commit [simp]: "remote (snd (commit_tx d0 a w)) = remote w"
  by (simp add: commit_tx_def Let_def split: list.splits option.splits fault.splits)

lemma remote_begin [simp]: "remote (snd (begin_tx w)) = remote w"
  by (simp add: begin_tx_def round_trip_def Let_def split: list.splits option.splits fault.splits)

lemma local_transaction:
  fixes body :: "('s, 'a tx) act"
  assumes "local_act body"
  shows "local_act (named_transaction f g body)"
  unfolding local_act_def named_transaction_snd
proof
  fix w :: "'s world"
  obtain x w1 where b: "begin_tx w = (x, w1)" by force
  then have r: "remote w1 = remote w" using remote_begin [of w] by simp
  obtain y w2 where c: "body (w1\<lparr>tx_time := Some (clock w1)\<rparr>) = (y, w2)" by force
  then have "remote w2 = remote w1"
    using assms by (metis local_act_def snd_conv world.select_convs(5) world.surjective world.update_convs(2))
  with b c r show "remote (snd (transaction body w)) = remote w"
    by (simp add: transaction_def split: sum.splits tx.splits)
qed

lemma local_start: "local_act (start_idempotent u k h)"
  unfolding start_idempotent_def start_key_body_def
  by (intro local_seq local_transaction local_simple; simp split: option.split sum.split add: local_simple local_seq)

interpretation held: mail_frame "key_held u k" for u k
  by unfold_locales (simp add: key_held_def)

text \<open>While its key is held, a request does not get past the key: the server is not asked and the key stays.\<close>

lemma start_keeps: "preserves (key_held u k) (start_idempotent u' k' h)"
  using key_op_keeps [of "KStart u' k' h" u k] unfolding preserves_def key_op.simps snd_seq_ret by simp

lemma under_key_keeps:
  "(u', k') \<noteq> (u, k) \<Longrightarrow> preserves (key_held u k) (send_under_key c visit u' k' q)"
  unfolding send_under_key_def complete_idempotent_def clear_idempotent_def
  by (intro pres_intro outcome_keeps held.send_message_keeps key_held_query) auto

lemma held_request:
  fixes w :: "'s world"
  assumes "key_held u (sh_key rq) (db w)"
  shows "remote (snd (send_handler sha c visit (Some u) rq w)) = remote w \<and>
    key_held u (sh_key rq) (db (snd (send_handler sha c visit (Some u) rq w)))"
proof -
  have *: "remote (snd (seq (attempt (start_idempotent u (sh_key rq) h)) k w)) = remote w \<and>
      key_held u (sh_key rq) (db (snd (seq (attempt (start_idempotent u (sh_key rq) h)) k w)))"
    if "\<And>e. k (Inl e) = ret (f e)" and "\<And>s. k (Inr (Some s)) = ret (g s)" for h f g and k :: "goerr + idempotent_state option \<Rightarrow> ('s, send_response mail_reply) act"
  proof -
    obtain r w1 where s: "start_idempotent u (sh_key rq) h w = (r, w1)" by force
    have n: "r \<noteq> Inr None" using start_proceeds s assms by metis
    have "remote w1 = remote w" using local_start s by (metis local_act_def snd_conv)
    moreover have "key_held u (sh_key rq) (db w1)"
      by (rule preserves_step [OF start_keeps s assms])
    ultimately show ?thesis
      using n s that by (cases r; cases "projr r") (auto simp: seq_def attempt_apply)
  qed
  show ?thesis
    using assms unfolding send_handler_def as_user_def with_body_def
    by (auto split: option.split sum.split intro!: * [THEN conjunct1] * [THEN conjunct2])
qed

lemma api_op_keeps_key: "preserves (key_held u k) (api_op sha c visit x)"
proof (cases x)
  case (SendRequest u' rq)
  show ?thesis
  proof (cases "(u', sh_key rq) = (u, k)")
    case True
    then have "preserves (key_held u k) (send_handler sha c visit (Some u') rq)"
      using held_request [THEN conjunct2] by (auto simp: preserves_def)
    with SendRequest show ?thesis by (auto intro!: preserves_seq preserves_ret)
  next
    case False
    with SendRequest show ?thesis
      by (auto intro!: preserves_seq preserves_ret send_handler_keeps start_keeps under_key_keeps)
  qed
qed (auto intro!: preserves_seq preserves_ret held.op_keeps)

text \<open>An answer that carries a result or the replay of one was given under a key, which is held from then on.\<close>

definition settled :: "send_response mail_reply \<Rightarrow> bool" where
  "settled a \<longleftrightarrow> (case a of Json code (Value x) \<Rightarrow> True | Json code (Replayed b) \<Rightarrow> True | _ \<Rightarrow> False)"

lemma mail_error_unsettled [simp]: "\<not> settled (mail_error e)"
  by (simp add: settled_def mail_error_def split: option.split prod.split)

lemma key_refused_unsettled [simp]: "\<not> settled (key_refused e)"
  by (simp add: key_refused_def) (simp add: settled_def)

lemma start_replays:
  fixes w :: "'s world"
  assumes "start_idempotent u k h w = (Inr (Some s), w')"
  shows "key_held u k (db w')"
proof -
  from assms obtain row where t: "transaction (start_key_body u k h) w = (Inr (Some row), w')"
    by (auto simp: start_idempotent_def named_transaction_Inr elim!: seq_InrE split: option.splits if_splits)
  have f: "attempt (stmt (select_key u k)) v = (Inr (Inr row), v') \<and> b = Some row"
    if "start_key_body u k h v = (Inr x, v')" "x = Commit b \<or> x = Abandon b" "b \<noteq> None" "the b = row" for v v' :: "'s world" and x b
    using that by (auto simp: start_key_body_def elim!: seq_InrE split: sum.splits if_splits)
  have held: "key_held u k (db v')" if "attempt (stmt (select_key u k)) v = (Inr (Inr row), v')" for v v' :: "'s world"
  proof -
    from that have "stmt (select_key u k) v = (Inr row, v')" by (auto simp: attempt_def split: prod.splits)
    then obtain t where "select_key u k t (db v) = (Inr row, db v')" by (rule stmt_InrE)
    then obtain rows where "filter (key_is u k) (send_keys (db v')) = row # rows"
      by (auto simp: select_key_def first_or_no_rows_def split: list.splits)
    then have "row \<in> set (send_keys (db v')) \<and> key_is u k row"
      using filter_eq_ConsD by fastforce
    then show ?thesis by (force simp: key_held_def key_is_def)
  qed
  from t show ?thesis
  proof (cases rule: transaction_InrE)
    case (commit v v')
    with f [of v "Commit (Some row)" v' "Some row"] held [of v v'] show ?thesis by simp
  next
    case (abandon v v')
    then show ?thesis by (auto simp: start_key_body_def elim!: seq_InrE split: sum.splits if_splits)
  qed
qed

lemma settled_held:
  assumes "send_handler sha c visit (Some u) rq w = (Inr a, w')" and "settled a"
  shows "key_held u (sh_key rq) (db w')"
proof -
  have n: "sh_key rq \<noteq> []" and "\<exists>h. sh_text rq = Some h" and "\<exists>q. parsed dec_send_request (sh_json rq) = Inr q"
    using assms
    by (auto simp: send_handler_def as_user_def with_body_def settled_def ret_def split: if_splits option.splits sum.splits)
  then obtain h q where h: "sh_text rq = Some h" and q: "parsed dec_send_request (sh_json rq) = Inr q" by blast
  obtain r w1 where s: "start_idempotent u (sh_key rq) (sha h) w = (r, w1)" by force
  from assms(1) n h q s
  have k: "(case r of Inl e \<Rightarrow> ret (key_refused e) | Inr (Some s) \<Rightarrow> ret (replayed_answer s)
      | Inr None \<Rightarrow> send_under_key c visit u (sh_key rq) (q\<lparr>sq_key := sh_key rq\<rparr>)) w1 = (Inr a, w')"
    by (simp add: send_handler_def as_user_def with_body_def seq_def attempt_apply)
  consider (refused) e where "r = Inl e" | (replayed) s where "r = Inr (Some s)" | (proceeds) "r = Inr None"
    by (metis not_None_eq obj_sumE)
  then show ?thesis
  proof cases
    case refused
    with k assms(2) show ?thesis by auto
  next
    case replayed
    with k s start_replays show ?thesis by auto
  next
    case proceeds
    with start_proceeds s have "key_held u (sh_key rq) (db w1)" by (fastforce simp: key_held_def)
    moreover obtain x w2 where m: "send_message c visit u (q\<lparr>sq_key := sh_key rq\<rparr>) w1 = (x, w2)" by force
    ultimately have h: "key_held u (sh_key rq) (db w2)" by (metis held.send_message_keeps preserves_step)
    have c: "key_held u (sh_key rq) (db (snd (complete_idempotent u (sh_key rq) st code b w2)))" for st code b
      unfolding complete_idempotent_def
      by (rule preservesD [of "key_held u (sh_key rq)", OF preserves_stmt h]) (rule key_held_query)
    show ?thesis
      using k proceeds m c assms(2)
      by (cases x) (auto simp: send_under_key_def seq_def attempt_apply split: send_outcome.splits)
  qed
qed

text \<open>
  C4. A send request that was answered is not carried out again: once the answer to a request carries a result, or the
  replay of one, every later request of the user with the same key leaves the mail server alone, whatever
  its body, whatever other requests any users make in between and whichever database calls fail. (A request answered
  with an error frees its key.)
\<close>

theorem answered_send_not_repeated:
  assumes "run (api_op sha c visit) w ((SendRequest u rq, Inr (Answered a)) # es) w'" and "settled a"
    and "sh_key rq' = sh_key rq"
  shows "remote (snd (send_handler sha c visit (Some u) rq' w')) = remote w'"
proof -
  from assms(1) obtain w1 where "send_handler sha c visit (Some u) rq w = (Inr a, w1)"
    and r: "run (api_op sha c visit) w1 es w'"
    by (auto simp: run_Cons elim!: seq_InrE)
  then have "key_held u (sh_key rq) (db w1)" using settled_held assms(2) by metis
  with r have "key_held u (sh_key rq) (db w')" by (rule run_preserves) (rule api_op_keeps_key)
  then show ?thesis using held_request [of u rq' w'] assms(3) by simp
qed

lemma fst_run_list: "fst (run_list op w (c # cs)) = (c, fst (op c w)) # fst (run_list op (snd (op c w)) cs)"
  by (simp split: prod.split)

definition api_requests :: "api_call list" where
  "api_requests = [SendRequest 10 demo_send, Call 10 SyncMail]"

theorem answered_send_not_repeated_witness:
  "remote (snd (send_handler (\<lambda>s. s) scripted_client id (Some 10) (demo_send\<lparr>sh_text := Some ''other''\<rparr>)
     (snd (run_list demo_api send_world api_requests)))) = remote (snd (run_list demo_api send_world api_requests))"
proof -
  have a: "fst (demo_api (SendRequest 10 demo_send) send_world) =
      Inr (Answered (Json 200 (Value \<lparr>sr_message = ''e7'', sr_submission = ''s9'', sr_status = ''submitted''\<rparr>)))"
    by code_simp
  have "fst (run_list demo_api send_world api_requests) = (SendRequest 10 demo_send, Inr (Answered (Json 200 (Value
      \<lparr>sr_message = ''e7'', sr_submission = ''s9'', sr_status = ''submitted''\<rparr>)))) #
      fst (run_list demo_api (snd (demo_api (SendRequest 10 demo_send) send_world)) [Call 10 SyncMail])"
    unfolding api_requests_def fst_run_list a ..
  from run_list_run [of demo_api send_world api_requests, unfolded this]
  show ?thesis by (rule answered_send_not_repeated) (simp_all add: settled_def)
qed

end
