(* ===== verification/Conversations.thy ===== *)
theory Conversations
  imports MailIsolation MailSync
begin

text \<open>
  The mail service and the conversations it shows: following the cursors of the thread listing, replies to all, and the
  thread a reply ends up in once it is synchronised.
\<close>

section \<open>Following the cursors\<close>

text \<open>The documented law of the codec: \<^verbatim>\<open>time.Parse\<close> reads what \<^verbatim>\<open>Time.Format\<close> writes, and a time has no bar in it.\<close>

definition codec_ok :: "time_codec \<Rightarrow> bool" where
  "codec_ok tc \<longleftrightarrow> (\<forall>t. tc_parse tc (tc_text tc t) = Some t \<and> CHR ''|'' \<notin> set (tc_text tc t))"

lemma hex_char_bar: "n < 16 \<Longrightarrow> hex_char n \<noteq> CHR ''|''"
proof
  assume "n < 16" and "hex_char n = CHR ''|''"
  with hex_value_char [of n] show False by (simp add: hex_value_def Let_def)
qed

lemma hex_text_bar: "CHR ''|'' \<notin> set (hex_text k n)"
  by (induction k arbitrary: n) (auto dest: sym simp: hex_char_bar)

lemma uuid_text_bar: "CHR ''|'' \<notin> set (uuid_text n)"
  using hex_text_bar [of 32 n] by (auto simp: uuid_text_def Let_def dest: in_set_takeD in_set_dropD)

lemma std_encode_Nil: "std_encode bs = [] \<longleftrightarrow> bs = []"
  by (cases bs rule: std_encode.cases) simp_all

lemma read_cursor_text:
  assumes "codec_ok tc"
  shows "read_cursor tc (cursor_text tc t i) = Some (t, uuid_text i)"
proof -
  define s where "s = tc_text tc t @ ''|'' @ uuid_text i"
  have p: "split_on (CHR ''|'') s = [tc_text tc t, uuid_text i]"
    using assms uuid_text_bar [of i] by (simp add: s_def codec_ok_def split_on_once split_on_free)
  have n: "std_encode (bytes_of s) \<noteq> []" by (simp add: std_encode_Nil bytes_of_def s_def)
  have d: "std_decode (std_encode (bytes_of s)) = Some (bytes_of s)"
    by (rule std_roundtrip [OF bytes_roundtrip(2)])
  show ?thesis
    using assms by (simp add: read_cursor_def cursor_text_def s_def [symmetric] n d p codec_ok_def del: append_Cons append_Nil)
qed

lemma list_from_cursor:
  assumes "codec_ok tc" and "i < 2 ^ 128"
  shows "list_threads_from acc mb n (read_cursor tc (cursor_text tc t i)) = list_threads acc mb n (Some (Page t i))"
proof -
  have "uuid_text i \<noteq> ''''" by (simp add: uuid_text_def Let_def)
  with assms show ?thesis
    by (simp add: read_cursor_text list_threads_from_def with_key_def parse_uuid_text list_threads_def)
qed

text \<open>A client that asks for page after page with the cursor it was given, until a page is empty.\<close>

fun follow_api :: "nat \<Rightarrow> time_codec \<Rightarrow> uuid \<Rightarrow> list_options \<Rightarrow> 's world \<Rightarrow> thread_response list" where
  "follow_api 0 tc u opts w = []"
| "follow_api (Suc fuel) tc u opts w =
     (case list_user_threads tc u opts w of
        (Inl e, w') \<Rightarrow> []
      | (Inr p, w') \<Rightarrow>
          if tp_threads p = [] then []
          else tp_threads p @ follow_api fuel tc u (opts\<lparr>lo_cursor := tp_next p\<rparr>) w')"

definition ready_mailbox :: "uuid \<Rightarrow> db \<Rightarrow> mailbox option" where
  "ready_mailbox u d =
     (case claimed_mailboxes u d of
        [] \<Rightarrow> None
      | m # _ \<Rightarrow> if m_status m = MbActive \<and> m_stalwart m \<noteq> None \<and> m_stalwart m \<noteq> Some '''' then Some m else None)"

lemma resolve_ready:
  assumes "ready_mailbox u (db w) = Some m" and "faults w = []"
  shows "resolve_user_account u w = (Inr \<lparr>rc_user = u, rc_mailbox = m_id m, rc_stalwart = the (m_stalwart m)\<rparr>, w)"
  using assms
  by (auto simp: ready_mailbox_def resolve_user_account_def get_mailbox_by_user_def tag_err_def map_err_apply seq_def
      run_query_def select_user_mailbox_def first_or_no_rows_def split: list.splits if_splits option.splits)

lemma list_user_threads_quiet:
  fixes w :: "'s world"
  assumes "ready_mailbox u (db w) = Some m" and "faults w = []" and "length (lo_mailbox opts) \<le> 2"
    and "list_threads_from (m_id m) (lo_mailbox opts) (thread_limit (lo_limit opts)) (read_cursor tc (lo_cursor opts)) =
      (list_threads (m_id m) (lo_mailbox opts) (thread_limit (lo_limit opts)) cursor :: ('s, thread list) act)"
  shows "list_user_threads tc u opts w =
    (let hs = take (thread_limit (lo_limit opts)) (listed_threads (m_id m) (lo_mailbox opts) cursor (db w)) in
     (Inr \<lparr>tp_threads = map to_thread_response hs, tp_next = next_cursor tc hs\<rparr>, w))"
proof -
  have f: "(if lo_mailbox opts = '''' then ret '''' else if length (lo_mailbox opts) \<le> 2 then ret (lo_mailbox opts)
      else resolve_folder mb (lo_mailbox opts)) = ret (lo_mailbox opts)" for mb
    using assms(3) by simp
  show ?thesis
    unfolding list_user_threads_def seq_Inr [where m = "resolve_user_account u", OF resolve_ready [OF assms(1,2)]] resolved_account.simps f seq_ret assms(4)
    by (simp add: list_threads_def wrap_err_def map_err_apply seq_def run_query_def Let_def assms(2))
qed

lemma follow_api_pages:
  fixes w :: "'s world"
  assumes "codec_ok tc" and "ready_mailbox u (db w) = Some m" and "faults w = []"
    and "\<forall>h \<in> set (threads (db w)). th_id h < 2 ^ 128"
  shows "length (lo_mailbox opts) \<le> 2 \<Longrightarrow>
    list_threads_from (m_id m) (lo_mailbox opts) (thread_limit (lo_limit opts)) (read_cursor tc (lo_cursor opts)) =
      (list_threads (m_id m) (lo_mailbox opts) (thread_limit (lo_limit opts)) cursor :: ('s, thread list) act) \<Longrightarrow>
    follow_api fuel tc u opts w =
      map to_thread_response (follow_pages fuel (m_id m) (lo_mailbox opts) (thread_limit (lo_limit opts)) cursor (db w))"
proof (induction fuel arbitrary: opts cursor)
  case (Suc fuel)
  define p where "p = take (thread_limit (lo_limit opts)) (listed_threads (m_id m) (lo_mailbox opts) cursor (db w))"
  note q = list_user_threads_quiet [OF assms(2,3) Suc.prems]
  show ?case
  proof (cases "p = []")
    case True
    with q show ?thesis by (simp add: Let_def p_def [symmetric])
  next
    case False
    then have "last p \<in> set (listed_threads (m_id m) (lo_mailbox opts) cursor (db w))"
      using in_set_takeD [of "last p"] by (metis last_in_set p_def)
    then have "th_id (last p) < 2 ^ 128" using assms(4) by (simp add: listed_threads_def)
    then have "follow_api fuel tc u (opts\<lparr>lo_cursor := next_cursor tc p\<rparr>) w = map to_thread_response
        (follow_pages fuel (m_id m) (lo_mailbox opts) (thread_limit (lo_limit opts)) (Some (thread_key (last p))) (db w))"
      using Suc.prems(1) False Suc.IH [of "opts\<lparr>lo_cursor := next_cursor tc p\<rparr>" "Some (thread_key (last p))"]
      by (simp add: next_cursor_def list_from_cursor [OF assms(1)] thread_key_def)
    with q False show ?thesis by (simp add: Let_def p_def [symmetric])
  qed
qed simp

text \<open>
  C25. Following the cursors of the thread listing, whatever the page size asked for, yields every thread of the user's
  mailbox (or of the folder asked for) exactly once, newest first: the cursor of a page, sent back, continues
  after the last thread of that page, also where several threads have the same time.
\<close>

theorem api_pages_complete:
  assumes "codec_ok tc" and "ready_mailbox u (db w) = Some m" and "faults w = []"
    and "\<forall>h \<in> set (threads (db w)). th_id h < 2 ^ 128" and "unique_on th_id (threads (db w))"
    and "length (lo_mailbox opts) \<le> 2" and "lo_cursor opts = ''''" and "length (threads (db w)) < fuel"
  shows "follow_api fuel tc u opts w = map to_thread_response (listed_threads (m_id m) (lo_mailbox opts) None (db w)) \<and>
    distinct (follow_api fuel tc u opts w) \<and>
    set (follow_api fuel tc u opts w) = to_thread_response `
      {h \<in> set (threads (db w)). th_account h = m_id m \<and> (lo_mailbox opts \<noteq> '''' \<longrightarrow> in_mailbox (lo_mailbox opts) (db w) h)}"
proof -
  have "0 < thread_limit (lo_limit opts)" by (auto simp: thread_limit_def)
  note pages = pages_complete [OF assms(5) this assms(8), of "m_id m" "lo_mailbox opts"]
  have f: "follow_api fuel tc u opts w =
      map to_thread_response (listed_threads (m_id m) (lo_mailbox opts) None (db w))"
    using follow_api_pages [OF assms(1-4,6), of None fuel] pages
    by (simp add: read_cursor_def assms(7) list_threads_from_def)
  have "inj_on to_thread_response (set (listed_threads (m_id m) (lo_mailbox opts) None (db w)))"
    using assms(5) by (auto simp: inj_on_def to_thread_response_def listed_threads_def dest: unique_onD)
  with pages [THEN conjunct2, unfolded pages [THEN conjunct1]] show ?thesis
    unfolding f by (simp add: distinct_map)
qed

definition decimal_codec :: time_codec where
  "decimal_codec = \<lparr>tc_text = int_text,
     tc_parse = (\<lambda>s. Some (if has_prefix s ''-'' then - int (digits_value (tl s)) else int (digits_value s)))\<rparr>"

lemma decimal_codec_ok: "codec_ok decimal_codec"
proof -
  have d: "c \<noteq> CHR ''|'' \<and> c \<noteq> CHR ''-''" if "c \<in> set (nat_text n)" for c n
    using nat_text_digits [of n] that by (auto simp: list_all_iff is_digit_def)
  have "\<not> has_prefix (nat_text n) ''-''" for n
    using d [of "hd (nat_text n)" n] nat_text_digits [of n] by (cases "nat_text n") (auto simp: has_prefix_def)
  with d nat_text_digits show ?thesis
    by (auto simp: codec_ok_def decimal_codec_def int_text_def has_prefix_def)
qed

definition threads_world :: "unit world" where
  "threads_world = world_of (own_mailbox_db\<lparr>threads := [demo_thread 40 7, demo_thread 41 9, demo_thread 42 7]\<rparr>)"

definition two_at_a_time :: list_options where
  "two_at_a_time = \<lparr>lo_mailbox = '''', lo_limit = 2, lo_position = 0, lo_cursor = '''', lo_from = '''', lo_to = '''', lo_cc = '''',
     lo_subject = '''', lo_text = '''', lo_before = '''', lo_after = '''', lo_has_keyword = '''', lo_not_keyword = '''',
     lo_thread = '''', lo_has_attachment = False\<rparr>"

theorem api_pages_complete_witness:
  "map tr_id (follow_api 4 decimal_codec 10 two_at_a_time threads_world) = [41, 42, 40]"
proof -
  obtain m where "ready_mailbox 10 (db threads_world) = Some m" and "m_id m = 30"
  proof
    show "ready_mailbox 10 (db threads_world) = Some \<lparr>m_id = 30, m_address = 21, m_stalwart = Some ''s1'', m_status = MbActive,
        m_jmap_state = None, m_checkpoint = None, m_synced_at = None\<rparr>"
      by code_simp
  qed simp
  moreover have "faults threads_world = []" and "length (threads (db threads_world)) < 4"
    and "unique_on th_id (threads (db threads_world))"
    by code_simp+
  moreover have "\<forall>h \<in> set (threads (db threads_world)). th_id h < 2 ^ 128"
    by (simp add: threads_world_def world_of_def demo_thread_def)
  moreover have "length (lo_mailbox two_at_a_time) \<le> 2" and "lo_cursor two_at_a_time = ''''" by code_simp+
  ultimately have "follow_api 4 decimal_codec 10 two_at_a_time threads_world =
      map to_thread_response (listed_threads 30 (lo_mailbox two_at_a_time) None (db threads_world))"
    using api_pages_complete [OF decimal_codec_ok, of 10 threads_world m two_at_a_time 4] by simp
  moreover have "map tr_id (map to_thread_response (listed_threads 30 (lo_mailbox two_at_a_time) None (db threads_world))) =
      [41, 42, 40]"
    by code_simp
  ultimately show ?thesis by simp
qed


section \<open>Replies to all\<close>

lemma map_put_keys: "set (map fst (map_put k v m)) = insert k (set (map fst m))"
  by (induction k v m rule: map_put.induct) auto

lemma map_put_keeps: "k' \<noteq> k \<Longrightarrow> k' \<in> fst ` set (map_put k v m) \<longleftrightarrow> k' \<in> fst ` set m"
  using map_put_keys [of k v m] by simp

lemma map_put_distinct: "distinct (map fst m) \<Longrightarrow> distinct (map fst (map_put k v m))"
  by (induction k v m rule: map_put.induct) (auto simp: map_put_keeps)

lemma map_put_in: "(k', v') \<in> set (map_put k v m) \<Longrightarrow> (k', v') = (k, v) \<or> (k', v') \<in> set m"
  by (induction k v m rule: map_put.induct) (auto split: if_splits)

text \<open>The map of copies, entry by entry.\<close>

definition copies_ok :: "string \<Rightarrow> address_dto list \<Rightarrow> address_dto list \<Rightarrow> (string \<times> address_dto) list \<Rightarrow> bool" where
  "copies_ok self to_list xs m \<longleftrightarrow> distinct (map fst m) \<and>
     (\<forall>(k, x) \<in> set m. x \<in> set xs \<and> copied self to_list x \<and> k = to_lower (ad_email x)) \<and>
     set (map fst m) = {to_lower (ad_email x) | x. x \<in> set xs \<and> copied self to_list x}"

lemma copy_map_snoc: "copy_map self to_list (xs @ [x]) =
    (if copied self to_list x then map_put (to_lower (ad_email x)) x (copy_map self to_list xs) else copy_map self to_list xs)"
  by (simp add: copy_map_def)

lemma copy_map_ok: "copies_ok self to_list xs (copy_map self to_list xs)"
proof (induction xs rule: rev_induct)
  case (snoc x xs)
  let ?m = "copy_map self to_list xs"
  from snoc have m: "distinct (map fst ?m)" "\<And>k y. (k, y) \<in> set ?m \<Longrightarrow> y \<in> set xs \<and> copied self to_list y \<and> k = to_lower (ad_email y)"
    "set (map fst ?m) = {to_lower (ad_email x) | x. x \<in> set xs \<and> copied self to_list x}"
    by (auto simp: copies_ok_def)
  show ?case
  proof (cases "copied self to_list x")
    case True
    let ?p = "map_put (to_lower (ad_email x)) x ?m"
    have "y \<in> set (xs @ [x]) \<and> copied self to_list y \<and> k = to_lower (ad_email y)" if "(k, y) \<in> set ?p" for k y
      using map_put_in [OF that] m(2) [of k y] True by auto
    moreover have "set (map fst ?p) = {to_lower (ad_email y) | y. y \<in> set (xs @ [x]) \<and> copied self to_list y}"
      unfolding map_put_keys m(3) using True by auto
    ultimately show ?thesis
      using map_put_distinct [OF m(1)] True unfolding copies_ok_def copy_map_snoc by auto
  next
    case False
    have "{to_lower (ad_email y) | y. y \<in> set (xs @ [x]) \<and> copied self to_list y} =
        {to_lower (ad_email y) | y. y \<in> set xs \<and> copied self to_list y}" using False by auto
    with m False show ?thesis unfolding copies_ok_def copy_map_snoc by auto
  qed
qed (simp add: copies_ok_def copy_map_def)

text \<open>
  C31. The copies of a reply to all, when the client names none: they are entries of the original's To and Cc, one for
  each address without regard to its case; the user and the recipients of the reply are not among them, and
  nobody else is left out. This holds in whatever order the range over the map visits its keys.
\<close>

theorem reply_all_copies:
  assumes "\<And>xs. set (visit xs) = set xs" and "\<And>xs. distinct xs \<Longrightarrow> distinct (visit xs)" and "sq_cc q = []"
  shows "let r = reply_all_request visit self orig q in
    set (sq_cc r) \<subseteq> set (mg_to orig @ mg_cc orig) \<and> distinct (map (to_lower \<circ> ad_email) (sq_cc r)) \<and>
    to_lower ` ad_email ` set (sq_cc r) = {to_lower (ad_email x) | x. x \<in> set (mg_to orig @ mg_cc orig) \<and>
      \<not> equal_fold (ad_email x) self \<and> (\<forall>t \<in> set (sq_to r). \<not> equal_fold (ad_email t) (ad_email x))}"
proof -
  define r where "r = reply_all_request visit self orig q"
  let ?to = "answer_to orig (sq_to q)" and ?xs = "mg_to orig @ mg_cc orig"
  let ?m = "copy_map self ?to ?xs"
  have ok: "copies_ok self ?to ?xs ?m" by (rule copy_map_ok)
  have to: "sq_to r = ?to" and cc: "sq_cc r = List.map_filter (map_of ?m) (visit (map fst ?m))"
    by (simp_all add: r_def reply_all_request_def reply_headers_def Let_def assms(3) copies_of_def)
  have get: "map_of ?m k = Some x \<Longrightarrow> x \<in> set ?xs \<and> k = to_lower (ad_email x)" for k x
    using ok map_of_SomeD [of ?m k x] by (auto simp: copies_ok_def)
  have all: "\<exists>x. map_of ?m k = Some x" if "k \<in> set (visit (map fst ?m))" for k
    using that assms(1) by (metis list.set_map map_of_eq_None_iff not_None_eq)
  have "map (to_lower \<circ> ad_email) (List.map_filter (map_of ?m) ks) = ks" if "\<And>k. k \<in> set ks \<Longrightarrow> \<exists>x. map_of ?m k = Some x" for ks
    using that
  proof (induction ks)
    case (Cons k ks)
    then obtain x where "map_of ?m k = Some x" by auto
    with Cons get [of k x] show ?case by (simp add: List.map_filter_simps)
  qed (simp add: List.map_filter_simps)
  then have keys: "map (to_lower \<circ> ad_email) (sq_cc r) = visit (map fst ?m)" using all by (simp add: cc)
  have "set (sq_cc r) \<subseteq> set ?xs"
  proof
    fix y assume "y \<in> set (sq_cc r)"
    then obtain k where "map_of ?m k = Some y" by (auto simp: cc List.map_filter_def)
    with get show "y \<in> set ?xs" by blast
  qed
  moreover have "distinct (map (to_lower \<circ> ad_email) (sq_cc r))"
    using ok assms(2) by (simp add: keys copies_ok_def)
  moreover have "to_lower ` ad_email ` set (sq_cc r) = set (map fst ?m)"
    using arg_cong [OF keys, of set] assms(1) by (simp add: image_comp)
  ultimately show ?thesis
    using ok unfolding Let_def r_def [symmetric] by (auto simp: copies_ok_def copied_def to)
qed

definition demo_orig :: message_response where
  "demo_orig = (to_message_response (demo_email ''e1'' ''Lunch'' ''m1'' []))\<lparr>mg_from := [\<lparr>ad_name = '''', ad_email = ''Bob@x''\<rparr>],
     mg_to := [\<lparr>ad_name = '''', ad_email = ''ANN@norestmail.com''\<rparr>, \<lparr>ad_name = ''C'', ad_email = ''cy@x''\<rparr>],
     mg_cc := [\<lparr>ad_name = '''', ad_email = ''bob@x''\<rparr>, \<lparr>ad_name = '''', ad_email = ''Cy@x''\<rparr>]\<rparr>"

definition empty_reply :: send_request where
  "empty_reply = \<lparr>sq_draft = '''', sq_to = [], sq_cc = [], sq_bcc = [], sq_subject = '''', sq_text = ''ok'', sq_html = '''',
     sq_in_reply_to = [], sq_references = [], sq_attachments = [], sq_key = ''''\<rparr>"

theorem reply_all_copies_witness:
  "sq_cc (reply_all_request rev ''ann@norestmail.com'' demo_orig empty_reply) = [\<lparr>ad_name = '''', ad_email = ''Cy@x''\<rparr>] \<and>
   distinct (map (to_lower \<circ> ad_email) (sq_cc (reply_all_request rev ''ann@norestmail.com'' demo_orig empty_reply)))"
proof
  show "sq_cc (reply_all_request rev ''ann@norestmail.com'' demo_orig empty_reply) = [\<lparr>ad_name = '''', ad_email = ''Cy@x''\<rparr>]"
    by code_simp
  have "sq_cc empty_reply = []" by (simp add: empty_reply_def)
  from reply_all_copies [of rev, OF _ _ this, of "''ann@norestmail.com''" demo_orig]
  show "distinct (map (to_lower \<circ> ad_email) (sq_cc (reply_all_request rev ''ann@norestmail.com'' demo_orig empty_reply)))"
    by (simp add: Let_def)
qed


section \<open>A reply joins the conversation\<close>

lemma or_else_InrE:
  assumes "or_else look next w = (Inr (i, new), w')"
  obtains (found) "look w = (Inr i, w')" and "\<not> new"
  | (none) w1 where "look w = (Inl (Sentinel ErrNoRows), w1)" and "next w1 = (Inr (i, new), w')"
proof -
  obtain r w1 where r: "look w = (r, w1)" by force
  with assms show ?thesis
    by (cases r) (auto simp: or_else_def seq_def attempt_def ret_def fail_def split: if_splits intro: that)
qed

text \<open>A fault is never the sentinel of an empty result: where it is reported, the query found no row.\<close>

lemma stmt_no_rows:
  assumes "stmt q w = (Inl (Sentinel s), w')"
  obtains t where "q t (db w) = (Inl (Sentinel s), db w')"
proof (cases "faults w")
  case Nil
  with assms that show ?thesis by (auto simp: run_query_def split: prod.splits)
next
  case (Cons e fs)
  obtain dt f where e: "e = (dt, f)" by force
  show ?thesis
  proof (cases f)
    case None
    with assms Cons e that show ?thesis
      by (auto simp: stmt_def round_trip_def run_query_def Let_def split: prod.splits)
  next
    case (Some g)
    with assms Cons e show ?thesis
      by (auto simp: stmt_def round_trip_def Let_def split: fault.splits)
  qed
qed

text \<open>
  C26. A reply sent through the service joins the conversation of the message it answers: when it is
  synchronised, every successful resolution of its thread gives the thread that holds the rows of the original's
  \<^verbatim>\<open>Message-ID\<close>, creates none and changes nothing, whatever its subject says.
\<close>

theorem reply_joins_conversation:
  assumes "em_in_reply_to e = sq_in_reply_to (reply_request orig q)" and "mg_message_id orig \<noteq> ''''"
    and "m \<in> set (messages (db w))" and "ms_account m = acc" and "ms_message_id m = Some (mg_message_id orig)"
    and "\<forall>r \<in> set (messages (db w)). ms_account r = acc \<and> ms_message_id r = Some (mg_message_id orig) \<longrightarrow> ms_thread r = ms_thread m"
    and "\<forall>r \<in> set (messages (db w)). \<not> (ms_account r = acc \<and> ms_stalwart r = em_id e)"
    and "resolve_thread acc e w = (Inr (i, new), w')"
  shows "i = ms_thread m \<and> \<not> new \<and> db w' = db w"
proof -
  let ?by = "stmt (select_thread_by_message_ids acc (em_in_reply_to e))"
  have r: "em_in_reply_to e = [mg_message_id orig]"
    using assms(1,2) by (simp add: reply_request_def reply_headers_def threading_id_def)
  then have "\<exists>rest. resolve_thread acc e = or_else (stmt (select_thread_of acc (em_id e))) (or_else ?by rest)"
    by (auto simp: resolve_thread_def Let_def)
  then obtain rest where "or_else (stmt (select_thread_of acc (em_id e))) (or_else ?by rest) w = (Inr (i, new), w')"
    using assms(8) by metis
  then show ?thesis
  proof (cases rule: or_else_InrE)
    case found
    then show ?thesis
      using assms(7) by (auto simp: select_thread_of_def elim!: stmt_InrE dest!: first_or_no_rows_InrD)
  next
    case (none w1)
    from none(1) have d: "db w1 = db w" by (auto simp: select_thread_of_def elim!: stmt_no_rows)
    from none(2) show ?thesis
    proof (cases rule: or_else_InrE)
      case found
      then show ?thesis
        using d r assms(6) by (auto simp: select_thread_by_message_ids_def elim!: stmt_InrE dest!: first_or_no_rows_InrD)
    next
      case (none w2)
      then show ?thesis
        using d r assms(3-5)
        by (auto simp: select_thread_by_message_ids_def filter_empty_conv elim!: stmt_no_rows dest!: first_or_no_rows_InlD)
    qed
  qed
qed

definition asked :: email where
  "asked = demo_email ''M1'' ''Question'' ''a@x'' []"

definition question_world :: "unit world" where
  "question_world = snd (process_email_sync 30 asked (world_of demo_mailbox_db))"

definition answered :: email where
  "answered = demo_email ''M2'' ''Other'' ''b@x''
     (sq_in_reply_to (reply_request (to_message_response asked) (empty_reply\<lparr>sq_subject := ''Other''\<rparr>)))"

theorem reply_joins_conversation_witness:
  "\<exists>w' i. resolve_thread 30 answered question_world = (Inr (i, False), w') \<and>
     map ms_thread (messages (db question_world)) = [i] \<and> threads (db w') = threads (db question_world)"
proof -
  have "succeeds (resolve_thread 30 answered question_world)" by code_simp
  then obtain i new and w' :: "unit world" where w: "resolve_thread 30 answered question_world = (Inr (i, new), w')"
    by (rule succeedsE) auto
  obtain m where m: "messages (db question_world) = [m]"
    and mf: "ms_account m = 30" "ms_message_id m = Some ''a@x''" "ms_stalwart m = ''M1''"
  proof
    show "messages (db question_world) = [hd (messages (db question_world))]" by code_simp
  qed code_simp+
  have e: "em_id answered = ''M2''" and o: "mg_message_id (to_message_response asked) = ''a@x''" by code_simp+
  have "i = ms_thread m \<and> \<not> new \<and> db w' = db question_world"
    by (rule reply_joins_conversation [OF _ _ _ _ _ _ _ w, of "to_message_response asked" "empty_reply\<lparr>sq_subject := ''Other''\<rparr>"])
      (simp_all add: m mf e o answered_def demo_email_def [of "''M2''"])
  with w m show ?thesis by auto
qed

end
