(* ===== verification/Passwords.thy ===== *)
theory Passwords
  imports Texts Numbers
begin

text \<open>
  Stored passwords (\<^verbatim>\<open>internal/auth/password.go\<close>): an Argon2id hash with its parameters and its salt in one text,
  and the verification that reads them back from it. The key derivation is a parameter; the random salt is an
  argument.
\<close>

section \<open>Base64 without padding\<close>

text \<open>\<^verbatim>\<open>base64.RawStdEncoding\<close>.\<close>

definition raw_encode :: "nat list \<Rightarrow> string" where
  "raw_encode bs = takeWhile (\<lambda>c. c \<noteq> CHR ''='') (std_encode bs)"

definition padding :: "string \<Rightarrow> string" where
  "padding s = replicate ((4 - length s mod 4) mod 4) (CHR ''='')"

definition raw_decode :: "string \<Rightarrow> nat list option" where
  "raw_decode s =
     (let t = filter (\<lambda>c. c \<noteq> CHR 0x0A \<and> c \<noteq> CHR 0x0D) s in
      if CHR ''='' \<in> set t \<or> length t mod 4 = 1 then None
      else std_quads (t @ padding t))"

lemma sextets_encoded:
  assumes "\<forall>d \<in> set ds. d < 64"
  shows "CHR ''='' \<notin> set (map std_char ds)"
  using assms std_char_ok(2) by fastforce

lemma take_unpadded: "CHR ''='' \<notin> set xs \<Longrightarrow> takeWhile (\<lambda>c. c \<noteq> CHR ''='') (xs @ ys) = xs @ takeWhile (\<lambda>c. c \<noteq> CHR ''='') ys"
  by (induction xs) auto

lemma two: "replicate 2 x = [x, x]" "length [x, x] mod 4 = 2" "length [x, x, y] mod 4 = 3"
  by (simp_all add: numeral_2_eq_2 del: One_nat_def)

lemma std_encode_padded: "\<forall>b \<in> set bs. b < 256 \<Longrightarrow>
    std_encode bs = raw_encode bs @ padding (raw_encode bs) \<and>
    length (raw_encode bs) mod 4 \<noteq> 1 \<and> CHR ''='' \<notin> set (raw_encode bs)"
proof (induction bs rule: std_encode.induct)
  case (2 a)
  then have n: "CHR ''='' \<notin> set (map std_char (sextets [a]))" by (intro sextets_encoded) (simp add: sextet_bounds)
  then have "raw_encode [a] = map std_char (sextets [a])" by (auto simp: raw_encode_def)
  with n show ?case by (auto simp: padding_def two)
next
  case (3 a b)
  then have n: "CHR ''='' \<notin> set (map std_char (sextets [a, b]))" by (intro sextets_encoded) (simp add: sextet_bounds)
  then have "raw_encode [a, b] = map std_char (sextets [a, b])" by (auto simp: raw_encode_def)
  with n show ?case by (auto simp: padding_def two)
next
  case (4 a b c r)
  then have n: "CHR ''='' \<notin> set (map std_char (sextets [a, b, c]))" by (intro sextets_encoded) (simp add: sextet_bounds)
  then have q: "raw_encode (a # b # c # r) = map std_char (sextets [a, b, c]) @ raw_encode r"
    by (auto simp: raw_encode_def)
  have "length (map std_char (sextets [a, b, c])) = 4" by simp
  then have "padding (raw_encode (a # b # c # r)) = padding (raw_encode r)" "length (raw_encode (a # b # c # r)) mod 4 = length (raw_encode r) mod 4"
    unfolding q padding_def by simp_all
  with 4 n q show ?case by simp
qed (simp add: raw_encode_def padding_def)

lemma raw_roundtrip:
  assumes "\<forall>b \<in> set bs. b < 256"
  shows "raw_decode (raw_encode bs) = Some bs"
proof -
  note p = std_encode_padded [OF assms]
  have "c \<in> set (std_encode bs)" if "c \<in> set (raw_encode bs)" for c
    using that p by (metis UnCI set_append)
  then have "filter (\<lambda>c. c \<noteq> CHR 0x0A \<and> c \<noteq> CHR 0x0D) (raw_encode bs) = raw_encode bs"
    using std_encode_lines [OF assms] by (auto simp: filter_id_conv)
  with p show ?thesis by (simp add: raw_decode_def Let_def std_quads_encode [OF assms, symmetric])
qed


section \<open>Hashing and verifying\<close>

record password_config =
  pw_time :: nat
  pw_memory :: nat
  pw_threads :: nat
  pw_key_len :: nat
  pw_salt_len :: nat

definition default_password_config :: password_config where
  "default_password_config = \<lparr>pw_time = 3, pw_memory = 64 * 1024, pw_threads = 2, pw_key_len = 32, pw_salt_len = 16\<rparr>"

text \<open>\<^verbatim>\<open>argon2.IDKey\<close>: password, salt, passes, memory, threads and the length of the key.\<close>

type_synonym kdf = "string \<Rightarrow> nat list \<Rightarrow> nat \<Rightarrow> nat \<Rightarrow> nat \<Rightarrow> nat \<Rightarrow> nat list"

definition argon2_version :: nat where "argon2_version = 19"

definition hash_password_with :: "kdf \<Rightarrow> password_config \<Rightarrow> nat list \<Rightarrow> string \<Rightarrow> string" where
  "hash_password_with kdf c salt pw =
     ''$argon2id$v='' @ nat_text argon2_version @ ''$m='' @ nat_text (pw_memory c) @ '',t='' @ nat_text (pw_time c) @
     '',p='' @ nat_text (pw_threads c) @ ''$'' @ raw_encode salt @ ''$'' @
     raw_encode (kdf pw salt (pw_time c) (pw_memory c) (pw_threads c) (pw_key_len c))"

definition hash_password :: "kdf \<Rightarrow> nat list \<Rightarrow> string \<Rightarrow> string" where
  "hash_password kdf = hash_password_with kdf default_password_config"

text \<open>One literal and one unsigned number of a width, as \<^verbatim>\<open>Sscanf\<close> reads them; what follows the last is ignored.\<close>

definition scan_field :: "string \<Rightarrow> nat \<Rightarrow> string \<Rightarrow> (nat \<times> string) option" where
  "scan_field lit bits s =
     (if \<not> has_prefix s lit then None
      else
        let r = dropWhile (\<lambda>c. c \<noteq> CHR 0x0A \<and> is_space c) (drop (length lit) s); ds = takeWhile is_digit r in
        if ds = [] \<or> digits_value ds \<ge> 2 ^ bits then None else Some (digits_value ds, dropWhile is_digit r))"

definition scan_version :: "string \<Rightarrow> int option" where
  "scan_version s = (if has_prefix s ''v='' then scan_int (drop 2 s) else None)"

definition scan_parameters :: "string \<Rightarrow> (nat \<times> nat \<times> nat) option" where
  "scan_parameters s =
     Option.bind (scan_field ''m='' 32 s) (\<lambda>(m, s).
     Option.bind (scan_field '',t='' 32 s) (\<lambda>(t, s).
     Option.bind (scan_field '',p='' 8 s) (\<lambda>(p, s). Some (m, t, p))))"

definition bad_input :: goerr where "bad_input = Plain ''input does not match format''"
definition corrupt :: goerr where "corrupt = Plain ''illegal base64 data''"

definition verify_password :: "kdf \<Rightarrow> string \<Rightarrow> string \<Rightarrow> goerr + bool" where
  "verify_password kdf pw enc =
     (case split_on (CHR ''$'') enc of
        [_, alg, v, ps, s, h] \<Rightarrow>
          if alg \<noteq> ''argon2id'' then Inl (Sentinel ErrInvalidHash)
          else (case scan_version v of
            None \<Rightarrow> Inl bad_input
          | Some n \<Rightarrow>
              if n \<noteq> int argon2_version then Inl (Sentinel ErrIncompatibleVersion)
              else (case scan_parameters ps of
                None \<Rightarrow> Inl bad_input
              | Some (m, t, p) \<Rightarrow>
                  (case (raw_decode s, raw_decode h) of
                     (Some salt, Some hash) \<Rightarrow> Inr (hash = kdf pw salt t m p (length hash))
                   | _ \<Rightarrow> Inl corrupt)))
      | _ \<Rightarrow> Inl (Sentinel ErrInvalidHash))"


section \<open>A password verifies against its hash\<close>

definition kdf_ok :: "kdf \<Rightarrow> bool" where
  "kdf_ok kdf \<longleftrightarrow> (\<forall>pw salt t m p n. length (kdf pw salt t m p n) = n \<and> (\<forall>b \<in> set (kdf pw salt t m p n). b < 256))"

lemma scan_field_text:
  assumes "n < 2 ^ bits" and "s = [] \<or> \<not> is_digit (hd s)"
  shows "scan_field lit bits (lit @ nat_text n @ s) = Some (n, s)"
proof -
  obtain c r where t: "nat_text n = c # r" using nat_text_digits [of n] by (cases "nat_text n") auto
  with nat_text_digits [of n] have "is_digit c" by simp
  then have "dropWhile (\<lambda>c. c \<noteq> CHR 0x0A \<and> is_space c) (nat_text n @ s) = nat_text n @ s"
    using digit_not_space by (simp add: t)
  moreover have "takeWhile is_digit (nat_text n @ s) = nat_text n" "dropWhile is_digit (nat_text n @ s) = s"
    using nat_text_digits [of n] assms(2) by (cases s; simp add: takeWhile_append dropWhile_append list_all_iff)+
  ultimately show ?thesis
    using nat_text_digits [of n] assms(1) by (simp add: scan_field_def has_prefix_def)
qed

lemma scan_parameters_text:
  assumes "m < 2 ^ 32" and "t < 2 ^ 32" and "p < 2 ^ 8"
  shows "scan_parameters (''m='' @ nat_text m @ '',t='' @ nat_text t @ '',p='' @ nat_text p) = Some (m, t, p)"
  using assms scan_field_text [of p 8 "[]" "'',p=''"]
  by (simp add: scan_parameters_def scan_field_text is_digit_def del: append_Cons)

lemma std_encode_chars: "\<forall>b \<in> set bs. b < 256 \<Longrightarrow> c \<in> set (std_encode bs) \<Longrightarrow> c = CHR ''='' \<or> std_digit c \<noteq> None"
  by (induction bs rule: std_encode.induct) (auto simp: std_char_ok sextet_bounds)

lemma raw_encode_chars:
  assumes "\<forall>b \<in> set bs. b < 256"
  shows "CHR ''$'' \<notin> set (raw_encode bs)"
proof
  assume "CHR ''$'' \<in> set (raw_encode bs)"
  then have "CHR ''$'' \<in> set (std_encode bs)" unfolding raw_encode_def by (rule set_takeWhileD [THEN conjunct1])
  with std_encode_chars [OF assms] have "std_digit CHR ''$'' \<noteq> None" by blast
  moreover have "std_digit CHR ''$'' = None" by code_simp
  ultimately show False by simp
qed

text \<open>A password verifies against its hash, and another one when the derivation gives it the same key.\<close>

lemma hash_verifies:
  assumes "kdf_ok kdf" and "\<forall>b \<in> set salt. b < 256"
  shows "verify_password kdf pw' (hash_password kdf salt pw) = Inr (kdf pw salt 3 65536 2 32 = kdf pw' salt 3 65536 2 32)"
proof -
  let ?h = "kdf pw salt 3 65536 2 32"
  have h: "length ?h = 32" "\<forall>b \<in> set ?h. b < 256" using assms(1) by (simp_all add: kdf_ok_def)
  have d: "CHR ''$'' \<notin> set (nat_text n)" for n
    using nat_text_digits [of n] by (auto simp: list_all_iff is_digit_def)
  have "split_on (CHR ''$'') (hash_password kdf salt pw) =
      [[], ''argon2id'', ''v='' @ nat_text 19, ''m='' @ nat_text 65536 @ '',t='' @ nat_text 3 @ '',p='' @ nat_text 2,
       raw_encode salt, raw_encode ?h]"
  proof -
    have e: "hash_password kdf salt pw = [] @ CHR ''$'' # ''argon2id'' @ CHR ''$'' # (''v='' @ nat_text 19) @ CHR ''$'' #
        (''m='' @ nat_text 65536 @ '',t='' @ nat_text 3 @ '',p='' @ nat_text 2) @ CHR ''$'' # raw_encode salt @
        CHR ''$'' # raw_encode ?h"
      by (simp add: hash_password_def hash_password_with_def default_password_config_def argon2_version_def)
    show ?thesis
      unfolding e using d raw_encode_chars [OF assms(2)] raw_encode_chars [OF h(2)]
      by (subst split_on_once, simp)+ (simp add: split_on_free)
  qed
  moreover have "scan_version (''v='' @ nat_text 19) = Some 19"
    using scan_int_text [of 19] by (simp add: scan_version_def has_prefix_def int_text_def)
  moreover have "scan_parameters (''m='' @ nat_text 65536 @ '',t='' @ nat_text 3 @ '',p='' @ nat_text 2) = Some (65536, 3, 2)"
    by (rule scan_parameters_text) simp_all
  ultimately show ?thesis
    using raw_roundtrip [OF assms(2)] raw_roundtrip [OF h(2)] h(1)
    by (simp add: verify_password_def argon2_version_def)
qed

text \<open>A derivation that is a function of all its inputs stands in for Argon2.\<close>

definition demo_kdf :: kdf where
  "demo_kdf pw salt t m p n = take n (map (\<lambda>b. b mod 256) (bytes_of pw @ salt @ [t, m, p]) @ replicate n 0)"

end
