(* ===== verification/Auth.thy ===== *)
theory Auth
  imports Passwords Product Http MailApi
begin

text \<open>
  Users and how they prove who they are (\<^verbatim>\<open>internal/auth\<close>): the user repository, registration and login, the signed
  tokens of the API, the one-time tickets of the realtime connection, and the middleware in front of the
  handlers. The token library, the key derivation, the parser of addresses and the random bytes are parameters.
\<close>

section \<open>Tokens\<close>

record token_claims =
  jc_user :: uuid
  jc_expires :: int
  jc_issued :: int
  jc_not_before :: int

datatype signing_method = Hmac | OtherMethod

text \<open>
  What the code uses of the token library: the rounding of a time, signing with HS256, and parsing, which is given
  the key for the method a token names, checks its signature and its period, and returns its claims.
\<close>

record jwt =
  jw_date :: "time \<Rightarrow> int"
  jw_sign :: "string \<Rightarrow> token_claims \<Rightarrow> goerr + string"
  jw_parse :: "(signing_method \<Rightarrow> string option) \<Rightarrow> time \<Rightarrow> string \<Rightarrow> token_claims option"

record auth_env =
  ae_jwt :: jwt
  ae_secret :: string
  ae_kdf :: kdf
  ae_address :: "string \<Rightarrow> bool"

definition create_token :: "auth_env \<Rightarrow> uuid \<Rightarrow> int \<Rightarrow> ('s, string) act" where
  "create_token e u duration =
     seq time_now (\<lambda>t. lift (jw_sign (ae_jwt e) (ae_secret e)
       \<lparr>jc_user = u, jc_expires = jw_date (ae_jwt e) (t + duration), jc_issued = jw_date (ae_jwt e) t,
        jc_not_before = jw_date (ae_jwt e) t\<rparr>))"

definition create_access_token :: "auth_env \<Rightarrow> uuid \<Rightarrow> ('s, string) act" where
  "create_access_token e u = create_token e u (15 * minute)"

definition create_refresh_token :: "auth_env \<Rightarrow> uuid \<Rightarrow> ('s, string) act" where
  "create_refresh_token e u = create_token e u (7 * 24 * hour)"

definition hmac_key :: "auth_env \<Rightarrow> signing_method \<Rightarrow> string option" where
  "hmac_key e m = (if m = Hmac then Some (ae_secret e) else None)"

definition validate_token :: "auth_env \<Rightarrow> string \<Rightarrow> ('s, uuid) act" where
  "validate_token e s =
     (if trim_space s = '''' then fail (Sentinel ErrInvalidToken)
      else seq time_now (\<lambda>t.
        case jw_parse (ae_jwt e) (hmac_key e) t s of
          None \<Rightarrow> fail (Sentinel ErrInvalidToken)
        | Some c \<Rightarrow> if jc_user c = 0 then fail (Sentinel ErrInvalidToken) else ret (jc_user c)))"


section \<open>The user repository\<close>

definition insert_user :: "string \<Rightarrow> string \<Rightarrow> user query" where
  "insert_user email hash = (\<lambda>t d.
     if \<exists>u \<in> set (users d). u_email u = email then (Inl (unique_violation ''idx_users_email_unique''), d)
     else
       let u = \<lparr>u_id = next_id d, u_email = email, u_hash = hash, u_status = UserPending, u_role = ''user''\<rparr> in
       (Inr u, d\<lparr>users := users d @ [u], next_id := next_id d + 1\<rparr>))"

definition insert_account :: "uuid query" where
  "insert_account = (\<lambda>t d.
     (Inr (next_id d), d\<lparr>accounts := accounts d @ [\<lparr>pa_id = next_id d, pa_status = AccActive\<rparr>], next_id := next_id d + 1\<rparr>))"

definition link_account :: "uuid \<Rightarrow> uuid \<Rightarrow> unit query" where
  "link_account u acc = (\<lambda>t d. (Inr (), d\<lparr>user_accounts := user_accounts d @ [(u, acc)]\<rparr>))"

definition insert_subscription :: "uuid \<Rightarrow> uuid \<Rightarrow> unit query" where
  "insert_subscription acc pl = (\<lambda>t d.
     (Inr (), d\<lparr>subscriptions := subscriptions d @ [\<lparr>sb_id = next_id d, sb_account = acc, sb_plan = pl,
        sb_status = SubActive, sb_created = t\<rparr>], next_id := next_id d + 1\<rparr>))"

definition normalized_email :: "string \<Rightarrow> string" where
  "normalized_email s = to_lower (trim_space s)"

definition user_exists_err :: "goerr \<Rightarrow> goerr" where
  "user_exists_err e = (if str_contains (err_text e) ''idx_users_email_unique'' then Sentinel ErrUserExists else e)"

definition create_user_body :: "string \<Rightarrow> string \<Rightarrow> ('s, user tx) act" where
  "create_user_body email hash =
     seq (map_err user_exists_err (stmt (insert_user email hash))) (\<lambda>u.
     seq (stmt insert_account) (\<lambda>acc.
     seq (stmt (link_account (u_id u) acc)) (\<lambda>_.
     seq (stmt (select_plan ''FREE'')) (\<lambda>pl.
     seq (stmt (insert_subscription acc pl)) (\<lambda>_. ret (Commit u))))))"

definition create_user :: "string \<Rightarrow> string \<Rightarrow> ('s, user) act" where
  "create_user email hash = transaction (create_user_body (normalized_email email) hash)"

definition user_or_missing :: "(user \<Rightarrow> bool) \<Rightarrow> user query" where
  "user_or_missing P = (\<lambda>t d. (case find P (users d) of None \<Rightarrow> Inl (Sentinel ErrNoRows) | Some u \<Rightarrow> Inr u, d))"

definition not_found_err :: "goerr \<Rightarrow> goerr" where
  "not_found_err e = (if err_is e ErrNoRows then Sentinel ErrUserNotFound else e)"

definition get_user_by_email :: "string \<Rightarrow> ('s, user) act" where
  "get_user_by_email email = map_err not_found_err (stmt (user_or_missing (\<lambda>u. u_email u = normalized_email email)))"

definition get_user_by_id :: "uuid \<Rightarrow> ('s, user) act" where
  "get_user_by_id i = map_err not_found_err (stmt (user_or_missing (\<lambda>u. u_id u = i)))"

record experience =
  ex_completed :: bool
  ex_at :: "time option"

definition get_user_experience :: "uuid \<Rightarrow> ('s, experience) act" where
  "get_user_experience u = stmt (\<lambda>t d.
     (Inr (case lookup_by pr_user u (preferences d) of
             None \<Rightarrow> \<lparr>ex_completed = False, ex_at = None\<rparr>
           | Some p \<Rightarrow> \<lparr>ex_completed = pr_completed p, ex_at = pr_completed_at p\<rparr>), d))"

text \<open>The first completion sets the time, later ones keep it.\<close>

definition completed_at :: "time \<Rightarrow> preference \<Rightarrow> preference" where
  "completed_at t p = p\<lparr>pr_completed := True,
     pr_completed_at := (case pr_completed_at p of None \<Rightarrow> Some t | Some x \<Rightarrow> Some x)\<rparr>"

definition upsert_experience :: "uuid \<Rightarrow> experience query" where
  "upsert_experience u = (\<lambda>t d.
     (case lookup_by pr_user u (preferences d) of
        Some p \<Rightarrow> (Inr \<lparr>ex_completed = True, ex_at = pr_completed_at (completed_at t p)\<rparr>,
                   d\<lparr>preferences := set_by pr_user u (completed_at t) (preferences d)\<rparr>)
      | None \<Rightarrow>
          if \<forall>x \<in> set (users d). u_id x \<noteq> u
          then (Inl (foreign_key_violation ''user_preferences'' ''user_preferences_user_id_fkey''), d)
          else (Inr \<lparr>ex_completed = True, ex_at = Some t\<rparr>,
                d\<lparr>preferences := preferences d @ [\<lparr>pr_user = u, pr_completed = True, pr_completed_at = Some t\<rparr>]\<rparr>)))"

definition complete_welcome_experience :: "uuid \<Rightarrow> ('s, experience) act" where
  "complete_welcome_experience u = stmt (upsert_experience u)"


section \<open>Registration and login\<close>

record auth_response =
  au_id :: uuid
  au_email :: string
  au_status :: user_status
  au_access :: string
  au_refresh :: string
  au_expires :: int

definition issue_tokens :: "auth_env \<Rightarrow> user \<Rightarrow> ('s, auth_response) act" where
  "issue_tokens e u =
     seq (create_access_token e (u_id u)) (\<lambda>a.
     seq (create_refresh_token e (u_id u)) (\<lambda>r.
     ret \<lparr>au_id = u_id u, au_email = u_email u, au_status = u_status u, au_access = a, au_refresh = r, au_expires = 900\<rparr>))"

definition register_user :: "auth_env \<Rightarrow> nat list \<Rightarrow> string \<Rightarrow> string \<Rightarrow> ('s, auth_response) act" where
  "register_user e salt email pw =
     (if \<not> ae_address e email then fail (Sentinel ErrInvalidEmail)
      else if length pw < 8 then fail (Sentinel ErrPasswordTooWeak)
      else seq (create_user email (hash_password (ae_kdf e) salt pw)) (issue_tokens e))"

definition login :: "auth_env \<Rightarrow> string \<Rightarrow> string \<Rightarrow> ('s, auth_response) act" where
  "login e email pw =
     seq (map_err (\<lambda>x. if err_is x ErrUserNotFound then Sentinel ErrInvalidCredentials else x) (get_user_by_email email)) (\<lambda>u.
     if verify_password (ae_kdf e) pw (u_hash u) = Inr True then issue_tokens e u
     else fail (Sentinel ErrInvalidCredentials))"

definition refresh_token :: "auth_env \<Rightarrow> string \<Rightarrow> ('s, string \<times> string) act" where
  "refresh_token e s =
     seq (map_err (\<lambda>_. Sentinel ErrInvalidToken) (validate_token e s)) (\<lambda>i.
     seq (map_err (\<lambda>x. if err_is x ErrUserNotFound then Sentinel ErrInvalidToken else x) (get_user_by_id i)) (\<lambda>u.
     seq (create_access_token e (u_id u)) (\<lambda>a.
     seq (create_refresh_token e (u_id u)) (\<lambda>r. ret (a, r)))))"

definition logout :: "uuid \<Rightarrow> ('s, unit) act" where
  "logout u = ret ()"


section \<open>Tickets\<close>

text \<open>\<^verbatim>\<open>hex.EncodeToString\<close>; the random bytes are an argument.\<close>

definition hex_bytes :: "nat list \<Rightarrow> string" where
  "hex_bytes bs = concat (map (hex_text 2) bs)"

definition insert_ticket :: "string \<Rightarrow> uuid \<Rightarrow> unit query" where
  "insert_ticket k u = (\<lambda>t d.
     if \<exists>r \<in> set (tickets d). tk_ticket r = k then (Inl (unique_violation ''websocket_tickets_pkey''), d)
     else if \<forall>x \<in> set (users d). u_id x \<noteq> u
     then (Inl (foreign_key_violation ''websocket_tickets'' ''websocket_tickets_user_id_fkey''), d)
     else (Inr (), d\<lparr>tickets := tickets d @ [\<lparr>tk_ticket = k, tk_user = u, tk_expires = t + 5 * minute\<rparr>]\<rparr>))"

definition generate_ticket :: "nat list \<Rightarrow> uuid \<Rightarrow> ('s, string) act" where
  "generate_ticket rnd u = seq (stmt (insert_ticket (hex_bytes rnd) u)) (\<lambda>_. ret (hex_bytes rnd))"

definition select_ticket :: "string \<Rightarrow> ticket query" where
  "select_ticket k = (\<lambda>t d. (case lookup_by tk_ticket k (tickets d) of None \<Rightarrow> Inl (Sentinel ErrNoRows) | Some r \<Rightarrow> Inr r, d))"

definition delete_ticket :: "string \<Rightarrow> unit query" where
  "delete_ticket k = (\<lambda>t d. (Inr (), d\<lparr>tickets := delete_where (\<lambda>r. tk_ticket r = k) (tickets d)\<rparr>))"

definition validate_ticket_body :: "string \<Rightarrow> ('s, uuid tx) act" where
  "validate_ticket_body k =
     seq (map_err (\<lambda>_. Plain ''invalid ticket'') (stmt (select_ticket k))) (\<lambda>r.
     seq time_now (\<lambda>now.
     if now > tk_expires r then seq (ignore (stmt (delete_ticket k))) (\<lambda>_. fail (Plain ''ticket expired''))
     else seq (stmt (delete_ticket k)) (\<lambda>_. ret (Commit (tk_user r)))))"

definition validate_ticket :: "string \<Rightarrow> ('s, uuid) act" where
  "validate_ticket k = transaction (validate_ticket_body k)"


section \<open>The middleware\<close>

text \<open>
  The values of a request's context, by key. The middleware uses keys of its own type \<^verbatim>\<open>contextKey\<close>, which differ
  from plain strings of the same spelling.
\<close>

datatype context_key = Typed string | Untyped string
datatype context_value = CtxUser uuid | CtxText string | CtxBool bool

type_synonym req_context = "context_key \<rightharpoonup> context_value"

definition user_context :: "uuid \<Rightarrow> bool \<Rightarrow> req_context \<Rightarrow> req_context" where
  "user_context u admin ctx = ctx(Typed ''userID'' \<mapsto> CtxUser u, Typed ''user_id'' \<mapsto> CtxText (uuid_text u),
     Typed ''isAdmin'' \<mapsto> CtxBool admin)"

definition user_id_from_context :: "req_context \<Rightarrow> uuid option" where
  "user_id_from_context ctx = (case ctx (Typed ''userID'') of Some (CtxUser u) \<Rightarrow> Some u | _ \<Rightarrow> None)"

definition is_admin_from_context :: "req_context \<Rightarrow> bool option" where
  "is_admin_from_context ctx = (case ctx (Typed ''isAdmin'') of Some (CtxBool b) \<Rightarrow> Some b | _ \<Rightarrow> None)"

definition bearer_token :: "string \<Rightarrow> string + string" where
  "bearer_token header =
     (if header = '''' then Inl ''missing authorization header''
      else (case split_on (CHR '' '') header of
              [scheme, token] \<Rightarrow> if to_lower scheme = ''bearer'' then Inr token
                                 else Inl ''invalid authorization header format''
            | _ \<Rightarrow> Inl ''invalid authorization header format''))"

definition authenticated :: "auth_env \<Rightarrow> string \<Rightarrow> (uuid \<Rightarrow> ('s, 'a response) act) \<Rightarrow> ('s, 'a response) act" where
  "authenticated e header k =
     (case bearer_token header of
        Inl text \<Rightarrow> ret (ErrorJson 401 text)
      | Inr token \<Rightarrow>
          seq (attempt (validate_token e token)) (\<lambda>r.
          case r of Inl _ \<Rightarrow> ret (ErrorJson 401 ''invalid or expired token'') | Inr u \<Rightarrow> k u))"

definition require_auth ::
  "auth_env \<Rightarrow> string \<Rightarrow> req_context \<Rightarrow> (req_context \<Rightarrow> ('s, 'a response) act) \<Rightarrow> ('s, 'a response) act" where
  "require_auth e header ctx handle = authenticated e header (\<lambda>u. handle (user_context u False ctx))"

definition require_admin ::
  "auth_env \<Rightarrow> string \<Rightarrow> req_context \<Rightarrow> (req_context \<Rightarrow> ('s, 'a response) act) \<Rightarrow> ('s, 'a response) act" where
  "require_admin e header ctx handle = authenticated e header (\<lambda>u.
     seq (attempt (get_user_by_id u)) (\<lambda>r.
     case r of
       Inl _ \<Rightarrow> ret (ErrorJson 401 ''user not found'')
     | Inr x \<Rightarrow> if u_role x \<noteq> ''admin'' then ret (ErrorJson 403 ''admin privileges required'')
               else handle (user_context u True ctx)))"


section \<open>The handlers\<close>

definition dec_credentials :: "json option \<Rightarrow> goerr + string \<times> string" where
  "dec_credentials = dec_struct (\<lambda>f.
     bind_sum (dec_str (f ''email'')) (\<lambda>x0.
     bind_sum (dec_str (f ''password'')) (\<lambda>x1. Inr (x0, x1))))"

definition is_error :: "goerr \<Rightarrow> sentinel \<Rightarrow> bool" where
  "is_error e s \<longleftrightarrow> e = Sentinel s"

definition register_handler :: "auth_env \<Rightarrow> nat list \<Rightarrow> json option \<Rightarrow> ('s, auth_response response) act" where
  "register_handler e salt body = with_body ''invalid request body'' (parsed dec_credentials body) (\<lambda>(email, pw).
     answer (register_user e salt email pw)
       (\<lambda>x. if is_error x ErrInvalidEmail \<or> is_error x ErrPasswordTooWeak then ErrorJson 400 (err_text x)
            else if is_error x ErrUserExists then ErrorJson 409 (err_text x)
            else ErrorJson 500 ''internal server error'')
       (Json 201))"

definition login_handler :: "auth_env \<Rightarrow> json option \<Rightarrow> ('s, auth_response response) act" where
  "login_handler e body = with_body ''invalid request body'' (parsed dec_credentials body) (\<lambda>(email, pw).
     answer (login e email pw)
       (\<lambda>x. if is_error x ErrInvalidCredentials then ErrorJson 401 (err_text x) else ErrorJson 500 ''internal server error'')
       (Json 200))"

definition user_view :: "user \<Rightarrow> uuid \<times> string \<times> user_status" where
  "user_view u = (u_id u, u_email u, u_status u)"

definition me_handler :: "uuid option \<Rightarrow> ('s, (uuid \<times> string \<times> user_status) response) act" where
  "me_handler user = as_user user (\<lambda>u.
     answer (get_user_by_id u)
       (\<lambda>x. if is_error x ErrUserNotFound then ErrorJson 404 ''user not found'' else ErrorJson 500 ''internal server error'')
       (\<lambda>x. Json 200 (user_view x)))"

definition refresh_handler :: "auth_env \<Rightarrow> json option \<Rightarrow> ('s, (string \<times> string \<times> int) response) act" where
  "refresh_handler e body = with_body ''invalid request body'' (parsed (dec_one ''refresh_token'') body) (\<lambda>s.
     with_id s ''refresh_token is required'' (
       answer (refresh_token e s)
         (\<lambda>x. if is_error x ErrInvalidToken then ErrorJson 401 ''invalid or expired refresh token''
              else ErrorJson 500 ''internal server error'')
         (\<lambda>(a, r). Json 200 (a, r, 900))))"

definition logout_handler :: "uuid option \<Rightarrow> ('s, unit response) act" where
  "logout_handler user = as_user user (\<lambda>u.
     answer (logout u) (\<lambda>_. ErrorJson 500 ''internal server error'') (Json 200))"

definition get_experience_handler :: "uuid option \<Rightarrow> ('s, experience response) act" where
  "get_experience_handler user = as_user user (\<lambda>u.
     answer (get_user_experience u) (\<lambda>_. ErrorJson 500 ''internal server error'') (Json 200))"

definition complete_experience_handler :: "uuid option \<Rightarrow> ('s, experience response) act" where
  "complete_experience_handler user = as_user user (\<lambda>u.
     answer (complete_welcome_experience u) (\<lambda>_. ErrorJson 500 ''internal server error'') (Json 200))"

definition ticket_handler :: "nat list \<Rightarrow> uuid option \<Rightarrow> ('s, string response) act" where
  "ticket_handler rnd user =
     (case user of
        None \<Rightarrow> ret (ErrorText 401 ''unauthorized'')
      | Some u \<Rightarrow> answer (generate_ticket rnd u) (\<lambda>_. ErrorText 500 ''failed to generate ticket'') (Json 200))"

end
