(* ===== verification/Sessions.thy ===== *)
theory Sessions
  imports Auth Realtime Runs
begin

text \<open>
  What the authentication promises: an account is complete or does not exist, who registered can log in and
  nobody else in their place, the tokens of a login name its user for as long as they are valid, and a ticket
  opens one connection.
\<close>

section \<open>Complete accounts\<close>

text \<open>Every user has a product account with an active subscription to a plan, and no two users have one address.\<close>

definition enrolled :: "db \<Rightarrow> user \<Rightarrow> bool" where
  "enrolled d u \<longleftrightarrow> (\<exists>(v, acc) \<in> set (user_accounts d). v = u_id u \<and> (\<exists>a \<in> set (accounts d). pa_id a = acc) \<and>
     (\<exists>s \<in> set (subscriptions d). sb_account s = acc \<and> (\<exists>p \<in> set (plans d). pl_id p = sb_plan s)))"

definition accounts_complete :: "db \<Rightarrow> bool" where
  "accounts_complete d \<longleftrightarrow> (\<forall>u \<in> set (users d). enrolled d u) \<and> unique_on u_email (users d)"

text \<open>What the body of a registration writes.\<close>

definition new_user :: "uuid \<Rightarrow> string \<Rightarrow> string \<Rightarrow> user" where
  "new_user i email hash = \<lparr>u_id = i, u_email = email, u_hash = hash, u_status = UserPending, u_role = ''user''\<rparr>"

definition with_user :: "string \<Rightarrow> string \<Rightarrow> uuid \<Rightarrow> time \<Rightarrow> db \<Rightarrow> db" where
  "with_user email hash pl t d = (let n = next_id d in d\<lparr>users := users d @ [new_user n email hash],
     accounts := accounts d @ [\<lparr>pa_id = n + 1, pa_status = AccActive\<rparr>], user_accounts := user_accounts d @ [(n, n + 1)],
     subscriptions := subscriptions d @ [\<lparr>sb_id = n + 2, sb_account = n + 1, sb_plan = pl, sb_status = SubActive, sb_created = t\<rparr>],
     next_id := n + 3\<rparr>)"

lemma map_err_InrE:
  assumes "map_err f m w = (Inr a, w')"
  obtains "m w = (Inr a, w')"
  using assms by (auto simp: map_err_def split: prod.splits sum.splits)

lemma create_user_body_InrE:
  assumes "create_user_body email hash w = (Inr (Commit u), w')"
  obtains p t where "u = new_user (next_id (db w)) email hash" and "\<forall>x \<in> set (users (db w)). u_email x \<noteq> email"
    and "lookup_by pl_code ''FREE'' (plans (db w)) = Some p" and "db w' = with_user email hash (pl_id p) t (db w)"
proof -
  from assms obtain w1 acc w2 w3 pl w4 where
    1: "stmt (insert_user email hash) w = (Inr u, w1)" and 2: "stmt insert_account w1 = (Inr acc, w2)"
    and 3: "stmt (link_account (u_id u) acc) w2 = (Inr (), w3)" and 4: "stmt (select_plan ''FREE'') w3 = (Inr pl, w4)"
    and 5: "stmt (insert_subscription acc pl) w4 = (Inr (), w')"
    unfolding create_user_body_def by (auto elim!: seq_InrE map_err_InrE simp: ret_def)
  from 1 obtain t1 where q1: "insert_user email hash t1 (db w) = (Inr u, db w1)" by (rule stmt_InrE)
  from 2 obtain t2 where q2: "insert_account t2 (db w1) = (Inr acc, db w2)" by (rule stmt_InrE)
  from 3 obtain t3 where q3: "link_account (u_id u) acc t3 (db w2) = (Inr (), db w3)" by (rule stmt_InrE)
  from 4 obtain t4 where q4: "select_plan ''FREE'' t4 (db w3) = (Inr pl, db w4)" by (rule stmt_InrE)
  from 5 obtain t5 where q5: "insert_subscription acc pl t5 (db w4) = (Inr (), db w')" by (rule stmt_InrE)
  from q1 have u: "u = new_user (next_id (db w)) email hash" "\<forall>x \<in> set (users (db w)). u_email x \<noteq> email"
    and w1: "db w1 = (db w)\<lparr>users := users (db w) @ [u], next_id := next_id (db w) + 1\<rparr>"
    by (auto simp: insert_user_def new_user_def Let_def split: if_splits)
  from q2 w1 have acc: "acc = next_id (db w) + 1"
    and w2: "db w2 = (db w1)\<lparr>accounts := accounts (db w) @ [\<lparr>pa_id = acc, pa_status = AccActive\<rparr>], next_id := next_id (db w) + 2\<rparr>"
    by (auto simp: insert_account_def)
  from q3 have w3: "db w3 = (db w2)\<lparr>user_accounts := user_accounts (db w2) @ [(u_id u, acc)]\<rparr>" by (simp add: link_account_def)
  from q4 obtain p where p: "lookup_by pl_code ''FREE'' (plans (db w)) = Some p" "pl = pl_id p" and w4: "db w4 = db w3"
    using w1 w2 w3 by (auto simp: select_plan_def split: option.splits)
  have "db w' = with_user email hash (pl_id p) t5 (db w)"
    using q5 w4 w3 w2 w1 u(1) acc p(2) by (auto simp: insert_subscription_def with_user_def new_user_def Let_def numeral_3_eq_3)
  with that u p show thesis by blast
qed

lemma body_never_abandons: "create_user_body email hash w \<noteq> (Inr (Abandon u), w')"
  unfolding create_user_body_def by (auto elim!: seq_InrE simp: ret_def)

lemma create_user_outcome:
  fixes w :: "'s world"
  assumes "create_user email hash w = (r, w')"
  obtains (unchanged) "db w' = db w" and "\<forall>u. r \<noteq> Inr u"
  | (created) p t where "\<forall>x \<in> set (users (db w)). u_email x \<noteq> normalized_email email"
      and "lookup_by pl_code ''FREE'' (plans (db w)) = Some p"
      and "db w' = with_user (normalized_email email) hash (pl_id p) t (db w)"
      and "\<forall>u. r = Inr u \<longrightarrow> u = new_user (next_id (db w)) (normalized_email email) hash"
proof (cases "\<exists>u. r = Inr u")
  case True
  then obtain u where u: "r = Inr u" by blast
  with assms have "create_user email hash w = (Inr u, w')" by simp
  then obtain v v' :: "'s world" where v: "db v = db w" "create_user_body (normalized_email email) hash v = (Inr (Commit u), v')" "db w' = db v'"
    unfolding create_user_def by (rule transaction_committedE [OF _ body_never_abandons])
  from v(2) show thesis
    by (rule create_user_body_InrE) (use v u created in auto)
next
  case False
  from assms show thesis unfolding create_user_def
  proof (cases rule: transaction_outcome)
    case unchanged
    with that(1) False show thesis by blast
  next
    case (committed v a v')
    from committed(2) show thesis
      by (rule create_user_body_InrE) (use committed False created in auto)
  qed
qed

lemma with_user_complete:
  assumes "accounts_complete d" and "\<forall>x \<in> set (users d). u_email x \<noteq> email" and "lookup_by pl_code ''FREE'' (plans d) = Some p"
  shows "accounts_complete (with_user email hash (pl_id p) t d)"
proof -
  have "enrolled (with_user email hash (pl_id p) t d) u" if "enrolled d u" for u
    using that by (fastforce simp: enrolled_def with_user_def Let_def)
  moreover have "enrolled (with_user email hash (pl_id p) t d) (new_user (next_id d) email hash)"
    using lookup_by_Some [OF assms(3)] by (auto simp: enrolled_def with_user_def new_user_def Let_def)
  ultimately show ?thesis
    using assms(1,2) by (auto simp: accounts_complete_def with_user_def new_user_def Let_def unique_on_def)
qed

datatype auth_call =
    Register "nat list" string string | Login string string | Refresh string | Complete uuid
  | Issue "nat list" uuid | Redeem string

text \<open>A run of calls; the result of a redeemed ticket is the user it opens a connection for.\<close>

fun auth_op :: "auth_env \<Rightarrow> auth_call \<Rightarrow> ('s, uuid option) act" where
  "auth_op e (Register salt email pw) = seq (register_user e salt email pw) (\<lambda>_. ret None)"
| "auth_op e (Login email pw) = seq (login e email pw) (\<lambda>_. ret None)"
| "auth_op e (Refresh s) = seq (refresh_token e s) (\<lambda>_. ret None)"
| "auth_op e (Complete u) = seq (complete_welcome_experience u) (\<lambda>_. ret None)"
| "auth_op e (Issue rnd u) = seq (generate_ticket rnd u) (\<lambda>_. ret None)"
| "auth_op e (Redeem k) = seq (validate_ticket k) (\<lambda>u. ret (Some u))"

lemma create_user_complete: "preserves accounts_complete (create_user email hash)"
  unfolding preserves_def
proof (intro allI impI)
  fix w :: "'s world"
  assume c: "accounts_complete (db w)"
  obtain r w' where x: "create_user email hash w = (r, w')" by force
  then show "accounts_complete (db (snd (create_user email hash w)))"
    by (cases rule: create_user_outcome) (use c x with_user_complete in auto)
qed

lemma tokens_keep [pres_intro]:
  "preserves I (create_token e u n)" "preserves I (create_access_token e u)" "preserves I (create_refresh_token e u)"
  "preserves I (validate_token e s)"
  by (auto simp: create_token_def create_access_token_def create_refresh_token_def validate_token_def time_now_def lift_def preserves_def
      seq_def ret_def fail_def split: sum.splits option.splits)

lemma auth_reads [pres_intro]: "query_preserves I (user_or_missing P)" "query_preserves I (select_ticket k)"
  by (simp_all add: query_preserves_def user_or_missing_def select_ticket_def)

lemma issue_keeps [pres_intro]: "preserves I (issue_tokens e u)"
  unfolding issue_tokens_def by (intro pres_intro)

lemma find_user_keeps [pres_intro]: "preserves I (get_user_by_email s)" "preserves I (get_user_by_id i)"
  unfolding get_user_by_email_def get_user_by_id_def by (intro pres_intro preserves_map_err)+

lemma login_keeps: "preserves I (login e email pw)" "preserves I (refresh_token e s)"
  unfolding login_def refresh_token_def by (intro pres_intro preserves_map_err)+

lemma auth_op_complete: "preserves accounts_complete (auth_op e c)"
proof (cases c)
  case (Register salt email pw)
  then show ?thesis by (auto simp: register_user_def intro!: pres_intro create_user_complete)
next
  case (Complete u)
  have "query_preserves accounts_complete (upsert_experience u)"
    by (auto simp: query_preserves_def upsert_experience_def accounts_complete_def enrolled_def split: option.splits)
  with Complete show ?thesis by (auto simp: complete_welcome_experience_def intro!: pres_intro)
next
  case (Issue rnd u)
  have "query_preserves accounts_complete (insert_ticket k u)" for k
    by (auto simp: query_preserves_def insert_ticket_def accounts_complete_def enrolled_def)
  with Issue show ?thesis by (auto simp: generate_ticket_def intro!: pres_intro)
next
  case (Redeem k)
  have "query_preserves accounts_complete (delete_ticket k)"
    by (auto simp: query_preserves_def delete_ticket_def accounts_complete_def enrolled_def)
  with Redeem show ?thesis
    by (auto simp: validate_ticket_def validate_ticket_body_def intro!: pres_intro preserves_map_err)
qed (auto intro!: pres_intro login_keeps)

text \<open>
  C9. Registration is all or nothing: however a sequence of registrations, logins and the other calls goes and
  whichever statements or commits fail, every user has a product account of their own with a subscription to an
  existing plan, and no two users have the same address.
\<close>

theorem accounts_stay_complete:
  assumes "run (auth_op e) w es w'" and "accounts_complete (db w)"
  shows "accounts_complete (db w')"
  using assms by (rule run_preserves) (rule auth_op_complete)


section \<open>Registered users log in\<close>

lemma run_user_or_missing: "run_query (user_or_missing P) w =
    (case find P (users (db w)) of None \<Rightarrow> (Inl (Sentinel ErrNoRows), w) | Some u \<Rightarrow> (Inr u, w))"
  by (simp add: run_query_def user_or_missing_def split: option.splits)

lemma issue_tokens_InrD: "issue_tokens e u w = (Inr a, w') \<Longrightarrow> au_id a = u_id u \<and> db w' = db w"
  using preserves_step [of "\<lambda>d. d = db w" "issue_tokens e u" w "Inr a" w'] issue_keeps [of "\<lambda>d. d = db w" e u]
  by (auto simp: issue_tokens_def ret_def elim!: seq_InrE)

text \<open>Signing a token does not fail: HS256 with a key of bytes.\<close>

definition signing_ok :: "auth_env \<Rightarrow> bool" where
  "signing_ok e \<longleftrightarrow> (\<forall>c. \<exists>s. jw_sign (ae_jwt e) (ae_secret e) c = Inr s)"

lemma issue_tokens_ok:
  assumes "signing_ok e"
  obtains a where "issue_tokens e u w = (Inr a, w)" and "au_id a = u_id u"
proof -
  have "\<exists>s. create_token e v n x = (Inr s, x)" for v n and x :: "'a world"
    using assms by (auto simp: signing_ok_def create_token_def seq_def time_now_def lift_def)
  then have t: "\<exists>s. create_access_token e v x = (Inr s, x)" "\<exists>s. create_refresh_token e v x = (Inr s, x)" for v and x :: "'a world"
    by (simp_all add: create_access_token_def create_refresh_token_def)
  from t(1) [of "u_id u" w] t(2) [of "u_id u" w] show thesis
    using that by (auto simp: issue_tokens_def seq_def ret_def)
qed

lemma registered_row:
  assumes "register_user e salt email pw w = (Inr a, w')"
  shows "find (\<lambda>u. u_email u = normalized_email email) (users (db w')) =
    Some (new_user (au_id a) (normalized_email email) (hash_password (ae_kdf e) salt pw))"
proof -
  from assms obtain u w1 where c: "create_user email (hash_password (ae_kdf e) salt pw) w = (Inr u, w1)"
    and i: "issue_tokens e u w1 = (Inr a, w')"
    by (auto simp: register_user_def fail_def elim!: seq_InrE split: if_splits)
  from i have a: "au_id a = u_id u" and d: "db w' = db w1" by (auto dest: issue_tokens_InrD)
  from c show ?thesis
  proof (cases rule: create_user_outcome)
    case (created p t)
    then have "u = new_user (next_id (db w)) (normalized_email email) (hash_password (ae_kdf e) salt pw)" by simp
    moreover have "find (\<lambda>u. u_email u = normalized_email email) (users (db w)) = None"
      using created(1) by (auto simp: find_None_iff)
    ultimately show ?thesis
      using created(3) a d by (simp add: with_user_def Let_def new_user_def find_append)
  qed simp
qed

text \<open>
  C12. Who registered can log in: after a registration that reported success, a login with the same password, under
  any spelling of the address that differs in case or in blanks around it, succeeds as that user when no
  call fails; with a password that the key derivation tells apart it is refused as invalid credentials.
\<close>

theorem registered_user_logs_in:
  assumes "register_user e salt email pw w = (Inr a, w')" and "faults w' = []" and "normalized_email email' = normalized_email email"
    and "kdf_ok (ae_kdf e)" and "\<forall>b \<in> set salt. b < 256" and "signing_ok e"
  shows "if ae_kdf e pw salt 3 65536 2 32 = ae_kdf e pw' salt 3 65536 2 32
    then \<exists>b. login e email' pw' w' = (Inr b, w') \<and> au_id b = au_id a
    else login e email' pw' w' = (Inl (Sentinel ErrInvalidCredentials), w')"
proof -
  let ?u = "new_user (au_id a) (normalized_email email) (hash_password (ae_kdf e) salt pw)"
  have "get_user_by_email email' w' = (Inr ?u, w')"
    using assms(2,3) registered_row [OF assms(1)] by (simp add: get_user_by_email_def map_err_def run_user_or_missing)
  moreover have "verify_password (ae_kdf e) pw' (u_hash ?u) =
      Inr (ae_kdf e pw salt 3 65536 2 32 = ae_kdf e pw' salt 3 65536 2 32)"
    using hash_verifies [OF assms(4,5)] by (simp add: new_user_def)
  moreover obtain b where "issue_tokens e ?u w' = (Inr b, w')" "au_id b = au_id a"
    using issue_tokens_ok [OF assms(6), of ?u w'] by (auto simp: new_user_def)
  ultimately show ?thesis
    by (simp add: login_def seq_def map_err_def fail_def)
qed


section \<open>Tokens\<close>

text \<open>
  The documented behaviour of the token library for one set of claims: they are signed into a text without blanks,
  which is parsed with the same key to the same claims during their period, and refused outside of it.
\<close>

definition token_ok :: "auth_env \<Rightarrow> token_claims \<Rightarrow> bool" where
  "token_ok e c \<longleftrightarrow> (\<exists>s. jw_sign (ae_jwt e) (ae_secret e) c = Inr s \<and> trim_space s \<noteq> '''' \<and> CHR '' '' \<notin> set s \<and>
     (\<forall>t. jw_parse (ae_jwt e) (hmac_key e) t s = (if jc_not_before c \<le> t \<and> t < jc_expires c then Some c else None)))"

definition dates_ok :: "auth_env \<Rightarrow> bool" where
  "dates_ok e \<longleftrightarrow> (\<forall>t. jw_date (ae_jwt e) t \<le> t)"

definition claims_at :: "auth_env \<Rightarrow> uuid \<Rightarrow> int \<Rightarrow> time \<Rightarrow> token_claims" where
  "claims_at e u duration t = \<lparr>jc_user = u, jc_expires = jw_date (ae_jwt e) (t + duration), jc_issued = jw_date (ae_jwt e) t,
     jc_not_before = jw_date (ae_jwt e) t\<rparr>"

lemma create_token_apply: "create_token e u n w = (jw_sign (ae_jwt e) (ae_secret e) (claims_at e u n (clock w)), w)"
  by (simp add: create_token_def seq_def lift_def claims_at_def)

lemma token_opens:
  assumes "token_ok e (claims_at e u n t)" and "dates_ok e" and "u \<noteq> 0" and "t \<le> clock w"
    and "jw_sign (ae_jwt e) (ae_secret e) (claims_at e u n t) = Inr s"
  shows "require_auth e (''Bearer '' @ s) ctx handle w =
    (if clock w < jw_date (ae_jwt e) (t + n) then handle (user_context u False ctx) w
     else (Inr (ErrorJson 401 ''invalid or expired token''), w))"
proof -
  from assms(1,5) have s: "trim_space s \<noteq> []" "CHR '' '' \<notin> set s" and
    p: "jw_parse (ae_jwt e) (hmac_key e) (clock w) s = (if jc_not_before (claims_at e u n t) \<le> clock w \<and>
       clock w < jc_expires (claims_at e u n t) then Some (claims_at e u n t) else None)"
    by (auto simp: token_ok_def)
  have "jw_date (ae_jwt e) t \<le> clock w" using assms(2,4) by (auto simp: dates_ok_def intro: order_trans)
  with p have p: "jw_parse (ae_jwt e) (hmac_key e) (clock w) s =
      (if clock w < jw_date (ae_jwt e) (t + n) then Some (claims_at e u n t) else None)"
    by (simp add: claims_at_def)
  have "split_on (CHR '' '') (''Bearer '' @ s) = [''Bearer'', s]"
    using s(2) split_on_once [of "CHR '' ''" "''Bearer''" s] by (simp add: split_on_free)
  moreover have lower: "to_lower ''Bearer'' = ''bearer''" by code_simp
  ultimately have "bearer_token (''Bearer '' @ s) = Inr s"
    using lower by (simp add: bearer_token_def)
  with s(1) p assms(3) show ?thesis
    by (auto simp: require_auth_def authenticated_def validate_token_def seq_def attempt_apply fail_def ret_def claims_at_def)
qed

text \<open>
  C13. The tokens of a login name its user to every handler behind the middleware: the access token for 15 minutes and
  the refresh token, which the middleware does not tell from it, for 7 days (as the library rounds them). From then
  on the request is answered 401 and the handler is not run.
\<close>

theorem tokens_name_user:
  assumes "issue_tokens e u w = (Inr a, w')" and "token_ok e (claims_at e (u_id u) (15 * minute) (clock w))"
    and "token_ok e (claims_at e (u_id u) (7 * 24 * hour) (clock w))" and "dates_ok e" and "u_id u \<noteq> 0" and "clock w \<le> clock v"
  shows "require_auth e (''Bearer '' @ au_access a) ctx handle v =
      (if clock v < jw_date (ae_jwt e) (clock w + 15 * minute) then handle (user_context (u_id u) False ctx) v
       else (Inr (ErrorJson 401 ''invalid or expired token''), v)) \<and>
    require_auth e (''Bearer '' @ au_refresh a) ctx handle v =
      (if clock v < jw_date (ae_jwt e) (clock w + 7 * 24 * hour) then handle (user_context (u_id u) False ctx) v
       else (Inr (ErrorJson 401 ''invalid or expired token''), v))"
proof -
  from assms(1) have "jw_sign (ae_jwt e) (ae_secret e) (claims_at e (u_id u) (15 * minute) (clock w)) = Inr (au_access a)"
    and "jw_sign (ae_jwt e) (ae_secret e) (claims_at e (u_id u) (7 * 24 * hour) (clock w)) = Inr (au_refresh a)"
    by (auto simp: issue_tokens_def create_access_token_def create_refresh_token_def create_token_apply seq_def ret_def
        split: sum.splits)
  then show ?thesis using assms(2-6) by (intro conjI token_opens)
qed


section \<open>Tickets\<close>

definition ticket_spent :: "string \<Rightarrow> db \<Rightarrow> bool" where
  "ticket_spent k d \<longleftrightarrow> (\<forall>r \<in> set (tickets d). tk_ticket r \<noteq> k)"

definition reissues :: "string \<Rightarrow> auth_call \<Rightarrow> bool" where
  "reissues k c \<longleftrightarrow> (\<exists>rnd u. c = Issue rnd u \<and> hex_bytes rnd = k)"

lemma create_user_tickets: "preserves (\<lambda>d. P (tickets d)) (create_user email hash)"
  unfolding preserves_def
proof (intro allI impI)
  fix w :: "'s world"
  assume c: "P (tickets (db w))"
  obtain r w' where x: "create_user email hash w = (r, w')" by force
  then show "P (tickets (db (snd (create_user email hash w))))"
    by (cases rule: create_user_outcome) (use c x in \<open>auto simp: with_user_def Let_def\<close>)
qed

lemma auth_op_spent:
  assumes "\<not> reissues k c"
  shows "preserves (ticket_spent k) (auth_op e c)"
proof (cases c)
  case (Register salt email pw)
  have "preserves (ticket_spent k) (create_user email h)" for h
    using create_user_tickets [of "\<lambda>ts. \<forall>r \<in> set ts. tk_ticket r \<noteq> k"] by (simp add: ticket_spent_def [abs_def])
  with Register show ?thesis by (auto simp: register_user_def intro!: pres_intro)
next
  case (Complete u)
  have "query_preserves (ticket_spent k) (upsert_experience u)"
    by (auto simp: query_preserves_def upsert_experience_def ticket_spent_def split: option.splits)
  with Complete show ?thesis by (auto simp: complete_welcome_experience_def intro!: pres_intro)
next
  case (Issue rnd u)
  with assms have "query_preserves (ticket_spent k) (insert_ticket (hex_bytes rnd) u)"
    by (auto simp: query_preserves_def insert_ticket_def ticket_spent_def reissues_def)
  with Issue show ?thesis by (auto simp: generate_ticket_def intro!: pres_intro)
next
  case (Redeem k')
  have "query_preserves (ticket_spent k) (delete_ticket k')"
    by (auto simp: query_preserves_def delete_ticket_def ticket_spent_def set_delete_where)
  with Redeem show ?thesis
    by (auto simp: validate_ticket_def validate_ticket_body_def intro!: pres_intro preserves_map_err)
qed (auto intro!: pres_intro login_keeps)

lemma validate_ticket_InrE:
  fixes w :: "'s world"
  assumes "validate_ticket k w = (Inr u, w')"
  shows "(\<exists>r \<in> set (tickets (db w)). tk_ticket r = k \<and> tk_user r = u) \<and> ticket_spent k (db w')"
proof -
  have "validate_ticket_body k v \<noteq> (Inr (Abandon b), v')" for v v' :: "'s world" and b
    by (auto simp: validate_ticket_body_def ret_def fail_def elim!: seq_InrE map_err_InrE split: if_splits)
  with assms obtain v v' :: "'s world" where v: "db v = db w" "validate_ticket_body k v = (Inr (Commit u), v')" "db w' = db v'"
    unfolding validate_ticket_def by (rule transaction_committedE)
  from v(2) obtain r v1 where s: "stmt (select_ticket k) v = (Inr r, v1)" and d: "stmt (delete_ticket k) v1 = (Inr (), v')"
    and u: "u = tk_user r"
    by (auto simp: validate_ticket_body_def ret_def fail_def elim!: seq_InrE map_err_InrE split: if_splits)
  from s obtain t where "select_ticket k t (db v) = (Inr r, db v1)" by (rule stmt_InrE)
  moreover from d obtain t' where "db v' = snd (delete_ticket k t' (db v1))" by (rule stmt_sndE)
  then have "tickets (db v') = delete_where (\<lambda>r. tk_ticket r = k) (tickets (db v1))" by (simp add: delete_ticket_def)
  ultimately show ?thesis
    using u v by (auto simp: select_ticket_def ticket_spent_def set_delete_where split: option.splits dest!: lookup_by_Some)
qed

interpretation ticket: exclusive_grant "auth_op e :: auth_call \<Rightarrow> ('s, uuid option) act"
  "\<lambda>c u. c = Redeem k \<and> u \<noteq> None" "reissues k" "ticket_spent k" "\<lambda>_. True"
  for e k
proof
  fix c a and w w' :: "'s world"
  assume "auth_op e c w = (Inr a, w')" and "c = Redeem k \<and> a \<noteq> None"
  then obtain u where "validate_ticket k w = (Inr u, w')" by (auto elim!: seq_InrE simp: ret_def)
  from validate_ticket_InrE [OF this] show "ticket_spent k (db w')" and "\<not> ticket_spent k (db w)"
    by (auto simp: ticket_spent_def)
qed (rule auth_op_spent)

text \<open>
  C7. A ticket opens one connection, for the user it was issued to: once a ticket was redeemed it is not redeemed
  again, for any user, in any run of calls and whatever fails, unless the random generator draws the same ticket a
  second time.
\<close>

theorem ticket_opens_once:
  assumes "run (auth_op e) w ((Redeem k, Inr (Some u)) # es) w'" and "\<not> (\<exists>(c, r) \<in> set es. reissues k c)"
  shows "(\<exists>r \<in> set (tickets (db w)). tk_ticket r = k \<and> tk_user r = u) \<and> (\<forall>u'. (Redeem k, Inr (Some u')) \<notin> set es)"
proof (intro conjI allI notI)
  from assms(1) obtain w1 where "validate_ticket k w = (Inr u, w1)" by (auto simp: run_Cons ret_def elim!: seq_InrE)
  then show "\<exists>r \<in> set (tickets (db w)). tk_ticket r = k \<and> tk_user r = u" by (auto dest: validate_ticket_InrE)
next
  fix u'
  assume "(Redeem k, Inr (Some u')) \<in> set es"
  then obtain xs ys where es: "es = xs @ [(Redeem k, Inr (Some u'))] @ ys" by (auto dest: split_list)
  with assms(1) obtain v where "run (auth_op e) w ((Redeem k, Inr (Some u)) # xs @ [(Redeem k, Inr (Some u'))]) v"
    by (auto simp: run_Cons run_append)
  from ticket.exclusive [OF this] assms(2) es show False by auto
qed


section \<open>An environment to run in\<close>

text \<open>A token is here the text of its claims; a real one is signed besides.\<close>

definition int_value :: "string \<Rightarrow> int" where
  "int_value s = (if has_prefix s ''-'' then - int (digits_value (tl s)) else int (digits_value s))"

lemma int_text_chars: "c \<in> set (int_text v) \<Longrightarrow> is_digit c \<or> c = CHR ''-''"
  using nat_text_digits [of "nat v"] nat_text_digits [of "nat (- v)"] by (auto simp: int_text_def list_all_iff split: if_splits)

lemma int_value_text: "int_value (int_text v) = v"
proof -
  have "\<not> has_prefix (nat_text n) ''-''" for n
    using nat_text_digits [of n] by (cases "nat_text n") (auto simp: has_prefix_def is_digit_def)
  then show ?thesis using nat_text_digits by (auto simp: int_value_def int_text_def has_prefix_def)
qed

definition demo_jwt :: jwt where
  "demo_jwt = \<lparr>jw_date = (\<lambda>t. t - t mod second),
     jw_sign = (\<lambda>key c. Inr (int_text (int (jc_user c)) @ '';'' @ int_text (jc_expires c) @ '';'' @ int_text (jc_issued c) @
       '';'' @ int_text (jc_not_before c))),
     jw_parse = (\<lambda>key t s. case map int_value (split_on (CHR '';'') s) of
        [u, x, i, n] \<Rightarrow> if key Hmac \<noteq> None \<and> n \<le> t \<and> t < x
          then Some \<lparr>jc_user = nat u, jc_expires = x, jc_issued = i, jc_not_before = n\<rparr> else None
      | _ \<Rightarrow> None)\<rparr>"

definition demo_env :: auth_env where
  "demo_env = \<lparr>ae_jwt = demo_jwt, ae_secret = ''secret'', ae_kdf = demo_kdf, ae_address = (\<lambda>s. CHR ''@'' \<in> set s)\<rparr>"

lemma trim_space_nonempty:
  assumes "c \<in> set s" and "\<not> is_space c"
  shows "trim_space s \<noteq> []"
proof
  assume "trim_space s = []"
  then have "\<forall>x \<in> set (dropWhile is_space s). is_space x" by (simp add: trim_space_def trim_left_def dropWhile_eq_Nil_conv)
  then have "dropWhile is_space s = []" using hd_dropWhile [of is_space s] by (metis list.set_sel(1) dropWhile_eq_Nil_conv)
  with assms show False by (auto simp: dropWhile_eq_Nil_conv)
qed

lemma demo_token_ok: "token_ok demo_env c"
proof -
  have n: "CHR '';'' \<notin> set (int_text v)" "CHR '' '' \<notin> set (int_text v)" for v
    using int_text_chars [of "CHR '';''" v] int_text_chars [of "CHR '' ''" v] by (auto simp: is_digit_def)
  let ?s = "int_text (int (jc_user c)) @ CHR '';'' # int_text (jc_expires c) @ CHR '';'' # int_text (jc_issued c) @
    CHR '';'' # int_text (jc_not_before c)"
  have "split_on (CHR '';'') ?s = [int_text (int (jc_user c)), int_text (jc_expires c), int_text (jc_issued c),
      int_text (jc_not_before c)]"
    by (simp add: split_on_once split_on_free n)
  moreover have "trim_space ?s \<noteq> []"
    by (rule trim_space_nonempty [of "CHR '';''"]) (simp_all add: is_space_def)
  ultimately show ?thesis
    using n(2) by (simp add: token_ok_def demo_env_def demo_jwt_def hmac_key_def int_value_text)
qed

definition whose :: "req_context \<Rightarrow> (unit, uuid option response) act" where
  "whose ctx = ret (Json 200 (user_id_from_context ctx))"

definition later :: "unit world" where
  "later = demo_world\<lparr>clock := clock demo_world + 20 * minute\<rparr>"

theorem tokens_name_user_witness:
  "\<exists>a. issue_tokens demo_env (new_user 7 ''ann@x'' ''h'') demo_world = (Inr a, demo_world) \<and>
     require_auth demo_env (''Bearer '' @ au_access a) Map.empty whose later =
       (Inr (ErrorJson 401 ''invalid or expired token''), later) \<and>
     require_auth demo_env (''Bearer '' @ au_refresh a) Map.empty whose later = (Inr (Json 200 (Some 7)), later)"
proof -
  have "signing_ok demo_env" by (simp add: signing_ok_def demo_env_def demo_jwt_def)
  then obtain a where a: "issue_tokens demo_env (new_user 7 ''ann@x'' ''h'') demo_world = (Inr a, demo_world)"
    by (rule issue_tokens_ok)
  have d: "dates_ok demo_env" by (simp add: dates_ok_def demo_env_def demo_jwt_def second_def)
  have c: "clock demo_world \<le> clock later" "\<not> clock later < jw_date (ae_jwt demo_env) (clock demo_world + 15 * minute)"
    "clock later < jw_date (ae_jwt demo_env) (clock demo_world + 7 * 24 * hour)"
    by (simp_all add: later_def demo_env_def demo_jwt_def world_of_def second_def minute_def hour_def)
  have i: "u_id (new_user 7 ''ann@x'' ''h'') = 7" by (simp add: new_user_def)
  have "whose (user_context 7 False Map.empty) later = (Inr (Json 200 (Some 7)), later)"
    by (simp add: whose_def user_id_from_context_def user_context_def ret_def)
  with tokens_name_user [OF a demo_token_ok demo_token_ok d _ c(1), of Map.empty whose, unfolded i] a c
  show ?thesis by simp
qed

definition session_calls :: "auth_call list" where
  "session_calls = [Redeem ''00ff'', Redeem ''00ff'']"

definition issued_world :: "unit world" where
  "issued_world = snd (auth_op demo_env (Issue [0, 255] 10) demo_world)"

theorem ticket_opens_once_witness:
  "\<exists>es w'. run (auth_op demo_env) issued_world ((Redeem ''00ff'', Inr (Some 10)) # es) w' \<and> map fst es = [Redeem ''00ff''] \<and>
     (\<forall>u. (Redeem ''00ff'', Inr (Some u)) \<notin> set es)"
proof -
  let ?r = "run_list (auth_op demo_env) issued_world session_calls"
  have h: "fst ?r = (Redeem ''00ff'', Inr (Some 10)) # tl (fst ?r)" by code_simp
  have m: "map fst (tl (fst ?r)) = [Redeem ''00ff'']" by code_simp
  have r: "run (auth_op demo_env) issued_world ((Redeem ''00ff'', Inr (Some 10)) # tl (fst ?r)) (snd ?r)"
    using run_list_run [of "auth_op demo_env" issued_world session_calls] by (simp only: h [symmetric])
  have "\<not> (\<exists>(c, x) \<in> set (tl (fst ?r)). reissues ''00ff'' c)"
  proof
    assume "\<exists>(c, x) \<in> set (tl (fst ?r)). reissues ''00ff'' c"
    then obtain c where "c \<in> set (map fst (tl (fst ?r)))" "reissues ''00ff'' c" by force
    then show False unfolding m by (simp add: reissues_def)
  qed
  note once = ticket_opens_once [OF r this]
  show ?thesis by (intro exI conjI, rule r, rule m, rule conjunct2 [OF once])
qed

abbreviation bob_registers :: "(unit, auth_response) act" where
  "bob_registers \<equiv> register_user demo_env [1, 2] ''Bob@x.org '' ''password''"

lemma bob_registered:
  obtains a w' where "bob_registers demo_world = (Inr a, w')" and "faults w' = []"
proof -
  have n: "normalized_email ''Bob@x.org '' = ''bob@x.org''" by code_simp
  have "\<exists>u w'. create_user ''Bob@x.org '' h demo_world = (Inr u, w') \<and> faults w' = []" for h
    by (simp add: create_user_def create_user_body_def n act_simps insert_user_def insert_account_def link_account_def select_plan_def
        insert_subscription_def ret_def world_of_def demo_db_def migrated_db_def initial_plans_def Let_def)
  then obtain u w' where c: "create_user ''Bob@x.org '' (hash_password (ae_kdf demo_env) [1, 2] ''password'') demo_world = (Inr u, w')"
    "faults w' = []" by blast
  have "signing_ok demo_env" by (simp add: demo_env_def signing_ok_def demo_jwt_def)
  then obtain a where "issue_tokens demo_env u w' = (Inr a, w')" by (rule issue_tokens_ok)
  with c that show thesis by (simp add: register_user_def demo_env_def seq_def)
qed

theorem accounts_stay_complete_witness:
  "accounts_complete (db (snd (run_list (auth_op demo_env) demo_world [Register [1, 2] ''Bob@x.org '' ''password'', Issue [0, 255] 10])))"
proof -
  have "accounts_complete (db demo_world)" by code_simp
  with run_list_run show ?thesis by (rule accounts_stay_complete)
qed

theorem registered_user_logs_in_witness:
  "\<exists>a b w'. bob_registers demo_world = (Inr a, w') \<and>
     login demo_env '' bob@X.org'' ''password'' w' = (Inr b, w') \<and> au_id b = au_id a"
proof -
  obtain a w' where r: "bob_registers demo_world = (Inr a, w')" and "faults w' = []" by (rule bob_registered)
  moreover have "normalized_email '' bob@X.org'' = normalized_email ''Bob@x.org ''" by code_simp
  moreover have "kdf_ok (ae_kdf demo_env)" "signing_ok demo_env"
    by (auto simp: demo_env_def kdf_ok_def demo_kdf_def signing_ok_def demo_jwt_def dest!: in_set_takeD)
  ultimately show ?thesis
    using registered_user_logs_in [OF r, of "'' bob@X.org''" "''password''"] r by auto
qed

end
