(* ===== verification/Registration.thy ===== *)
theory Registration
  imports Sessions Addresses
begin

text \<open>
  Registration with an e-mail address (\<^verbatim>\<open>internal/registration\<close>, with the flow of \<^verbatim>\<open>internal/auth/models.go\<close>): a user
  is created, and when the domain of the address is the platform's, the address is reserved, claimed and its
  mailbox put on the provisioning queue; for any other domain the user is told what to do next. Then the calls by
  which a user follows the flow.
\<close>

section \<open>The flow\<close>

datatype registration_status = RsPending | RsDomainAdded | RsVerifying | RsVerified | RsProvisioning | RsActive

datatype domain_type = UnknownType | PlatformOwned | CustomDomain

record flow =
  fl_id :: uuid
  fl_email :: string
  fl_type :: domain_type
  fl_status :: registration_status
  fl_action :: "string option"
  fl_domain :: "uuid option"
  fl_name :: "string option"
  fl_verified :: bool
  fl_address :: "uuid option"
  fl_provisioned :: bool
  fl_ready :: bool

definition extract_domain :: "string \<Rightarrow> string" where
  "extract_domain email = (case split_on (CHR ''@'') email of [_, dm] \<Rightarrow> to_lower dm | _ \<Rightarrow> '''')"

text \<open>\<^verbatim>\<open>email[:strings.LastIndex(email, "@")]\<close>, \<open>None\<close> where the index is -1.\<close>

definition local_part_of :: "string \<Rightarrow> string option" where
  "local_part_of email =
     (if CHR ''@'' \<in> set email then Some (rev (tl (dropWhile (\<lambda>c. c \<noteq> CHR ''@'') (rev email)))) else None)"


section \<open>Registering\<close>

definition create_pending_flow :: "auth_response \<Rightarrow> flow" where
  "create_pending_flow a = \<lparr>fl_id = au_id a, fl_email = au_email a, fl_type = UnknownType, fl_status = RsPending,
     fl_action = Some ''add_domain'', fl_domain = None, fl_name = None, fl_verified = False, fl_address = None,
     fl_provisioned = False, fl_ready = False\<rparr>"

definition create_custom_flow :: "auth_response \<Rightarrow> string \<Rightarrow> flow" where
  "create_custom_flow a name = \<lparr>fl_id = au_id a, fl_email = au_email a, fl_type = CustomDomain, fl_status = RsPending,
     fl_action = Some ''add_domain'', fl_domain = None, fl_name = Some name, fl_verified = False, fl_address = None,
     fl_provisioned = False, fl_ready = False\<rparr>"

definition platform_action :: "string \<Rightarrow> string option \<times> registration_status" where
  "platform_action status =
     (if status = ''provisioning'' then (None, RsProvisioning)
      else if status = ''domain_not_ready'' then (Some ''wait_for_domain'', RsPending)
      else if status = ''address_not_available'' then (Some ''choose_different_address'', RsPending)
      else if status = ''invalid_email'' then (Some ''provide_valid_email'', RsPending)
      else (None, RsProvisioning))"

definition create_platform_flow :: "auth_response \<Rightarrow> domain \<Rightarrow> uuid option \<Rightarrow> string \<Rightarrow> flow" where
  "create_platform_flow a x addr status = \<lparr>fl_id = au_id a, fl_email = au_email a, fl_type = PlatformOwned,
     fl_status = snd (platform_action status), fl_action = fst (platform_action status), fl_domain = Some (d_id x),
     fl_name = Some (d_name x), fl_verified = True, fl_address = addr, fl_provisioned = (status = ''provisioning''),
     fl_ready = False\<rparr>"

text \<open>The flow comes with the error of a step, the user being there already.\<close>

definition or_flow :: "('s, 'a) act \<Rightarrow> flow \<Rightarrow> ('a \<Rightarrow> ('s, flow \<times> goerr option) act) \<Rightarrow> ('s, flow \<times> goerr option) act" where
  "or_flow m f k = seq (attempt m) (\<lambda>r. case r of Inl e \<Rightarrow> ret (f, Some e) | Inr x \<Rightarrow> k x)"

definition handle_platform_domain_flow :: "auth_response \<Rightarrow> domain \<Rightarrow> string \<Rightarrow> ('s, flow \<times> goerr option) act" where
  "handle_platform_domain_flow a x email =
     (let report = create_platform_flow a x in
      case local_part_of email of
        None \<Rightarrow> ret (report None ''invalid_email'', Some (Plain ''invalid email format''))
      | Some lp \<Rightarrow>
          if d_status x \<noteq> DomActive \<or> \<not> d_registration x
          then ret (report None ''domain_not_ready'', Some (Plain ''domain not ready for registration''))
          else
            or_flow (check_availability (d_id x) lp) (report None ''availability_check_failed'') (\<lambda>available.
            if \<not> available then ret (report None ''address_not_available'', Some (Sentinel ErrAddressNotAvailable))
            else
              or_flow (service_reserve_address (au_id a) (d_id x) lp) (report None ''reservation_failed'') (\<lambda>addr.
              or_flow (service_claim_address (a_id addr) (au_id a)) (report (Some (a_id addr)) ''claim_failed'') (\<lambda>_.
              ret (report (Some (a_id addr)) ''provisioning'', None)))))"

definition custom_action :: "verification \<Rightarrow> string" where
  "custom_action v =
     (case v of VerPending \<Rightarrow> ''start_verification'' | VerVerifying \<Rightarrow> ''wait_for_verification''
      | VerVerified \<Rightarrow> ''register_address'' | VerFailed \<Rightarrow> ''retry_verification'')"

definition handle_custom_domain_flow :: "auth_response \<Rightarrow> domain \<Rightarrow> ('s, flow \<times> goerr option) act" where
  "handle_custom_domain_flow a x = ret (
     \<lparr>fl_id = au_id a, fl_email = au_email a, fl_type = CustomDomain, fl_status = RsDomainAdded,
      fl_action = Some (custom_action (d_verification x)), fl_domain = Some (d_id x), fl_name = Some (d_name x),
      fl_verified = (d_verification x = VerVerified), fl_address = None, fl_provisioned = False, fl_ready = False\<rparr>, None)"

definition register_with_domain_detection ::
  "auth_env \<Rightarrow> nat list \<Rightarrow> string \<Rightarrow> string \<Rightarrow> ('s, auth_response \<times> flow \<times> goerr option) act" where
  "register_with_domain_detection e salt email pw =
     seq (register_user e salt email pw) (\<lambda>a.
     let name = extract_domain email in
     if name = '''' then ret (a, create_pending_flow a, None)
     else
       seq (attempt (get_by_name name)) (\<lambda>r.
       case r of
         Inl _ \<Rightarrow> ret (a, create_custom_flow a name, None)
       | Inr x \<Rightarrow>
           seq (if d_ownership x = Platform then handle_platform_domain_flow a x email else handle_custom_domain_flow a x)
             (\<lambda>(f, err). ret (a, f, err))))"

definition registration_error :: "goerr \<Rightarrow> 'a response" where
  "registration_error e =
     (if e = Sentinel ErrAddressNotAvailable
      then ErrorJson 409 ''address not available - please choose a different username''
      else if e = Sentinel ErrDomainNotAvailable then ErrorJson 400 ''domain not available for registration''
      else ErrorJson 500 (err_text e))"

definition enhanced_register_handler ::
  "auth_env \<Rightarrow> nat list \<Rightarrow> json option \<Rightarrow> ('s, (auth_response \<times> flow) response) act" where
  "enhanced_register_handler e salt body = with_body ''invalid request body'' (parsed dec_credentials body) (\<lambda>(email, pw).
     answer (register_with_domain_detection e salt email pw) registration_error
       (\<lambda>(a, f, err). case err of None \<Rightarrow> Json 201 (a, f) | Some x \<Rightarrow> registration_error x))"


section \<open>Following the flow\<close>

text \<open>What the status call says of a domain: its type, whether it is verified, the status and the action.\<close>

definition domain_stage :: "domain \<Rightarrow> domain_type \<times> bool \<times> registration_status \<times> string option" where
  "domain_stage x =
     (if d_ownership x = Platform then (PlatformOwned, True, RsProvisioning, None)
      else (CustomDomain, d_verification x = VerVerified,
        case d_verification x of
          VerPending \<Rightarrow> (RsDomainAdded, Some ''start_verification'')
        | VerVerifying \<Rightarrow> (RsVerifying, Some ''wait_for_verification'')
        | VerVerified \<Rightarrow> (RsVerified, Some ''register_address'')
        | VerFailed \<Rightarrow> (RsDomainAdded, Some ''retry_verification'')))"

text \<open>The mailbox of an address with the status of the user who claimed the address.\<close>

definition mailbox_stages :: "uuid \<Rightarrow> db \<Rightarrow> (mailbox_status \<times> bool \<times> user_status) list" where
  "mailbox_stages i d = [(m_status m, m_checkpoint m \<noteq> None, u_status u). m \<leftarrow> mailboxes d, m_address m = i,
     a \<leftarrow> addresses d, a_id a = m_address m, u \<leftarrow> users d, a_claimed_by a = Some (u_id u)]"

definition select_mailbox_stage :: "uuid \<Rightarrow> (mailbox_status \<times> bool \<times> user_status) query" where
  "select_mailbox_stage i = (\<lambda>t d. (first_or_no_rows (mailbox_stages i d), d))"

definition mailbox_ready_stage :: "goerr + mailbox_status \<times> bool \<times> user_status \<Rightarrow> bool" where
  "mailbox_ready_stage r \<longleftrightarrow> r = Inr (MbActive, True, UserActive)"

text \<open>The address found for the user, if any, with what its mailbox says when it is claimed.\<close>

definition address_stage :: "uuid \<Rightarrow> string \<Rightarrow> ('s, (address \<times> bool option) option) act" where
  "address_stage dm email =
     (case local_part_of email of
        None \<Rightarrow> ret None
      | Some lp \<Rightarrow>
          seq (attempt (get_address_by_domain_and_local_part dm lp)) (\<lambda>r.
          case r of
            Inl _ \<Rightarrow> ret None
          | Inr a \<Rightarrow>
              if a_status a \<noteq> Claimed then ret (Some (a, None))
              else seq (attempt (stmt (select_mailbox_stage (a_id a)))) (\<lambda>s. ret (Some (a, Some (mailbox_ready_stage s))))))"

definition staged_flow :: "user \<Rightarrow> string \<Rightarrow> domain option \<Rightarrow> (address \<times> bool option) option \<Rightarrow> flow" where
  "staged_flow u name dm addr =
     (let (ty, verified, status, action) =
        (case dm of None \<Rightarrow> (CustomDomain, False, RsPending, Some ''add_domain'') | Some x \<Rightarrow> domain_stage x);
        claimed = (case addr of Some (a, Some b) \<Rightarrow> Some b | _ \<Rightarrow> None) in
      \<lparr>fl_id = u_id u, fl_email = u_email u, fl_type = ty,
       fl_status = (case claimed of None \<Rightarrow> status | Some b \<Rightarrow> if b then RsActive else RsProvisioning),
       fl_action = action, fl_domain = map_option d_id dm, fl_name = Some name, fl_verified = verified,
       fl_address = map_option (\<lambda>(a, _). a_id a) addr, fl_provisioned = (claimed \<noteq> None),
       fl_ready = (claimed = Some True)\<rparr>)"

definition registration_status_handler :: "uuid option \<Rightarrow> ('s, flow response) act" where
  "registration_status_handler user = as_user user (\<lambda>i.
     seq (attempt (get_user_by_id i)) (\<lambda>r.
     case r of
       Inl _ \<Rightarrow> ret (ErrorJson 500 ''failed to get user'')
     | Inr u \<Rightarrow>
         let name = extract_domain (u_email u) in
         if name = '''' then ret (ErrorJson 400 ''invalid email format'')
         else
           seq (attempt (get_by_name name)) (\<lambda>dm.
           case dm of
             Inl _ \<Rightarrow> ret (Json 200 (staged_flow u name None None))
           | Inr x \<Rightarrow>
               if fst (snd (domain_stage x))
               then seq (address_stage (d_id x) (u_email u)) (\<lambda>addr. ret (Json 200 (staged_flow u name (Some x) addr)))
               else ret (Json 200 (staged_flow u name (Some x) None)))))"

text \<open>
  The answer of the verification calls: the instructions for the TXT record, and the result of a DNS check. The
  first dereferences the token of the domain, which a verified domain does not get: the panic of the handler.
\<close>

definition nil_panic :: goerr where
  "nil_panic = Plain ''panic: runtime error: invalid memory address or nil pointer dereference''"

record instructions =
  in_domain :: domain
  in_token :: string
  in_record_name :: string
  in_record_value :: string

definition initiate_verification_handler ::
  "nat list \<Rightarrow> uuid option \<Rightarrow> uuid option \<Rightarrow> ('s, instructions response) act" where
  "initiate_verification_handler rnd user domain_id = with_ids user domain_id (\<lambda>u i.
     seq (attempt (start_verification rnd i u)) (\<lambda>r.
     case r of
       Inl e \<Rightarrow> ret (ErrorJson 500 (err_text e))
     | Inr (x, None) \<Rightarrow> fail nil_panic
     | Inr (x, Some tok) \<Rightarrow> ret (Json 200 \<lparr>in_domain = x, in_token = tok,
         in_record_name = ''_norest-verification.'' @ d_name x, in_record_value = ''norest-verification='' @ tok\<rparr>)))"

definition check_verification_handler ::
  "'s resolver \<Rightarrow> uuid option \<Rightarrow> uuid option \<Rightarrow> ('s, (domain \<times> dns_result option \<times> string) response) act" where
  "check_verification_handler rs user domain_id = with_ids user domain_id (\<lambda>u i.
     seq (attempt (get_by_id_and_user i u)) (\<lambda>r.
     case r of
       Inl _ \<Rightarrow> ret (ErrorJson 404 ''domain not found'')
     | Inr x \<Rightarrow>
         (case d_token x of
            None \<Rightarrow> ret (Json 200 (x, None, next_action (d_verification x) False))
          | Some tok \<Rightarrow> seq (perform_full_verification rs (d_name x) tok) (\<lambda>(res, _).
              ret (Json 200 (x, Some res, next_action (d_verification x) False))))))"

text \<open>The older service (\<^verbatim>\<open>service.go\<close>) looks at the first domain of the user only.\<close>

definition user_domain_stage :: "domain \<Rightarrow> bool \<times> registration_status \<times> string" where
  "user_domain_stage x =
     (if d_verification x = VerVerified then (True, RsVerified, ''register_address'')
      else if d_verification x = VerVerifying then (False, RsVerifying, ''wait_for_verification'')
      else (False, RsDomainAdded, ''verify_domain''))"

definition get_registration_status :: "uuid \<Rightarrow> ('s, flow) act" where
  "get_registration_status i =
     seq (get_user_by_id i) (\<lambda>u.
     seq (list_by_user i) (\<lambda>ds.
     let blank = \<lparr>fl_id = u_id u, fl_email = u_email u, fl_type = UnknownType, fl_status = RsPending, fl_action = None,
       fl_domain = None, fl_name = None, fl_verified = False, fl_address = None, fl_provisioned = False, fl_ready = False\<rparr> in
     ret (case ds of
        [] \<Rightarrow> blank
      | x # _ \<Rightarrow> (case user_domain_stage x of (verified, status, action) \<Rightarrow>
          blank\<lparr>fl_status := status, fl_action := Some action, fl_domain := Some (d_id x), fl_name := Some (d_name x),
                fl_verified := verified\<rparr>))))"


section \<open>The user records of the older package\<close>

text \<open>\<^verbatim>\<open>internal/users\<close>: the role is not read.\<close>

definition users_get_by_id :: "uuid \<Rightarrow> ('s, user) act" where
  "users_get_by_id i = wrap_err ''getting user by id''
     (seq (stmt (user_or_missing (\<lambda>u. u_id u = i))) (\<lambda>u. ret (u\<lparr>u_role := ''''\<rparr>)))"

definition users_get_by_email :: "string \<Rightarrow> ('s, user) act" where
  "users_get_by_email email = wrap_err ''getting user by email''
     (seq (stmt (user_or_missing (\<lambda>u. u_email u = to_lower email))) (\<lambda>u. ret (u\<lparr>u_role := ''''\<rparr>)))"

definition users_update_status :: "uuid \<Rightarrow> user_status \<Rightarrow> ('s, unit) act" where
  "users_update_status i st = wrap_err ''updating user status''
     (stmt (\<lambda>t d. (Inr (), d\<lparr>users := set_by u_id i (\<lambda>u. u\<lparr>u_status := st\<rparr>) (users d)\<rparr>)))"

section \<open>A platform address is provisioned\<close>

lemma registered_tables:
  assumes "register_user e salt email pw w = (Inr a, w1)"
  shows "addresses (db w1) = addresses (db w) \<and> domains (db w1) = domains (db w) \<and> mailboxes (db w1) = mailboxes (db w) \<and>
    jobs (db w1) = jobs (db w) \<and> (addresses_ok (db w) \<longrightarrow> addresses_ok (db w1))"
proof -
  from assms obtain u w0 where c: "create_user email (hash_password (ae_kdf e) salt pw) w = (Inr u, w0)"
    and i: "issue_tokens e u w0 = (Inr a, w1)"
    by (auto simp: register_user_def elim!: seq_InrE split: if_splits)
  from i have d: "db w1 = db w0" by (auto dest: issue_tokens_InrD)
  from c show ?thesis
  proof (cases rule: create_user_outcome)
    case (created p t)
    then show ?thesis using d by (auto simp: with_user_def Let_def addresses_ok_def)
  qed simp
qed

lemma get_by_name_Inr:
  assumes "get_by_name n w = (Inr x, w')"
  shows "x \<in> set (domains (db w)) \<and> to_lower (d_name x) = to_lower n \<and> db w' = db w"
proof -
  from assms have "stmt (select_domain (\<lambda>x. to_lower (d_name x) = to_lower n)) w = (Inr x, w')"
    by (auto simp: get_by_name_def map_err_def split: prod.splits sum.splits)
  then show ?thesis
    by (auto simp: select_domain_def elim!: stmt_InrE split: option.splits dest: find_Some_set)
qed

lemma claim_service_Inr:
  assumes "service_claim_address i u w = (Inr (), w')"
  obtains t t2 where "claim_address i u t (db w) = (Inr True, (db w)\<lparr>addresses := set_by a_id i (claimed_row u t) (addresses (db w))\<rparr>)"
    and "db w' = (db w)\<lparr>addresses := set_by a_id i (claimed_row u t) (addresses (db w)),
      mailboxes := mailboxes (db w) @ [new_mailbox (next_id (db w)) i],
      jobs := jobs (db w) @ [new_job (next_id (db w) + 1) AccountCreate (next_id (db w)) t2],
      next_id := next_id (db w) + 2\<rparr>"
proof -
  from assms obtain b w1 w2 w3 a where 1: "stmt (claim_address i u) w = (Inr b, w1)"
    and 2: "can_create_mailbox u w1 = (Inr (), w2)" and 3: "create_mailbox_for_address i w2 = (Inr (), w3)"
    and 4: "address_by_id i w3 = (Inr a, w')"
    unfolding service_claim_address_def repo_claim_address_def service_create_mailbox_def by (auto elim!: seq_InrE)
  from 1 obtain t where t: "claim_address i u t (db w) = (Inr b, db w1)" by (rule stmt_InrE)
  then have w1: "b \<and> db w1 = (db w)\<lparr>addresses := set_by a_id i (claimed_row u t) (addresses (db w))\<rparr>"
    by (auto simp: claim_address_def split: option.splits if_splits)
  have w2: "db w2 = db w1" using read_only [OF entitlement_checks_preserve(2), of u w1] 2 by simp
  from 3 obtain t2 where "db w3 = (db w2)\<lparr>mailboxes := mailboxes (db w2) @ [new_mailbox (next_id (db w2)) i],
      jobs := jobs (db w2) @ [new_job (next_id (db w2) + 1) AccountCreate (next_id (db w2)) t2],
      next_id := next_id (db w2) + 2\<rparr>"
    by (rule create_mailbox_Inr)
  with address_by_id_Inr [OF 4] w1 w2 t show thesis by (intro that [of t t2]) simp_all
qed

lemma service_reserve_Inr:
  assumes "service_reserve_address u dm lp w = (Inr a, w')" and "addresses_ok (db w)"
  obtains x n t where "x \<in> set (domains (db w))" and "d_id x = dm" and "d_status x = DomActive" and "d_registration x"
    and "normalize_local_part lp = Inr n" and "reserve_address dm n u 2 t (db w) = (Inr (a_id a), db w')" and "a \<in> set (addresses (db w'))"
proof -
  from assms(1) obtain x n w1 w2 where 1: "get_by_id dm w = (Inr x, w1)" "check_domain_open u x w1 = (Inr (), w1)"
    and n: "normalize_local_part lp = Inr n" and 2: "can_create_address u w1 = (Inr (), w2)"
    and 3: "repo_reserve_address dm n u 2 w2 = (Inr a, w')"
    unfolding service_reserve_address_def by (auto elim!: seq_InrE simp: check_domain_open_Inr)
  note x = get_by_id_Inr [OF 1(1)]
  have d: "db w2 = db w" using read_only [OF entitlement_checks_preserve(3), of u w1] 2 x by simp
  have nn: "to_lower (trim_space n) = n"
    using n normalize_local_part_grammar [of lp] by (auto simp: Let_def trim_space_to_lower split: if_splits)
  show thesis
    using repo_reserve_Inr [OF 3] assms(2) d nn x 1(2) n that by (metis check_domain_open_Inr)
qed

lemma or_flow_NoneE:
  assumes "or_flow m f k w = (Inr (g, None), w')"
  obtains x w1 where "m w = (Inr x, w1)" and "k x w1 = (Inr (g, None), w')"
  using assms by (auto simp: or_flow_def attempt_apply split: sum.splits elim!: seq_InrE) (metis prod.collapse)

lemma check_availability_reads: "preserves I (check_availability dm lp)"
proof -
  have "query_preserves I (check_address_available dm lp)" for lp
    by (simp add: query_preserves_def check_address_available_def)
  then show ?thesis unfolding check_availability_def get_by_id_def repo_check_availability_def
    by (intro pres_intro)
qed

lemma platform_flow_done:
  fixes w :: "'s world"
  assumes "handle_platform_domain_flow a x email w = (Inr (f, None), w')" and "addresses_ok (db w)"
  obtains ad lp n m t where "local_part_of email = Some lp" and "d_status x = DomActive" and "d_registration x"
    and "normalize_local_part lp = Inr n" and "\<forall>b \<in> set (addresses (db w)). at_address (d_id x) n b \<longrightarrow> a_status b \<noteq> Claimed"
    and "ad \<in> set (addresses (db w'))" and "at_address (d_id x) n ad" and "a_status ad = Claimed" and "a_claimed_by ad = Some (au_id a)"
    and "mailboxes (db w') = mailboxes (db w) @ [new_mailbox m (a_id ad)]"
    and "jobs (db w') = jobs (db w) @ [new_job (m + 1) AccountCreate m t]"
    and "f = create_platform_flow a x (Some (a_id ad)) ''provisioning''"
proof -
  from assms(1) obtain lp b w1 w2 w3 where lp: "local_part_of email = Some lp" and x: "d_status x = DomActive" "d_registration x"
    and 1: "check_availability (d_id x) lp w = (Inr True, w1)"
    and 2: "service_reserve_address (au_id a) (d_id x) lp w1 = (Inr b, w2)"
    and 3: "service_claim_address (a_id b) (au_id a) w2 = (Inr (), w3)" and w': "w3 = w'"
    and f: "f = create_platform_flow a x (Some (a_id b)) ''provisioning''"
    by (auto simp: handle_platform_domain_flow_def Let_def elim!: or_flow_NoneE split: option.splits if_splits)
  have d1: "db w1 = db w" using read_only [OF check_availability_reads, of "d_id x" lp w] 1 by simp
  with assms(2) have ok: "addresses_ok (db w1)" by simp
  obtain n t where n: "normalize_local_part lp = Inr n"
    and t: "reserve_address (d_id x) n (au_id a) 2 t (db w1) = (Inr (a_id b), db w2)" and b: "b \<in> set (addresses (db w2))"
    using service_reserve_Inr [OF 2 ok] by metis
  note r = reserve_result [OF t ok]
  have ab: "at_address (d_id x) n b" using r(1) b by blast
  have free: "\<forall>c \<in> set (addresses (db w)). at_address (d_id x) n c \<longrightarrow> a_status c \<noteq> Claimed"
  proof -
    from t show ?thesis
    proof (cases rule: reserve_cases)
      case (taken c)
      have "c' = c" if "c' \<in> set (addresses (db w))" "at_address (d_id x) n c'" for c'
        using that taken(1,2) ok d1 by (auto simp: addresses_ok_def at_address_def dest: unique_onD)
      with taken(4) show ?thesis by auto
    qed (use d1 in auto)
  qed
  from 3 obtain t2 t3 where
    d3: "db w3 = (db w2)\<lparr>addresses := set_by a_id (a_id b) (claimed_row (au_id a) t2) (addresses (db w2)),
      mailboxes := mailboxes (db w2) @ [new_mailbox (next_id (db w2)) (a_id b)],
      jobs := jobs (db w2) @ [new_job (next_id (db w2) + 1) AccountCreate (next_id (db w2)) t3],
      next_id := next_id (db w2) + 2\<rparr>"
    by (rule claim_service_Inr)
  have "claimed_row (au_id a) t2 b \<in> set (addresses (db w'))" using b d3 w' by (auto simp: set_set_by)
  with that [OF lp x n free this] ab r(2,3) d1 d3 w' f show thesis
    by (simp add: claimed_row_def at_address_def)
qed

text \<open>
  C5. A registration that reports an address of the platform has set it up: the domain is the platform's, active
  and open; the address is the normalised local part of the e-mail in it, was not claimed by anyone, and is now claimed
  by the new user; and its mailbox is being provisioned by a new ACCOUNT_CREATE job. The answer does not
  claim more than that: the status is provisioning and the mailbox not ready. This holds whichever statements fail.
\<close>

theorem registration_provisions:
  assumes "register_with_domain_detection e salt email pw w = (Inr (a, f, None), w')" and "fl_type f = PlatformOwned"
    and "addresses_ok (db w)"
  shows "\<exists>x ad lp m t. x \<in> set (domains (db w)) \<and> d_ownership x = Platform \<and> d_status x = DomActive \<and> d_registration x \<and>
    to_lower (d_name x) = to_lower (extract_domain email) \<and> fl_domain f = Some (d_id x) \<and>
    local_part_of email = Some lp \<and> normalize_local_part lp = Inr (a_local ad) \<and>
    (\<forall>b \<in> set (addresses (db w)). at_address (d_id x) (a_local ad) b \<longrightarrow> a_status b \<noteq> Claimed) \<and>
    ad \<in> set (addresses (db w')) \<and> fl_address f = Some (a_id ad) \<and> a_domain ad = d_id x \<and>
    a_status ad = Claimed \<and> a_claimed_by ad = Some (au_id a) \<and>
    mailboxes (db w') = mailboxes (db w) @ [new_mailbox m (a_id ad)] \<and>
    jobs (db w') = jobs (db w) @ [new_job (m + 1) AccountCreate m t] \<and>
    fl_status f = RsProvisioning \<and> \<not> fl_ready f"
proof -
  from assms(1) obtain w1 where 1: "register_user e salt email pw w = (Inr a, w1)"
    and 2: "(let name = extract_domain email in
     if name = '''' then ret (a, create_pending_flow a, None)
     else
       seq (attempt (get_by_name name)) (\<lambda>r.
       case r of
         Inl _ \<Rightarrow> ret (a, create_custom_flow a name, None)
       | Inr x \<Rightarrow>
           seq (if d_ownership x = Platform then handle_platform_domain_flow a x email else handle_custom_domain_flow a x)
             (\<lambda>(f, err). ret (a, f, err)))) w1 = (Inr (a, f, None), w')"
    unfolding register_with_domain_detection_def
    by (auto elim!: seq_InrE simp: Let_def attempt_apply split: if_splits sum.splits prod.splits)
  note d1 = registered_tables [OF 1]
  from 2 assms(2) obtain x w2 where x: "get_by_name (extract_domain email) w1 = (Inr x, w2)" "d_ownership x = Platform"
    and 3: "handle_platform_domain_flow a x email w2 = (Inr (f, None), w')"
    by (auto elim!: seq_InrE simp: Let_def attempt_apply create_pending_flow_def create_custom_flow_def
        handle_custom_domain_flow_def split: if_splits sum.splits prod.splits) (metis prod.collapse)
  note d2 = get_by_name_Inr [OF x(1)]
  have ok: "addresses_ok (db w2)" using d1 d2 assms(3) by simp
  from 3 ok show ?thesis
  proof (rule platform_flow_done)
    fix ad lp n m t
    assume p: "local_part_of email = Some lp" "d_status x = DomActive" "d_registration x" "normalize_local_part lp = Inr n"
      "\<forall>b \<in> set (addresses (db w2)). at_address (d_id x) n b \<longrightarrow> a_status b \<noteq> Claimed"
      "ad \<in> set (addresses (db w'))" "at_address (d_id x) n ad" "a_status ad = Claimed" "a_claimed_by ad = Some (au_id a)"
      "mailboxes (db w') = mailboxes (db w2) @ [new_mailbox m (a_id ad)]"
      "jobs (db w') = jobs (db w2) @ [new_job (m + 1) AccountCreate m t]"
      "f = create_platform_flow a x (Some (a_id ad)) ''provisioning''"
    from p(7) have "a_local ad = n" "a_domain ad = d_id x" by (auto simp: at_address_def)
    with p d1 d2 x(2) show ?thesis
      by (intro exI [of _ x] exI [of _ ad] exI [of _ lp] exI [of _ m] exI [of _ t])
        (simp add: create_platform_flow_def platform_action_def)
  qed
qed

abbreviation carl_registers :: "(unit, auth_response \<times> flow \<times> goerr option) act" where
  "carl_registers \<equiv> register_with_domain_detection demo_env [1, 2] ''Carl@norestmail.com'' ''password''"

definition carl_db :: "string \<Rightarrow> db" where
  "carl_db hash = with_user ''carl@norestmail.com'' hash 1 1000000000000 demo_db"

lemma carl_created:
  obtains a h where "register_user demo_env [1, 2] ''Carl@norestmail.com'' ''password'' demo_world = (Inr a, world_of (carl_db h))"
    and "au_id a = 20"
proof -
  have n: "normalized_email ''Carl@norestmail.com'' = ''carl@norestmail.com''" by code_simp
  have c: "create_user ''Carl@norestmail.com'' h demo_world = (Inr (new_user 20 ''carl@norestmail.com'' h), world_of (carl_db h))" for h
    by (simp add: create_user_def create_user_body_def n act_simps insert_user_def insert_account_def link_account_def select_plan_def
        insert_subscription_def ret_def world_of_def demo_db_def migrated_db_def initial_plans_def Let_def carl_db_def with_user_def
        new_user_def lookup_by_def)
  have "signing_ok demo_env" by (simp add: demo_env_def signing_ok_def demo_jwt_def)
  let ?h = "hash_password (ae_kdf demo_env) [1, 2] ''password''"
  obtain a where a: "issue_tokens demo_env (new_user 20 ''carl@norestmail.com'' ?h) (world_of (carl_db ?h)) = (Inr a, world_of (carl_db ?h))"
    "au_id a = u_id (new_user 20 ''carl@norestmail.com'' ?h)"
    by (rule issue_tokens_ok [OF \<open>signing_ok demo_env\<close>])
  have k: "ae_address demo_env ''Carl@norestmail.com''" "\<not> length ''password'' < 8" by (simp_all add: demo_env_def)
  have "register_user demo_env [1, 2] ''Carl@norestmail.com'' ''password'' demo_world = (Inr a, world_of (carl_db ?h))"
    unfolding register_user_def using k c [of ?h] a(1) by (simp only: seq_Inr if_False if_True simp_thms)
  then show thesis using that a(2) by (simp add: new_user_def)
qed

lemma carl_provisioned:
  "\<exists>a f w'. carl_registers demo_world = (Inr (a, f, None), w') \<and> fl_type f = PlatformOwned"
proof -
  obtain a h where r: "register_user demo_env [1, 2] ''Carl@norestmail.com'' ''password'' demo_world = (Inr a, world_of (carl_db h))"
    and "au_id a = 20" by (rule carl_created)
  then obtain e s t1 t2 x where a: "a = \<lparr>au_id = 20, au_email = e, au_status = s, au_access = t1, au_refresh = t2, au_expires = x\<rparr>"
    by (cases a) simp
  have n: "extract_domain ''Carl@norestmail.com'' = ''norestmail.com''" by code_simp
  have d: "get_by_name ''norestmail.com'' (world_of (carl_db h)) = (Inr platform_domain, world_of (carl_db h))"
    by (simp add: get_by_name_def select_domain_def map_err_apply run_query_def world_of_def carl_db_def with_user_def demo_db_def
        migrated_db_def platform_domain_def Let_def)
  have "case fst (handle_platform_domain_flow a platform_domain ''Carl@norestmail.com'' (world_of (carl_db h))) of
      Inr (f, None) \<Rightarrow> fl_type f = PlatformOwned | _ \<Rightarrow> False"
    unfolding a by code_simp
  then obtain f w' where "handle_platform_domain_flow a platform_domain ''Carl@norestmail.com'' (world_of (carl_db h)) = (Inr (f, None), w')"
    and "fl_type f = PlatformOwned"
    by (cases "handle_platform_domain_flow a platform_domain ''Carl@norestmail.com'' (world_of (carl_db h))")
      (auto split: sum.splits prod.splits option.splits)
  moreover have "d_ownership platform_domain = Platform" by (simp add: platform_domain_def)
  ultimately show ?thesis
    using r n d by (simp add: register_with_domain_detection_def attempt_apply Let_def)
qed

theorem registration_provisions_witness:
  "\<exists>a f w' ad. carl_registers demo_world = (Inr (a, f, None), w') \<and> ad \<in> set (addresses (db w')) \<and>
     a_local ad = ''carl'' \<and> a_claimed_by ad = Some (au_id a) \<and> length (jobs (db w')) = 1"
proof -
  obtain a f w' where r: "carl_registers demo_world = (Inr (a, f, None), w')" and t: "fl_type f = PlatformOwned"
    using carl_provisioned by blast
  have ok: "addresses_ok (db demo_world)"
    by (simp add: addresses_ok_def world_of_def demo_db_def migrated_db_def unique_on_def)
  have l: "local_part_of ''Carl@norestmail.com'' = Some ''Carl''" "normalize_local_part ''Carl'' = Inr ''carl''" by code_simp+
  have j: "jobs (db demo_world) = []" by (simp add: world_of_def demo_db_def migrated_db_def)
  from registration_provisions [OF r t ok] show ?thesis unfolding l(1) j using r l(2) by auto
qed

section \<open>A ready mailbox\<close>

lemma get_user_by_id_Inr:
  assumes "get_user_by_id i w = (Inr u, w')"
  shows "u \<in> set (users (db w)) \<and> u_id u = i \<and> db w' = db w"
proof -
  from assms have "stmt (user_or_missing (\<lambda>u. u_id u = i)) w = (Inr u, w')"
    unfolding get_user_by_id_def by (rule map_err_InrE)
  then show ?thesis
    by (auto simp: user_or_missing_def elim!: stmt_InrE split: option.splits dest: find_Some_set)
qed

lemma address_stage_ready:
  assumes "address_stage dm email w = (Inr addr, w')" and "addr = Some (ad, Some True)" and "addresses_ok (db w)"
  obtains lp n m v where "local_part_of email = Some lp" and "normalize_local_part lp = Inr n"
    and "ad \<in> set (addresses (db w))" and "a_domain ad = dm" and "to_lower (a_local ad) = to_lower n" and "a_status ad = Claimed"
    and "m \<in> set (mailboxes (db w))" and "m_address m = a_id ad" and "m_status m = MbActive" and "m_checkpoint m \<noteq> None"
    and "v \<in> set (users (db w))" and "a_claimed_by ad = Some (u_id v)" and "u_status v = UserActive" and "db w' = db w"
proof -
  from assms(1,2) obtain lp w1 s where lp: "local_part_of email = Some lp"
    and 1: "get_address_by_domain_and_local_part dm lp w = (Inr ad, w1)" and c: "a_status ad = Claimed"
    and 2: "stmt (select_mailbox_stage (a_id ad)) w1 = (s, w')" and s: "mailbox_ready_stage s"
    by (auto simp: address_stage_def attempt_apply elim!: seq_InrE split: option.splits sum.splits if_splits)
      (metis prod.collapse)
  from 1 obtain n where n: "normalize_local_part lp = Inr n"
    and "stmt (select_address (\<lambda>a. a_domain a = dm \<and> to_lower (a_local a) = to_lower n)) w = (Inr ad, w1)"
    by (auto simp: get_address_by_domain_and_local_part_def address_by_domain_and_local_part_def elim!: seq_InrE map_err_InrE)
  then have ad: "ad \<in> set (addresses (db w))" "a_domain ad = dm" "to_lower (a_local ad) = to_lower n" and d1: "db w1 = db w"
    by (auto simp: select_address_def elim!: stmt_InrE split: option.splits dest: find_Some_set)
  from s have s: "s = Inr (MbActive, True, UserActive)" by (simp add: mailbox_ready_stage_def)
  with 2 obtain t where "select_mailbox_stage (a_id ad) t (db w1) = (Inr (MbActive, True, UserActive), db w')"
    by (auto elim: stmt_InrE)
  then have d2: "db w' = db w1" and "(MbActive, True, UserActive) \<in> set (mailbox_stages (a_id ad) (db w))"
    using d1 by (auto simp: select_mailbox_stage_def dest: first_or_no_rows_InrD)
  then obtain m a v where m: "m \<in> set (mailboxes (db w))" "m_address m = a_id ad" "m_status m = MbActive" "m_checkpoint m \<noteq> None"
    and a: "a \<in> set (addresses (db w))" "a_id a = a_id ad" and v: "v \<in> set (users (db w))" "a_claimed_by a = Some (u_id v)" "u_status v = UserActive"
    unfolding mailbox_stages_def set_concat set_map by (auto split: if_splits)
  have "a = ad" using a ad(1) assms(3) by (auto simp: addresses_ok_def dest: unique_onD)
  with that lp n ad c m v d1 d2 show thesis by metis
qed

text \<open>
  C17. Ready means ready: when the status call tells a user that the mailbox of their address is ready, the domain of their
  e-mail is the platform's or verified, the address is claimed, its mailbox is active with the checkpoint of a
  finished first synchronisation, and the user who claimed it is active. The call changes nothing. The
  claimant need not be the user who asks.
\<close>

theorem ready_means_active:
  assumes "registration_status_handler (Some i) w = (Inr (Json c f), w')" and "fl_ready f" and "addresses_ok (db w)"
  shows "fl_status f = RsActive \<and> db w' = db w \<and>
    (\<exists>u x lp n ad m v. u \<in> set (users (db w)) \<and> u_id u = i \<and>
      x \<in> set (domains (db w)) \<and> to_lower (d_name x) = to_lower (extract_domain (u_email u)) \<and>
      (d_ownership x = Platform \<or> d_verification x = VerVerified) \<and>
      local_part_of (u_email u) = Some lp \<and> normalize_local_part lp = Inr n \<and>
      ad \<in> set (addresses (db w)) \<and> fl_address f = Some (a_id ad) \<and> a_domain ad = d_id x \<and> to_lower (a_local ad) = to_lower n \<and>
      a_status ad = Claimed \<and>
      m \<in> set (mailboxes (db w)) \<and> m_address m = a_id ad \<and> m_status m = MbActive \<and> m_checkpoint m \<noteq> None \<and>
      v \<in> set (users (db w)) \<and> a_claimed_by ad = Some (u_id v) \<and> u_status v = UserActive)"
proof -
  have f: "\<exists>ad. addr = Some (ad, Some True)" if "fl_ready (staged_flow u n x addr)" for u n x addr
    using that by (cases addr) (auto simp: staged_flow_def Let_def split: option.splits prod.splits)
  from assms(1,2) obtain u w1 x w2 addr where 1: "get_user_by_id i w = (Inr u, w1)"
    and 2: "get_by_name (extract_domain (u_email u)) w1 = (Inr x, w2)" and v: "fst (snd (domain_stage x))"
    and 3: "address_stage (d_id x) (u_email u) w2 = (Inr addr, w')"
    and fl: "f = staged_flow u (extract_domain (u_email u)) (Some x) addr"
    by (auto simp: registration_status_handler_def as_user_def Let_def attempt_apply elim!: seq_InrE
        split: sum.splits if_splits prod.splits dest!: f) (metis prod.collapse)
  note d1 = get_user_by_id_Inr [OF 1] and d2 = get_by_name_Inr [OF 2]
  from f [of u "extract_domain (u_email u)" "Some x" addr] fl assms(2) obtain ad where ad: "addr = Some (ad, Some True)" by blast
  have st: "fl_status f = RsActive" "fl_address f = Some (a_id ad)"
    by (simp_all add: fl ad staged_flow_def Let_def split: prod.splits)
  have own: "d_ownership x = Platform \<or> d_verification x = VerVerified" using v by (auto simp: domain_stage_def split: if_splits)
  have ok: "addresses_ok (db w2)" using d1 d2 assms(3) by simp
  from 3 ad ok show ?thesis
  proof (rule address_stage_ready)
    fix lp n m v
    assume "local_part_of (u_email u) = Some lp" "normalize_local_part lp = Inr n" "ad \<in> set (addresses (db w2))" "a_domain ad = d_id x"
      "to_lower (a_local ad) = to_lower n" "a_status ad = Claimed" "m \<in> set (mailboxes (db w2))" "m_address m = a_id ad"
      "m_status m = MbActive" "m_checkpoint m \<noteq> None" "v \<in> set (users (db w2))" "a_claimed_by ad = Some (u_id v)"
      "u_status v = UserActive" "db w' = db w2"
    with d1 d2 st own show ?thesis
      by (intro conjI exI [of _ u] exI [of _ x] exI [of _ lp] exI [of _ n] exI [of _ ad] exI [of _ m] exI [of _ v]) simp_all
  qed
qed

definition other_claims_db :: db where
  "other_claims_db = demo_db\<lparr>
     users := users demo_db @ [\<lparr>u_id = 12, u_email = ''bea@x.org'', u_hash = ''hash'', u_status = UserActive, u_role = ''user''\<rparr>],
     addresses := [\<lparr>a_id = 14, a_domain = 4, a_local = ''ann'', a_status = Claimed, a_reserved_by = None, a_reserved_at = None,
       a_reserved_until = None, a_claimed_by = Some 12, a_claimed_at = Some 0\<rparr>],
     mailboxes := [\<lparr>m_id = 15, m_address = 14, m_stalwart = Some ''s'', m_status = MbActive, m_jmap_state = None,
       m_checkpoint = Some ''c'', m_synced_at = Some 0\<rparr>]\<rparr>"

theorem ready_means_active_witness:
  "\<exists>f. registration_status_handler (Some 10) (world_of other_claims_db) = (Inr (Json 200 f), world_of other_claims_db) \<and>
     fl_ready f \<and> fl_status f = RsActive \<and> fl_address f = Some 14 \<and>
     (\<exists>ad \<in> set (addresses other_claims_db). a_status ad = Claimed \<and> a_claimed_by ad = Some 12)"
proof -
  let ?w = "world_of other_claims_db"
  have q: "get_user_by_id 10 ?w = (Inr (hd (users demo_db)), ?w)"
    by (simp add: get_user_by_id_def user_or_missing_def map_err_apply run_query_def world_of_def other_claims_db_def demo_db_def)
  have n: "extract_domain ''ann@norestmail.com'' = ''norestmail.com''" "u_email (hd (users demo_db)) = ''ann@norestmail.com''"
    by code_simp+
  have d: "get_by_name ''norestmail.com'' ?w = (Inr platform_domain, ?w)"
    by (simp add: get_by_name_def select_domain_def map_err_apply run_query_def world_of_def other_claims_db_def demo_db_def
        migrated_db_def platform_domain_def)
  have l: "local_part_of ''ann@norestmail.com'' = Some ''ann''" "normalize_local_part ''ann'' = Inr ''ann''" "to_lower ''ann'' = ''ann''"
    by code_simp+
  let ?ad = "hd (addresses other_claims_db)"
  have a: "address_stage 4 ''ann@norestmail.com'' ?w = (Inr (Some (?ad, Some True)), ?w)"
    by (simp add: address_stage_def l get_address_by_domain_and_local_part_def address_by_domain_and_local_part_def select_address_def
        map_err_apply attempt_apply seq_def run_query_def select_mailbox_stage_def mailbox_stages_def first_or_no_rows_def
        mailbox_ready_stage_def world_of_def other_claims_db_def demo_db_def)
  have st: "domain_stage platform_domain = (PlatformOwned, True, RsProvisioning, None)" "d_id platform_domain = 4"
    by (simp_all add: domain_stage_def platform_domain_def)
  obtain f where r: "registration_status_handler (Some 10) ?w = (Inr (Json 200 f), ?w)"
    and f: "f = staged_flow (hd (users demo_db)) ''norestmail.com'' (Some platform_domain) (Some (?ad, Some True))"
    by (simp add: registration_status_handler_def as_user_def attempt_apply q n d a st Let_def)
  have rd: "fl_ready f" by (simp add: f staged_flow_def st)
  have i: "a_id ad = 14 \<and> a_claimed_by ad = Some 12" if "ad \<in> set (addresses other_claims_db)" for ad
    using that by (simp add: other_claims_db_def)
  have ok: "addresses_ok (db ?w)"
    by (simp add: addresses_ok_def world_of_def other_claims_db_def demo_db_def unique_on_def)
  have db: "db ?w = other_claims_db" by (simp add: world_of_def)
  note ra = ready_means_active [OF r rd ok, unfolded db]
  then have st: "fl_status f = RsActive" by (rule conjunct1)
  from ra obtain ad where ad: "ad \<in> set (addresses other_claims_db)" "fl_address f = Some (a_id ad)" "a_status ad = Claimed"
    by (elim conjE exE)
  show ?thesis
    by (intro exI [of _ f] conjI bexI [of _ ad]) (simp_all add: r rd st ad i)
qed

text \<open>
  A registration that fails after its user was created leaves the user behind: the answer is an error, yet the
  e-mail is taken.
\<close>

lemma failed_registration_keeps_user:
  assumes "register_user e salt email pw w = (Inr a, w1)" and "get_by_name (extract_domain email) w1 = (Inr x, w2)"
    and "extract_domain email \<noteq> ''''" and "d_ownership x = Platform" and "d_status x \<noteq> DomActive" and "CHR ''@'' \<in> set email"
  shows "\<exists>f. register_with_domain_detection e salt email pw w =
      (Inr (a, f, Some (Plain ''domain not ready for registration'')), w2)"
    and "\<exists>u \<in> set (users (db w2)). u_id u = au_id a \<and> u_email u = normalized_email email"
proof -
  show "\<exists>f. register_with_domain_detection e salt email pw w =
      (Inr (a, f, Some (Plain ''domain not ready for registration'')), w2)"
    using assms by (simp add: register_with_domain_detection_def Let_def attempt_apply handle_platform_domain_flow_def local_part_of_def)
  have "db w2 = db w1" using get_by_name_Inr [OF assms(2)] by simp
  with find_Some_set [OF registered_row [OF assms(1)]]
  show "\<exists>u \<in> set (users (db w2)). u_id u = au_id a \<and> u_email u = normalized_email email"
    by (intro bexI [of _ "new_user (au_id a) (normalized_email email) (hash_password (ae_kdf e) salt pw)"])
      (auto simp: new_user_def)
qed

text \<open>Asking to verify a verified domain again dereferences the token it was not given.\<close>

lemma verified_domain_panics:
  assumes "get_by_id_and_user i u w = (Inr x, w')" and "d_verification x = VerVerified"
  shows "initiate_verification_handler rnd (Some u) (Some i) w = (Inl nil_panic, w')"
  using assms by (simp add: initiate_verification_handler_def with_ids_def start_verification_def attempt_apply)

end
