(* ===== verification/Public.thy ===== *)
theory Public
  imports Registration
begin

text \<open>
  The handlers without a user: the public pages (\<^verbatim>\<open>internal/public/handler.go\<close>) and the billing webhook
  (\<^verbatim>\<open>internal/billing/handler.go\<close>); and those of the plan and of the administrators (\<^verbatim>\<open>internal/policy/handler.go\<close>).
\<close>

section \<open>Public pages\<close>

definition public_domains_handler :: "('s, domain list response) act" where
  "public_domains_handler = answer list_platform_domains (\<lambda>_. ErrorJson 500 ''failed to list platform domains'')
     (\<lambda>ds. Json 200 (filter (\<lambda>x. d_status x = DomActive \<and> d_registration x) ds))"

datatype username_check = NotOffered string | Offered bool string string

definition check_username_handler :: "string \<Rightarrow> string \<Rightarrow> ('s, username_check response) act" where
  "check_username_handler name username =
     with_id name ''domain name is required'' (with_id username ''username is required'' (
       seq (attempt (get_by_name name)) (\<lambda>r.
       case r of
         Inl _ \<Rightarrow> ret (ErrorJson 404 ''domain not found'')
       | Inr x \<Rightarrow>
           if d_status x \<noteq> DomActive then ret (Json 200 (NotOffered ''domain is not active''))
           else if \<not> d_registration x then ret (Json 200 (NotOffered ''registration is not enabled for this domain''))
           else answer (check_availability (d_id x) username) (\<lambda>_. ErrorJson 500 ''failed to check username availability'')
             (\<lambda>b. Json 200 (Offered b username name)))))"

text \<open>The domain of a public request: it must be known, active and open.\<close>

definition with_open_domain :: "string \<Rightarrow> (domain \<Rightarrow> ('s, 'a response) act) \<Rightarrow> ('s, 'a response) act" where
  "with_open_domain name k =
     seq (attempt (get_by_name name)) (\<lambda>r.
     case r of
       Inl _ \<Rightarrow> ret (ErrorJson 404 ''domain not found'')
     | Inr x \<Rightarrow> if d_status x \<noteq> DomActive \<or> \<not> d_registration x
         then ret (ErrorJson 400 ''domain is not available for registration'') else k x)"

definition dec_reserve :: "json option \<Rightarrow> goerr + string \<times> string" where
  "dec_reserve = dec_struct (\<lambda>f.
     bind_sum (dec_str (f ''username'')) (\<lambda>x0.
     bind_sum (dec_str (f ''domain'')) (\<lambda>x1. Inr (x0, x1))))"

text \<open>Nothing is stored for a reservation: its id is a fresh UUID (an argument) behind a prefix.\<close>

definition generate_reservation_id :: "uuid \<Rightarrow> string" where
  "generate_reservation_id fresh = ''res_'' @ uuid_text fresh"

definition reserve_username_handler :: "uuid \<Rightarrow> json option \<Rightarrow> ('s, (string \<times> string \<times> string \<times> int) response) act" where
  "reserve_username_handler fresh body = with_body ''invalid request body'' (parsed dec_reserve body) (\<lambda>(username, name).
     with_id username ''username is required'' (with_id name ''domain is required'' (
       with_open_domain name (\<lambda>x.
       seq (attempt (check_availability (d_id x) username)) (\<lambda>r. ret (
       case r of
         Inl _ \<Rightarrow> ErrorJson 500 ''failed to check username availability''
       | Inr b \<Rightarrow> if \<not> b then ErrorJson 409 ''username is not available''
           else Json 200 (generate_reservation_id fresh, username, name, 300)))))))"

record public_registration =
  pu_username :: string
  pu_domain :: string
  pu_reservation :: string
  pu_display :: string
  pu_password :: string

definition dec_public_registration :: "json option \<Rightarrow> goerr + public_registration" where
  "dec_public_registration = dec_struct (\<lambda>f.
     bind_sum (dec_str (f ''username'')) (\<lambda>x0.
     bind_sum (dec_str (f ''domain'')) (\<lambda>x1.
     bind_sum (dec_str (f ''reservation_id'')) (\<lambda>x2.
     bind_sum (dec_str (f ''display_name'')) (\<lambda>x3.
     bind_sum (dec_str (f ''password'')) (\<lambda>x4.
     Inr \<lparr>pu_username = x0, pu_domain = x1, pu_reservation = x2, pu_display = x3, pu_password = x4\<rparr>))))))"

definition public_register_handler ::
  "auth_env \<Rightarrow> nat list \<Rightarrow> json option \<Rightarrow> ('s, (auth_response \<times> string) response) act" where
  "public_register_handler e salt body =
     with_body ''invalid request body'' (parsed dec_public_registration body) (\<lambda>q.
     with_id (pu_username q) ''username is required'' (
     with_id (pu_domain q) ''domain is required'' (
     with_id (pu_reservation q) ''reservation_id is required'' (
     with_id (pu_display q) ''display_name is required'' (
     with_id (pu_password q) ''password is required'' (
       if length (pu_password q) < 8 then ret (ErrorJson 400 ''password must be at least 8 characters'')
       else with_open_domain (pu_domain q) (\<lambda>_.
         answer (register_user e salt (pu_username q @ ''@'' @ pu_domain q) (pu_password q))
           (\<lambda>_. ErrorJson 500 ''registration failed'') (\<lambda>a. Json 201 (a, pu_display q)))))))))"


section \<open>Plans and administration\<close>

record usage =
  ug_used :: int
  ug_limit :: int

definition usage_of :: "entitlement \<Rightarrow> usage \<times> usage \<times> usage" where
  "usage_of n = (\<lparr>ug_used = en_domains n, ug_limit = pl_max_domains (en_plan n)\<rparr>,
     \<lparr>ug_used = en_mailboxes n, ug_limit = pl_max_mailboxes (en_plan n)\<rparr>,
     \<lparr>ug_used = en_addresses n, ug_limit = pl_max_addresses (en_plan n)\<rparr>)"

definition get_usage_handler :: "uuid option \<Rightarrow> ('s, (usage \<times> usage \<times> usage) response) act" where
  "get_usage_handler user =
     (case user of
        None \<Rightarrow> ret (ErrorText 401 ''unauthorized'')
      | Some u \<Rightarrow> answer (get_entitlement u) (\<lambda>e. ErrorText 500 (err_text e)) (\<lambda>n. Json 200 (usage_of n)))"

definition with_account_id :: "uuid option \<Rightarrow> (uuid \<Rightarrow> ('s, unit) act) \<Rightarrow> ('s, unit response) act" where
  "with_account_id i m =
     (case i of
        None \<Rightarrow> ret (ErrorText 400 ''invalid account id'')
      | Some acc \<Rightarrow> answer (m acc) (\<lambda>e. ErrorText 500 (err_text e)) (\<lambda>_. NoBody 204))"

definition suspend_handler :: "uuid option \<Rightarrow> ('s, unit response) act" where
  "suspend_handler i = with_account_id i suspend_account"

definition reactivate_handler :: "uuid option \<Rightarrow> ('s, unit response) act" where
  "reactivate_handler i = with_account_id i reactivate_account"


section \<open>The webhook\<close>

record webhook_request =
  wr_provider :: string
  wr_event :: string
  wr_type :: string
  wr_account :: uuid
  wr_plan :: string
  wr_hash :: string

text \<open>\<open>uuid\<close> is \<^verbatim>\<open>uuid.UnmarshalText\<close>, of the library; a missing account is the nil UUID.\<close>

definition dec_uuid :: "(string \<Rightarrow> uuid option) \<Rightarrow> json option \<Rightarrow> goerr + uuid" where
  "dec_uuid uuid j =
     (if j = None \<or> j = Some JNull then Inr 0
      else bind_sum (dec_str j) (\<lambda>s. case uuid s of None \<Rightarrow> Inl (Plain ''invalid UUID'') | Some u \<Rightarrow> Inr u))"

definition dec_webhook :: "(string \<Rightarrow> uuid option) \<Rightarrow> json option \<Rightarrow> goerr + webhook_request" where
  "dec_webhook uuid = dec_struct (\<lambda>f.
     bind_sum (dec_str (f ''provider'')) (\<lambda>x0.
     bind_sum (dec_str (f ''event_id'')) (\<lambda>x1.
     bind_sum (dec_str (f ''type'')) (\<lambda>x2.
     bind_sum (dec_uuid uuid (f ''account_id'')) (\<lambda>x3.
     bind_sum (dec_str (f ''plan_code'')) (\<lambda>x4.
     bind_sum (dec_str (f ''payload_hash'')) (\<lambda>x5.
     Inr \<lparr>wr_provider = x0, wr_event = x1, wr_type = x2, wr_account = x3, wr_plan = x4, wr_hash = x5\<rparr>)))))))"

definition webhook_handler :: "(string \<Rightarrow> uuid option) \<Rightarrow> json option \<Rightarrow> ('s, bool response) act" where
  "webhook_handler uuid body = with_body ''invalid request body'' (parsed (dec_webhook uuid) body) (\<lambda>q.
     answer (handle_webhook (wr_provider q) (wr_event q) (wr_type q) (wr_hash q) (wr_account q) (wr_plan q))
       (\<lambda>e. ErrorJson 500 (err_text e)) (Json 200))"

end
