(* ===== verification/RateLimit.thy ===== *)
theory RateLimit
  imports Auth
begin

text \<open>
  The rate limiter (\<^verbatim>\<open>internal/ratelimit/limiter.go\<close>): a map from keys to buckets, each with the times of the
  requests it let through. A bucket is an object behind a pointer, so the map holds addresses and the buckets lie in
  a heap: a request keeps the address it looked up. The steps of a request are the regions between the locks.
\<close>

record limit_config =
  lc_requests :: int
  lc_window :: int

record limiter =
  lm_buckets :: "string \<rightharpoonup> nat"
  lm_heap :: "nat \<Rightarrow> time list"
  lm_next :: nat

definition new_limiter :: limiter where
  "new_limiter = \<lparr>lm_buckets = Map.empty, lm_heap = (\<lambda>_. []), lm_next = 0\<rparr>"

text \<open>Under the lock of the map: a new bucket is put under the key, whether or not there is one by now.\<close>

definition put_bucket :: "string \<Rightarrow> limiter \<Rightarrow> nat \<times> limiter" where
  "put_bucket key l = (lm_next l,
     l\<lparr>lm_buckets := (lm_buckets l)(key \<mapsto> lm_next l), lm_heap := (lm_heap l)(lm_next l := []), lm_next := lm_next l + 1\<rparr>)"

text \<open>Under the lock of the bucket: times outside the window are dropped, and the request is counted if there is room.\<close>

definition count_request :: "limit_config \<Rightarrow> time \<Rightarrow> nat \<Rightarrow> limiter \<Rightarrow> bool \<times> limiter" where
  "count_request c now b l =
     (let valid = filter (\<lambda>t. t > now - lc_window c) (lm_heap l b);
          ok = int (length valid) < lc_requests c in
      (ok, l\<lparr>lm_heap := (lm_heap l)(b := (if ok then valid @ [now] else valid))\<rparr>))"

definition find_bucket :: "string \<Rightarrow> limiter \<Rightarrow> nat \<times> limiter" where
  "find_bucket key l = (case lm_buckets l key of None \<Rightarrow> put_bucket key l | Some b \<Rightarrow> (b, l))"

definition allow :: "limit_config \<Rightarrow> string \<Rightarrow> time \<Rightarrow> limiter \<Rightarrow> bool \<times> limiter" where
  "allow c key now l = (case find_bucket key l of (b, l1) \<Rightarrow> count_request c now b l1)"

definition stale :: "limit_config \<Rightarrow> time \<Rightarrow> time list \<Rightarrow> bool" where
  "stale c now ts \<longleftrightarrow> ts = [] \<or> last ts < now - lc_window c * 2"

definition cleanup :: "limit_config \<Rightarrow> time \<Rightarrow> limiter \<Rightarrow> limiter" where
  "cleanup c now l = l\<lparr>lm_buckets := (\<lambda>key. case lm_buckets l key of
     None \<Rightarrow> None | Some b \<Rightarrow> if stale c now (lm_heap l b) then None else Some b)\<rparr>"

text \<open>The keys of a request. The middleware itself is in the theory of the router.\<close>

definition ip_key :: "string \<Rightarrow> string" where
  "ip_key remote_addr = remote_addr"

definition user_key :: "req_context \<Rightarrow> string \<Rightarrow> string" where
  "user_key ctx remote_addr = (case ctx (Untyped ''user_id'') of Some (CtxText s) \<Rightarrow> s | _ \<Rightarrow> ip_key remote_addr)"


section \<open>The bound\<close>

text \<open>Runs of requests that are served one after another, with sweeps in between; the log of those let through.\<close>

datatype limit_call = Request string time | Sweep time

fun time_of :: "limit_call \<Rightarrow> time" where
  "time_of (Request k t) = t"
| "time_of (Sweep t) = t"

fun limit_step :: "limit_config \<Rightarrow> limit_call \<Rightarrow> limiter \<Rightarrow> (string \<times> time) list \<times> limiter" where
  "limit_step c (Request k t) l = (case allow c k t l of (ok, l') \<Rightarrow> (if ok then [(k, t)] else [], l'))"
| "limit_step c (Sweep t) l = ([], cleanup c t l)"

fun let_through :: "limit_config \<Rightarrow> limit_call list \<Rightarrow> limiter \<Rightarrow> (string \<times> time) list" where
  "let_through c [] l = []"
| "let_through c (x # xs) l = (case limit_step c x l of (log, l') \<Rightarrow> log @ let_through c xs l')"

definition times_of :: "string \<Rightarrow> (string \<times> time) list \<Rightarrow> time list" where
  "times_of k log = map snd (filter (\<lambda>x. fst x = k) log)"

definition bucket_of :: "string \<Rightarrow> limiter \<Rightarrow> time list" where
  "bucket_of k l = (case lm_buckets l k of None \<Rightarrow> [] | Some b \<Rightarrow> lm_heap l b)"

text \<open>Keys do not share buckets.\<close>

definition limiter_ok :: "limiter \<Rightarrow> bool" where
  "limiter_ok l \<longleftrightarrow> (\<forall>k k' b. lm_buckets l k = Some b \<longrightarrow> lm_buckets l k' = Some b \<longrightarrow> k = k') \<and>
     (\<forall>k b. lm_buckets l k = Some b \<longrightarrow> b < lm_next l)"

lemma limiter_okD: "limiter_ok l \<Longrightarrow> lm_buckets l k = Some b \<Longrightarrow> lm_buckets l k' = Some b \<Longrightarrow> k = k'"
  by (auto simp: limiter_ok_def)

lemma find_bucket_ok:
  assumes "limiter_ok l" and "find_bucket k l = (b, l')"
  shows "limiter_ok l' \<and> lm_buckets l' k = Some b \<and> bucket_of k' l' = bucket_of k' l"
proof (cases "lm_buckets l k")
  case None
  have n: "lm_buckets l k0 \<noteq> Some (lm_next l)" for k0 using assms(1) by (auto simp: limiter_ok_def)
  from None assms(2) have l': "b = lm_next l" "l' = snd (put_bucket k l)" by (auto simp: find_bucket_def put_bucket_def)
  have "limiter_ok l'" using assms(1) n by (auto simp: l' put_bucket_def limiter_ok_def less_SucI)
  with n None show ?thesis by (auto simp: l' put_bucket_def bucket_of_def split: option.splits)
qed (use assms in \<open>simp add: find_bucket_def\<close>)

lemma allow_ok:
  assumes "limiter_ok l" and "allow c k t l = (ok, l')"
  shows "limiter_ok l'"
    and "ok \<longleftrightarrow> int (length (filter (\<lambda>s. s > t - lc_window c) (bucket_of k l))) < lc_requests c"
    and "\<And>k'. bucket_of k' l' = (if k' = k then filter (\<lambda>s. s > t - lc_window c) (bucket_of k l) @ (if ok then [t] else []) else bucket_of k' l)"
proof -
  obtain b l1 where f: "find_bucket k l = (b, l1)" by force
  have g: "limiter_ok l1" "lm_buckets l1 k = Some b" "\<And>k'. bucket_of k' l1 = bucket_of k' l"
    using find_bucket_ok [OF assms(1) f] by blast+
  have h: "lm_heap l1 b = bucket_of k l" using g(2) g(3) [of k] by (simp add: bucket_of_def)
  from assms(2) f have c: "count_request c t b l1 = (ok, l')" by (simp add: allow_def)
  then have l': "l' = l1\<lparr>lm_heap := (lm_heap l1)(b := filter (\<lambda>s. s > t - lc_window c) (bucket_of k l) @ (if ok then [t] else []))\<rparr>"
    and "ok \<longleftrightarrow> int (length (filter (\<lambda>s. s > t - lc_window c) (bucket_of k l))) < lc_requests c"
    by (auto simp: count_request_def Let_def h)
  then show "ok \<longleftrightarrow> int (length (filter (\<lambda>s. s > t - lc_window c) (bucket_of k l))) < lc_requests c" by simp
  show "limiter_ok l'" using g(1) l' by (simp add: limiter_ok_def)
  fix k'
  have "lm_buckets l1 k' = Some b \<Longrightarrow> k' = k" using limiter_okD [OF g(1)] g(2) by blast
  then show "bucket_of k' l' = (if k' = k then filter (\<lambda>s. s > t - lc_window c) (bucket_of k l) @ (if ok then [t] else []) else bucket_of k' l)"
    using g(2) g(3) [of k'] g(3) [of k] l' by (cases "k' = k") (auto simp: bucket_of_def split: option.splits)
qed

text \<open>The bucket of a key holds the times let through that are in the window; \<open>past\<close> is the log so far.\<close>

definition tracks :: "limit_config \<Rightarrow> string \<Rightarrow> time \<Rightarrow> time list \<Rightarrow> limiter \<Rightarrow> bool" where
  "tracks c k now past l \<longleftrightarrow> sorted (bucket_of k l) \<and> (\<forall>s \<in> set (bucket_of k l). s \<le> now) \<and>
     filter (\<lambda>s. s > now - lc_window c) past = filter (\<lambda>s. s > now - lc_window c) (bucket_of k l)"

lemma tracks_later:
  assumes "tracks c k now past l" and "now \<le> t"
  shows "tracks c k t past l"
proof -
  have f: "filter (\<lambda>s. s > t - lc_window c) xs = filter (\<lambda>s. s > t - lc_window c) (filter (\<lambda>s. s > now - lc_window c) xs)" for xs
    using assms(2) by (auto simp: filter_filter intro!: filter_cong)
  show ?thesis using assms f [of past] f [of "bucket_of k l"] by (fastforce simp: tracks_def)
qed

definition in_window :: "limit_config \<Rightarrow> time \<Rightarrow> time list \<Rightarrow> nat" where
  "in_window c t xs = length (filter (\<lambda>s. t - lc_window c < s \<and> s \<le> t) xs)"

lemma sorted_last: "sorted xs \<Longrightarrow> x \<in> set xs \<Longrightarrow> x \<le> last xs"
  by (induction xs) auto

lemma window_bound:
  assumes "tracks c k now past l" and "limiter_ok l" and "\<forall>s \<in> set past. s \<le> now" and "\<forall>t. int (in_window c t past) \<le> lc_requests c"
    and "sorted (map time_of xs)" and "\<forall>x \<in> set xs. now \<le> time_of x" and "0 \<le> lc_window c" and "0 \<le> lc_requests c"
  shows "int (in_window c t (past @ times_of k (let_through c xs l))) \<le> lc_requests c"
  using assms(1-6)
proof (induction xs arbitrary: now past l)
  case (Cons x xs)
  let ?n = "time_of x"
  have n: "now \<le> ?n" and later: "sorted (map time_of xs)" "\<forall>x \<in> set xs. ?n \<le> time_of x" using Cons.prems(5,6) by auto
  note tr = tracks_later [OF Cons.prems(1) n]
  have past: "\<forall>s \<in> set past. s \<le> ?n" using Cons.prems(3) n by auto
  obtain log l' where s: "limit_step c x l = (log, l')" by force
  have "tracks c k ?n (past @ times_of k log) l' \<and> limiter_ok l' \<and> (\<forall>s \<in> set (past @ times_of k log). s \<le> ?n) \<and>
      (\<forall>t. int (in_window c t (past @ times_of k log)) \<le> lc_requests c)"
  proof (cases x)
    case (Sweep t0)
    with s have l': "log = []" "l' = cleanup c ?n l" by auto
    have ok: "limiter_ok l'"
      using Cons.prems(2) by (auto simp: l' limiter_ok_def cleanup_def split: option.splits if_splits)
    have "bucket_of k l' = bucket_of k l \<or> bucket_of k l' = [] \<and> stale c ?n (bucket_of k l)"
      by (auto simp: l' cleanup_def bucket_of_def split: option.splits)
    moreover have "filter (\<lambda>s. s > ?n - lc_window c) (bucket_of k l) = []" if "stale c ?n (bucket_of k l)"
    proof (cases "bucket_of k l = []")
      case False
      with that have "last (bucket_of k l) < ?n - lc_window c * 2" by (simp add: stale_def)
      moreover have "s \<le> last (bucket_of k l)" if "s \<in> set (bucket_of k l)" for s
        using tr that False by (auto simp: tracks_def intro: sorted_last)
      ultimately show ?thesis using assms(7) by (fastforce simp: filter_empty_conv)
    qed simp
    ultimately have "tracks c k ?n past l'" using tr by (auto simp: tracks_def)
    with ok past Cons.prems(4) show ?thesis by (simp add: l' times_of_def)
  next
    case (Request k' t0)
    obtain ok l1 where a: "allow c k' ?n l = (ok, l1)" by force
    with s Request have l': "log = (if ok then [(k', ?n)] else [])" "l' = l1" by auto
    note al = allow_ok [OF Cons.prems(2) a]
    show ?thesis
    proof (cases "ok \<and> k' = k")
      case False
      then have log: "times_of k log = []" by (auto simp: l' times_of_def)
      have "tracks c k ?n past l'"
        using tr al(3) [of k] False by (auto simp: tracks_def l' intro: sorted_wrt_filter)
      with al(1) past Cons.prems(4) show ?thesis unfolding log by (simp add: l'(2))
    next
      case True
      then have log: "times_of k log = [?n]" by (simp add: l' times_of_def)
      let ?v = "filter (\<lambda>s. s > ?n - lc_window c) (bucket_of k l)"
      from tr have v: "filter (\<lambda>s. s > ?n - lc_window c) past = ?v" by (simp add: tracks_def)
      have "tracks c k ?n (past @ [?n]) l'"
        using tr al(3) [of k] True v by (auto simp: tracks_def l' sorted_append intro: sorted_wrt_filter)
      moreover have "int (in_window c t (past @ [?n])) \<le> lc_requests c" for t
      proof (cases "?n \<le> t")
        case False
        with Cons.prems(4) show ?thesis by (simp add: in_window_def)
      next
        case le: True
        have "length (filter (\<lambda>s. t - lc_window c < s \<and> s \<le> t) past) \<le> length (filter (\<lambda>s. s > ?n - lc_window c) past)"
          using le by (induction past) auto
        with v al(2) True show ?thesis by (auto simp: in_window_def)
      qed
      ultimately show ?thesis using al(1) past unfolding log by (simp add: l'(2))
    qed
  qed
  with Cons.IH [of ?n "past @ times_of k log" l'] later s show ?case by (simp add: times_of_def)
qed (simp add: times_of_def)


definition two_a_minute :: limit_config where
  "two_a_minute = \<lparr>lc_requests = 2, lc_window = minute\<rparr>"

definition limit_calls :: "limit_call list" where
  "limit_calls = [Request ''a'' 0, Request ''a'' second, Request ''b'' second, Request ''a'' (2 * second), Sweep (3 * second),
     Request ''a'' (minute + 1)]"


text \<open>
  The limit does not hold between the locks: two first requests for a key that look it up before either stored a
  bucket are counted in a bucket each, so both are let through where one is allowed.
\<close>

lemma first_requests_race:
  assumes "lc_requests c = 1" and "put_bucket k l = (b1, l1)" and "put_bucket k l1 = (b2, l2)"
    and "count_request c t b1 l2 = (ok1, l3)" and "count_request c t b2 l3 = (ok2, l4)"
  shows "ok1 \<and> ok2"
  using assms by (auto simp: put_bucket_def count_request_def Let_def)

text \<open>The key of a user is the address of the connection: the middleware stores the user under a key of another type.\<close>

lemma user_key_is_address: "user_key (user_context u admin Map.empty) remote_addr = remote_addr"
  by (simp add: user_key_def user_context_def ip_key_def)

end
