(* ===== verification/Config.thy ===== *)
theory Config
  imports Errors Numbers
begin

text \<open>
  The configuration (\<^verbatim>\<open>internal/config/config.go\<close>), read from the variables of the environment: \<open>env k\<close> is the value of
  \<open>k\<close>, empty where it is not set. Go visits a map in any order: the order is the argument \<open>visit\<close>, a permutation of
  the names.
\<close>

record config =
  cg_env :: string
  cg_addr :: string
  cg_database :: string
  cg_stalwart :: string
  cg_stalwart_public :: string
  cg_admin_user :: string
  cg_admin_password :: string
  cg_recovery :: string
  cg_secret :: string
  cg_origins :: "string list"
  cg_workers :: int
  cg_worker_id :: string
  cg_lease :: int
  cg_heartbeat :: int
  cg_attempts :: int
  cg_backoff :: int
  cg_concurrent :: int
  cg_max_conns :: int
  cg_min_conns :: int
  cg_conn_lifetime :: int
  cg_conn_idle :: int
  cg_db_timeout :: int
  cg_daemon_email :: string
  cg_daemon_name :: string

definition get_env :: "(string \<Rightarrow> string) \<Rightarrow> string \<Rightarrow> string \<Rightarrow> string" where
  "get_env env k fallback = (if env k \<noteq> '''' then env k else fallback)"

definition get_env_int :: "(string \<Rightarrow> string) \<Rightarrow> string \<Rightarrow> int \<Rightarrow> int" where
  "get_env_int env k fallback =
     (if env k \<noteq> '''' then (case scan_int (env k) of Some n \<Rightarrow> n | None \<Rightarrow> fallback) else fallback)"

definition parse_allowed_origins :: "string \<Rightarrow> string list" where
  "parse_allowed_origins s =
     (if s = '''' then [] else filter (\<lambda>x. x \<noteq> '''') (map trim_space (split_on (CHR '','') s)))"

definition config_of :: "(string \<Rightarrow> string) \<Rightarrow> config" where
  "config_of env = \<lparr>
     cg_env = get_env env ''APP_ENV'' ''development'',
     cg_addr = get_env env ''HTTP_ADDR'' '':8080'',
     cg_database = env ''DATABASE_URL'',
     cg_stalwart = env ''STALWART_BASE_URL'',
     cg_stalwart_public = env ''STALWART_PUBLIC_URL'',
     cg_admin_user = env ''STALWART_ADMIN_USER'',
     cg_admin_password = env ''STALWART_ADMIN_PASSWORD'',
     cg_recovery = env ''STALWART_RECOVERY_ADMIN'',
     cg_secret = env ''JWT_SECRET'',
     cg_origins = parse_allowed_origins (get_env env ''ALLOWED_ORIGINS'' ''''),
     cg_workers = get_env_int env ''PROVISIONING_WORKERS'' 4,
     cg_worker_id = get_env env ''WORKER_ID'' '''',
     cg_lease = get_env_int env ''JOB_LEASE_SECONDS'' 60,
     cg_heartbeat = get_env_int env ''JOB_HEARTBEAT_SECONDS'' 20,
     cg_attempts = get_env_int env ''JOB_MAX_ATTEMPTS'' 10,
     cg_backoff = get_env_int env ''JOB_MAX_BACKOFF_SECONDS'' 300,
     cg_concurrent = get_env_int env ''MAX_CONCURRENT_JOBS'' 5,
     cg_max_conns = get_env_int env ''DB_MAX_CONNS'' 10,
     cg_min_conns = get_env_int env ''DB_MIN_CONNS'' 2,
     cg_conn_lifetime = get_env_int env ''DB_MAX_CONN_LIFETIME'' 1800,
     cg_conn_idle = get_env_int env ''DB_MAX_CONN_IDLE_TIME'' 300,
     cg_db_timeout = get_env_int env ''DB_OPERATION_TIMEOUT'' 30,
     cg_daemon_email = get_env env ''MAILER_DAEMON_EMAIL'' ''mailer-daemon@norest.in'',
     cg_daemon_name = get_env env ''MAILER_DAEMON_NAME'' ''Mail Delivery Subsystem''\<rparr>"

definition required :: "config \<Rightarrow> (string \<times> string) list" where
  "required c = [(''DATABASE_URL'', cg_database c), (''STALWART_BASE_URL'', cg_stalwart c),
     (''STALWART_ADMIN_USER'', cg_admin_user c), (''STALWART_ADMIN_PASSWORD'', cg_admin_password c),
     (''JWT_SECRET'', cg_secret c)]"

definition unsafe_defaults :: "(string \<times> string) list" where
  "unsafe_defaults = [(''STALWART_ADMIN_PASSWORD'', ''change-me-development-only''),
     (''JWT_SECRET'', ''change-me-development-only''), (''DATABASE_URL'', ''postgres://norest:norest@'')]"

text \<open>The values of the unsafe defaults are read from the environment again.\<close>

definition validate_production ::
  "((string \<times> string) list \<Rightarrow> (string \<times> string) list) \<Rightarrow> (string \<Rightarrow> string) \<Rightarrow> config \<Rightarrow> goerr option" where
  "validate_production visit env c =
     (case find (\<lambda>(k, bad). has_prefix (env k) bad) (visit unsafe_defaults) of
        Some (k, _) \<Rightarrow> Some (Plain (''production environment cannot use development default for '' @ k))
      | None \<Rightarrow>
          if cg_origins c = [] then Some (Plain ''production environment requires ALLOWED_ORIGINS to be set'')
          else if ''*'' \<in> set (cg_origins c) then Some (Plain ''production environment cannot use wildcard CORS origin'')
          else if str_contains (cg_recovery c) ''change-me-development-only''
          then Some (Plain ''production environment cannot use development bootstrap credentials'')
          else None)"

definition validate_config ::
  "((string \<times> string) list \<Rightarrow> (string \<times> string) list) \<Rightarrow> (string \<Rightarrow> string) \<Rightarrow> config \<Rightarrow> goerr option" where
  "validate_config visit env c =
     (case find (\<lambda>(k, v). v = '''') (visit (required c)) of
        Some (k, _) \<Rightarrow> Some (Plain (''required environment variable '' @ k @ '' is not set''))
      | None \<Rightarrow> if cg_env c = ''production'' then validate_production visit env c else None)"

definition load_config ::
  "((string \<times> string) list \<Rightarrow> (string \<times> string) list) \<Rightarrow> (string \<Rightarrow> string) \<Rightarrow> goerr + config" where
  "load_config visit env =
     (let c = config_of env in
      case validate_config visit env c of Some e \<Rightarrow> Inl (Wrapped ''configuration error'' e) | None \<Rightarrow> Inr c)"

lemma find_None_visit:
  assumes "set (visit xs) = set xs" and "find P (visit xs) = None"
  shows "\<forall>x \<in> set xs. \<not> P x"
  using assms by (auto simp: find_None_iff)

lemma loaded_config:
  assumes "load_config visit env = Inr c" and "\<And>xs. set (visit xs) = set xs"
  shows "c = config_of env \<and> (\<forall>(k, v) \<in> set (required c). v \<noteq> '''')"
    and "cg_env c = ''production'' \<longrightarrow> (\<forall>(k, bad) \<in> set unsafe_defaults. \<not> has_prefix (env k) bad) \<and> cg_origins c \<noteq> [] \<and>
      ''*'' \<notin> set (cg_origins c) \<and> \<not> str_contains (cg_recovery c) ''change-me-development-only''"
  using assms(1) find_None_visit [OF assms(2), where P = "\<lambda>(k, v). v = ''''" and xs = "required c"]
    find_None_visit [OF assms(2), where P = "\<lambda>(k, bad). has_prefix (env k) bad" and xs = unsafe_defaults]
  by (auto simp: load_config_def Let_def validate_config_def validate_production_def split: option.splits if_splits)

end
