(* ===== verification/Metrics.thy ===== *)
theory Metrics
  imports Complex_Main Prelude
begin

text \<open>
  The counters of the process (\<^verbatim>\<open>internal/metrics/metrics.go\<close>), each a 64-bit integer that wraps around; a duration
  is counted in milliseconds. The lock makes every call one step.
\<close>

record metrics =
  mx_requests :: int
  mx_errors :: int
  mx_request_ms :: int
  mx_query_ms :: int
  mx_query_errors :: int
  mx_pool :: rat
  mx_stalwart_ms :: int
  mx_stalwart_errors :: int
  mx_stalwart_timeouts :: int
  mx_started :: int
  mx_succeeded :: int
  mx_failed :: int
  mx_retried :: int
  mx_reclaimed :: int
  mx_job_ms :: int
  mx_pending :: int
  mx_processing :: int
  mx_retry :: int
  mx_dead :: int
  mx_oldest :: time

definition no_metrics :: metrics where
  "no_metrics = \<lparr>mx_requests = 0, mx_errors = 0, mx_request_ms = 0, mx_query_ms = 0, mx_query_errors = 0, mx_pool = 0,
     mx_stalwart_ms = 0, mx_stalwart_errors = 0, mx_stalwart_timeouts = 0, mx_started = 0, mx_succeeded = 0, mx_failed = 0,
     mx_retried = 0, mx_reclaimed = 0, mx_job_ms = 0, mx_pending = 0, mx_processing = 0, mx_retry = 0, mx_dead = 0, mx_oldest = 0\<rparr>"

text \<open>\<^verbatim>\<open>Duration.Milliseconds\<close> truncates towards zero; durations here are not negative.\<close>

definition milliseconds :: "int \<Rightarrow> int" where
  "milliseconds d = (if d < 0 then - (- d div 1000000) else d div 1000000)"

definition add_if :: "bool \<Rightarrow> int \<Rightarrow> int" where
  "add_if b n = (if b then wrap64 (n + 1) else n)"

definition metric_http_request :: "int \<Rightarrow> bool \<Rightarrow> metrics \<Rightarrow> metrics" where
  "metric_http_request d err m = m\<lparr>mx_requests := wrap64 (mx_requests m + 1),
     mx_request_ms := wrap64 (mx_request_ms m + milliseconds d), mx_errors := add_if err (mx_errors m)\<rparr>"

definition metric_db_query :: "int \<Rightarrow> bool \<Rightarrow> metrics \<Rightarrow> metrics" where
  "metric_db_query d err m = m\<lparr>mx_query_ms := wrap64 (mx_query_ms m + milliseconds d), mx_query_errors := add_if err (mx_query_errors m)\<rparr>"

definition metric_pool_utilization :: "rat \<Rightarrow> metrics \<Rightarrow> metrics" where
  "metric_pool_utilization u m = m\<lparr>mx_pool := u\<rparr>"

definition metric_stalwart_request :: "int \<Rightarrow> bool \<Rightarrow> bool \<Rightarrow> metrics \<Rightarrow> metrics" where
  "metric_stalwart_request d err timeout m = m\<lparr>mx_stalwart_ms := wrap64 (mx_stalwart_ms m + milliseconds d),
     mx_stalwart_errors := add_if err (mx_stalwart_errors m), mx_stalwart_timeouts := add_if timeout (mx_stalwart_timeouts m)\<rparr>"

definition metric_job_started :: "metrics \<Rightarrow> metrics" where
  "metric_job_started m = m\<lparr>mx_started := wrap64 (mx_started m + 1)\<rparr>"

definition metric_job_succeeded :: "int \<Rightarrow> metrics \<Rightarrow> metrics" where
  "metric_job_succeeded d m = m\<lparr>mx_succeeded := wrap64 (mx_succeeded m + 1), mx_job_ms := wrap64 (mx_job_ms m + milliseconds d)\<rparr>"

definition metric_job_failed :: "metrics \<Rightarrow> metrics" where
  "metric_job_failed m = m\<lparr>mx_failed := wrap64 (mx_failed m + 1)\<rparr>"

definition metric_job_retried :: "metrics \<Rightarrow> metrics" where
  "metric_job_retried m = m\<lparr>mx_retried := wrap64 (mx_retried m + 1)\<rparr>"

definition metric_job_reclaimed :: "metrics \<Rightarrow> metrics" where
  "metric_job_reclaimed m = m\<lparr>mx_reclaimed := wrap64 (mx_reclaimed m + 1)\<rparr>"

definition set_backlog :: "int \<Rightarrow> int \<Rightarrow> int \<Rightarrow> int \<Rightarrow> time \<Rightarrow> metrics \<Rightarrow> metrics" where
  "set_backlog pending processing retry failed oldest m = m\<lparr>mx_pending := pending, mx_processing := processing,
     mx_retry := retry, mx_dead := failed, mx_oldest := oldest\<rparr>"

definition metrics_snapshot :: "metrics \<Rightarrow> metrics" where
  "metrics_snapshot m = m"

end
