(* ===== verification/Router.thy ===== *)
theory Router
  imports Public RateLimit Config Metrics
begin

text \<open>
  The API server (\<^verbatim>\<open>internal/http\<close>): the middleware in front of every request, the table of routes with their guards and
  limits, and the handlers they lead to. The process keeps its rate limiters and counters in memory, next to the services
  it calls. The router library finds the route of a request: it is a parameter, given the registered methods and
  patterns.
\<close>

section \<open>The process and its requests\<close>

datatype limiter_name = LoginLimiter | RegisterLimiter | SessionLimiter | AdminLimiter

record 's server =
  sv_limiters :: "limiter_name \<Rightarrow> limiter"
  sv_metrics :: metrics
  sv_remote :: 's

fun limit_of :: "limiter_name \<Rightarrow> limit_config" where
  "limit_of LoginLimiter = \<lparr>lc_requests = 10, lc_window = minute\<rparr>"
| "limit_of RegisterLimiter = \<lparr>lc_requests = 5, lc_window = hour\<rparr>"
| "limit_of SessionLimiter = \<lparr>lc_requests = 10, lc_window = minute\<rparr>"
| "limit_of AdminLimiter = \<lparr>lc_requests = 5, lc_window = minute\<rparr>"

text \<open>A call of the program's services, made within the process.\<close>

definition inside :: "('s, 'a) act \<Rightarrow> ('s server, 'a) act" where
  "inside m = (\<lambda>w. case m \<lparr>clock = clock w, tx_time = tx_time w, faults = faults w, db = db w, remote = sv_remote (remote w)\<rparr> of
     (r, v) \<Rightarrow> (r, \<lparr>clock = clock v, tx_time = tx_time v, faults = faults v, db = db v,
       remote = (remote w)\<lparr>sv_remote := remote v\<rparr>\<rparr>))"

text \<open>
  What the handlers use of a request: its headers and parameters (empty where there is none), the remote address, the
  body as text and as JSON (\<open>None\<close> where it cannot be read or parsed) with the number of bytes read for it, and the
  random bytes and UUID generated for the request.
\<close>

record request =
  hr_method :: string
  hr_path :: string
  hr_header :: "string \<Rightarrow> string"
  hr_query :: params
  hr_remote :: string
  hr_text :: "string option"
  hr_json :: "json option"
  hr_read :: int
  hr_random :: "nat list"
  hr_fresh :: uuid

datatype guard = Open | UserOnly | AdminOnly

text \<open>
  What the server is given: its configuration, the libraries (the router: the status it answers itself, or the index of
  the route with the parameters of the path; \<^verbatim>\<open>uuid.Parse\<close>; SHA-256; the upgrade of a connection with the status of its
  failure), the client of the mail server and the resolver.
\<close>

record 's api =
  ap_config :: config
  ap_auth :: auth_env
  ap_mux :: "(string \<times> string) list \<Rightarrow> string \<Rightarrow> string \<Rightarrow> int + (nat \<times> params)"
  ap_uuid :: "string \<Rightarrow> uuid option"
  ap_sha :: "string \<Rightarrow> string"
  ap_accept :: "('s, unit) service"
  ap_upgrade_error :: int
  ap_client :: "'s client"
  ap_resolver :: "'s resolver"
  ap_codec :: time_codec
  ap_safe :: "goerr \<Rightarrow> bool"
  ap_visit :: "string list \<Rightarrow> string list"


section \<open>Health\<close>

definition db_health :: "('s, unit) act" where
  "db_health = wrap_err ''database health check failed'' (stmt (\<lambda>t d. (Inr (), d)))"

definition health_handler :: "string \<Rightarrow> ('s, string response) act" where
  "health_handler status = ret (Json 200 status)"

definition ready_handler :: "'s client \<Rightarrow> ('s, string response) act" where
  "ready_handler c =
     seq (attempt db_health) (\<lambda>r.
     case r of
       Inl _ \<Rightarrow> ret (ErrorService 503 ''not_ready'' ''database unhealthy'')
     | Inr _ \<Rightarrow> answer (remote_call (health_check c)) (\<lambda>_. ErrorService 503 ''not_ready'' ''stalwart unhealthy'') (\<lambda>_. Json 200 ''ready''))"

definition health_db_handler :: "('s, string response) act" where
  "health_db_handler = answer db_health (\<lambda>e. ErrorService 503 ''database'' (err_text e)) (\<lambda>_. Json 200 ''ok'')"

definition health_stalwart_handler :: "'s client \<Rightarrow> ('s, string response) act" where
  "health_stalwart_handler c =
     answer (remote_call (health_check c)) (\<lambda>e. ErrorService 503 ''stalwart'' (err_text e)) (\<lambda>_. Json 200 ''ok'')"

definition metrics_handler :: "('s server, metrics response) act" where
  "metrics_handler = seq (remote_call (\<lambda>s. (Inr (metrics_snapshot (sv_metrics s)), s))) (\<lambda>m. ret (Json 200 m))"


section \<open>The handlers of the routes\<close>

text \<open>The list of the platform's domains for a user.\<close>

definition platform_domains_handler :: "('s, domain list response) act" where
  "platform_domains_handler = answer list_platform_domains (\<lambda>_. ErrorJson 500 ''failed to list platform domains'') (Json 200)"

text \<open>The body of an answer is dropped here: its status is what the layers above look at.\<close>

definition plain :: "('s, 'a response) act \<Rightarrow> ('s, unit response) act" where
  "plain m = seq m (\<lambda>r. ret (map_response (\<lambda>_. ()) r))"

definition dec_create_domain :: "json option \<Rightarrow> goerr + create_request" where
  "dec_create_domain = dec_struct (\<lambda>f.
     bind_sum (dec_str (f ''name'')) (\<lambda>x0.
     bind_sum (dec_str (f ''ownership_type'')) (\<lambda>x1.
     bind_sum (dec_bool (f ''registration_enabled'')) (\<lambda>x2.
     Inr \<lparr>rq_name = x0, rq_ownership = x1, rq_registration = x2\<rparr>))))"

definition decoded :: "(json option \<Rightarrow> goerr + 'a) \<Rightarrow> request \<Rightarrow> 'a option" where
  "decoded dec rq = (case parsed dec (hr_json rq) of Inl _ \<Rightarrow> None | Inr x \<Rightarrow> Some x)"

definition request_text :: "request \<Rightarrow> string" where
  "request_text rq = (case hr_text rq of None \<Rightarrow> '''' | Some s \<Rightarrow> s)"

definition send_parts :: "request \<Rightarrow> send_http" where
  "send_parts rq = \<lparr>sh_key = hr_header rq ''Idempotency-Key'', sh_text = hr_text rq, sh_json = hr_json rq\<rparr>"

definition ws_response :: "int \<Rightarrow> ws_answer \<Rightarrow> unit response" where
  "ws_response code a = (case a of WsRefused c s \<Rightarrow> ErrorText c s | WsFailed \<Rightarrow> NoBody code | WsServed u \<Rightarrow> NoBody 101)"

text \<open>A handler of the process: a call of the services, its body dropped.\<close>

definition page :: "('s, 'a response) act \<Rightarrow> ('s server, unit response) act" where
  "page m = inside (plain m)"

record 's route =
  ro_guard :: guard
  ro_method :: string
  ro_pattern :: string
  ro_limit :: "(limiter_name \<times> bool) option"
  ro_size :: "int option"
  ro_handler :: "request \<Rightarrow> params \<Rightarrow> req_context \<Rightarrow> ('s server, unit response) act"

text \<open>A route without a limit; with one keyed by the address or by the user; with a limit on the body.\<close>

definition plain_route ::
  "guard \<Rightarrow> string \<Rightarrow> string \<Rightarrow> (request \<Rightarrow> params \<Rightarrow> req_context \<Rightarrow> ('s server, unit response) act) \<Rightarrow> 's route" where
  "plain_route g m p h = \<lparr>ro_guard = g, ro_method = m, ro_pattern = p, ro_limit = None, ro_size = None, ro_handler = h\<rparr>"

definition limited_route ::
  "guard \<Rightarrow> limiter_name \<Rightarrow> bool \<Rightarrow> string \<Rightarrow> string \<Rightarrow> (request \<Rightarrow> params \<Rightarrow> req_context \<Rightarrow> ('s server, unit response) act) \<Rightarrow> 's route" where
  "limited_route g n by_user m p h = (plain_route g m p h)\<lparr>ro_limit := Some (n, by_user)\<rparr>"

definition sized_route ::
  "guard \<Rightarrow> int \<Rightarrow> string \<Rightarrow> string \<Rightarrow> (request \<Rightarrow> params \<Rightarrow> req_context \<Rightarrow> ('s server, unit response) act) \<Rightarrow> 's route" where
  "sized_route g n m p h = (plain_route g m p h)\<lparr>ro_size := Some n\<rparr>"

abbreviation caller :: "req_context \<Rightarrow> uuid option" where
  "caller \<equiv> user_id_from_context"

definition routes :: "'s api \<Rightarrow> 's route list" where
  "routes ap = [
     plain_route Open ''GET'' ''/health''
       (\<lambda>_ _ _. page (health_handler ''ok'')),
     plain_route Open ''GET'' ''/health/live''
       (\<lambda>_ _ _. page (health_handler ''alive'')),
     plain_route Open ''GET'' ''/health/ready''
       (\<lambda>_ _ _. page (ready_handler (ap_client ap))),
     plain_route Open ''GET'' ''/health/db''
       (\<lambda>_ _ _. page health_db_handler),
     plain_route Open ''GET'' ''/health/stalwart''
       (\<lambda>_ _ _. page (health_stalwart_handler (ap_client ap))),
     plain_route Open ''GET'' ''/metrics''
       (\<lambda>_ _ _. plain metrics_handler),
     plain_route Open ''GET'' ''/v1/public/domains''
       (\<lambda>_ _ _. page public_domains_handler),
     plain_route Open ''GET'' ''/v1/public/domains/{domainName}/check/{username}''
       (\<lambda>_ ps _. page (check_username_handler (ps ''domainName'') (ps ''username''))),
     limited_route Open RegisterLimiter False ''POST'' ''/v1/public/reserve''
       (\<lambda>rq _ _. page (reserve_username_handler (hr_fresh rq) (hr_json rq))),
     limited_route Open RegisterLimiter False ''POST'' ''/v1/public/register''
       (\<lambda>rq _ _. page (public_register_handler (ap_auth ap) (hr_random rq) (hr_json rq))),
     limited_route Open RegisterLimiter False ''POST'' ''/v1/auth/register''
       (\<lambda>rq _ _. page (enhanced_register_handler (ap_auth ap) (hr_random rq) (hr_json rq))),
     limited_route Open LoginLimiter False ''POST'' ''/v1/auth/login''
       (\<lambda>rq _ _. page (login_handler (ap_auth ap) (hr_json rq))),
     plain_route Open ''POST'' ''/v1/auth/refresh''
       (\<lambda>rq _ _. page (refresh_handler (ap_auth ap) (hr_json rq))),
     plain_route UserOnly ''GET'' ''/v1/me/''
       (\<lambda>_ _ ctx. page (me_handler (caller ctx))),
     plain_route UserOnly ''GET'' ''/v1/me/experience''
       (\<lambda>_ _ ctx. page (get_experience_handler (caller ctx))),
     plain_route UserOnly ''POST'' ''/v1/me/experience/welcome/complete''
       (\<lambda>_ _ ctx. page (complete_experience_handler (caller ctx))),
     plain_route UserOnly ''POST'' ''/v1/logout''
       (\<lambda>_ _ ctx. page (logout_handler (caller ctx))),
     plain_route Open ''GET'' ''/v1/mail/realtime''
       (\<lambda>rq _ _. inside (seq (ws_handler validate_ticket (ap_accept ap) (hr_query rq ''ticket''))
         (\<lambda>a. ret (ws_response (ap_upgrade_error ap) a)))),
     plain_route UserOnly ''GET'' ''/v1/registration/status''
       (\<lambda>_ _ ctx. page (registration_status_handler (caller ctx))),
     plain_route UserOnly ''POST'' ''/v1/registration/domains/{domainID}/verify''
       (\<lambda>rq ps ctx. page (initiate_verification_handler (hr_random rq) (caller ctx) (ap_uuid ap (ps ''domainID'')))),
     plain_route UserOnly ''GET'' ''/v1/registration/domains/{domainID}/verify''
       (\<lambda>_ ps ctx. page (check_verification_handler (ap_resolver ap) (caller ctx) (ap_uuid ap (ps ''domainID'')))),
     plain_route UserOnly ''GET'' ''/v1/domains/platform''
       (\<lambda>_ _ _. page platform_domains_handler),
     plain_route UserOnly ''GET'' ''/v1/domains/check/{name}''
       (\<lambda>_ ps _. page (check_domain_by_name_handler (ps ''name''))),
     plain_route UserOnly ''POST'' ''/v1/domains/''
       (\<lambda>rq _ ctx. page (create_handler (ap_safe ap) (hr_random rq) (caller ctx) (is_admin_from_context ctx =
         Some True) (decoded dec_create_domain rq))),
     plain_route UserOnly ''GET'' ''/v1/domains/''
       (\<lambda>_ _ ctx. page (list_handler (caller ctx))),
     plain_route UserOnly ''POST'' ''/v1/domains/{id}/verification/start''
       (\<lambda>rq ps ctx. page (start_verification_handler (hr_random rq) (caller ctx) (ap_uuid ap (ps ''id'')))),
     plain_route UserOnly ''GET'' ''/v1/domains/{id}/verification''
       (\<lambda>_ ps ctx. page (get_verification_handler (ap_resolver ap) (caller ctx) (ap_uuid ap (ps ''id'')))),
     plain_route UserOnly ''GET'' ''/v1/domains/{id}''
       (\<lambda>_ ps ctx. page (get_handler (caller ctx) (ap_uuid ap (ps ''id'')))),
     plain_route UserOnly ''DELETE'' ''/v1/domains/{id}''
       (\<lambda>_ ps ctx. page (delete_handler (caller ctx) (ap_uuid ap (ps ''id'')))),
     plain_route UserOnly ''POST'' ''/v1/domains/{domainID}/addresses/reserve''
       (\<lambda>rq ps ctx. page (reserve_address_handler (caller ctx) (ap_uuid ap (ps ''domainID'')) (decoded
         (dec_one ''local_part'') rq))),
     plain_route UserOnly ''GET'' ''/v1/domains/{domainID}/addresses/''
       (\<lambda>_ ps ctx. page (list_addresses_handler (caller ctx) (ap_uuid ap (ps ''domainID'')))),
     plain_route UserOnly ''GET'' ''/v1/domains/{domainID}/addresses/check/{localPart}''
       (\<lambda>_ ps _. page (check_availability_handler (ap_uuid ap (ps ''domainID'')) (ps ''localPart''))),
     plain_route UserOnly ''POST'' ''/v1/domains/addresses/{addressID}/claim''
       (\<lambda>_ ps ctx. page (claim_address_handler (caller ctx) (ap_uuid ap (ps ''addressID'')))),
     limited_route UserOnly SessionLimiter True ''POST'' ''/v1/mail/session''
       (\<lambda>_ _ ctx. page (create_session_handler (ap_client ap) ''http://localhost:8081'' (caller ctx))),
     plain_route UserOnly ''GET'' ''/v1/mail/account''
       (\<lambda>_ _ ctx. page (get_account_handler (caller ctx))),
     plain_route UserOnly ''GET'' ''/v1/mail/provisioning-status''
       (\<lambda>_ _ ctx. page (provisioning_status_handler (caller ctx))),
     plain_route UserOnly ''POST'' ''/v1/mail/realtime/ticket''
       (\<lambda>rq _ ctx. page (ticket_handler (hr_random rq) (caller ctx))),
     sized_route UserOnly 26214400 ''POST'' ''/v1/mail/attachments''
       (\<lambda>rq _ ctx. page (upload_handler (ap_client ap) (caller ctx) (hr_header rq ''Content-Type'') (request_text rq))),
     plain_route UserOnly ''GET'' ''/v1/mail/attachments/{blob_id}''
       (\<lambda>_ ps ctx. page (download_handler (ap_client ap) (caller ctx) (ps ''blob_id''))),
     plain_route UserOnly ''GET'' ''/v1/mail/threads''
       (\<lambda>rq _ ctx. page (list_threads_handler (ap_codec ap) (caller ctx) (hr_query rq))),
     plain_route UserOnly ''GET'' ''/v1/mail/threads/{id}''
       (\<lambda>_ ps ctx. page (get_thread_handler (caller ctx) (ps ''id''))),
     plain_route UserOnly ''GET'' ''/v1/mail/threads/{id}/messages''
       (\<lambda>_ ps ctx. page (thread_messages_handler (ap_client ap) (caller ctx) (ps ''id''))),
     plain_route UserOnly ''GET'' ''/v1/mail/mailboxes''
       (\<lambda>_ _ ctx. page (list_folders_handler (ap_client ap) (caller ctx))),
     plain_route UserOnly ''GET'' ''/v1/mail/mailboxes/{id}''
       (\<lambda>_ ps ctx. page (get_folder_handler (ap_client ap) (caller ctx) (ps ''id''))),
     plain_route UserOnly ''GET'' ''/v1/mail/search''
       (\<lambda>rq _ ctx. page (search_handler (ap_client ap) (caller ctx) (hr_query rq))),
     plain_route UserOnly ''GET'' ''/v1/mail/messages''
       (\<lambda>rq _ ctx. page (list_messages_handler (ap_client ap) (caller ctx) (hr_query rq))),
     plain_route UserOnly ''GET'' ''/v1/mail/messages/{id}''
       (\<lambda>_ ps ctx. page (get_message_handler (ap_client ap) (caller ctx) (ps ''id''))),
     plain_route UserOnly ''POST'' ''/v1/mail/messages/{id}/read''
       (\<lambda>_ ps ctx. page (mark_read_handler (ap_client ap) (caller ctx) (ps ''id''))),
     plain_route UserOnly ''POST'' ''/v1/mail/messages/{id}/unread''
       (\<lambda>_ ps ctx. page (mark_unread_handler (ap_client ap) (caller ctx) (ps ''id''))),
     plain_route UserOnly ''POST'' ''/v1/mail/messages/{id}/star''
       (\<lambda>_ ps ctx. page (star_handler (ap_client ap) (caller ctx) (ps ''id''))),
     plain_route UserOnly ''POST'' ''/v1/mail/messages/{id}/unstar''
       (\<lambda>_ ps ctx. page (unstar_handler (ap_client ap) (caller ctx) (ps ''id''))),
     plain_route UserOnly ''POST'' ''/v1/mail/messages/{id}/archive''
       (\<lambda>_ ps ctx. page (archive_handler (ap_client ap) (caller ctx) (ps ''id''))),
     plain_route UserOnly ''POST'' ''/v1/mail/messages/{id}/move''
       (\<lambda>rq ps ctx. page (move_handler (ap_client ap) (caller ctx) (ps ''id'') (hr_json rq))),
     plain_route UserOnly ''POST'' ''/v1/mail/messages/{id}/reactions''
       (\<lambda>rq ps ctx. page (reaction_handler (ap_client ap) (caller ctx) (ps ''id'') (hr_json rq))),
     plain_route UserOnly ''POST'' ''/v1/mail/messages/{id}/trash''
       (\<lambda>_ ps ctx. page (trash_handler (ap_client ap) (caller ctx) (ps ''id''))),
     plain_route UserOnly ''POST'' ''/v1/mail/messages/{id}/restore''
       (\<lambda>_ ps ctx. page (restore_handler (ap_client ap) (caller ctx) (ps ''id''))),
     plain_route UserOnly ''POST'' ''/v1/mail/messages/{id}/spam''
       (\<lambda>_ ps ctx. page (spam_handler (ap_client ap) (caller ctx) (ps ''id''))),
     plain_route UserOnly ''POST'' ''/v1/mail/messages/{id}/reply''
       (\<lambda>rq ps ctx. page (reply_handler (ap_client ap) (ap_visit ap) (caller ctx) (ps ''id'') (hr_json rq))),
     plain_route UserOnly ''POST'' ''/v1/mail/messages/{id}/reply-all''
       (\<lambda>rq ps ctx. page (reply_all_handler (ap_client ap) (ap_visit ap) (caller ctx) (ps ''id'') (hr_json rq))),
     plain_route UserOnly ''POST'' ''/v1/mail/messages/{id}/forward''
       (\<lambda>rq ps ctx. page (forward_handler (ap_client ap) (ap_visit ap) (caller ctx) (ps ''id'') (hr_json rq))),
     plain_route UserOnly ''POST'' ''/v1/mail/drafts''
       (\<lambda>rq _ ctx. page (create_draft_handler (ap_client ap) (caller ctx) (hr_json rq))),
     plain_route UserOnly ''GET'' ''/v1/mail/drafts/{id}''
       (\<lambda>_ ps ctx. page (get_draft_handler (ap_client ap) (caller ctx) (ps ''id''))),
     plain_route UserOnly ''PUT'' ''/v1/mail/drafts/{id}''
       (\<lambda>rq ps ctx. page (update_draft_handler (ap_client ap) (caller ctx) (ps ''id'') (hr_json rq))),
     plain_route UserOnly ''DELETE'' ''/v1/mail/drafts/{id}''
       (\<lambda>_ ps ctx. page (delete_draft_handler (ap_client ap) (caller ctx) (ps ''id''))),
     plain_route UserOnly ''POST'' ''/v1/mail/sync''
       (\<lambda>_ _ ctx. page (sync_handler (ap_client ap) (caller ctx))),
     plain_route UserOnly ''POST'' ''/v1/mail/send''
       (\<lambda>rq _ ctx. page (send_handler (ap_sha ap) (ap_client ap) (ap_visit ap) (caller ctx) (send_parts rq))),
     plain_route UserOnly ''GET'' ''/v1/account/usage''
       (\<lambda>_ _ ctx. page (get_usage_handler (caller ctx))),
     limited_route AdminOnly AdminLimiter True ''POST'' ''/v1/admin/accounts/{id}/suspend''
       (\<lambda>_ ps _. page (suspend_handler (ap_uuid ap (ps ''id'')))),
     limited_route AdminOnly AdminLimiter True ''POST'' ''/v1/admin/accounts/{id}/reactivate''
       (\<lambda>_ ps _. page (reactivate_handler (ap_uuid ap (ps ''id'')))),
     sized_route Open 102400 ''POST'' ''/v1/billing/webhook''
       (\<lambda>rq _ _. page (webhook_handler (ap_uuid ap) (hr_json rq)))]"

definition find_route :: "'s api \<Rightarrow> request \<Rightarrow> int + ('s route \<times> params)" where
  "find_route ap rq =
     (case ap_mux ap (map (\<lambda>r. (ro_method r, ro_pattern r)) (routes ap)) (hr_method rq) (hr_path rq) of
        Inl code \<Rightarrow> Inl code
      | Inr (i, ps) \<Rightarrow> if i < length (routes ap) then Inr (routes ap ! i, ps) else Inl 404)"


section \<open>Limits and guards of a route\<close>

text \<open>The middleware of a rate limiter.\<close>

definition limited :: "limiter_name \<Rightarrow> string \<Rightarrow> ('s server, 'a response) act \<Rightarrow> ('s server, 'a response) act" where
  "limited n key handle =
     seq time_now (\<lambda>now.
     seq (remote_call (\<lambda>s. case allow (limit_of n) key now (sv_limiters s n) of
            (ok, l) \<Rightarrow> (Inr ok, s\<lparr>sv_limiters := (sv_limiters s)(n := l)\<rparr>))) (\<lambda>ok.
     if ok then handle else ret (ErrorText 429 ''Rate limit exceeded'')))"

definition throttled ::
  "(limiter_name \<times> bool) option \<Rightarrow> request \<Rightarrow> req_context \<Rightarrow> ('s server, 'a response) act \<Rightarrow> ('s server, 'a response) act" where
  "throttled limit rq ctx handle =
     (case limit of
        None \<Rightarrow> handle
      | Some (n, by_user) \<Rightarrow> limited n (if by_user then user_key ctx (hr_remote rq) else ip_key (hr_remote rq)) handle)"

text \<open>A body larger than the limit cannot be read to its end. Attachments are exempt, by their path.\<close>

definition size_limit :: "int \<Rightarrow> request \<Rightarrow> request" where
  "size_limit n rq =
     (if has_prefix (hr_path rq) ''/v1/mail/attachments'' then rq
      else if hr_read rq > n then rq\<lparr>hr_text := None, hr_json := None\<rparr> else rq)"

definition behind_guard ::
  "auth_env \<Rightarrow> guard \<Rightarrow> string \<Rightarrow> (req_context \<Rightarrow> ('s, 'a response) act) \<Rightarrow> ('s, 'a response) act" where
  "behind_guard e g header handle =
     (case g of
        Open \<Rightarrow> handle Map.empty
      | UserOnly \<Rightarrow> require_auth e header Map.empty handle
      | AdminOnly \<Rightarrow> require_auth e header Map.empty (\<lambda>ctx. require_admin e header ctx handle))"

definition serve_route :: "'s api \<Rightarrow> request \<Rightarrow> 's route \<Rightarrow> params \<Rightarrow> ('s server, unit response) act" where
  "serve_route ap rq rt ps =
     behind_guard (ap_auth ap) (ro_guard rt) (hr_header rq ''Authorization'') (\<lambda>ctx.
     throttled (ro_limit rt) rq ctx (
       ro_handler rt (case ro_size rt of None \<Rightarrow> rq | Some n \<Rightarrow> size_limit n rq) ps ctx))"


section \<open>The middleware of every request\<close>

definition websocket :: "request \<Rightarrow> bool" where
  "websocket rq \<longleftrightarrow> hr_header rq ''Upgrade'' = ''websocket''"

definition recoverer :: "('s, 'a response) act \<Rightarrow> ('s, 'a response) act" where
  "recoverer m = seq (attempt m) (\<lambda>r. ret (case r of Inl _ \<Rightarrow> ErrorJson 500 ''internal server error'' | Inr x \<Rightarrow> x))"

definition request_id :: "request \<Rightarrow> string" where
  "request_id rq = (if hr_header rq ''X-Request-ID'' = '''' then uuid_text (hr_fresh rq) else hr_header rq ''X-Request-ID'')"

text \<open>A panic passes the logger without being counted.\<close>

definition request_logger :: "request \<Rightarrow> ('s server, 'a response) act \<Rightarrow> ('s server, 'a response) act" where
  "request_logger rq m =
     (if websocket rq then m
      else
        seq time_now (\<lambda>start.
        seq m (\<lambda>r.
        seq time_now (\<lambda>now.
        seq (remote_call (\<lambda>s. (Inr (), s\<lparr>sv_metrics := metric_http_request (now - start) (status_of r \<ge> 400) (sv_metrics s)\<rparr>))) (\<lambda>_.
        ret r)))))"

definition security_headers :: "(string \<times> string) list" where
  "security_headers = [(''X-Content-Type-Options'', ''nosniff''), (''X-Frame-Options'', ''DENY''),
     (''Referrer-Policy'', ''strict-origin-when-cross-origin'')]"

definition is_origin_allowed :: "string \<Rightarrow> string list \<Rightarrow> bool" where
  "is_origin_allowed origin allowed \<longleftrightarrow> origin \<noteq> '''' \<and> list_ex (equal_fold origin) allowed"

definition cors_grant :: "string \<Rightarrow> (string \<times> string) list" where
  "cors_grant origin = [(''Access-Control-Allow-Origin'', origin),
     (''Access-Control-Allow-Methods'', ''GET, POST, PUT, DELETE, OPTIONS''),
     (''Access-Control-Allow-Headers'', ''Content-Type, Authorization, Idempotency-Key'')]"

text \<open>The headers, and whether the origin is allowed.\<close>

definition cors_headers :: "config \<Rightarrow> string \<Rightarrow> (string \<times> string) list \<times> bool" where
  "cors_headers c origin =
     (let credentials = [(''Access-Control-Allow-Credentials'', ''true'')] in
      if cg_env c = ''development'' then
        if cg_origins c = [] then (cors_grant ''*'', True)
        else if is_origin_allowed origin (cg_origins c) then (cors_grant origin @ credentials, True) else ([], False)
      else if is_origin_allowed origin (cg_origins c)
      then (cors_grant origin @ credentials @ [(''Access-Control-Max-Age'', ''86400'')], True) else ([], False))"

definition cors_middleware :: "config \<Rightarrow> request \<Rightarrow> ('s, 'a response) act \<Rightarrow> ('s, 'a response) act" where
  "cors_middleware c rq m =
     (if websocket rq then m
      else if cg_env c = ''production'' \<and> hr_header rq ''Origin'' \<noteq> '''' \<and> \<not> snd (cors_headers c (hr_header rq ''Origin''))
      then ret (ErrorJson 403 ''origin not allowed'')
      else if hr_method rq = ''OPTIONS'' then ret (NoBody 204)
      else m)"

definition backpressure :: "request \<Rightarrow> ('s, 'a response) act \<Rightarrow> ('s, 'a response) act" where
  "backpressure rq m =
     (if has_prefix (hr_path rq) ''/health'' \<or> hr_path rq = ''/metrics'' then m
      else
        seq (attempt db_health) (\<lambda>r.
        case r of Inl _ \<Rightarrow> ret (ErrorService 503 ''database_unavailable'' ''service temporarily unavailable'') | Inr _ \<Rightarrow> m))"

definition answer_headers :: "config \<Rightarrow> request \<Rightarrow> (string \<times> string) list" where
  "answer_headers c rq = (''X-Request-ID'', request_id rq) #
     (if websocket rq then [] else security_headers @ fst (cors_headers c (hr_header rq ''Origin'')))"

definition route_request :: "'s api \<Rightarrow> request \<Rightarrow> ('s server, unit response) act" where
  "route_request ap rq =
     (case find_route ap rq of Inl code \<Rightarrow> ret (NoBody code) | Inr (rt, ps) \<Rightarrow> serve_route ap rq rt ps)"

definition serve :: "'s api \<Rightarrow> request \<Rightarrow> ('s server, (string \<times> string) list \<times> unit response) act" where
  "serve ap rq =
     seq (recoverer (request_logger rq (cors_middleware (ap_config ap) rq (
            backpressure rq (route_request ap (size_limit 1048576 rq)))))) (\<lambda>r.
     ret (answer_headers (ap_config ap) rq, r))"

section \<open>What an action leaves alone\<close>

text \<open>
  Time may pass, but the tables and the part \<open>p\<close> of the remote state stay as they are: of the process, the limiters and
  the counters do not count.
\<close>

definition steps :: "('s \<Rightarrow> 'r) \<Rightarrow> 's world \<Rightarrow> 's world \<Rightarrow> bool" where
  "steps p w v \<longleftrightarrow> clock w \<le> clock v \<and> db v = db w \<and> p (remote v) = p (remote w)"

definition still :: "('s \<Rightarrow> 'r) \<Rightarrow> ('s, 'a) act \<Rightarrow> bool" where
  "still p m \<longleftrightarrow> (\<forall>w. steps p w (snd (m w)))"

named_theorems still_intro \<open>rules for actions that change nothing\<close>

lemma steps_refl [simp]: "steps p w w"
  by (simp add: steps_def)

lemma steps_trans: "steps p w v \<Longrightarrow> steps p v u \<Longrightarrow> steps p w u"
  by (auto simp: steps_def)

lemma stillD: "still p m \<Longrightarrow> m w = (r, v) \<Longrightarrow> steps p w v"
  by (auto simp: still_def dest: spec [of _ w])

lemma still_simple [still_intro]: "still p (ret a)" "still p (fail e)" "still p (lift r)" "still p time_now"
  by (simp_all add: still_def)

lemma still_seq [still_intro]:
  assumes "still p m" and "\<And>a. still p (k a)"
  shows "still p (seq m k)"
  unfolding still_def
proof
  fix w
  obtain r v where m: "m w = (r, v)" by force
  have "steps p v (snd (k a v))" for a using assms(2) by (simp add: still_def)
  with stillD [OF assms(1) m] m show "steps p w (snd (seq m k w))"
    by (cases r) (auto intro: steps_trans)
qed

lemma still_wrapped [still_intro]:
  "still p m \<Longrightarrow> still p (attempt m)" "still p m \<Longrightarrow> still p (map_err f m)" "still p m \<Longrightarrow> still p (wrap_err s m)"
  "still p m \<Longrightarrow> still p (ignore m)" "still p m \<Longrightarrow> still p (answer m h g)"
  by (simp_all add: still_def attempt_apply map_err_apply wrap_err_def answer_apply)

lemma still_cases [still_intro]:
  "(b \<Longrightarrow> still p m) \<Longrightarrow> (\<not> b \<Longrightarrow> still p n) \<Longrightarrow> still p (if b then m else n)"
  "still p m \<Longrightarrow> (\<And>a. still p (f a)) \<Longrightarrow> still p (case x of None \<Rightarrow> m | Some a \<Rightarrow> f a)"
  "(\<And>e. still p (g e)) \<Longrightarrow> (\<And>a. still p (f a)) \<Longrightarrow> still p (case y of Inl e \<Rightarrow> g e | Inr a \<Rightarrow> f a)"
  "(\<And>a b. still p (h a b)) \<Longrightarrow> still p (case z of (a, b) \<Rightarrow> h a b)"
  by (simp_all split: option.split sum.split prod.split)

lemma still_stmt [still_intro]:
  assumes "\<And>t d. snd (q t d) = d"
  shows "still p (stmt q)"
  unfolding still_def steps_def
proof
  fix w
  show "clock w \<le> clock (snd (stmt q w)) \<and> db (snd (stmt q w)) = db w \<and> p (remote (snd (stmt q w))) = p (remote w)"
    using stmt_db [of q w] assms by (auto simp: clock_stmt_mono)
qed

lemma still_remote: "(\<And>s. p (snd (f s)) = p s) \<Longrightarrow> still p (remote_call f)"
  by (auto simp: still_def steps_def remote_call_def split: prod.splits) (metis snd_conv)

lemma still_request [still_intro]:
  "still p m \<Longrightarrow> still p (with_id s t m)" "(\<And>x. still p (f x)) \<Longrightarrow> still p (with_body t b f)"
  "(\<And>u. still p (g u)) \<Longrightarrow> still p (as_user user g)"
  unfolding with_id_def with_body_def as_user_def by (intro still_intro; assumption)+

lemma still_plain [still_intro]: "still p m \<Longrightarrow> still p (plain m)"
  unfolding plain_def by (intro still_intro)

lemma still_inside [still_intro]:
  fixes m :: "('s, 'a) act"
  assumes "still id m"
  shows "still sv_remote (inside m)"
  unfolding still_def
proof
  fix w :: "'s server world"
  let ?v = "\<lparr>clock = clock w, tx_time = tx_time w, faults = faults w, db = db w, remote = sv_remote (remote w)\<rparr>"
  from assms have "steps id ?v (snd (m ?v))" by (simp add: still_def)
  then show "steps sv_remote w (snd (inside m w))" by (auto simp: steps_def inside_def split: prod.splits)
qed

lemma still_page [still_intro]: "still id m \<Longrightarrow> still sv_remote (page m)"
  unfolding page_def by (intro still_intro)


section \<open>Requests without credentials\<close>

lemma still_reads [still_intro]:
  "still p (get_by_name n)" "still p (get_by_id i)" "still p list_platform_domains"
  "still p (get_user_by_email s)" "still p (get_user_by_id i)" "still p db_health"
  unfolding get_by_name_def get_by_id_def list_platform_domains_def get_user_by_email_def get_user_by_id_def db_health_def
  by (intro still_intro; simp add: select_domain_def user_or_missing_def)+

lemma still_availability [still_intro]: "still p (check_availability dm lp)"
  unfolding check_availability_def repo_check_availability_def
  by (intro still_intro; simp add: check_address_available_def)

lemma still_tokens [still_intro]:
  "still p (validate_token e s)" "still p (create_token e u n)" "still p (issue_tokens e x)" "still p (login e email pw)"
  "still p (refresh_token e s)"
  unfolding validate_token_def create_token_def issue_tokens_def login_def refresh_token_def create_access_token_def create_refresh_token_def
  by (intro still_intro)+

lemma still_open_pages:
  "still p (health_handler s)" "still p health_db_handler" "still p public_domains_handler" "still p (check_username_handler n u)"
  "still p (reserve_username_handler i b)" "still p (login_handler e b)" "still p (refresh_handler e b)"
  unfolding health_handler_def health_db_handler_def public_domains_handler_def check_username_handler_def reserve_username_handler_def
    with_open_domain_def login_handler_def refresh_handler_def
  by (intro still_intro)+

text \<open>The routes open to everyone that may have an effect.\<close>

definition open_effects :: "(string \<times> string) list" where
  "open_effects = [(''GET'', ''/health/ready''), (''GET'', ''/health/stalwart''), (''POST'', ''/v1/public/register''),
     (''POST'', ''/v1/auth/register''), (''GET'', ''/v1/mail/realtime''), (''POST'', ''/v1/billing/webhook'')]"

definition harmless :: "'s route \<Rightarrow> bool" where
  "harmless rt \<longleftrightarrow> ro_guard rt = Open \<longrightarrow> (ro_method rt, ro_pattern rt) \<in> set open_effects \<or>
     (\<forall>rq ps ctx. still sv_remote (ro_handler rt rq ps ctx))"

lemma harmless_guarded:
  "harmless (plain_route UserOnly m q h)" "harmless (limited_route UserOnly n b m q h)" "harmless (sized_route UserOnly k m q h)"
  "harmless (limited_route AdminOnly n b m q h)"
  by (simp_all add: harmless_def plain_route_def limited_route_def sized_route_def)

lemma harmless_effects:
  "harmless (plain_route g ''GET'' ''/health/ready'' h)" "harmless (plain_route g ''GET'' ''/health/stalwart'' h)"
  "harmless (limited_route g n b ''POST'' ''/v1/public/register'' h)" "harmless (limited_route g n b ''POST'' ''/v1/auth/register'' h)"
  "harmless (plain_route g ''GET'' ''/v1/mail/realtime'' h)" "harmless (sized_route g k ''POST'' ''/v1/billing/webhook'' h)"
  by (simp_all add: harmless_def plain_route_def limited_route_def sized_route_def open_effects_def)

lemma harmless_open:
  "(\<And>rq ps ctx. still sv_remote (h rq ps ctx)) \<Longrightarrow> harmless (plain_route g m q h)"
  "(\<And>rq ps ctx. still sv_remote (h rq ps ctx)) \<Longrightarrow> harmless (limited_route g n b m q h)"
  by (simp_all add: harmless_def plain_route_def limited_route_def)

lemma routes_harmless: "list_all harmless (routes ap)"
proof -
  have m: "still sv_remote (plain metrics_handler)"
    unfolding metrics_handler_def by (intro still_intro still_remote) simp
  show ?thesis
    unfolding routes_def list.pred_inject
    by (intro conjI list.pred_inject(1) harmless_guarded harmless_effects harmless_open still_page still_open_pages m)
qed

text \<open>A guard lets nobody through without a valid token, and the administrators' guard nobody without the role.\<close>

definition credentials :: "auth_env \<Rightarrow> string \<Rightarrow> time \<Rightarrow> uuid \<Rightarrow> bool" where
  "credentials e header t0 u \<longleftrightarrow> (\<exists>token t c. bearer_token header = Inr token \<and> t0 \<le> t \<and>
     jw_parse (ae_jwt e) (hmac_key e) t token = Some c \<and> jc_user c = u \<and> u \<noteq> 0)"

lemma credentials_later: "credentials e header t u \<Longrightarrow> t0 \<le> t \<Longrightarrow> credentials e header t0 u"
  unfolding credentials_def using order_trans by blast

lemma authenticated_steps:
  assumes "authenticated e header k w = (r, w')"
  shows "steps p w w' \<or> (\<exists>u. credentials e header (clock w) u \<and> k u w = (r, w'))"
proof (cases "bearer_token header")
  case (Inl t)
  with assms show ?thesis by (simp add: authenticated_def)
next
  case (Inr token)
  have v: "validate_token e token w = (Inr u, v) \<Longrightarrow> v = w \<and> u \<noteq> 0 \<and>
      (\<exists>c. jw_parse (ae_jwt e) (hmac_key e) (clock w) token = Some c \<and> jc_user c = u)" for u v
    by (auto simp: validate_token_def split: if_splits option.splits)
  obtain x v1 where x: "validate_token e token w = (x, v1)" by force
  show ?thesis
  proof (cases x)
    case (Inl e0)
    with Inr x assms stillD [OF still_tokens(1) x, of p] show ?thesis by (auto simp: authenticated_def attempt_apply)
  next
    case xr: (Inr u)
    with Inr x assms v [of u v1] have "k u w = (r, w')" by (simp add: authenticated_def attempt_apply)
    with Inr v [of u v1] x xr show ?thesis by (auto simp: credentials_def)
  qed
qed

lemma guarded_steps:
  assumes "behind_guard e g header handle w = (r, w')" and "g \<noteq> Open"
  shows "steps p w w' \<or> (\<exists>u. credentials e header (clock w) u \<and> (g = AdminOnly \<longrightarrow> (\<exists>x \<in> set (users (db w)). u_id x = u \<and> u_role x = ''admin'')))"
proof (cases g)
  case UserOnly
  with assms(1) show ?thesis
    using authenticated_steps [of e header "\<lambda>u. handle (user_context u False Map.empty)" w r w' p] by (auto simp: behind_guard_def require_auth_def)
next
  case AdminOnly
  with assms(1) have "authenticated e header (\<lambda>u. require_admin e header (user_context u False Map.empty) handle) w = (r, w')"
    by (simp add: behind_guard_def require_auth_def)
  from authenticated_steps [OF this, of p] show ?thesis
  proof (elim disjE exE conjE)
    fix u
    assume "require_admin e header (user_context u False Map.empty) handle w = (r, w')"
    then have "authenticated e header (\<lambda>u'. seq (attempt (get_user_by_id u')) (\<lambda>r.
        case r of
          Inl _ \<Rightarrow> ret (ErrorJson 401 ''user not found'')
        | Inr x \<Rightarrow> if u_role x \<noteq> ''admin'' then ret (ErrorJson 403 ''admin privileges required'')
                  else handle (user_context u' True (user_context u False Map.empty)))) w = (r, w')"
      by (simp add: require_admin_def)
    from authenticated_steps [OF this, of p] show ?thesis
    proof (elim disjE exE conjE)
      fix u'
      assume c: "credentials e header (clock w) u'"
        and q: "seq (attempt (get_user_by_id u')) (\<lambda>r.
        case r of
          Inl _ \<Rightarrow> ret (ErrorJson 401 ''user not found'')
        | Inr x \<Rightarrow> if u_role x \<noteq> ''admin'' then ret (ErrorJson 403 ''admin privileges required'')
                  else handle (user_context u' True (user_context u False Map.empty))) w = (r, w')"
      obtain y v where y: "get_user_by_id u' w = (y, v)" by force
      then have s: "steps p w v" using stillD [OF still_reads(5)] by blast
      show ?thesis
      proof (cases "\<exists>x. y = Inr x \<and> u_role x = ''admin''")
        case True
        with y get_user_by_id_Inr [of u' w] c show ?thesis by blast
      next
        case False
        with q y have "w' = v" by (auto simp: attempt_apply split: sum.splits if_splits)
        with s show ?thesis by simp
      qed
    qed simp
  qed simp
qed (use assms(2) in simp)

lemma still_throttled [still_intro]:
  assumes "still sv_remote m"
  shows "still sv_remote (throttled limit rq ctx m)"
proof -
  have "still sv_remote (remote_call (\<lambda>s. case allow (limit_of n) key now (sv_limiters s n) of
      (ok, l) \<Rightarrow> (Inr ok, s\<lparr>sv_limiters := (sv_limiters s)(n := l)\<rparr>)))" for n key now
    by (intro still_remote) (simp split: prod.splits)
  with assms show ?thesis unfolding throttled_def limited_def by (intro still_intro)
qed

text \<open>The layers in front of the routes: a request that has an effect reaches its route, in a world that differs in time only.\<close>

lemma attempt_steps: "steps p v (snd (m w)) \<Longrightarrow> steps p v (snd (recoverer m w))"
  by (simp add: recoverer_def attempt_apply)

lemma logger_steps:
  assumes "m w = (r, v)"
  shows "steps sv_remote v (snd (request_logger rq m w))"
proof (cases r)
  case (Inl e)
  with assms show ?thesis by (simp add: request_logger_def)
next
  case (Inr x)
  have "still sv_remote (seq time_now (\<lambda>now.
      seq (remote_call (\<lambda>s. (Inr (), s\<lparr>sv_metrics := metric_http_request (now - clock w) (status_of x \<ge> 400) (sv_metrics s)\<rparr>))) (\<lambda>_.
      ret x)))"
    by (intro still_intro still_remote) simp
  then have "steps sv_remote v (snd (seq time_now (\<lambda>now.
      seq (remote_call (\<lambda>s. (Inr (), s\<lparr>sv_metrics := metric_http_request (now - clock w) (status_of x \<ge> 400) (sv_metrics s)\<rparr>))) (\<lambda>_.
      ret x)) v))"
    unfolding still_def by (rule spec)
  with assms Inr show ?thesis by (simp add: request_logger_def)
qed

lemma cors_steps: "cors_middleware c rq m w = m w \<or> snd (cors_middleware c rq m w) = w"
  by (simp add: cors_middleware_def)

lemma backpressure_steps:
  "\<exists>v. steps p w v \<and> (backpressure rq m w = m v \<or> snd (backpressure rq m w) = v)"
proof -
  obtain r v where h: "db_health w = (r, v)" by force
  then have "steps p w v" by (rule stillD [OF still_reads(6)])
  then show ?thesis using h by (auto simp: backpressure_def attempt_apply split: sum.splits) (metis steps_refl)+
qed

lemma serve_steps:
  assumes "serve ap rq w = (r, w')"
  obtains v where "steps sv_remote w v" and "steps sv_remote v w' \<or> steps sv_remote (snd (route_request ap (size_limit 1048576 rq) v)) w'"
proof -
  let ?m = "route_request ap (size_limit 1048576 rq)"
  let ?c = "cors_middleware (ap_config ap) rq (backpressure rq ?m)"
  obtain v where v: "steps sv_remote w v" and b: "backpressure rq ?m w = ?m v \<or> snd (backpressure rq ?m w) = v"
    using backpressure_steps by blast
  obtain x u where c: "?c w = (x, u)" by force
  have u: "u = w \<or> u = v \<or> u = snd (?m v)"
    using c b cors_steps [of "ap_config ap" rq "backpressure rq ?m" w] by (auto dest: arg_cong [where f = snd])
  have "w' = snd (recoverer (request_logger rq ?c) w)"
    using assms by (auto simp: serve_def dest!: arg_cong [where f = snd])
  then have s: "steps sv_remote u w'" using attempt_steps logger_steps [where m = ?c, OF c] by blast
  from u show thesis
  proof (elim disjE)
    assume "u = w"
    with s show thesis using that [of w] by simp
  next
    assume "u = v"
    with s v that show thesis by blast
  next
    assume "u = snd (?m v)"
    with s v that show thesis by blast
  qed
qed

lemma find_route_size: "find_route ap (size_limit n rq) = find_route ap rq"
  by (simp add: find_route_def size_limit_def)

text \<open>
  C3. A request without credentials changes nothing: when serving a request changed the tables or the mail server, its route is
  registered, and either it is one of the six open routes that register users, open a connection for a ticket, take the
  webhook of billing or ask after the mail server; or the request carried a token that was valid when it
  was served, and on a route of the administrators the user it names has the role. This holds for every request,
  whatever statements fail and whether or not a handler panics.
\<close>

theorem effects_need_credentials:
  assumes "serve ap rq w = (r, w')" and "db w' \<noteq> db w \<or> sv_remote (remote w') \<noteq> sv_remote (remote w)"
  shows "\<exists>rt ps. find_route ap rq = Inr (rt, ps) \<and> rt \<in> set (routes ap) \<and>
    (if ro_guard rt = Open
     then (ro_method rt, ro_pattern rt) \<in> {(''GET'', ''/health/ready''), (''GET'', ''/health/stalwart''), (''POST'', ''/v1/public/register''),
       (''POST'', ''/v1/auth/register''), (''GET'', ''/v1/mail/realtime''), (''POST'', ''/v1/billing/webhook'')}
     else \<exists>u. credentials (ap_auth ap) (hr_header rq ''Authorization'') (clock w) u \<and>
       (ro_guard rt = AdminOnly \<longrightarrow> (\<exists>x \<in> set (users (db w)). u_id x = u \<and> u_role x = ''admin'')))"
proof -
  let ?rq = "size_limit 1048576 rq"
  from assms(1) obtain v where v: "steps sv_remote w v" and
    x: "steps sv_remote v w' \<or> steps sv_remote (snd (route_request ap ?rq v)) w'" by (rule serve_steps)
  have "\<not> steps sv_remote w w'" using assms(2) by (auto simp: steps_def)
  with v x have no: "\<not> steps sv_remote v (snd (route_request ap ?rq v))"
    by (blast intro: steps_trans)
  then obtain rt ps where f: "find_route ap rq = Inr (rt, ps)" and s: "\<not> steps sv_remote v (snd (serve_route ap ?rq rt ps v))"
    by (auto simp: route_request_def find_route_size split: sum.splits)
  from f have rt: "rt \<in> set (routes ap)" by (auto simp: find_route_def split: sum.splits if_splits)
  have h: "hr_header ?rq = hr_header rq" by (simp add: size_limit_def)
  show ?thesis
  proof (cases "ro_guard rt = Open")
    case True
    from rt routes_harmless [of ap] have "harmless rt" by (simp add: list_all_iff)
    moreover have False if "\<forall>rq ps ctx. still sv_remote (ro_handler rt rq ps ctx)"
    proof -
      have "still sv_remote (serve_route ap ?rq rt ps)"
        using that unfolding serve_route_def behind_guard_def True guard.case by (intro still_throttled) blast
      with s show False by (simp add: still_def)
    qed
    ultimately show ?thesis using f rt True by (auto simp: harmless_def open_effects_def)
  next
    case False
    obtain y v' where y: "serve_route ap ?rq rt ps v = (y, v')" by force
    from guarded_steps [OF y [unfolded serve_route_def] False, of sv_remote] s y obtain u
      where u: "credentials (ap_auth ap) (hr_header rq ''Authorization'') (clock v) u"
        "ro_guard rt = AdminOnly \<longrightarrow> (\<exists>x \<in> set (users (db v)). u_id x = u \<and> u_role x = ''admin'')"
      by (auto simp: h)
    have "credentials (ap_auth ap) (hr_header rq ''Authorization'') (clock w) u"
      using u(1) v by (auto simp: steps_def intro: credentials_later)
    with u(2) v f rt False show ?thesis by (auto simp: steps_def)
  qed
qed

definition demo_config :: config where
  "demo_config = config_of (\<lambda>_. '''')"

definition demo_server :: "unit api" where
  "demo_server = \<lparr>ap_config = demo_config, ap_auth = demo_env,
     ap_mux = (\<lambda>rs m p. if p = ''/v1/mail/realtime/ticket'' then Inr (36, \<lambda>_. '''') else Inl 404),
     ap_uuid = parse_uuid, ap_sha = id, ap_accept = ret (), ap_upgrade_error = 400,
     ap_client = static_client JNull, ap_resolver = generous_resolver,
     ap_codec = \<lparr>tc_text = int_text, tc_parse = scan_int\<rparr>, ap_safe = (\<lambda>_. False), ap_visit = id\<rparr>"

definition server_world :: "db \<Rightarrow> unit server world" where
  "server_world d = world_with d \<lparr>sv_limiters = (\<lambda>_. new_limiter), sv_metrics = no_metrics, sv_remote = ()\<rparr>"

text \<open>User 10 asks for a ticket, with a token made just before.\<close>

definition ticket_request :: "string \<Rightarrow> request" where
  "ticket_request token = \<lparr>hr_method = ''POST'', hr_path = ''/v1/mail/realtime/ticket'',
     hr_header = (\<lambda>k. if k = ''Authorization'' then ''Bearer '' @ token else ''''), hr_query = (\<lambda>_. ''''), hr_remote = ''10.0.0.1:4711'',
     hr_text = Some '''', hr_json = None, hr_read = 0, hr_random = [1, 2], hr_fresh = 7\<rparr>"

definition demo_token :: string where
  "demo_token = (case jw_sign demo_jwt ''secret'' (claims_at demo_env 10 (15 * minute) 1000000000000) of Inr s \<Rightarrow> s | Inl _ \<Rightarrow> '''')"

lemma demo_route: "find_route demo_server (ticket_request tok) =
    Inr (plain_route UserOnly ''POST'' ''/v1/mail/realtime/ticket'' (\<lambda>rq _ ctx. page (ticket_handler (hr_random rq) (caller ctx))), \<lambda>_. '''')"
  by (simp add: find_route_def demo_server_def ticket_request_def routes_def)

lemma demo_ticket_issued:
  "\<exists>v. page (ticket_handler [1, 2] (Some 10)) (server_world demo_db) = (Inr (Json 200 ()), v) \<and> tickets (db v) \<noteq> []"
  by (simp add: page_def plain_def inside_def ticket_handler_def answer_apply generate_ticket_def insert_ticket_def act_simps server_world_def
      world_with_def demo_db_def migrated_db_def)

lemma demo_token_sign: "jw_sign (ae_jwt demo_env) (ae_secret demo_env) (claims_at demo_env 10 (15 * minute) 1000000000000) = Inr demo_token"
  by (simp add: demo_token_def demo_env_def demo_jwt_def)

lemma demo_served:
  obtains r w' where "serve demo_server (ticket_request demo_token) (server_world demo_db) = (r, w')" and "tickets (db w') \<noteq> []"
proof -
  let ?rq = "ticket_request demo_token" and ?w = "server_world demo_db"
  have w: "clock ?w = 1000000000000" "faults ?w = []" by (simp_all add: server_world_def world_with_def)
  obtain v where v: "page (ticket_handler [1, 2] (Some 10)) ?w = (Inr (Json 200 ()), v)" "tickets (db v) \<noteq> []"
    using demo_ticket_issued by blast
  have a: "require_auth demo_env (''Bearer '' @ demo_token) Map.empty handle ?w = handle (user_context 10 False Map.empty) ?w"
    for handle :: "req_context \<Rightarrow> (unit server, unit response) act"
    using token_opens [OF demo_token_ok, where u = 10 and t = 1000000000000 and n = "15 * minute" and w = ?w and s = demo_token and ctx = Map.empty and handle = handle] demo_token_sign w
    by (simp add: dates_ok_def demo_env_def demo_jwt_def second_def minute_def)
  have s: "size_limit 1048576 ?rq = ?rq" by (simp add: size_limit_def ticket_request_def has_prefix_def)
  have c: "user_id_from_context (user_context 10 False Map.empty) = Some 10" by (simp add: user_id_from_context_def user_context_def)
  have e: "ap_auth demo_server = demo_env" "hr_header ?rq ''Authorization'' = ''Bearer '' @ demo_token" "hr_random ?rq = [1, 2]"
    by (simp_all add: demo_server_def ticket_request_def)
  have r: "route_request demo_server ?rq ?w = (Inr (Json 200 ()), v)"
    using a [of "\<lambda>ctx. page (ticket_handler [1, 2] (caller ctx))"] v(1) c
    by (simp add: route_request_def demo_route serve_route_def behind_guard_def throttled_def plain_route_def e)
  have "db_health ?w = (Inr (), ?w)" using w by (simp add: db_health_def run_query_def)
  then have b: "backpressure ?rq (route_request demo_server ?rq) ?w = (Inr (Json 200 ()), v)"
    using r by (simp add: backpressure_def attempt_apply)
  have ws: "\<not> websocket ?rq" "hr_header ?rq ''Origin'' = ''''" "hr_method ?rq \<noteq> ''OPTIONS''"
    by (simp_all add: websocket_def ticket_request_def)
  then have co: "cors_middleware (ap_config demo_server) ?rq (backpressure ?rq (route_request demo_server ?rq)) ?w = (Inr (Json 200 ()), v)"
    using b by (simp add: cors_middleware_def)
  obtain x w' where x: "serve demo_server ?rq ?w = (x, w')" by force
  have "w' = snd (request_logger ?rq (cors_middleware (ap_config demo_server) ?rq (backpressure ?rq (route_request demo_server ?rq))) ?w)"
    using x s by (auto simp: serve_def recoverer_def attempt_apply dest!: arg_cong [where f = snd])
  with logger_steps [where m = "cors_middleware (ap_config demo_server) ?rq (backpressure ?rq (route_request demo_server ?rq))", OF co, of ?rq] have "db w' = db v" by (auto simp: steps_def)
  with x v(2) that show thesis by simp
qed

theorem effects_need_credentials_witness:
  "(\<exists>u. credentials demo_env (''Bearer '' @ demo_token) 1000000000000 u) \<and>
   (\<exists>r w'. serve demo_server (ticket_request demo_token) (server_world demo_db) = (r, w') \<and> tickets (db w') \<noteq> tickets demo_db)"
proof -
  let ?rq = "ticket_request demo_token" and ?w = "server_world demo_db"
  obtain r w' where r: "serve demo_server ?rq ?w = (r, w')" and t: "tickets (db w') \<noteq> []"
    by (rule demo_served)
  have d: "db ?w = demo_db" "tickets demo_db = []" by (simp_all add: server_world_def world_with_def demo_db_def migrated_db_def)
  with t have "db w' \<noteq> db ?w \<or> sv_remote (remote w') \<noteq> sv_remote (remote ?w)" by auto
  from effects_need_credentials [OF r this] obtain rt ps where f: "find_route demo_server ?rq = Inr (rt, ps)"
    and c: "ro_guard rt \<noteq> Open \<Longrightarrow> \<exists>u. credentials (ap_auth demo_server) (hr_header ?rq ''Authorization'') (clock ?w) u"
    by (auto split: if_splits)
  from f have "ro_guard rt \<noteq> Open" by (auto simp: demo_route plain_route_def)
  moreover have "ap_auth demo_server = demo_env" "hr_header ?rq ''Authorization'' = ''Bearer '' @ demo_token" "clock ?w = 1000000000000"
    by (simp_all add: demo_server_def ticket_request_def server_world_def world_with_def)
  ultimately have "\<exists>u. credentials demo_env (''Bearer '' @ demo_token) 1000000000000 u" using c by metis
  with r t d show ?thesis by auto
qed

section \<open>Origins in production\<close>


definition production_env :: "string \<Rightarrow> string" where
  "production_env = (\<lambda>k. if k = ''APP_ENV'' then ''production'' else if k = ''ALLOWED_ORIGINS'' then ''https://app.norest.in, https://norest.in''
     else ''set'')"



section \<open>Consequences\<close>

text \<open>
  No request creates a platform domain: the route is behind the users' guard, which stores that the user is no
  administrator, and the handler believes it.
\<close>

lemma platform_domain_refused:
  assumes "rq_ownership q = ''PLATFORM''"
  shows "create_handler safe rnd (caller (user_context u False Map.empty))
      (is_admin_from_context (user_context u False Map.empty) = Some True) (Some q) w =
    (Inr (ErrorJson 403 ''admin access required for platform domains''), w)"
  using assms by (simp add: create_handler_def user_id_from_context_def is_admin_from_context_def user_context_def)

text \<open>Attachments have no limit: the limit of their own route is skipped by the test that exempts them from the general one.\<close>

lemma attachments_unlimited:
  assumes "has_prefix (hr_path rq) ''/v1/mail/attachments''"
  shows "size_limit n rq = rq"
  using assms by (simp add: size_limit_def)

end
