(* ===== verification/Spec2Isabelle.thy ===== *)
theory Spec2Isabelle
  imports WorkerClient Product Scenario Http Jobs JobQueue MailSync Delivery Realtime MailIsolation SendOnce Conversations Router
begin

text \<open>
  A verification library for the Norest mail server (Go, \<^verbatim>\<open>src/internal\<close>; SQL, \<^verbatim>\<open>src/migrations\<close>).

  \<^bold>\<open>The program.\<close> An API server and background workers around one PostgreSQL database and the Stalwart mail server.
  A request passes the middleware and the guard of its route (\<^verbatim>\<open>http\<close>, \<^verbatim>\<open>auth\<close>, \<^verbatim>\<open>ratelimit\<close>) and reaches a handler, which
  calls a service, which calls repositories, which run SQL. Users register (\<^verbatim>\<open>registration\<close>, \<^verbatim>\<open>public\<close>), get domains and
  addresses within the plan of their account (\<^verbatim>\<open>domains\<close>, \<^verbatim>\<open>addresses\<close>, \<^verbatim>\<open>policy\<close>, \<^verbatim>\<open>product\<close>, \<^verbatim>\<open>billing\<close>), and read and send
  mail (\<^verbatim>\<open>mail\<close>). A queue of jobs in the database (\<^verbatim>\<open>provisioning\<close>) carries work to the worker, which sets up
  domains and mailboxes at Stalwart (\<^verbatim>\<open>stalwart\<close>) and checks the DNS. Other workers copy the mail server's changes to the
  tables (\<^verbatim>\<open>worker\<close>), follow deliveries, and publish events, which reach browsers over WebSockets (\<^verbatim>\<open>realtime\<close>).

  \<^bold>\<open>The model.\<close> A Go function with an error result is an action on a \<open>world\<close>: the clock, the tables, the state \<open>'s\<close> of what is
  outside (the mail server, the DNS), and a script of faults. Every database round trip takes the next entry of the
  script, which lets time pass and may make the call fail before or after it took effect; so a theorem about
  an arbitrary world covers every placement of failures. \<^verbatim>\<open>if err != nil { return err }\<close> is \<open>seq\<close>, a transaction undoes its
  statements unless it commits. An SQL statement is a function on the tables. Interleavings of processes are
  sequences of their calls (\<open>run\<close>, \<open>queue_run\<close>, \<open>address_run\<close>, \<open>broker_run\<close>), each call one transaction or statement where that is
  what the code relies on.

  \<^bold>\<open>The base.\<close>
  \<^item> \<open>Prelude\<close>: fact collections, tables as lists of rows, Go's \<^verbatim>\<open>strings\<close>. \<open>Errors\<close>: error values, \<^verbatim>\<open>errors.Is\<close>, error texts.
  \<^item> \<open>Json\<close>, \<open>Numbers\<close>, \<open>Encoding\<close>, \<open>Texts\<close>: decoding of JSON, \<^verbatim>\<open>Sscanf\<close>, base64, hexadecimal, UUIDs, with their round trips.
  \<^item> \<open>Schema\<close>: the tables. \<open>World\<close>: actions, statements, transactions, retries. \<open>Tables\<close>: rows addressed by a key, the locale
    \<open>keyed_table\<close> and its interpretation for each table. \<open>Triples\<close>: triples over the database. \<open>Runs\<close>: interleavings, and
    the locale \<open>exclusive_grant\<close> of calls that hand something out once. \<open>Http\<close>: the answers of a handler (\<^verbatim>\<open>response\<close>).
    \<open>Scenario\<close>: the world of the witnesses.

  \<^bold>\<open>Accounts, domains, addresses.\<close>
  \<^item> \<open>Product\<close> (\<^verbatim>\<open>product\<close>, \<^verbatim>\<open>policy/service.go\<close>, \<^verbatim>\<open>billing/service.go\<close>): a billing event is applied once.
  \<^item> \<open>Domains\<close> (\<^verbatim>\<open>domains\<close>): a domain is created within the quota together with its job; deleting one cascades; users do
    not touch the platform's.
  \<^item> \<open>Addresses\<close> (\<^verbatim>\<open>addresses\<close>, migration 011): reservations exclude one another until they expire, claims are permanent.
  \<^item> \<open>Passwords\<close>, \<open>Auth\<close>, \<open>Sessions\<close> (\<^verbatim>\<open>auth\<close>): accounts are complete or absent; who registered can log in; tokens name
    their user until they expire; a ticket, by interpretation of \<open>exclusive_grant\<close>, opens one connection.
  \<^item> \<open>Registration\<close> (\<^verbatim>\<open>registration\<close>, \<^verbatim>\<open>users\<close>): what a reported registration has set up, and what ready means.
  \<^item> \<open>Public\<close> (\<^verbatim>\<open>public\<close>, the handlers of \<^verbatim>\<open>policy\<close> and \<^verbatim>\<open>billing\<close>).

  \<^bold>\<open>Provisioning.\<close>
  \<^item> \<open>Jobs\<close>, \<open>JobQueue\<close> (\<^verbatim>\<open>provisioning/repository.go\<close>, \<^verbatim>\<open>service.go\<close>): claims are exclusive in every interleaving. \<open>Retry\<close> (\<^verbatim>\<open>retry.go\<close>): bounds of the
    backoff.
  \<^item> \<open>Worker\<close>, \<open>AccountJobs\<close> (\<^verbatim>\<open>worker.go\<close>): every job handler against any Stalwart client; a failing job is retired; a mailbox is
    activated with everything in place; a domain is verified only by its DNS record.
  \<^item> \<open>JmapObjects\<close>, \<open>JmapEncode\<close>, \<open>Stalwart\<close>, \<open>Management\<close> (\<^verbatim>\<open>stalwart\<close>): the client's requests and the reading of
    replies, errors and panics included. \<open>WorkerClient\<close>: the worker on this client.

  \<^bold>\<open>Mail.\<close>
  \<^item> \<open>MailStore\<close>, \<open>Subjects\<close>, \<open>Threads\<close>, \<open>ThreadSync\<close>, \<open>MailSync\<close> (\<^verbatim>\<open>db\<close>, \<^verbatim>\<open>mail/thread_resolver.go\<close>, \<^verbatim>\<open>mail/reconciliation.go\<close>, \<^verbatim>\<open>worker\<close>): idempotency
    keys, reactions, the thread an e-mail joins, the synchronisation of one e-mail, the backfill; threads, messages and
    links stay consistent however a synchronisation fails.
  \<^item> \<open>Delivery\<close>, \<open>Realtime\<close> (\<^verbatim>\<open>db/delivery_status.go\<close>, \<^verbatim>\<open>mail/delivery_worker.go\<close>, \<^verbatim>\<open>bounce.go\<close>, \<^verbatim>\<open>outbox.go\<close>, \<^verbatim>\<open>realtime\<close>): a
    status is written with its event; events are published in order and reach a connection without gaps.
  \<^item> \<open>MailModels\<close>, \<open>MailAccess\<close>, \<open>MailSend\<close>, \<open>MailActions\<close>, \<open>MailApi\<close> (\<^verbatim>\<open>mail/service.go\<close>, \<^verbatim>\<open>models.go\<close>, \<^verbatim>\<open>search.go\<close>, \<^verbatim>\<open>handler.go\<close>): every
    operation of the service and every handler. \<open>MailFrame\<close>: the locales \<open>mail_invariant\<close> and \<open>mail_frame\<close>, properties of the
    tables that every call keeps. \<open>MailIsolation\<close>: no call depends on other users' mail. \<open>SendOnce\<close>: no answered send is
    repeated. \<open>Conversations\<close>: paging, replies to all, replies joining their conversation.

  \<^bold>\<open>The server.\<close> \<open>Config\<close>, \<open>Metrics\<close>, \<open>RateLimit\<close>, \<open>Router\<close> (\<^verbatim>\<open>config\<close>, \<^verbatim>\<open>metrics\<close>, \<^verbatim>\<open>ratelimit\<close>, \<^verbatim>\<open>http\<close>): every route with
    its guard and limits, the middleware, the serving of a request. No request without credentials has an effect, but on
    the six routes that are open for one; the limiter holds its limit; production serves listed origins only.

  \<^bold>\<open>Recursion.\<close> Loops end by structure or by a measure: \<open>retry_tx\<close> by the tries left, \<open>strip_prefixes\<close> and \<open>strip_one_by_one\<close> by
  the length of the subject, \<open>replace_all\<close> by the length of the text. The client that follows page cursors (\<open>follow_pages\<close>,
  \<open>follow_api\<close>) takes fuel; more than there are threads is enough, as \<open>api_pages_complete\<close> states.

  \<^bold>\<open>Parameters.\<close> Arguments stand for what is not under \<^verbatim>\<open>src\<close>: the HTTP transport with Stalwart behind it, the DNS
  resolver, Argon2, the token library, the parser of e-mail addresses, the rendering of times, SHA-256, random bytes and numbers, fresh UUIDs,
  the order in which Go ranges over a map, rows that another transaction has locked, the driver's \<^verbatim>\<open>SafeToRetry\<close>, and the
  router library's choice of a route. What a theorem relies on of them is a named hypothesis (\<open>kdf_ok\<close>, \<open>signing_ok\<close>, \<open>token_ok\<close>, \<open>dates_ok\<close>,
  \<open>codec_ok\<close>).

  \<^bold>\<open>Bounds.\<close> Counters of the metrics and the shifts of the backoff wrap at 64 bits. Other integers are unbounded; strings are bytes with
  ASCII case folding; the floating point of the backoff is rational.

  \<^bold>\<open>Not modelled.\<close> Logging; the goroutines' tickers and timeouts, a timeout being a failure of its call; the text of an answer's
  JSON; opening the connection pool (\<^verbatim>\<open>db/postgres.go\<close>); the WebSocket library; the wiring and start-up in \<^verbatim>\<open>cmd\<close> and the end-to-end
  programs in \<^verbatim>\<open>scripts\<close>; \<^verbatim>\<open>http/errors.go\<close> and \<^verbatim>\<open>http/response.go\<close>, an older copy of \<^verbatim>\<open>response\<close>.
\<close>

end
